(* ===== verification/LLBC_Prelude.thy ===== *)
theory LLBC_Prelude
  imports Main "HOL-Library.Word" "HOL-Library.List_Lexorder" "HOL-Library.Char_ord"
begin

text \<open>
  The part of C++ that every component of the database library uses: integer widths, faults as
  values, C strings, the integer conversions of \<open>snprintf\<close> and \<open>atoll\<close>, and ASCII case folding.
  Asserts are active in every build configuration of the repository (no \<open>NDEBUG\<close> is defined by
  the premake scripts), so a failed \<open>assert\<close> is a fault, as is undefined behaviour the code can
  run into. Integers follow the LP64 Linux build: \<open>long\<close> and \<open>size_t\<close> have 64 bits.
\<close>

unbundle bit_operations_syntax

named_theorems res_simps \<open>evaluation of the fault monad\<close>
named_theorems cstr_simps \<open>C strings and snprintf\<close>

subsection \<open>Widths and bytes\<close>

type_synonym uint8 = "8 word"
type_synonym uint16 = "16 word"
type_synonym uint32 = "32 word"
type_synonym uint64 = "64 word"
type_synonym sint8 = "8 word"
type_synonym sint16 = "16 word"
type_synonym sint32 = "32 word"
type_synonym sint64 = "64 word"
type_synonym bytes = string

subsection \<open>Faults\<close>

text \<open>
  What stops an operation: a failed assertion, a null pointer, an index past the end of a vector,
  \<open>it->second\<close> on \<open>end()\<close>, a write past a heap buffer, a read past a buffer, a \<open>std::length_error\<close>
  from an impossible vector size, an arithmetic operation that C++ leaves undefined, the use of an
  object after it was freed, or the call of an empty \<open>std::function\<close>.
\<close>

datatype fault =
    AssertFail
  | NullDeref
  | IndexOutOfRange
  | EndIteratorDeref
  | BufferOverflow
  | ReadOverrun
  | LengthError
  | ArithUndefined
  | UseAfterFree
  | BadFunctionCall

type_synonym 'a res = "fault + 'a"

definition rbind :: "'e + 'a \<Rightarrow> ('a \<Rightarrow> 'e + 'b) \<Rightarrow> 'e + 'b" where
  "rbind m f = (case m of Inl e \<Rightarrow> Inl e | Inr x \<Rightarrow> f x)"

lemma rbind_simps [simp, res_simps]:
  "rbind (Inl e) f = Inl e"
  "rbind (Inr x) f = f x"
  by (simp_all add: rbind_def)

lemma rbind_eq_Inr [res_simps]:
  "(rbind m f = Inr y) = (\<exists>x. m = Inr x \<and> f x = Inr y)"
  by (cases m) simp_all

lemma rbind_eq_Inl [res_simps]:
  "(rbind m f = Inl e) = (m = Inl e \<or> (\<exists>x. m = Inr x \<and> f x = Inl e))"
  by (cases m) simp_all

lemma rbind_cong [cong]:
  "m = m' \<Longrightarrow> (\<And>x. m' = Inr x \<Longrightarrow> f x = f' x) \<Longrightarrow> rbind m f = rbind m' f'"
  by (cases m') simp_all

definition deref :: "'a option \<Rightarrow> 'a res" where
  "deref p = (case p of None \<Rightarrow> Inl NullDeref | Some x \<Rightarrow> Inr x)"

lemma deref_simps [simp, res_simps]:
  "deref None = Inl NullDeref"
  "deref (Some x) = Inr x"
  by (simp_all add: deref_def)

lemma deref_eq_Inr [simp, res_simps]: "(deref p = Inr x) = (p = Some x)"
  by (cases p) simp_all

definition vec_at :: "'a list \<Rightarrow> nat \<Rightarrow> 'a res" where
  "vec_at xs i = (if i < length xs then Inr (xs ! i) else Inl IndexOutOfRange)"

lemma vec_at_simps [res_simps]:
  "i < length xs \<Longrightarrow> vec_at xs i = Inr (xs ! i)"
  "length xs \<le> i \<Longrightarrow> vec_at xs i = Inl IndexOutOfRange"
  by (simp_all add: vec_at_def)

lemma vec_at_eq_Inr [res_simps]: "(vec_at xs i = Inr x) = (i < length xs \<and> xs ! i = x)"
  by (simp add: vec_at_def)

subsection \<open>C strings\<close>

definition cstr :: "bytes \<Rightarrow> bytes" where
  "cstr s = takeWhile (\<lambda>c. c \<noteq> CHR 0x00) s"

definition no_nul :: "bytes \<Rightarrow> bool" where
  "no_nul s \<longleftrightarrow> CHR 0x00 \<notin> set s"

lemma no_nul_simps [simp, cstr_simps]:
  "no_nul []"
  "no_nul (c # s) \<longleftrightarrow> c \<noteq> CHR 0x00 \<and> no_nul s"
  "no_nul (s @ t) \<longleftrightarrow> no_nul s \<and> no_nul t"
  by (auto simp: no_nul_def)

lemma no_nul_take [intro]: "no_nul s \<Longrightarrow> no_nul (take n s)"
  by (auto simp: no_nul_def dest: in_set_takeD)

lemma cstr_no_nul [simp, cstr_simps]: "no_nul s \<Longrightarrow> cstr s = s"
  unfolding cstr_def no_nul_def by (rule takeWhile_eq_all_conv [THEN iffD2]) auto

lemma no_nul_cstr [simp, intro]: "no_nul (cstr s)"
  by (auto simp: no_nul_def cstr_def dest: set_takeWhileD)

lemma cstr_idem [simp]: "cstr (cstr s) = cstr s"
  by simp

lemma length_cstr_le: "length (cstr s) \<le> length s"
  by (simp add: cstr_def length_takeWhile_le)

text \<open>\<open>snprintf(buf, n, ...)\<close> leaves the first \<open>n - 1\<close> bytes of the text and a NUL.\<close>

definition snprintf :: "nat \<Rightarrow> bytes \<Rightarrow> bytes" where
  "snprintf n s = take (n - 1) s"

lemma snprintf_fits [simp, cstr_simps]: "length s < n \<Longrightarrow> snprintf n s = s"
  by (simp add: snprintf_def)

lemma length_snprintf: "0 < n \<Longrightarrow> length (snprintf n s) < n"
  by (simp add: snprintf_def min_def) arith

lemma no_nul_snprintf [intro]: "no_nul s \<Longrightarrow> no_nul (snprintf n s)"
  by (auto simp: snprintf_def)

text \<open>Reading a caller's memory: from a pointer up to its NUL, or a given number of bytes.\<close>

definition read_cstr :: "bytes \<Rightarrow> bytes res" where
  "read_cstr mem = (if no_nul mem then Inl ReadOverrun else Inr (cstr mem))"

definition read_n :: "bytes \<Rightarrow> nat \<Rightarrow> bytes res" where
  "read_n mem n = (if n \<le> length mem then Inr (take n mem) else Inl ReadOverrun)"

lemma read_cstr_terminated [res_simps]: "no_nul s \<Longrightarrow> read_cstr (s @ CHR 0x00 # rest) = Inr s"
  by (auto simp: read_cstr_def no_nul_def cstr_def takeWhile_append)

text \<open>\<open>::tolower\<close> in the C locale.\<close>

definition tolower :: "char \<Rightarrow> char" where
  "tolower c = (let n = of_char c :: nat in if 65 \<le> n \<and> n \<le> 90 then char_of (n + 32) else c)"

subsection \<open>Width conversions\<close>

lemma sint_narrow:
  "LENGTH('n::len) \<le> 64 \<Longrightarrow>
   sint (ucast (v :: 64 word) :: 'n word) = signed_take_bit (LENGTH('n) - 1) (sint v)"
  by (simp add: signed_ucast_eq uint_sint signed_take_bit_take_bit not_le)

lemma sint_widen:
  "LENGTH('n::len) \<le> 64 \<Longrightarrow> sint (scast (w :: 'n word) :: 64 word) = sint w"
  by (simp add: sint_up_scast is_up)

lemma uint_widen:
  "LENGTH('n::len) \<le> 64 \<Longrightarrow> uint (ucast (w :: 'n word) :: 64 word) = uint w"
  by (simp add: uint_up_ucast is_up)

lemma sint_widen_unsigned:
  assumes "LENGTH('n::len) < 64"
  shows "sint (ucast (w :: 'n word) :: 64 word) = uint w"
proof -
  have "uint w < 2 ^ LENGTH('n)" by simp
  also have "(2::int) ^ LENGTH('n) \<le> 2 ^ 63" using assms by (intro power_increasing) simp_all
  finally show ?thesis
    using assms by (simp add: signed_ucast_eq signed_take_bit_int_eq_self order.trans [OF _ uint_ge_0])
qed

lemma uint_narrow:
  assumes "LENGTH('n::len) \<le> 64"
  shows "uint (ucast (v :: 64 word) :: 'n word) = take_bit LENGTH('n) (sint v)"
proof -
  have "uint (ucast v :: 'n word) = take_bit LENGTH('n) (uint v)" by (simp add: unsigned_ucast_eq)
  also have "uint v = take_bit 64 (sint v)" by (simp add: uint_sint)
  finally show ?thesis using assms by (simp add: min_def)
qed

lemma sint64_range: "- (2 ^ 63) \<le> sint (w :: 64 word)" "sint (w :: 64 word) < 2 ^ 63"
  using sint_range_size [of w] by (simp_all add: word_size)

lemma sint64_of_int: "- (2 ^ 63) \<le> i \<Longrightarrow> i < 2 ^ 63 \<Longrightarrow> sint (word_of_int i :: 64 word) = i"
  by (subst signed_of_int) (simp add: signed_take_bit_int_eq_self)

end
