(* ===== verification/C_Numbers.thy ===== *)
theory C_Numbers
  imports LLBC_Prelude
begin

text \<open>
  The integer text conversions of the C library that the database component relies on: the
  \<open>%d\<close>, \<open>%ld\<close>, \<open>%lld\<close>, \<open>%lu\<close> and \<open>%llu\<close> conversions of \<open>snprintf\<close> that \<open>SqlUtil\<close> uses to build
  statements, and \<open>atoll\<close>, which \<open>FieldTemplate::SetValue\<close> uses to read a column. The round trips
  between the two are the reason a value written by an update is read back by a query; \<open>atoll\<close>
  saturates at the limits of \<open>long long\<close>, as \<open>strtoll\<close> does in the C library of the Linux build.
\<close>

subsection \<open>Printing\<close>

definition digit_char :: "nat \<Rightarrow> char" where
  "digit_char d = char_of (48 + d)"

fun nat_digits :: "nat \<Rightarrow> bytes" where
  "nat_digits n = (if n < 10 then [digit_char n] else nat_digits (n div 10) @ [digit_char (n mod 10)])"

declare nat_digits.simps [simp del]

definition int_digits :: "int \<Rightarrow> bytes" where
  "int_digits i = (if i < 0 then CHR ''-'' # nat_digits (nat (- i)) else nat_digits (nat i))"

text \<open>\<open>%u\<close>-style and \<open>%d\<close>-style conversions at any width.\<close>

definition print_unsigned :: "'a::len word \<Rightarrow> bytes" where
  "print_unsigned w = nat_digits (unat w)"

definition print_signed :: "'a::len word \<Rightarrow> bytes" where
  "print_signed w = int_digits (sint w)"

subsection \<open>Reading\<close>

definition is_space :: "char \<Rightarrow> bool" where
  "is_space c = (let n = of_char c :: nat in n = 32 \<or> (9 \<le> n \<and> n \<le> 13))"

definition is_digit :: "char \<Rightarrow> bool" where
  "is_digit c = (let n = of_char c :: nat in 48 \<le> n \<and> n \<le> 57)"

definition digit_val :: "char \<Rightarrow> nat" where
  "digit_val c = of_char c - 48"

fun digits_value :: "nat \<Rightarrow> bytes \<Rightarrow> nat" where
  "digits_value acc [] = acc"
| "digits_value acc (c # cs) = (if is_digit c then digits_value (10 * acc + digit_val c) cs else acc)"

definition parse_int :: "bytes \<Rightarrow> int" where
  "parse_int s =
     (case dropWhile is_space s of
        [] \<Rightarrow> 0
      | c # cs \<Rightarrow>
          if c = CHR ''-'' then - int (digits_value 0 cs)
          else if c = CHR ''+'' then int (digits_value 0 cs)
          else int (digits_value 0 (c # cs)))"

definition clamp_i64 :: "int \<Rightarrow> int" where
  "clamp_i64 i = max (- (2 ^ 63)) (min (2 ^ 63 - 1) i)"

definition atoll :: "bytes \<Rightarrow> sint64" where
  "atoll s = word_of_int (clamp_i64 (parse_int s))"

subsection \<open>Digits\<close>

lemma digit_char_table [simp]:
  "digit_char 0 = CHR ''0''" "digit_char (Suc 0) = CHR ''1''" "digit_char 2 = CHR ''2''"
  "digit_char 3 = CHR ''3''" "digit_char 4 = CHR ''4''" "digit_char 5 = CHR ''5''"
  "digit_char 6 = CHR ''6''" "digit_char 7 = CHR ''7''" "digit_char 8 = CHR ''8''"
  "digit_char 9 = CHR ''9''" "digit_char 1 = CHR ''1''"
  by code_simp+

lemma of_char_digit_char [simp]: "d < 10 \<Longrightarrow> (of_char (digit_char d) :: nat) = 48 + d"
  by (simp add: digit_char_def)

lemma digit_char_is_digit [simp]: "d < 10 \<Longrightarrow> is_digit (digit_char d)"
  by (simp add: is_digit_def Let_def)

lemma digit_val_digit_char [simp]: "d < 10 \<Longrightarrow> digit_val (digit_char d) = d"
  by (simp add: digit_val_def)

lemma is_digit_not_sign: "is_digit c \<Longrightarrow> c \<noteq> CHR ''-'' \<and> c \<noteq> CHR ''+'' \<and> \<not> is_space c \<and> c \<noteq> CHR 0x00"
  by (auto simp: is_digit_def is_space_def Let_def)

lemma nat_digits_nonempty [simp]: "nat_digits n \<noteq> []"
  by (subst nat_digits.simps) simp

lemma nat_digits_all_digit: "c \<in> set (nat_digits n) \<Longrightarrow> is_digit c"
proof (induction n rule: nat_digits.induct)
  case (1 n)
  then show ?case by (subst (asm) (2) nat_digits.simps) (auto split: if_splits)
qed

lemma no_nul_nat_digits [simp, cstr_simps]: "no_nul (nat_digits n)"
  by (auto simp: no_nul_def dest!: nat_digits_all_digit is_digit_not_sign)

lemma no_nul_int_digits [simp, cstr_simps]: "no_nul (int_digits i)"
  by (simp add: int_digits_def)

lemma no_nul_print [simp, cstr_simps]: "no_nul (print_unsigned w)" "no_nul (print_signed w)"
  by (simp_all add: print_unsigned_def print_signed_def)

lemma digits_value_append:
  "(\<And>c. c \<in> set xs \<Longrightarrow> is_digit c) \<Longrightarrow> digits_value acc (xs @ ys) = digits_value (digits_value acc xs) ys"
  by (induction xs arbitrary: acc) simp_all

lemma digits_value_nat_digits: "digits_value 0 (nat_digits n) = n"
proof (induction n rule: nat_digits.induct)
  case (1 n)
  show ?case
  proof (cases "n < 10")
    case True
    then show ?thesis by (simp add: nat_digits.simps [of n])
  next
    case False
    then have "digits_value 0 (nat_digits n) = digits_value (n div 10) [digit_char (n mod 10)]"
      using 1 by (simp add: nat_digits.simps [of n] digits_value_append nat_digits_all_digit)
    then show ?thesis by simp
  qed
qed

subsection \<open>Round trips\<close>

lemma parse_int_nat_digits: "parse_int (nat_digits n) = int n"
proof -
  obtain c cs where eq: "nat_digits n = c # cs" by (cases "nat_digits n") simp_all
  then have "is_digit c" using nat_digits_all_digit [of c n] by simp
  then have "parse_int (nat_digits n) = int (digits_value 0 (nat_digits n))"
    using is_digit_not_sign [of c] by (simp add: parse_int_def eq)
  then show ?thesis by (simp add: digits_value_nat_digits)
qed

lemma parse_int_int_digits: "parse_int (int_digits i) = i"
proof (cases "i < 0")
  case True
  then show ?thesis
    by (simp add: int_digits_def parse_int_def is_space_def digits_value_nat_digits)
next
  case False
  then show ?thesis by (simp add: int_digits_def parse_int_nat_digits)
qed

lemma clamp_i64_id: "- (2 ^ 63) \<le> i \<Longrightarrow> i < 2 ^ 63 \<Longrightarrow> clamp_i64 i = i"
  by (simp add: clamp_i64_def)

lemma clamp_i64_range: "- (2 ^ 63) \<le> clamp_i64 i" "clamp_i64 i < 2 ^ 63"
  by (simp_all add: clamp_i64_def)

lemma sint_atoll: "sint (atoll s) = clamp_i64 (parse_int s)"
  unfolding atoll_def
  using clamp_i64_range [of "parse_int s"]
  by (subst signed_of_int) (simp add: signed_take_bit_int_eq_self)

lemma atoll_int_digits: "atoll (int_digits n) = word_of_int (clamp_i64 n)"
  by (simp add: atoll_def parse_int_int_digits)

lemma atoll_print_signed [simp]: "atoll (print_signed (w :: sint64)) = w"
proof -
  have "clamp_i64 (sint w) = sint w" using sint64_range [of w] by (rule clamp_i64_id)
  then show ?thesis
    by (simp add: atoll_def print_signed_def parse_int_int_digits)
qed

lemma atoll_print_unsigned:
  "atoll (print_unsigned (w :: uint64)) = (if uint w < 2 ^ 63 then w else 2 ^ 63 - 1)"
proof -
  have *: "parse_int (print_unsigned w) = uint w"
    by (simp add: print_unsigned_def parse_int_nat_digits)
  show ?thesis
  proof (cases "uint w < 2 ^ 63")
    case True
    then have "clamp_i64 (uint w) = uint w" by (intro clamp_i64_id) (simp_all add: order.trans [OF _ uint_ge_0])
    then show ?thesis using * True by (simp add: atoll_def)
  next
    case False
    then have "clamp_i64 (uint w) = 2 ^ 63 - 1" by (simp add: clamp_i64_def)
    then show ?thesis using * False by (simp add: atoll_def)
  qed
qed

text \<open>The length of a printed 64-bit number: at most 20 characters.\<close>

lemma length_nat_digits: "n < 10 ^ k \<Longrightarrow> 0 < k \<Longrightarrow> length (nat_digits n) \<le> k"
proof (induction n arbitrary: k rule: nat_digits.induct)
  case (1 n)
  show ?case
  proof (cases "n < 10")
    case True
    with 1 show ?thesis by (simp add: nat_digits.simps [of n])
  next
    case False
    with "1.prems" obtain j where "k = Suc j" by (cases k) simp_all
    with False "1.prems" have j: "k = Suc j" "0 < j" by (auto intro: gr0I)
    with "1.prems" have "n div 10 < 10 ^ j" by (simp add: less_mult_imp_div_less mult.commute)
    with "1.IH" False j have "length (nat_digits (n div 10)) \<le> j" by blast
    with False j show ?thesis by (simp add: nat_digits.simps [of n])
  qed
qed

lemma length_print_unsigned: "length (print_unsigned (w :: uint64)) \<le> 20"
  unfolding print_unsigned_def
  by (rule length_nat_digits) (use unsigned_less [of w, where ?'a = nat] in simp_all)

lemma length_print_signed: "length (print_signed (w :: sint64)) \<le> 20"
proof -
  have "nat (- sint w) < 10 ^ 19" "nat (sint w) < 10 ^ 19"
    using sint64_range [of w] by simp_all
  then have "length (nat_digits (nat (- sint w))) \<le> 19" "length (nat_digits (nat (sint w))) \<le> 19"
    using length_nat_digits [of _ 19] by simp_all
  then show ?thesis by (simp add: print_signed_def int_digits_def)
qed

end
