(* ===== verification/C_Double.thy ===== *)
theory C_Double
  imports C_Numbers
begin

text \<open>
  IEEE binary64 as far as the field code uses it: the conversions to and from the integer types
  (\<open>static_cast\<close>), \<open>atof\<close> on the text of a column, and the \<open>%f\<close> conversion of a statement.
  A finite double is a sign, a mantissa and an exponent, \<open>(-1)^s * m * 2^e\<close>, so signed zeros are
  kept; several triples can denote the same number. Rounding is to nearest, ties to even.
  Text is read as \<open>strtod\<close> reads it in the C locale: decimal and hexadecimal numbers, infinities
  and NaNs.
\<close>

datatype double = Fin bool nat int | Infinite bool | NaN bool

definition scale_nat :: "nat \<Rightarrow> nat \<Rightarrow> int \<Rightarrow> nat \<times> nat" where
  "scale_nat b n e = (if 0 \<le> e then (n * b ^ nat e, 1) else (n, b ^ nat (- e)))"

text \<open>The nearest integer to \<open>n / d\<close>, ties to even.\<close>

definition round_half_even :: "nat \<Rightarrow> nat \<Rightarrow> nat" where
  "round_half_even n d =
     (let q = n div d; r = n mod d
      in if d < 2 * r \<or> (2 * r = d \<and> odd q) then q + 1 else q)"

fun bit_length :: "nat \<Rightarrow> nat" where
  "bit_length n = (if n = 0 then 0 else Suc (bit_length (n div 2)))"

declare bit_length.simps [simp del]

text \<open>The double nearest to \<open>n / d\<close>.\<close>

definition round_frac :: "bool \<Rightarrow> nat \<Rightarrow> nat \<Rightarrow> double" where
  "round_frac s n d =
     (if n = 0 then Fin s 0 0
      else
        let e0 = int (bit_length n) - int (bit_length d) - 53;
            over = (\<lambda>e. if 0 \<le> e then (n, d * 2 ^ nat e) else (n * 2 ^ nat (- e), d));
            big = (case over e0 of (N, D) \<Rightarrow> 2 ^ 53 \<le> N div D);
            e = max (- 1074) (if big then e0 + 1 else e0);
            m = (case over e of (N, D) \<Rightarrow> round_half_even N D)
        in if m = 2 ^ 53
           then (if 971 < e + 1 then Infinite s else Fin s (2 ^ 52) (e + 1))
           else (if 971 < e then Infinite s else Fin s m e))"

subsection \<open>Integer conversions\<close>

text \<open>Integers up to \<open>2^53\<close> in magnitude are exact; larger ones are rounded.\<close>

definition double_of_int :: "int \<Rightarrow> double" where
  "double_of_int i =
     (if nat \<bar>i\<bar> \<le> 2 ^ 53 then Fin (i < 0) (nat \<bar>i\<bar>) 0 else round_frac (i < 0) (nat \<bar>i\<bar>) 1)"

definition trunc_double :: "double \<Rightarrow> int option" where
  "trunc_double x =
     (case x of
        Fin s m e \<Rightarrow> (case scale_nat 2 m e of (n, d) \<Rightarrow> Some (if s then - int (n div d) else int (n div d)))
      | _ \<Rightarrow> None)"

text \<open>
  \<open>static_cast\<close> of a double to an integer type with the values \<open>lo\<close> to \<open>hi\<close>: undefined when the
  truncated value is outside.
\<close>

definition double_to_int :: "int \<Rightarrow> int \<Rightarrow> double \<Rightarrow> int res" where
  "double_to_int lo hi x =
     (case trunc_double x of
        None \<Rightarrow> Inl ArithUndefined
      | Some i \<Rightarrow> if lo \<le> i \<and> i \<le> hi then Inr i else Inl ArithUndefined)"

subsection \<open>The \<open>%f\<close> conversion\<close>

definition pad_left :: "nat \<Rightarrow> bytes \<Rightarrow> bytes" where
  "pad_left n s = replicate (n - length s) (CHR ''0'') @ s"

definition print_f :: "double \<Rightarrow> bytes" where
  "print_f x =
     (case x of
        Fin s m e \<Rightarrow>
          let k = (case scale_nat 2 (m * 10 ^ 6) e of (n, d) \<Rightarrow> round_half_even n d)
          in (if s then ''-'' else []) @ nat_digits (k div 10 ^ 6) @ ''.'' @ pad_left 6 (nat_digits (k mod 10 ^ 6))
      | Infinite s \<Rightarrow> (if s then ''-inf'' else ''inf'')
      | NaN s \<Rightarrow> (if s then ''-nan'' else ''nan''))"

subsection \<open>\<open>atof\<close>\<close>

definition hex_val :: "char \<Rightarrow> nat option" where
  "hex_val c =
     (let n = of_char (tolower c) :: nat
      in if 48 \<le> n \<and> n \<le> 57 then Some (n - 48) else if 97 \<le> n \<and> n \<le> 102 then Some (n - 87) else None)"

definition is_base_digit :: "nat \<Rightarrow> char \<Rightarrow> bool" where
  "is_base_digit b c = (case hex_val c of None \<Rightarrow> False | Some d \<Rightarrow> d < b)"

definition base_value :: "nat \<Rightarrow> bytes \<Rightarrow> nat" where
  "base_value b ds = foldl (\<lambda>acc c. b * acc + (case hex_val c of None \<Rightarrow> 0 | Some d \<Rightarrow> d)) 0 ds"

text \<open>An exponent part \<open>e[+-]digits\<close>; without digits it is not part of the number.\<close>

definition parse_exponent :: "char \<Rightarrow> bytes \<Rightarrow> int" where
  "parse_exponent mark s =
     (case s of
        [] \<Rightarrow> 0
      | c # cs \<Rightarrow>
          if tolower c \<noteq> mark then 0
          else (case cs of
                  [] \<Rightarrow> 0
                | x # xs \<Rightarrow>
                    if x = CHR ''-'' then - int (digits_value 0 xs)
                    else if x = CHR ''+'' then int (digits_value 0 xs)
                    else int (digits_value 0 cs)))"

text \<open>
  The digits before and after the point in the given base, then the exponent: powers of ten after
  \<open>e\<close> for a decimal number, powers of two after \<open>p\<close> for a hexadecimal one.
\<close>

definition parse_mantissa :: "nat \<Rightarrow> bytes \<Rightarrow> (nat \<times> nat \<times> bytes) option" where
  "parse_mantissa b s =
     (let ip = takeWhile (is_base_digit b) s; r = dropWhile (is_base_digit b) s;
          fp = (case r of c # cs \<Rightarrow> if c = CHR ''.'' then takeWhile (is_base_digit b) cs else [] | [] \<Rightarrow> []);
          r' = (case r of c # cs \<Rightarrow> if c = CHR ''.'' then dropWhile (is_base_digit b) cs else r | [] \<Rightarrow> [])
      in if ip = [] \<and> fp = [] then None else Some (base_value b (ip @ fp), length fp, r'))"

definition parse_hex :: "bool \<Rightarrow> bytes \<Rightarrow> double option" where
  "parse_hex s t =
     (case parse_mantissa 16 t of
        None \<Rightarrow> None
      | Some (m, k, r) \<Rightarrow> (case scale_nat 2 m (parse_exponent CHR ''p'' r - 4 * int k) of (n, d) \<Rightarrow> Some (round_frac s n d)))"

definition parse_dec :: "bool \<Rightarrow> bytes \<Rightarrow> double option" where
  "parse_dec s t =
     (case parse_mantissa 10 t of
        None \<Rightarrow> None
      | Some (m, k, r) \<Rightarrow> (case scale_nat 10 m (parse_exponent CHR ''e'' r - int k) of (n, d) \<Rightarrow> Some (round_frac s n d)))"

definition parse_unsigned_double :: "bool \<Rightarrow> bytes \<Rightarrow> double" where
  "parse_unsigned_double s t =
     (let l = map tolower t
      in if take 3 l = ''inf'' then Infinite s
         else if take 3 l = ''nan'' then NaN s
         else case (if take 2 l = ''0x'' then parse_hex s (drop 2 t) else None) of
                Some x \<Rightarrow> x
              | None \<Rightarrow> (case parse_dec s t of Some x \<Rightarrow> x | None \<Rightarrow> Fin False 0 0))"

definition atof :: "bytes \<Rightarrow> double" where
  "atof t =
     (case dropWhile is_space t of
        [] \<Rightarrow> Fin False 0 0
      | c # cs \<Rightarrow>
          if c = CHR ''-'' then parse_unsigned_double True cs
          else if c = CHR ''+'' then parse_unsigned_double False cs
          else parse_unsigned_double False (c # cs))"

subsection \<open>Subtraction and comparison\<close>

text \<open>The integer \<open>\<plusminus>m * 2^(e - lo)\<close> that a finite double is, in units of \<open>2^lo\<close>.\<close>

definition scaled :: "bool \<Rightarrow> nat \<Rightarrow> int \<Rightarrow> int \<Rightarrow> int" where
  "scaled s m e lo = (if s then - 1 else 1) * int (m * 2 ^ nat (e - lo))"

definition double_sub :: "double \<Rightarrow> double \<Rightarrow> double" where
  "double_sub x y =
     (case x of
        NaN s \<Rightarrow> NaN s
      | Infinite s \<Rightarrow>
          (case y of NaN t \<Rightarrow> NaN t | Infinite t \<Rightarrow> if s = t then NaN False else Infinite s | Fin _ _ _ \<Rightarrow> Infinite s)
      | Fin s m e \<Rightarrow>
          (case y of
             NaN t \<Rightarrow> NaN t
           | Infinite t \<Rightarrow> Infinite (\<not> t)
           | Fin t k f \<Rightarrow>
               let lo = min e f; d = scaled s m e lo - scaled t k f lo
               in if d = 0 then Fin (s \<and> \<not> t \<and> m = 0) 0 0
                  else (case scale_nat 2 (nat \<bar>d\<bar>) lo of (n, q) \<Rightarrow> round_frac (d < 0) n q)))"

definition double_less :: "double \<Rightarrow> double \<Rightarrow> bool" where
  "double_less x y =
     (case x of
        NaN s \<Rightarrow> False
      | Infinite s \<Rightarrow> (case y of NaN t \<Rightarrow> False | Infinite t \<Rightarrow> s \<and> \<not> t | Fin _ _ _ \<Rightarrow> s)
      | Fin s m e \<Rightarrow>
          (case y of
             NaN t \<Rightarrow> False
           | Infinite t \<Rightarrow> \<not> t
           | Fin t k f \<Rightarrow> scaled s m e (min e f) < scaled t k f (min e f)))"

subsection \<open>Facts\<close>

lemma trunc_double_of_int: "\<bar>i\<bar> \<le> 2 ^ 53 \<Longrightarrow> trunc_double (double_of_int i) = Some i"
  by (auto simp: double_of_int_def trunc_double_def scale_nat_def)

lemma double_to_int_of_int:
  "\<bar>i\<bar> \<le> 2 ^ 53 \<Longrightarrow> lo \<le> i \<Longrightarrow> i \<le> hi \<Longrightarrow> double_to_int lo hi (double_of_int i) = Inr i"
  by (simp add: double_to_int_def trunc_double_of_int)

lemma print_f_frac:
  assumes "scale_nat 2 (m * 1000000) e = (n, d)" "round_half_even n d = k"
  shows "print_f (Fin False m e) = nat_digits (k div 1000000) @ ''.'' @ pad_left 6 (nat_digits (k mod 1000000))"
  using assms by (simp add: print_f_def Let_def)

lemma print_f_double_of_int:
  assumes "\<bar>i\<bar> \<le> 2 ^ 53"
  shows "print_f (double_of_int i) = int_digits i @ ''.000000''"
proof -
  have zero: "nat_digits 0 = ''0''" by (simp add: nat_digits.simps)
  have pad: "pad_left 6 ''0'' = ''000000''" by (simp add: pad_left_def numeral_eq_Suc)
  have half: "round_half_even n (Suc 0) = n" for n by (simp add: round_half_even_def)
  from assms have "double_of_int i = Fin (i < 0) (nat \<bar>i\<bar>) 0" by (auto simp: double_of_int_def)
  then have "print_f (double_of_int i) =
      (if i < 0 then ''-'' else []) @ nat_digits (nat \<bar>i\<bar>) @ ''.'' @ pad_left 6 (nat_digits 0)"
    by (simp add: print_f_def scale_nat_def half Let_def)
  then show ?thesis by (simp add: zero pad int_digits_def)
qed

lemma print_f_no_nul [simp, cstr_simps]: "no_nul (print_f x)"
proof -
  have rep: "no_nul (replicate n CHR ''0'')" for n by (simp add: no_nul_def)
  show ?thesis by (auto simp: print_f_def pad_left_def Let_def rep split: double.splits prod.splits)
qed

end
