(* ===== verification/Mysql_Types.thy ===== *)
theory Mysql_Types
  imports LLBC_Prelude
begin

text \<open>
  The constants and structures of the MySQL client headers that the database component switches
  on: the column types of \<open>enum_field_types\<close>, the column flags, and the column description
  \<open>MYSQL_FIELD\<close>. The client library itself is external and appears only as parameters of the
  operations that call it.
\<close>

subsection \<open>Column types\<close>

datatype (plugins only: code size) enum_field_types =
    MYSQL_TYPE_DECIMAL | MYSQL_TYPE_TINY
  | MYSQL_TYPE_SHORT | MYSQL_TYPE_LONG
  | MYSQL_TYPE_FLOAT | MYSQL_TYPE_DOUBLE
  | MYSQL_TYPE_NULL | MYSQL_TYPE_TIMESTAMP
  | MYSQL_TYPE_LONGLONG | MYSQL_TYPE_INT24
  | MYSQL_TYPE_DATE | MYSQL_TYPE_TIME
  | MYSQL_TYPE_DATETIME | MYSQL_TYPE_YEAR
  | MYSQL_TYPE_NEWDATE | MYSQL_TYPE_VARCHAR
  | MYSQL_TYPE_BIT
  | MYSQL_TYPE_TIMESTAMP2
  | MYSQL_TYPE_DATETIME2
  | MYSQL_TYPE_TIME2
  | MYSQL_TYPE_JSON
  | MYSQL_TYPE_NEWDECIMAL
  | MYSQL_TYPE_ENUM
  | MYSQL_TYPE_SET
  | MYSQL_TYPE_TINY_BLOB
  | MYSQL_TYPE_MEDIUM_BLOB
  | MYSQL_TYPE_LONG_BLOB
  | MYSQL_TYPE_BLOB
  | MYSQL_TYPE_VAR_STRING
  | MYSQL_TYPE_STRING
  | MYSQL_TYPE_GEOMETRY

fun type_code :: "enum_field_types \<Rightarrow> uint32" where
  "type_code MYSQL_TYPE_DECIMAL = 0"
| "type_code MYSQL_TYPE_TINY = 1"
| "type_code MYSQL_TYPE_SHORT = 2"
| "type_code MYSQL_TYPE_LONG = 3"
| "type_code MYSQL_TYPE_FLOAT = 4"
| "type_code MYSQL_TYPE_DOUBLE = 5"
| "type_code MYSQL_TYPE_NULL = 6"
| "type_code MYSQL_TYPE_TIMESTAMP = 7"
| "type_code MYSQL_TYPE_LONGLONG = 8"
| "type_code MYSQL_TYPE_INT24 = 9"
| "type_code MYSQL_TYPE_DATE = 10"
| "type_code MYSQL_TYPE_TIME = 11"
| "type_code MYSQL_TYPE_DATETIME = 12"
| "type_code MYSQL_TYPE_YEAR = 13"
| "type_code MYSQL_TYPE_NEWDATE = 14"
| "type_code MYSQL_TYPE_VARCHAR = 15"
| "type_code MYSQL_TYPE_BIT = 16"
| "type_code MYSQL_TYPE_TIMESTAMP2 = 17"
| "type_code MYSQL_TYPE_DATETIME2 = 18"
| "type_code MYSQL_TYPE_TIME2 = 19"
| "type_code MYSQL_TYPE_JSON = 245"
| "type_code MYSQL_TYPE_NEWDECIMAL = 246"
| "type_code MYSQL_TYPE_ENUM = 247"
| "type_code MYSQL_TYPE_SET = 248"
| "type_code MYSQL_TYPE_TINY_BLOB = 249"
| "type_code MYSQL_TYPE_MEDIUM_BLOB = 250"
| "type_code MYSQL_TYPE_LONG_BLOB = 251"
| "type_code MYSQL_TYPE_BLOB = 252"
| "type_code MYSQL_TYPE_VAR_STRING = 253"
| "type_code MYSQL_TYPE_STRING = 254"
| "type_code MYSQL_TYPE_GEOMETRY = 255"

text \<open>The older names of the same types that the component uses.\<close>

abbreviation (input) FIELD_TYPE_TINY :: uint32 where "FIELD_TYPE_TINY \<equiv> 1"
abbreviation (input) FIELD_TYPE_SHORT :: uint32 where "FIELD_TYPE_SHORT \<equiv> 2"
abbreviation (input) FIELD_TYPE_LONG :: uint32 where "FIELD_TYPE_LONG \<equiv> 3"
abbreviation (input) FIELD_TYPE_FLOAT :: uint32 where "FIELD_TYPE_FLOAT \<equiv> 4"
abbreviation (input) FIELD_TYPE_DOUBLE :: uint32 where "FIELD_TYPE_DOUBLE \<equiv> 5"
abbreviation (input) FIELD_TYPE_TIMESTAMP :: uint32 where "FIELD_TYPE_TIMESTAMP \<equiv> 7"
abbreviation (input) FIELD_TYPE_LONGLONG :: uint32 where "FIELD_TYPE_LONGLONG \<equiv> 8"
abbreviation (input) FIELD_TYPE_INT24 :: uint32 where "FIELD_TYPE_INT24 \<equiv> 9"
abbreviation (input) FIELD_TYPE_DATE :: uint32 where "FIELD_TYPE_DATE \<equiv> 10"
abbreviation (input) FIELD_TYPE_DATETIME :: uint32 where "FIELD_TYPE_DATETIME \<equiv> 12"
abbreviation (input) FIELD_TYPE_YEAR :: uint32 where "FIELD_TYPE_YEAR \<equiv> 13"
abbreviation (input) FIELD_TYPE_NEWDECIMAL :: uint32 where "FIELD_TYPE_NEWDECIMAL \<equiv> 246"
abbreviation (input) FIELD_TYPE_TINY_BLOB :: uint32 where "FIELD_TYPE_TINY_BLOB \<equiv> 249"
abbreviation (input) FIELD_TYPE_MEDIUM_BLOB :: uint32 where "FIELD_TYPE_MEDIUM_BLOB \<equiv> 250"
abbreviation (input) FIELD_TYPE_LONG_BLOB :: uint32 where "FIELD_TYPE_LONG_BLOB \<equiv> 251"
abbreviation (input) FIELD_TYPE_BLOB :: uint32 where "FIELD_TYPE_BLOB \<equiv> 252"
abbreviation (input) FIELD_TYPE_VAR_STRING :: uint32 where "FIELD_TYPE_VAR_STRING \<equiv> 253"
abbreviation (input) FIELD_TYPE_STRING :: uint32 where "FIELD_TYPE_STRING \<equiv> 254"

subsection \<open>Column flags\<close>

definition PRI_KEY_FLAG :: uint32 where "PRI_KEY_FLAG = 2"
definition UNSIGNED_FLAG :: uint32 where "UNSIGNED_FLAG = 32"
definition AUTO_INCREMENT_FLAG :: uint32 where "AUTO_INCREMENT_FLAG = 512"

definition has_flag :: "uint32 \<Rightarrow> uint32 \<Rightarrow> bool" where
  "has_flag attr flag \<longleftrightarrow> attr AND flag \<noteq> 0"

subsection \<open>\<open>MYSQL_FIELD\<close>\<close>

text \<open>
  The members the component reads. The names are C strings; \<open>org_name\<close> and \<open>org_table\<close> may be
  null, and so may the default.
\<close>

record MYSQL_FIELD =
  org_name :: "bytes option"
  org_table :: "bytes option"
  mf_def :: "bytes option"
  mf_length :: uint64
  mf_max_length :: uint64
  mf_flags :: uint32
  mf_type :: enum_field_types

end
