(* ===== verification/Db_Fields.thy ===== *)
theory Db_Fields
  imports C_Double Mysql_Types
begin

text \<open>
  The typed column value: \<open>DBFieldInfo\<close> and \<open>BaseField\<close> (\<open>BaseField.h\<close>), the ten instances of
  \<open>FieldTemplate\<close> (\<open>FieldTemplate.h\<close>, \<open>FieldTemplate.inl\<close>) and the factory that picks the instance
  for a column (\<open>FieldFactory.cpp\<close>). The \<open>DataType\<close> of an instance is the constructor of its value.
  A field holds its \<open>DBFieldInfo\<close> by reference in the code; the entry is never changed after it is
  made, so the model stores it by value.
\<close>

named_theorems field_simps_db \<open>field accessors and updates\<close>

subsection \<open>State\<close>

record DBFieldInfo =
  fi_name :: bytes
  fi_type :: uint32
  fi_attr :: uint32
  fi_len :: uint32

datatype field_val =
    VUInt64 uint64 | VUInt32 uint32 | VUInt16 uint16 | VUInt8 uint8
  | VInt64 sint64 | VInt32 sint32 | VInt16 sint16 | VInt8 sint8
  | VDouble double
  | VString bytes

record BaseField =
  bf_info :: DBFieldInfo
  bf_changed :: bool
  bf_val :: field_val

definition new_field :: "DBFieldInfo \<Rightarrow> field_val \<Rightarrow> BaseField" where
  "new_field info v = \<lparr>bf_info = info, bf_changed = False, bf_val = v\<rparr>"

definition IsChanged :: "BaseField \<Rightarrow> bool" where
  "IsChanged f = bf_changed f"

definition TagChanged :: "bool \<Rightarrow> BaseField \<Rightarrow> BaseField" where
  "TagChanged b f = f\<lparr>bf_changed := b\<rparr>"

definition GetName :: "BaseField \<Rightarrow> bytes" where
  "GetName f = cstr (fi_name (bf_info f))"

definition GetType :: "BaseField \<Rightarrow> uint32" where
  "GetType f = fi_type (bf_info f)"

definition GetAttr :: "BaseField \<Rightarrow> uint32" where
  "GetAttr f = fi_attr (bf_info f)"

definition GetLen :: "BaseField \<Rightarrow> uint32" where
  "GetLen f = fi_len (bf_info f)"

subsection \<open>Conversions to the \<open>DataType\<close> of an instance\<close>

text \<open>\<open>static_cast<DataType>\<close> of a \<open>sint64\<close>; the first argument shows the instance.\<close>

fun cast_int :: "field_val \<Rightarrow> sint64 \<Rightarrow> field_val res" where
  "cast_int (VUInt64 _) v = Inr (VUInt64 v)"
| "cast_int (VUInt32 _) v = Inr (VUInt32 (ucast v))"
| "cast_int (VUInt16 _) v = Inr (VUInt16 (ucast v))"
| "cast_int (VUInt8 _) v = Inr (VUInt8 (ucast v))"
| "cast_int (VInt64 _) v = Inr (VInt64 v)"
| "cast_int (VInt32 _) v = Inr (VInt32 (ucast v))"
| "cast_int (VInt16 _) v = Inr (VInt16 (ucast v))"
| "cast_int (VInt8 _) v = Inr (VInt8 (ucast v))"
| "cast_int (VDouble _) v = Inr (VDouble (double_of_int (sint v)))"
| "cast_int (VString _) v = Inl AssertFail"

text \<open>\<open>static_cast<DataType>\<close> of a double, undefined outside the range of the type.\<close>

fun cast_double :: "field_val \<Rightarrow> double \<Rightarrow> field_val res" where
  "cast_double (VUInt64 _) x = rbind (double_to_int 0 (2 ^ 64 - 1) x) (\<lambda>i. Inr (VUInt64 (word_of_int i)))"
| "cast_double (VUInt32 _) x = rbind (double_to_int 0 (2 ^ 32 - 1) x) (\<lambda>i. Inr (VUInt32 (word_of_int i)))"
| "cast_double (VUInt16 _) x = rbind (double_to_int 0 (2 ^ 16 - 1) x) (\<lambda>i. Inr (VUInt16 (word_of_int i)))"
| "cast_double (VUInt8 _) x = rbind (double_to_int 0 (2 ^ 8 - 1) x) (\<lambda>i. Inr (VUInt8 (word_of_int i)))"
| "cast_double (VInt64 _) x = rbind (double_to_int (- (2 ^ 63)) (2 ^ 63 - 1) x) (\<lambda>i. Inr (VInt64 (word_of_int i)))"
| "cast_double (VInt32 _) x = rbind (double_to_int (- (2 ^ 31)) (2 ^ 31 - 1) x) (\<lambda>i. Inr (VInt32 (word_of_int i)))"
| "cast_double (VInt16 _) x = rbind (double_to_int (- (2 ^ 15)) (2 ^ 15 - 1) x) (\<lambda>i. Inr (VInt16 (word_of_int i)))"
| "cast_double (VInt8 _) x = rbind (double_to_int (- (2 ^ 7)) (2 ^ 7 - 1) x) (\<lambda>i. Inr (VInt8 (word_of_int i)))"
| "cast_double (VDouble _) x = Inr (VDouble x)"
| "cast_double (VString _) x = Inl AssertFail"

subsection \<open>\<open>FieldTemplate\<close>: reading\<close>

fun val_int :: "field_val \<Rightarrow> sint64 res" where
  "val_int (VUInt64 w) = Inr w"
| "val_int (VUInt32 w) = Inr (ucast w)"
| "val_int (VUInt16 w) = Inr (ucast w)"
| "val_int (VUInt8 w) = Inr (ucast w)"
| "val_int (VInt64 w) = Inr w"
| "val_int (VInt32 w) = Inr (scast w)"
| "val_int (VInt16 w) = Inr (scast w)"
| "val_int (VInt8 w) = Inr (scast w)"
| "val_int (VDouble x) = rbind (double_to_int (- (2 ^ 63)) (2 ^ 63 - 1) x) (\<lambda>i. Inr (word_of_int i))"
| "val_int (VString _) = Inl AssertFail"

fun val_double :: "field_val \<Rightarrow> double res" where
  "val_double (VUInt64 w) = Inr (double_of_int (uint w))"
| "val_double (VUInt32 w) = Inr (double_of_int (uint w))"
| "val_double (VUInt16 w) = Inr (double_of_int (uint w))"
| "val_double (VUInt8 w) = Inr (double_of_int (uint w))"
| "val_double (VInt64 w) = Inr (double_of_int (sint w))"
| "val_double (VInt32 w) = Inr (double_of_int (sint w))"
| "val_double (VInt16 w) = Inr (double_of_int (sint w))"
| "val_double (VInt8 w) = Inr (double_of_int (sint w))"
| "val_double (VDouble x) = Inr x"
| "val_double (VString _) = Inl AssertFail"

definition GetInt :: "BaseField \<Rightarrow> sint64 res" where
  "GetInt f = val_int (bf_val f)"

definition GetDouble :: "BaseField \<Rightarrow> double res" where
  "GetDouble f = val_double (bf_val f)"

definition GetStr :: "BaseField \<Rightarrow> bytes res" where
  "GetStr f = (case bf_val f of VString s \<Rightarrow> Inr s | _ \<Rightarrow> Inl AssertFail)"

subsection \<open>\<open>FieldTemplate\<close>: writing\<close>

definition SetInt :: "BaseField \<Rightarrow> sint64 \<Rightarrow> BaseField res" where
  "SetInt f v = rbind (cast_int (bf_val f) v) (\<lambda>w. Inr (TagChanged True (f\<lparr>bf_val := w\<rparr>)))"

definition SetDouble :: "BaseField \<Rightarrow> double \<Rightarrow> BaseField res" where
  "SetDouble f x = rbind (cast_double (bf_val f) x) (\<lambda>w. Inr (TagChanged True (f\<lparr>bf_val := w\<rparr>)))"

text \<open>The pointer arguments are the memory they point to, as far as it may be read.\<close>

definition SetStr :: "BaseField \<Rightarrow> bytes \<Rightarrow> BaseField res" where
  "SetStr f mem =
     (case bf_val f of
        VString _ \<Rightarrow> rbind (read_cstr mem) (\<lambda>s. Inr (TagChanged True (f\<lparr>bf_val := VString s\<rparr>)))
      | _ \<Rightarrow> Inl AssertFail)"

definition SetBlob :: "BaseField \<Rightarrow> bytes \<Rightarrow> uint32 \<Rightarrow> BaseField res" where
  "SetBlob f mem len =
     (case bf_val f of
        VString _ \<Rightarrow> rbind (read_n mem (unat len)) (\<lambda>s. Inr (TagChanged True (f\<lparr>bf_val := VString s\<rparr>)))
      | _ \<Rightarrow> Inl AssertFail)"

text \<open>
  \<open>SetValue\<close> loads the text of a column; a null pointer is SQL \<open>NULL\<close>. The result is the code's
  return value with the field. The branch for \<open>FLOAT\<close> and \<open>DOUBLE\<close> has no \<open>break\<close>, so it stores the
  value and then returns false.
\<close>

definition int_column_type :: "uint32 \<Rightarrow> bool" where
  "int_column_type t \<longleftrightarrow>
     t = FIELD_TYPE_TINY \<or> t = FIELD_TYPE_SHORT \<or> t = FIELD_TYPE_LONG \<or> t = FIELD_TYPE_LONGLONG \<or>
     t = FIELD_TYPE_NEWDECIMAL \<or> t = FIELD_TYPE_TIMESTAMP"

definition float_column_type :: "uint32 \<Rightarrow> bool" where
  "float_column_type t \<longleftrightarrow> t = FIELD_TYPE_DOUBLE \<or> t = FIELD_TYPE_FLOAT"

definition string_column_type :: "uint32 \<Rightarrow> bool" where
  "string_column_type t \<longleftrightarrow>
     t = FIELD_TYPE_STRING \<or> t = FIELD_TYPE_VAR_STRING \<or> t = FIELD_TYPE_TINY_BLOB \<or>
     t = FIELD_TYPE_BLOB \<or> t = FIELD_TYPE_MEDIUM_BLOB \<or> t = FIELD_TYPE_LONG_BLOB \<or>
     t = FIELD_TYPE_DATE \<or> t = FIELD_TYPE_DATETIME"

definition SetValue_num :: "BaseField \<Rightarrow> bytes option \<Rightarrow> (bool \<times> BaseField) res" where
  "SetValue_num f value =
     (if int_column_type (GetType f) then
        rbind (case value of None \<Rightarrow> Inr 0 | Some mem \<Rightarrow> rbind (read_cstr mem) (\<lambda>s. Inr (atoll s)))
          (\<lambda>v. rbind (cast_int (bf_val f) v) (\<lambda>w. Inr (True, f\<lparr>bf_val := w\<rparr>)))
      else if float_column_type (GetType f) then
        rbind (case value of None \<Rightarrow> Inr (Fin False 0 0) | Some mem \<Rightarrow> rbind (read_cstr mem) (\<lambda>s. Inr (atof s)))
          (\<lambda>x. rbind (cast_double (bf_val f) x) (\<lambda>w. Inr (False, f\<lparr>bf_val := w\<rparr>)))
      else Inr (False, f))"

definition SetValue_str :: "BaseField \<Rightarrow> bytes option \<Rightarrow> uint32 \<Rightarrow> (bool \<times> BaseField) res" where
  "SetValue_str f value len =
     (if string_column_type (GetType f) then
        rbind (case value of None \<Rightarrow> Inr [] | Some mem \<Rightarrow> read_n mem (unat len))
          (\<lambda>s. Inr (True, f\<lparr>bf_val := VString s\<rparr>))
      else Inr (False, f))"

definition SetValue :: "BaseField \<Rightarrow> bytes option \<Rightarrow> uint32 \<Rightarrow> (bool \<times> BaseField) res" where
  "SetValue f value len =
     (case bf_val f of VString _ \<Rightarrow> SetValue_str f value len | _ \<Rightarrow> SetValue_num f value)"

subsection \<open>\<open>FieldFactory::CreateField\<close>\<close>

definition CreateField :: "DBFieldInfo \<Rightarrow> BaseField option" where
  "CreateField info =
     (let t = fi_type info;
          p = (if fi_attr info AND UNSIGNED_FLAG = 0 then
                 (if t = FIELD_TYPE_TINY then Some (VInt8 0)
                  else if t = FIELD_TYPE_SHORT then Some (VInt16 0)
                  else if t = FIELD_TYPE_LONG then Some (VInt32 0)
                  else if t = FIELD_TYPE_LONGLONG \<or> t = FIELD_TYPE_TIMESTAMP then Some (VInt64 0)
                  else None)
               else
                 (if t = FIELD_TYPE_TINY then Some (VUInt8 0)
                  else if t = FIELD_TYPE_SHORT then Some (VUInt16 0)
                  else if t = FIELD_TYPE_LONG then Some (VUInt32 0)
                  else if t = FIELD_TYPE_LONGLONG \<or> t = FIELD_TYPE_TIMESTAMP then Some (VUInt64 0)
                  else None));
          q = (case p of
                 Some v \<Rightarrow> Some v
               | None \<Rightarrow>
                   (if t = FIELD_TYPE_FLOAT \<or> t = FIELD_TYPE_DOUBLE \<or> t = FIELD_TYPE_NEWDECIMAL then
                      Some (VDouble (Fin False 0 0))
                    else if t = FIELD_TYPE_STRING \<or> t = FIELD_TYPE_VAR_STRING \<or> t = FIELD_TYPE_DATE \<or>
                            t = FIELD_TYPE_DATETIME then Some (VString [])
                    else if t = FIELD_TYPE_TINY_BLOB \<or> t = FIELD_TYPE_BLOB \<or>
                            t = FIELD_TYPE_MEDIUM_BLOB \<or> t = FIELD_TYPE_LONG_BLOB then Some (VString [])
                    else None))
      in map_option (new_field info) q)"


subsection \<open>Well-formed fields\<close>

text \<open>
  A field is well formed when the \<open>DataType\<close> of its value is the one the factory picks for the
  column it describes.
\<close>

datatype data_type =
    UInt64Field | UIntField | USmallIntField | UTinyIntField
  | Int64Field | IntField | SmallIntField | TinyIntField
  | DoubleField | StringField

fun kind_of :: "field_val \<Rightarrow> data_type" where
  "kind_of (VUInt64 _) = UInt64Field"
| "kind_of (VUInt32 _) = UIntField"
| "kind_of (VUInt16 _) = USmallIntField"
| "kind_of (VUInt8 _) = UTinyIntField"
| "kind_of (VInt64 _) = Int64Field"
| "kind_of (VInt32 _) = IntField"
| "kind_of (VInt16 _) = SmallIntField"
| "kind_of (VInt8 _) = TinyIntField"
| "kind_of (VDouble _) = DoubleField"
| "kind_of (VString _) = StringField"

definition wf_field :: "BaseField \<Rightarrow> bool" where
  "wf_field f = (case CreateField (bf_info f) of None \<Rightarrow> False | Some g \<Rightarrow> kind_of (bf_val f) = kind_of (bf_val g))"

text \<open>The integer instances, and the value such an instance keeps of a \<open>sint64\<close>.\<close>

fun int_kind :: "field_val \<Rightarrow> bool" where
  "int_kind (VDouble _) = False"
| "int_kind (VString _) = False"
| "int_kind _ = True"

fun kind_wrap :: "field_val \<Rightarrow> int \<Rightarrow> int" where
  "kind_wrap (VUInt32 _) i = i mod 2 ^ 32"
| "kind_wrap (VUInt16 _) i = i mod 2 ^ 16"
| "kind_wrap (VUInt8 _) i = i mod 2 ^ 8"
| "kind_wrap (VInt32 _) i = (i + 2 ^ 31) mod 2 ^ 32 - 2 ^ 31"
| "kind_wrap (VInt16 _) i = (i + 2 ^ 15) mod 2 ^ 16 - 2 ^ 15"
| "kind_wrap (VInt8 _) i = (i + 2 ^ 7) mod 2 ^ 8 - 2 ^ 7"
| "kind_wrap _ i = i"

lemma cast_kind_of:
  "cast_int k v = Inr w \<Longrightarrow> kind_of w = kind_of k"
  "cast_double k x = Inr w \<Longrightarrow> kind_of w = kind_of k"
  by (cases k; auto simp: res_simps)+

lemma wf_fieldI:
  "wf_field f \<Longrightarrow> bf_info g = bf_info f \<Longrightarrow> kind_of (bf_val g) = kind_of (bf_val f) \<Longrightarrow> wf_field g"
  by (auto simp: wf_field_def split: option.splits)

lemmas field_defs = IsChanged_def TagChanged_def GetType_def GetAttr_def GetLen_def
  GetInt_def GetDouble_def GetStr_def

lemma cast_int_val_int:
  assumes "int_kind k"
  shows "\<exists>w r. cast_int k v = Inr w \<and> val_int w = Inr r \<and> sint r = kind_wrap k (sint v)"
  using assms
  by (cases k) (auto simp: sint_narrow sint_widen sint_widen_unsigned uint_narrow
      take_bit_eq_mod signed_take_bit_eq_take_bit_shift)

lemma CreateField_new_field: "CreateField info = Some f \<Longrightarrow> \<exists>v. f = new_field info v"
  unfolding CreateField_def Let_def map_option_eq_Some by blast

lemma CreateField_info: "CreateField info = Some f \<Longrightarrow> bf_info f = info \<and> \<not> bf_changed f"
  by (drule CreateField_new_field) (auto simp: new_field_def)

lemma CreateField_wf: "CreateField info = Some f \<Longrightarrow> wf_field f"
  by (simp add: wf_field_def CreateField_info)

lemma SetValue_num_eq: "kind_of (bf_val f) \<noteq> StringField \<Longrightarrow> SetValue f value len = SetValue_num f value"
  by (cases "bf_val f") (simp_all add: SetValue_def)

lemma SetValue_num_frame:
  "SetValue_num f value = Inr (b, f') \<Longrightarrow>
     bf_info f' = bf_info f \<and> bf_changed f' = bf_changed f \<and> kind_of (bf_val f') = kind_of (bf_val f)"
  by (auto simp: SetValue_num_def rbind_eq_Inr dest: cast_kind_of split: if_splits)

lemma SetValue_str_frame:
  "SetValue_str f value len = Inr (b, f') \<Longrightarrow> kind_of (bf_val f) = StringField \<Longrightarrow>
     bf_info f' = bf_info f \<and> bf_changed f' = bf_changed f \<and> kind_of (bf_val f') = kind_of (bf_val f)"
  by (auto simp: SetValue_str_def rbind_eq_Inr split: if_splits)

lemma SetValue_frame:
  "SetValue f value len = Inr (b, f') \<Longrightarrow>
     bf_info f' = bf_info f \<and> bf_changed f' = bf_changed f \<and> kind_of (bf_val f') = kind_of (bf_val f)"
  by (cases "kind_of (bf_val f) = StringField")
    (auto simp: SetValue_num_eq SetValue_def split: field_val.splits
      dest: SetValue_num_frame SetValue_str_frame)
lemma Set_frame:
  "SetInt f v = Inr f' \<Longrightarrow> bf_info f' = bf_info f \<and> bf_changed f' \<and> kind_of (bf_val f') = kind_of (bf_val f)"
  "SetDouble f x = Inr f' \<Longrightarrow> bf_info f' = bf_info f \<and> bf_changed f' \<and> kind_of (bf_val f') = kind_of (bf_val f)"
  "SetStr f mem = Inr f' \<Longrightarrow> bf_info f' = bf_info f \<and> bf_changed f' \<and> kind_of (bf_val f') = kind_of (bf_val f)"
  "SetBlob f mem n = Inr f' \<Longrightarrow> bf_info f' = bf_info f \<and> bf_changed f' \<and> kind_of (bf_val f') = kind_of (bf_val f)"
  by (auto simp: SetInt_def SetDouble_def SetStr_def SetBlob_def TagChanged_def res_simps cast_kind_of
      split: field_val.splits)

lemma wf_kind_of:
  assumes "wf_field f"
  shows "kind_of (bf_val f) =
    (let t = GetType f; u = GetAttr f AND UNSIGNED_FLAG \<noteq> 0 in
     if t = FIELD_TYPE_TINY then (if u then UTinyIntField else TinyIntField)
     else if t = FIELD_TYPE_SHORT then (if u then USmallIntField else SmallIntField)
     else if t = FIELD_TYPE_LONG then (if u then UIntField else IntField)
     else if t = FIELD_TYPE_LONGLONG \<or> t = FIELD_TYPE_TIMESTAMP then (if u then UInt64Field else Int64Field)
     else if t = FIELD_TYPE_FLOAT \<or> t = FIELD_TYPE_DOUBLE \<or> t = FIELD_TYPE_NEWDECIMAL then DoubleField
     else StringField)"
  using assms
  by (auto simp: wf_field_def CreateField_def new_field_def GetType_def GetAttr_def Let_def split: if_splits)

lemma CreateField_string:
  "CreateField info = Some g \<Longrightarrow> kind_of (bf_val g) = StringField \<Longrightarrow> string_column_type (fi_type info)"
  by (auto simp: CreateField_def new_field_def Let_def string_column_type_def split: if_splits)

lemma CreateField_int:
  "CreateField info = Some g \<Longrightarrow> kind_of (bf_val g) \<notin> {StringField, DoubleField} \<Longrightarrow> int_column_type (fi_type info)"
  by (auto simp: CreateField_def new_field_def Let_def int_column_type_def split: if_splits)

lemma int_kind_iff: "int_kind v = (kind_of v \<notin> {StringField, DoubleField})"
  by (cases v) simp_all

lemma wf_type:
  assumes "wf_field f"
  shows "kind_of (bf_val f) = StringField \<Longrightarrow> string_column_type (GetType f)"
    and "int_kind (bf_val f) \<Longrightarrow> int_column_type (GetType f)"
  using assms CreateField_string CreateField_int
  by (auto simp: wf_field_def GetType_def int_kind_iff split: option.splits)

lemma wf_float:
  assumes "wf_field f" "float_column_type (GetType f) \<or> GetType f = FIELD_TYPE_NEWDECIMAL"
  shows "kind_of (bf_val f) = DoubleField"
  using wf_kind_of [OF assms(1)] assms(2) by (auto simp: float_column_type_def)

lemma column_types_disjoint:
  "int_column_type t \<Longrightarrow> \<not> float_column_type t"
  "int_column_type t \<Longrightarrow> \<not> string_column_type t"
  "float_column_type t \<Longrightarrow> \<not> int_column_type t"
  by (auto simp: int_column_type_def float_column_type_def string_column_type_def)

lemma cast_int_DoubleField: "kind_of k = DoubleField \<Longrightarrow> cast_int k v = Inr (VDouble (double_of_int (sint v)))"
  by (cases k) simp_all

lemma cast_double_DoubleField: "kind_of k = DoubleField \<Longrightarrow> cast_double k x = Inr (VDouble x)"
  by (cases k) simp_all

text \<open>What \<open>SetValue\<close> does with NUL-terminated text, by kind of column.\<close>

lemma SetValue_int_text:
  assumes "int_column_type (GetType f)" "kind_of (bf_val f) \<noteq> StringField" "no_nul s"
  shows "SetValue f (Some (s @ CHR 0x00 # rest)) len =
    rbind (cast_int (bf_val f) (atoll s)) (\<lambda>w. Inr (True, f\<lparr>bf_val := w\<rparr>))"
  using assms by (simp add: SetValue_num_eq SetValue_num_def read_cstr_terminated)

lemma SetValue_float_text:
  assumes "float_column_type (GetType f)" "kind_of (bf_val f) = DoubleField" "no_nul s"
  shows "SetValue f (Some (s @ CHR 0x00 # rest)) len = Inr (False, f\<lparr>bf_val := VDouble (atof s)\<rparr>)"
  using assms
  by (simp add: SetValue_num_eq SetValue_num_def read_cstr_terminated column_types_disjoint
      cast_double_DoubleField)

subsection \<open>Properties\<close>

text \<open>The factory makes a field exactly for the integer, floating-point and string column types that \<open>SetValue\<close> can load; the field is well formed, describes the given column and is unchanged. For every other type (\<open>YEAR\<close>, \<open>INT24\<close>, \<open>TIME\<close>, \<open>ENUM\<close>, \<open>BIT\<close>, \<open>JSON\<close>, ...) it returns a null pointer.\<close>

theorem CreateField_supported:
  "(\<exists>f. CreateField info = Some f \<and> wf_field f \<and> bf_info f = info \<and> \<not> IsChanged f) =
   (int_column_type (fi_type info) \<or> float_column_type (fi_type info) \<or> string_column_type (fi_type info))"
proof -
  have "(CreateField info \<noteq> None) =
    (int_column_type (fi_type info) \<or> float_column_type (fi_type info) \<or> string_column_type (fi_type info))"
    by (auto simp: CreateField_def Let_def int_column_type_def float_column_type_def string_column_type_def)
  moreover have "(\<exists>f. CreateField info = Some f \<and> wf_field f \<and> bf_info f = info \<and> \<not> IsChanged f) =
      (CreateField info \<noteq> None)"
    by (auto simp: IsChanged_def dest: CreateField_info CreateField_wf)
  ultimately show ?thesis by simp
qed


text \<open>C21: An integer field keeps a \<open>sint64\<close> reduced to its width and signedness (every value of its range unchanged), reads it back as that number, and is marked changed.\<close>

theorem SetInt_then_GetInt:
  assumes "int_kind (bf_val f)"
  shows "\<exists>f' r. SetInt f v = Inr f' \<and> GetInt f' = Inr r \<and> sint r = kind_wrap (bf_val f) (sint v) \<and> IsChanged f'"
proof -
  obtain w r where "cast_int (bf_val f) v = Inr w" "val_int w = Inr r"
      "sint r = kind_wrap (bf_val f) (sint v)"
    using cast_int_val_int [OF assms] by blast
  then show ?thesis by (simp add: SetInt_def field_defs)
qed

text \<open>Loading the decimal text of a number that the column type can hold (for an unsigned bigint: below \<open>2^63\<close>) makes the field read that number, and does not touch the change flag.\<close>

theorem load_int_column:
  assumes "wf_field f" "int_kind (bf_val f)"
    and "- (2 ^ 63) \<le> n" "n < 2 ^ 63" "kind_wrap (bf_val f) n = n"
  shows "\<exists>f'. SetValue f (Some (int_digits n @ CHR 0x00 # rest)) len = Inr (True, f') \<and>
     GetInt f' = Inr (word_of_int n) \<and> IsChanged f' = IsChanged f"
proof -
  let ?v = "word_of_int n :: sint64"
  have at: "atoll (int_digits n) = ?v" using assms(3,4) by (simp add: atoll_int_digits clamp_i64_id)
  have n: "sint ?v = n" using assms(3,4) by (rule sint64_of_int)
  obtain w r where w: "cast_int (bf_val f) ?v = Inr w" "val_int w = Inr r" "sint r = n"
    using cast_int_val_int [OF assms(2), of ?v] n assms(5) by auto
  then have "r = ?v" using n by (auto intro: signed_word_eqI)
  moreover have "SetValue f (Some (int_digits n @ CHR 0x00 # rest)) len = Inr (True, f\<lparr>bf_val := w\<rparr>)"
    using wf_type(2) [OF assms(1,2)] assms(2) w(1) by (simp add: SetValue_int_text int_kind_iff at)
  ultimately show ?thesis using w(2) by (simp add: field_defs)
qed

text \<open>An unsigned bigint column with a value of \<open>2^63\<close> or more is loaded as \<open>2^63 - 1\<close>: \<open>SetValue\<close> reads it with the signed \<open>atoll\<close>.\<close>

theorem load_unsigned_bigint_saturates:
  assumes "wf_field f" "kind_of (bf_val f) = UInt64Field" "2 ^ 63 \<le> n"
  shows "SetValue f (Some (int_digits n @ CHR 0x00 # rest)) len =
     Inr (True, f\<lparr>bf_val := VUInt64 (2 ^ 63 - 1)\<rparr>)"
proof -
  obtain u where u: "bf_val f = VUInt64 u" using assms(2) by (cases "bf_val f") simp_all
  have "clamp_i64 n = 2 ^ 63 - 1" using assms(3) by (simp add: clamp_i64_def)
  then have "atoll (int_digits n) = 2 ^ 63 - 1" by (simp add: atoll_int_digits)
  then show ?thesis
    using wf_type(2) [OF assms(1)] assms(2) u by (simp add: SetValue_int_text int_kind_iff)
qed

text \<open>For a \<open>FLOAT\<close> or \<open>DOUBLE\<close> column \<open>SetValue\<close> stores the number and then falls through to the default branch and returns false.\<close>

theorem load_float_column_reports_failure:
  assumes "wf_field f" "float_column_type (GetType f)" "no_nul s"
  shows "SetValue f (Some (s @ CHR 0x00 # rest)) len = Inr (False, f\<lparr>bf_val := VDouble (atof s)\<rparr>)"
  using assms wf_float by (simp add: SetValue_float_text)

text \<open>A \<open>DECIMAL\<close> column is read with \<open>atoll\<close>, so its field holds the integer part only.\<close>

theorem load_decimal_column_drops_fraction:
  assumes "wf_field f" "GetType f = FIELD_TYPE_NEWDECIMAL" "no_nul s"
  shows "SetValue f (Some (s @ CHR 0x00 # rest)) len =
     Inr (True, f\<lparr>bf_val := VDouble (double_of_int (sint (atoll s)))\<rparr>)"
  using assms wf_float [OF assms(1)]
  by (simp add: SetValue_int_text int_column_type_def cast_int_DoubleField)

text \<open>A string field returns the bytes it was set to: a C string up to its NUL, or the given number of bytes of a blob, NUL bytes included; both mark the field changed.\<close>

theorem string_field_round_trip:
  assumes "kind_of (bf_val f) = StringField" "no_nul s" "unat n \<le> length mem"
  shows "\<exists>f1 f2. SetStr f (s @ CHR 0x00 # rest) = Inr f1 \<and> GetStr f1 = Inr s \<and> IsChanged f1 \<and>
     SetBlob f mem n = Inr f2 \<and> GetStr f2 = Inr (take (unat n) mem) \<and> IsChanged f2"
proof -
  obtain t where "bf_val f = VString t" using assms(1) by (cases "bf_val f") simp_all
  then show ?thesis
    using assms(2,3) by (simp add: SetStr_def SetBlob_def read_cstr_terminated read_n_def field_defs)
qed

subsection \<open>Sample columns\<close>

definition sample_info :: "uint32 \<Rightarrow> uint32 \<Rightarrow> DBFieldInfo" where
  "sample_info t a = \<lparr>fi_name = ''c'', fi_type = t, fi_attr = a, fi_len = 11\<rparr>"

definition sample_field :: "uint32 \<Rightarrow> uint32 \<Rightarrow> field_val \<Rightarrow> BaseField" where
  "sample_field t a v = new_field (sample_info t a) v"

lemmas sample_defs = sample_field_def sample_info_def new_field_def wf_field_def CreateField_def
  UNSIGNED_FLAG_def GetType_def GetAttr_def

lemma sample_wf [simp]:
  "wf_field (sample_field FIELD_TYPE_TINY 0 (VInt8 v8))"
  "wf_field (sample_field FIELD_TYPE_LONGLONG UNSIGNED_FLAG (VUInt64 v64))"
  "wf_field (sample_field FIELD_TYPE_DOUBLE 0 (VDouble d))"
  "wf_field (sample_field FIELD_TYPE_NEWDECIMAL 0 (VDouble d))"
  "wf_field (sample_field FIELD_TYPE_VAR_STRING 0 (VString s))"
  by (simp_all add: sample_defs)

lemma sample_val [simp]:
  "bf_val (sample_field t a v) = v" "GetType (sample_field t a v) = t"
  "bf_changed (sample_field t a v) = False"
  by (simp_all add: sample_defs)


theorem SetInt_then_GetInt_witness:
  "\<exists>f' r. SetInt (sample_field FIELD_TYPE_TINY 0 (VInt8 0)) 300 = Inr f' \<and> GetInt f' = Inr r \<and> sint r = 44"
proof -
  have "int_kind (bf_val (sample_field FIELD_TYPE_TINY 0 (VInt8 0)))" by simp
  from SetInt_then_GetInt [OF this, of 300] show ?thesis by auto
qed

theorem load_int_column_witness:
  "\<exists>f'. SetValue (sample_field FIELD_TYPE_TINY 0 (VInt8 0)) (Some (int_digits (- 5) @ CHR 0x00 # [])) 0 = Inr (True, f') \<and>
     GetInt f' = Inr (- 5)"
proof -
  have h: "int_kind (bf_val (sample_field FIELD_TYPE_TINY 0 (VInt8 0)))"
    "kind_wrap (bf_val (sample_field FIELD_TYPE_TINY 0 (VInt8 0))) (- 5) = - 5" by simp_all
  from load_int_column [OF sample_wf(1) h(1) _ _ h(2), of "[]" 0] show ?thesis by auto
qed

theorem load_unsigned_bigint_saturates_witness:
  "SetValue (sample_field FIELD_TYPE_LONGLONG UNSIGNED_FLAG (VUInt64 0)) (Some (int_digits (2 ^ 64 - 1) @ CHR 0x00 # [])) 20 =
     Inr (True, sample_field FIELD_TYPE_LONGLONG UNSIGNED_FLAG (VUInt64 0)\<lparr>bf_val := VUInt64 (2 ^ 63 - 1)\<rparr>)"
  by (rule load_unsigned_bigint_saturates [OF sample_wf(2)]) simp_all

theorem load_float_column_reports_failure_witness:
  "SetValue (sample_field FIELD_TYPE_DOUBLE 0 (VDouble (Fin False 0 0))) (Some (''2.5'' @ CHR 0x00 # [])) 3 =
     Inr (False, sample_field FIELD_TYPE_DOUBLE 0 (VDouble (Fin False 0 0))\<lparr>bf_val := VDouble (atof ''2.5'')\<rparr>)"
  by (rule load_float_column_reports_failure [OF sample_wf(3)]) (simp_all add: float_column_type_def)

theorem load_decimal_column_drops_fraction_witness:
  "SetValue (sample_field FIELD_TYPE_NEWDECIMAL 0 (VDouble (Fin False 0 0))) (Some (''3.99'' @ CHR 0x00 # [])) 4 =
     Inr (True, sample_field FIELD_TYPE_NEWDECIMAL 0 (VDouble (Fin False 0 0))\<lparr>bf_val := VDouble (double_of_int 3)\<rparr>)"
proof -
  have "atoll ''3.99'' = 3"
    by (simp add: atoll_def parse_int_def is_space_def is_digit_def digit_val_def clamp_i64_def Let_def)
  with load_decimal_column_drops_fraction [OF sample_wf(4), where s = "''3.99''" and rest = "[]" and len = 4]
  show ?thesis by simp
qed

theorem string_field_round_trip_witness:
  "\<exists>f1 f2. SetStr (sample_field FIELD_TYPE_VAR_STRING 0 (VString [])) (''ab'' @ CHR 0x00 # []) = Inr f1 \<and> GetStr f1 = Inr ''ab'' \<and>
     SetBlob (sample_field FIELD_TYPE_VAR_STRING 0 (VString [])) [CHR 0x00, CHR ''x''] 1 = Inr f2 \<and> GetStr f2 = Inr [CHR 0x00]"
proof -
  have h: "kind_of (bf_val (sample_field FIELD_TYPE_VAR_STRING 0 (VString []))) = StringField"
    "no_nul ''ab''" "unat (1::uint32) \<le> length [CHR 0x00, CHR ''x'']" by simp_all
  from string_field_round_trip [OF h, of "[]"] show ?thesis by auto
qed

end
