(* ===== verification/Db_Interface.thy ===== *)
theory Db_Interface
  imports LLBC_Prelude
begin

text \<open>
  The types of the public interface of the database component (\<open>IDB.h\<close>): the mode of a record and
  the connection parameters.
\<close>

datatype MODE = MODE_NONE | MODE_READ | MODE_EDIT

record DatabaseParam =
  dp_name :: bytes
  dp_ip :: bytes
  dp_port :: sint32
  dp_user :: bytes
  dp_passwd :: bytes
  dp_dbName :: bytes
  dp_asyncConnNum :: sint32

end
