(* ===== verification/Std_Map.thy ===== *)
theory Std_Map
  imports LLBC_Prelude
begin

text \<open>
  \<open>std::map\<close> and \<open>std::vector<std::unique_ptr<T>>\<close>, the two containers the database component keeps
  its state in. The laws its clients rely on are stated as locales and proved there once for any
  provider; a \<open>std::map\<close> is an association list with strictly increasing keys, which fixes the order
  in which a range-for visits it, and a vector of owning pointers is a list of optional values.
\<close>

subsection \<open>Keyed containers\<close>

locale keyed_map =
  fixes find :: "'m \<Rightarrow> 'k \<Rightarrow> 'v option"
    and put :: "'m \<Rightarrow> 'k \<Rightarrow> 'v \<Rightarrow> 'm"
    and del :: "'m \<Rightarrow> 'k \<Rightarrow> 'm"
    and ok :: "'m \<Rightarrow> bool"
  assumes find_put: "ok m \<Longrightarrow> find (put m k v) l = (if l = k then Some v else find m l)"
    and find_del: "ok m \<Longrightarrow> find (del m k) l = (if l = k then None else find m l)"
    and ok_put: "ok m \<Longrightarrow> ok (put m k v)"
    and ok_del: "ok m \<Longrightarrow> ok (del m k)"
begin

lemma find_put_same [simp]: "ok m \<Longrightarrow> find (put m k v) k = Some v"
  by (simp add: find_put)

lemma find_put_other: "ok m \<Longrightarrow> l \<noteq> k \<Longrightarrow> find (put m k v) l = find m l"
  by (simp add: find_put)

lemma find_put_put: "ok m \<Longrightarrow> find (put (put m k v) k w) l = find (put m k w) l"
  by (simp add: find_put ok_put)

lemma find_del_put: "ok m \<Longrightarrow> find m k = None \<Longrightarrow> find (del (put m k v) k) l = find m l"
  by (simp add: find_put find_del ok_put)

end

text \<open>A keyed container with an iteration order, each entry once.\<close>

locale iterable_map = keyed_map find put del ok
  for find :: "'m \<Rightarrow> 'k \<Rightarrow> 'v option" and put :: "'m \<Rightarrow> 'k \<Rightarrow> 'v \<Rightarrow> 'm"
    and del :: "'m \<Rightarrow> 'k \<Rightarrow> 'm" and ok :: "'m \<Rightarrow> bool" +
  fixes entries :: "'m \<Rightarrow> ('k \<times> 'v) list"
  assumes entries_find: "ok m \<Longrightarrow> ((k, v) \<in> set (entries m)) = (find m k = Some v)"
    and entries_distinct: "ok m \<Longrightarrow> distinct (map fst (entries m))"
begin

lemma entry_keys: "ok m \<Longrightarrow> fst ` set (entries m) = {k. find m k \<noteq> None}"
  using entries_find by (force simp: image_iff)

lemma entries_put_keys: "ok m \<Longrightarrow> fst ` set (entries (put m k v)) = insert k (fst ` set (entries m))"
  unfolding entry_keys entry_keys [OF ok_put] by (auto simp: find_put)

lemma entries_del_keys: "ok m \<Longrightarrow> fst ` set (entries (del m k)) = fst ` set (entries m) - {k}"
  unfolding entry_keys entry_keys [OF ok_del] by (auto simp: find_del)

end

subsection \<open>\<open>std::map\<close>\<close>

type_synonym ('k, 'v) std_map = "('k \<times> 'v) list"

definition map_find :: "('k, 'v) std_map \<Rightarrow> 'k \<Rightarrow> 'v option" where
  "map_find m k = map_of m k"

text \<open>\<open>m[k] = v\<close>: in order, replacing the value of an equal key.\<close>

fun map_put :: "('k::linorder, 'v) std_map \<Rightarrow> 'k \<Rightarrow> 'v \<Rightarrow> ('k, 'v) std_map" where
  "map_put [] k v = [(k, v)]"
| "map_put (p # m) k v =
     (if fst p < k then p # map_put m k v
      else if fst p = k then (k, v) # m
      else (k, v) # p # m)"

definition map_erase :: "('k, 'v) std_map \<Rightarrow> 'k \<Rightarrow> ('k, 'v) std_map" where
  "map_erase m k = [p \<leftarrow> m. fst p \<noteq> k]"

text \<open>\<open>m.insert(pair)\<close> leaves an existing entry alone.\<close>

definition map_insert :: "('k::linorder, 'v) std_map \<Rightarrow> 'k \<Rightarrow> 'v \<Rightarrow> ('k, 'v) std_map" where
  "map_insert m k v = (case map_find m k of None \<Rightarrow> map_put m k v | Some _ \<Rightarrow> m)"

definition map_ok :: "('k::linorder, 'v) std_map \<Rightarrow> bool" where
  "map_ok m \<longleftrightarrow> sorted_wrt (<) (map fst m)"

lemma map_ok_simps [simp]:
  "map_ok []"
  "map_ok (p # m) \<longleftrightarrow> (\<forall>q\<in>set m. fst p < fst q) \<and> map_ok m"
  by (auto simp: map_ok_def)

lemma map_find_simps [simp]:
  "map_find [] k = None"
  "map_find (p # m) k = (if fst p = k then Some (snd p) else map_find m k)"
  by (simp_all add: map_find_def)

lemma map_find_less: "\<forall>q\<in>set m. (k::'k::linorder) < fst q \<Longrightarrow> map_find m k = None"
  by (induction m) auto

lemma map_find_put: "map_ok m \<Longrightarrow> map_find (map_put m k v) l = (if l = k then Some v else map_find m l)"
  by (induction m) (auto simp: map_find_less)

lemma map_put_keys: "fst ` set (map_put m k v) = insert k (fst ` set m)"
  by (induction m) auto

lemma map_ok_put: "map_ok m \<Longrightarrow> map_ok (map_put m k v)"
proof (induction m)
  case (Cons p m)
  have "\<forall>q\<in>set (map_put m k v). fst p < fst q" if "fst p < k"
  proof
    fix q assume "q \<in> set (map_put m k v)"
    then have "fst q \<in> insert k (fst ` set m)" by (metis image_eqI map_put_keys)
    then show "fst p < fst q" using that Cons.prems by auto
  qed
  with Cons show ?case by (auto dest: less_trans)
qed simp

lemma map_find_erase: "map_find (map_erase m k) l = (if l = k then None else map_find m l)"
  by (induction m) (auto simp: map_erase_def)

lemma map_ok_erase: "map_ok m \<Longrightarrow> map_ok (map_erase m k)"
  by (induction m) (auto simp: map_erase_def)

lemma map_entries_find: "map_ok m \<Longrightarrow> ((k, v) \<in> set m) = (map_find m k = Some v)"
  by (induction m) (auto simp: map_find_less)

lemma map_entries_distinct: "map_ok m \<Longrightarrow> distinct (map fst m)"
  by (induction m) auto

interpretation smap: iterable_map map_find map_put map_erase map_ok "\<lambda>m. m"
  by unfold_locales
    (simp_all add: map_find_put map_find_erase map_ok_put map_ok_erase map_entries_find map_entries_distinct)

subsection \<open>Vectors of owning pointers\<close>

locale slot_vector =
  fixes peek :: "'s \<Rightarrow> nat \<Rightarrow> 'v option res"
    and store :: "'s \<Rightarrow> nat \<Rightarrow> 'v option \<Rightarrow> 's res"
    and update :: "'s \<Rightarrow> nat \<Rightarrow> ('v \<Rightarrow> 'v res) \<Rightarrow> 's res"
    and count :: "'s \<Rightarrow> nat"
  assumes peek_defined: "(\<exists>x. peek s i = Inr x) = (i < count s)"
    and store_defined: "(\<exists>t. store s i x = Inr t) = (i < count s)"
    and peek_store: "store s i x = Inr t \<Longrightarrow> peek t j = (if i = j then Inr x else peek s j)"
    and count_store: "store s i x = Inr t \<Longrightarrow> count t = count s"
    and update_eq:
      "update s i f = rbind (peek s i) (\<lambda>p. rbind (deref p) (\<lambda>v. rbind (f v) (\<lambda>w. store s i (Some w))))"
begin

lemma update_cases:
  assumes "update s i f = Inr t"
  obtains v w where "peek s i = Inr (Some v)" "f v = Inr w" "store s i (Some w) = Inr t"
  using assms by (auto simp: update_eq res_simps)

lemma update_peek:
  assumes "peek s i = Inr (Some v)" "f v = Inr w"
  shows "\<exists>t. update s i f = Inr t \<and> peek t i = Inr (Some w) \<and> (\<forall>j. j \<noteq> i \<longrightarrow> peek t j = peek s j)"
proof -
  have "i < count s" using assms(1) peek_defined by blast
  then obtain t where "store s i (Some w) = Inr t" using store_defined by blast
  then show ?thesis using assms peek_store by (fastforce simp: update_eq)
qed

lemma update_keeps:
  assumes "update s i f = Inr t" "\<And>v w. f v = Inr w \<Longrightarrow> P v \<Longrightarrow> P w"
    and "\<And>j v. peek s j = Inr (Some v) \<Longrightarrow> P v"
    and "peek t j = Inr (Some v)"
  shows "P v"
proof -
  obtain u w where u: "peek s i = Inr (Some u)" "f u = Inr w" "store s i (Some w) = Inr t"
    using assms(1) by (rule update_cases)
  then show ?thesis using assms(2,3,4) peek_store [OF u(3), of j] by (cases "i = j") auto
qed

end

definition slot_peek :: "'v option list \<Rightarrow> nat \<Rightarrow> 'v option res" where
  "slot_peek xs i = vec_at xs i"

definition slot_store :: "'v option list \<Rightarrow> nat \<Rightarrow> 'v option \<Rightarrow> 'v option list res" where
  "slot_store xs i x = (if i < length xs then Inr (xs[i := x]) else Inl IndexOutOfRange)"

text \<open>\<open>v[i]->f()\<close>: the object in an occupied slot is changed in place.\<close>

definition slot_update :: "'v option list \<Rightarrow> nat \<Rightarrow> ('v \<Rightarrow> 'v res) \<Rightarrow> 'v option list res" where
  "slot_update xs i f =
     rbind (slot_peek xs i) (\<lambda>p. rbind (deref p) (\<lambda>v. rbind (f v) (\<lambda>w. slot_store xs i (Some w))))"

interpretation slots: slot_vector slot_peek slot_store slot_update length
  by unfold_locales (auto simp: slot_peek_def slot_store_def slot_update_def vec_at_def split: if_splits)

lemma slot_peek_eq_Inr: "(slot_peek xs i = Inr x) = (i < length xs \<and> xs ! i = x)"
  by (simp add: slot_peek_def vec_at_def)

lemma slot_store_eq_Inr: "(slot_store xs i x = Inr ys) = (i < length xs \<and> ys = xs[i := x])"
  by (auto simp: slot_store_def)

lemma slot_update_eq_Inr:
  "(slot_update xs i f = Inr ys) =
   (i < length xs \<and> (\<exists>v w. xs ! i = Some v \<and> f v = Inr w \<and> ys = xs[i := Some w]))"
  by (auto simp: slot_update_def res_simps slot_peek_eq_Inr slot_store_eq_Inr)

end
