(* ===== verification/Db_Record.thy ===== *)
theory Db_Record
  imports Db_Fields Db_Interface Std_Map
begin

text \<open>
  A row of a query: \<open>Record\<close> (\<open>Record.h\<close>, \<open>Record.cpp\<close>) and the set of rows, \<open>Recordset\<close>
  (\<open>Recordset.h\<close>, \<open>Recordset.cpp\<close>). Both keep a vector of owning pointers, so both are clients of
  the vector interface of \<open>Std_Map\<close>; the name index of a record is a \<open>std::map\<close>.
\<close>

subsection \<open>\<open>Record\<close>\<close>

record Record =
  rc_mode :: MODE
  rc_fieldNum :: uint32
  rc_tableName :: bytes
  rc_fields :: "BaseField option list"
  rc_name2idx :: "(bytes, sint32) std_map"
  rc_keyIdx :: sint32
  rc_autoIncIdx :: sint32

definition new_Record :: "uint32 \<Rightarrow> bytes \<Rightarrow> MODE \<Rightarrow> Record" where
  "new_Record fieldNum tableName mode =
     \<lparr>rc_mode = mode, rc_fieldNum = fieldNum, rc_tableName = tableName,
      rc_fields = replicate (unat fieldNum) None, rc_name2idx = [],
      rc_keyIdx = - 1, rc_autoIncIdx = - 1\<rparr>"

definition field_at :: "Record \<Rightarrow> uint32 \<Rightarrow> BaseField res" where
  "field_at r idx = rbind (slot_peek (rc_fields r) (unat idx)) deref"

text \<open>Read by position.\<close>

definition Record_GetInt :: "Record \<Rightarrow> uint32 \<Rightarrow> sint64 res" where
  "Record_GetInt r idx = rbind (field_at r idx) GetInt"

definition Record_GetDouble :: "Record \<Rightarrow> uint32 \<Rightarrow> double res" where
  "Record_GetDouble r idx = rbind (field_at r idx) GetDouble"

definition Record_GetStr :: "Record \<Rightarrow> uint32 \<Rightarrow> bytes res" where
  "Record_GetStr r idx = rbind (field_at r idx) GetStr"

definition GetFieldIdx :: "Record \<Rightarrow> bytes \<Rightarrow> uint32 res" where
  "GetFieldIdx r name = (case map_find (rc_name2idx r) name of None \<Rightarrow> Inl AssertFail | Some i \<Rightarrow> Inr i)"

text \<open>Read by name.\<close>

definition Record_GetInt_name :: "Record \<Rightarrow> bytes \<Rightarrow> sint64 res" where
  "Record_GetInt_name r name = rbind (GetFieldIdx r name) (Record_GetInt r)"

definition Record_GetDouble_name :: "Record \<Rightarrow> bytes \<Rightarrow> double res" where
  "Record_GetDouble_name r name = rbind (GetFieldIdx r name) (Record_GetDouble r)"

definition Record_GetStr_name :: "Record \<Rightarrow> bytes \<Rightarrow> bytes res" where
  "Record_GetStr_name r name = rbind (GetFieldIdx r name) (Record_GetStr r)"

definition GetFieldNum :: "Record \<Rightarrow> uint32" where
  "GetFieldNum r = rc_fieldNum r"

text \<open>\<open>WriteField\<close> takes ownership of a field; an old field in the slot is deleted.\<close>

definition WriteField :: "Record \<Rightarrow> uint32 \<Rightarrow> BaseField \<Rightarrow> Record res" where
  "WriteField r idx field =
     (let r' = r\<lparr>rc_name2idx := map_put (rc_name2idx r) (GetName field) idx\<rparr>
      in rbind (slot_store (rc_fields r') (unat idx) (Some field))
           (\<lambda>fs. Inr (r'\<lparr>rc_fields := fs\<rparr>)))"

fun clear_flags :: "BaseField option list \<Rightarrow> BaseField option list res" where
  "clear_flags [] = Inr []"
| "clear_flags (p # ps) =
     rbind (deref p) (\<lambda>f. rbind (clear_flags ps) (\<lambda>fs. Inr (Some (TagChanged False f) # fs)))"

definition ClsEditFlag :: "Record \<Rightarrow> Record res" where
  "ClsEditFlag r = rbind (clear_flags (rc_fields r)) (\<lambda>fs. Inr (r\<lparr>rc_fields := fs\<rparr>))"

definition Record_IsChanged :: "Record \<Rightarrow> uint32 \<Rightarrow> bool res" where
  "Record_IsChanged r idx = rbind (field_at r idx) (\<lambda>f. Inr (IsChanged f))"

definition GetKeyIdx :: "Record \<Rightarrow> sint32" where
  "GetKeyIdx r = rc_keyIdx r"

definition SetKeyIdx :: "Record \<Rightarrow> sint32 \<Rightarrow> Record" where
  "SetKeyIdx r idx = r\<lparr>rc_keyIdx := idx\<rparr>"

definition GetAutoIncIdx :: "Record \<Rightarrow> sint32" where
  "GetAutoIncIdx r = rc_autoIncIdx r"

definition SetAutoIncIdx :: "Record \<Rightarrow> sint32 \<Rightarrow> Record" where
  "SetAutoIncIdx r idx = r\<lparr>rc_autoIncIdx := idx\<rparr>"

definition GetTableName :: "Record \<Rightarrow> bytes" where
  "GetTableName r = rc_tableName r"

definition GetMode :: "Record \<Rightarrow> MODE" where
  "GetMode r = rc_mode r"

text \<open>\<open>GetField\<close> returns the pointer, null for a slot that was never written.\<close>

definition GetField :: "Record \<Rightarrow> uint32 \<Rightarrow> BaseField option res" where
  "GetField r idx = slot_peek (rc_fields r) (unat idx)"

text \<open>Write by position and by name.\<close>

definition update_field :: "Record \<Rightarrow> uint32 \<Rightarrow> (BaseField \<Rightarrow> BaseField res) \<Rightarrow> Record res" where
  "update_field r idx f =
     rbind (slot_update (rc_fields r) (unat idx) f) (\<lambda>fs. Inr (r\<lparr>rc_fields := fs\<rparr>))"

definition Record_SetInt :: "Record \<Rightarrow> uint32 \<Rightarrow> sint64 \<Rightarrow> Record res" where
  "Record_SetInt r idx v = update_field r idx (\<lambda>f. SetInt f v)"

definition Record_SetDouble :: "Record \<Rightarrow> uint32 \<Rightarrow> double \<Rightarrow> Record res" where
  "Record_SetDouble r idx v = update_field r idx (\<lambda>f. SetDouble f v)"

definition Record_SetStr :: "Record \<Rightarrow> uint32 \<Rightarrow> bytes \<Rightarrow> Record res" where
  "Record_SetStr r idx mem = update_field r idx (\<lambda>f. SetStr f mem)"

definition Record_SetBlob :: "Record \<Rightarrow> uint32 \<Rightarrow> bytes \<Rightarrow> uint32 \<Rightarrow> Record res" where
  "Record_SetBlob r idx mem len = update_field r idx (\<lambda>f. SetBlob f mem len)"

definition Record_SetInt_name :: "Record \<Rightarrow> bytes \<Rightarrow> sint64 \<Rightarrow> Record res" where
  "Record_SetInt_name r name v = rbind (GetFieldIdx r name) (\<lambda>i. Record_SetInt r i v)"

definition Record_SetDouble_name :: "Record \<Rightarrow> bytes \<Rightarrow> double \<Rightarrow> Record res" where
  "Record_SetDouble_name r name v = rbind (GetFieldIdx r name) (\<lambda>i. Record_SetDouble r i v)"

definition Record_SetStr_name :: "Record \<Rightarrow> bytes \<Rightarrow> bytes \<Rightarrow> Record res" where
  "Record_SetStr_name r name mem = rbind (GetFieldIdx r name) (\<lambda>i. Record_SetStr r i mem)"

definition Record_SetBlob_name :: "Record \<Rightarrow> bytes \<Rightarrow> bytes \<Rightarrow> uint32 \<Rightarrow> Record res" where
  "Record_SetBlob_name r name mem len = rbind (GetFieldIdx r name) (\<lambda>i. Record_SetBlob r i mem len)"

subsection \<open>\<open>Recordset\<close>\<close>

record Recordset =
  rs_recordNum :: uint32
  rs_records :: "Record option list"

definition new_Recordset :: "uint32 \<Rightarrow> Recordset" where
  "new_Recordset recordNum = \<lparr>rs_recordNum = recordNum, rs_records = replicate (unat recordNum) None\<rparr>"

definition GetRecord :: "Recordset \<Rightarrow> uint32 \<Rightarrow> Record option res" where
  "GetRecord s idx = slot_peek (rs_records s) (unat idx)"

text \<open>\<open>PopRecord\<close> gives the caller the record and leaves a null pointer in the slot.\<close>

definition PopRecord :: "Recordset \<Rightarrow> uint32 \<Rightarrow> (Record option \<times> Recordset) res" where
  "PopRecord s idx =
     rbind (slot_peek (rs_records s) (unat idx))
       (\<lambda>p. rbind (slot_store (rs_records s) (unat idx) None) (\<lambda>rs. Inr (p, s\<lparr>rs_records := rs\<rparr>)))"

definition GetSize :: "Recordset \<Rightarrow> uint32" where
  "GetSize s = rs_recordNum s"

definition Recordset_index :: "Recordset \<Rightarrow> uint32 \<Rightarrow> Record res" where
  "Recordset_index s idx = rbind (slot_peek (rs_records s) (unat idx)) deref"

definition WriteRecord :: "Recordset \<Rightarrow> uint32 \<Rightarrow> Record \<Rightarrow> Recordset res" where
  "WriteRecord s idx r =
     rbind (slot_store (rs_records s) (unat idx) (Some r)) (\<lambda>rs. Inr (s\<lparr>rs_records := rs\<rparr>))"

subsection \<open>Invariant\<close>

text \<open>
  A complete record: one well-formed field per column, names in the index at the position of a
  field with that name, key positions unset or in range.
\<close>

definition valid_idx :: "Record \<Rightarrow> sint32 \<Rightarrow> bool" where
  "valid_idx r i \<longleftrightarrow> i = - 1 \<or> unat i < unat (rc_fieldNum r)"

definition wf_record :: "Record \<Rightarrow> bool" where
  "wf_record r \<longleftrightarrow>
     length (rc_fields r) = unat (rc_fieldNum r) \<and>
     (\<forall>p\<in>set (rc_fields r). \<exists>f. p = Some f \<and> wf_field f) \<and>
     map_ok (rc_name2idx r) \<and>
     (\<forall>name i. map_find (rc_name2idx r) name = Some i \<longrightarrow>
        (\<exists>f. slot_peek (rc_fields r) (unat i) = Inr (Some f) \<and> GetName f = name)) \<and>
     valid_idx r (rc_keyIdx r) \<and> valid_idx r (rc_autoIncIdx r)"

subsection \<open>Lemmas and properties\<close>


lemma wf_recordD:
  assumes "wf_record r"
  shows "length (rc_fields r) = unat (rc_fieldNum r)"
    and "i < length (rc_fields r) \<Longrightarrow> \<exists>f. rc_fields r ! i = Some f \<and> wf_field f"
    and "map_find (rc_name2idx r) name = Some j \<Longrightarrow>
      \<exists>f. unat j < length (rc_fields r) \<and> rc_fields r ! unat j = Some f \<and> GetName f = name"
  using assms by (auto simp: wf_record_def slot_peek_eq_Inr)

lemma field_at_eq_Inr:
  "(field_at r i = Inr f) = (unat i < length (rc_fields r) \<and> rc_fields r ! unat i = Some f)"
  by (auto simp: field_at_def res_simps slot_peek_eq_Inr)

lemma update_field_eq_Inr:
  "(update_field r i op = Inr r') =
   (\<exists>f g. field_at r i = Inr f \<and> op f = Inr g \<and> r' = r\<lparr>rc_fields := (rc_fields r)[unat i := Some g]\<rparr>)"
  by (auto simp: update_field_def res_simps slot_update_eq_Inr field_at_eq_Inr)

lemma wf_record_replace:
  assumes "wf_record r" "field_at r i = Inr f" "wf_field g" "GetName g = GetName f"
  shows "wf_record (r\<lparr>rc_fields := (rc_fields r)[unat i := Some g]\<rparr>)"
proof -
  let ?fs = "(rc_fields r)[unat i := Some g]"
  have i: "unat i < length (rc_fields r)" "rc_fields r ! unat i = Some f"
    using assms(2) by (simp_all add: field_at_eq_Inr)
  have all: "\<forall>p\<in>set ?fs. \<exists>f. p = Some f \<and> wf_field f"
  proof
    fix p assume "p \<in> set ?fs"
    then have "p = Some g \<or> p \<in> set (rc_fields r)" using set_update_subset_insert by fastforce
    then show "\<exists>f. p = Some f \<and> wf_field f" using assms(1,3) by (auto simp: wf_record_def)
  qed
  have idx: "\<exists>h. slot_peek ?fs (unat j) = Inr (Some h) \<and> GetName h = name"
    if "map_find (rc_name2idx r) name = Some j" for name j
    using wf_recordD(3) [OF assms(1) that] i assms(4)
    by (cases "unat j = unat i") (auto simp: slot_peek_eq_Inr)
  show ?thesis
    using assms(1) all idx by (simp add: wf_record_def valid_idx_def)
qed

lemma update_field_wf:
  assumes "wf_record r" "update_field r i op = Inr r'"
    and "\<And>f g. op f = Inr g \<Longrightarrow> wf_field f \<Longrightarrow> wf_field g \<and> bf_info g = bf_info f"
  shows "wf_record r'"
proof -
  obtain f g where fg: "field_at r i = Inr f" "op f = Inr g"
      "r' = r\<lparr>rc_fields := (rc_fields r)[unat i := Some g]\<rparr>"
    using assms(2) by (auto simp: update_field_eq_Inr)
  then have "wf_field f" using wf_recordD(2) [OF assms(1)] by (fastforce simp: field_at_eq_Inr)
  then have "wf_field g" "bf_info g = bf_info f" using assms(3) fg(2) by blast+
  then show ?thesis
    unfolding fg(3) by (intro wf_record_replace [OF assms(1) fg(1)]) (simp_all add: GetName_def)
qed

lemma field_set_wf:
  "SetInt f v = Inr g \<Longrightarrow> wf_field f \<Longrightarrow> wf_field g \<and> bf_info g = bf_info f"
  "SetDouble f x = Inr g \<Longrightarrow> wf_field f \<Longrightarrow> wf_field g \<and> bf_info g = bf_info f"
  "SetStr f mem = Inr g \<Longrightarrow> wf_field f \<Longrightarrow> wf_field g \<and> bf_info g = bf_info f"
  "SetBlob f mem n = Inr g \<Longrightarrow> wf_field f \<Longrightarrow> wf_field g \<and> bf_info g = bf_info f"
  using Set_frame wf_fieldI by blast+

lemma clear_flags_ok:
  "\<forall>p\<in>set ps. p \<noteq> None \<Longrightarrow> clear_flags ps = Inr (map (map_option (TagChanged False)) ps)"
  by (induction ps) auto

lemma ClsEditFlag_eq:
  "wf_record r \<Longrightarrow> ClsEditFlag r = Inr (r\<lparr>rc_fields := map (map_option (TagChanged False)) (rc_fields r)\<rparr>)"
  by (subst ClsEditFlag_def, subst clear_flags_ok) (auto simp: wf_record_def)

lemma TagChanged_frame [simp]:
  "bf_info (TagChanged b f) = bf_info f" "bf_val (TagChanged b f) = bf_val f"
  "GetName (TagChanged b f) = GetName f"
  by (simp_all add: TagChanged_def GetName_def)

lemma wf_field_TagChanged: "wf_field f \<Longrightarrow> wf_field (TagChanged b f)"
  by (rule wf_fieldI) simp_all

lemma ClsEditFlag_wf:
  assumes "wf_record r" "ClsEditFlag r = Inr r'"
  shows "wf_record r'"
proof -
  let ?fs = "map (map_option (TagChanged False)) (rc_fields r)"
  have r': "r' = r\<lparr>rc_fields := ?fs\<rparr>" using assms by (simp add: ClsEditFlag_eq)
  have all: "\<forall>p\<in>set ?fs. \<exists>f. p = Some f \<and> wf_field f"
    using assms(1) wf_field_TagChanged by (fastforce simp: wf_record_def)
  have idx: "\<exists>h. slot_peek ?fs (unat j) = Inr (Some h) \<and> GetName h = name"
    if "map_find (rc_name2idx r) name = Some j" for name j
    using wf_recordD(3) [OF assms(1) that] by (auto simp: slot_peek_eq_Inr)
  show ?thesis using assms(1) all idx unfolding r' by (simp add: wf_record_def valid_idx_def)
qed

definition same_frame :: "Record \<Rightarrow> Record \<Rightarrow> bool" where
  "same_frame r r' \<longleftrightarrow> rc_fieldNum r' = rc_fieldNum r \<and> rc_tableName r' = rc_tableName r \<and>
     rc_mode r' = rc_mode r \<and> rc_name2idx r' = rc_name2idx r \<and>
     rc_keyIdx r' = rc_keyIdx r \<and> rc_autoIncIdx r' = rc_autoIncIdx r"

lemma update_field_frame: "update_field r i op = Inr r' \<Longrightarrow> same_frame r r'"
  by (auto simp: update_field_eq_Inr same_frame_def)

lemma ClsEditFlag_frame: "ClsEditFlag r = Inr r' \<Longrightarrow> same_frame r r'"
  by (auto simp: ClsEditFlag_def res_simps same_frame_def)

lemma Record_Set_wf:
  assumes "wf_record r"
  shows "Record_SetInt r i v = Inr r' \<Longrightarrow> wf_record r' \<and> same_frame r r'"
    and "Record_SetDouble r i x = Inr r' \<Longrightarrow> wf_record r' \<and> same_frame r r'"
    and "Record_SetStr r i mem = Inr r' \<Longrightarrow> wf_record r' \<and> same_frame r r'"
    and "Record_SetBlob r i mem len = Inr r' \<Longrightarrow> wf_record r' \<and> same_frame r r'"
proof -
  have *: "update_field r i op = Inr r' \<Longrightarrow> wf_record r' \<and> same_frame r r'"
    if "\<And>f g. op f = Inr g \<Longrightarrow> wf_field f \<Longrightarrow> wf_field g \<and> bf_info g = bf_info f" for op
    using update_field_wf [OF assms _ that] update_field_frame by blast
  show "Record_SetInt r i v = Inr r' \<Longrightarrow> wf_record r' \<and> same_frame r r'"
    unfolding Record_SetInt_def by (rule * [OF field_set_wf(1)])
  show "Record_SetDouble r i x = Inr r' \<Longrightarrow> wf_record r' \<and> same_frame r r'"
    unfolding Record_SetDouble_def by (rule * [OF field_set_wf(2)])
  show "Record_SetStr r i mem = Inr r' \<Longrightarrow> wf_record r' \<and> same_frame r r'"
    unfolding Record_SetStr_def by (rule * [OF field_set_wf(3)])
  show "Record_SetBlob r i mem len = Inr r' \<Longrightarrow> wf_record r' \<and> same_frame r r'"
    unfolding Record_SetBlob_def by (rule * [OF field_set_wf(4)])
qed


text \<open>Setting an integer column by name sets the column the name index gives, marks it changed, is read back by the same name with the width of the column, and leaves every other column alone.\<close>

theorem set_int_by_name:
  assumes "wf_record r" "GetFieldIdx r name = Inr i" "GetField r i = Inr (Some f)" "int_kind (bf_val f)"
  shows "\<exists>r' x. Record_SetInt_name r name v = Inr r' \<and> Record_GetInt_name r' name = Inr x \<and>
     sint x = kind_wrap (bf_val f) (sint v) \<and> Record_IsChanged r' i = Inr True \<and>
     (\<forall>j. j \<noteq> i \<longrightarrow> GetField r' j = GetField r j)"
proof -
  obtain f' x where f': "SetInt f v = Inr f'" "GetInt f' = Inr x" "sint x = kind_wrap (bf_val f) (sint v)" "IsChanged f'"
    using cast_int_val_int [OF assms(4), of v] by (auto simp: SetInt_def field_defs)
  let ?r = "r\<lparr>rc_fields := (rc_fields r)[unat i := Some f']\<rparr>"
  have f: "field_at r i = Inr f" "unat i < length (rc_fields r)"
    using assms(3) by (auto simp: GetField_def slot_peek_eq_Inr field_at_eq_Inr)
  then have "Record_SetInt_name r name v = Inr ?r"
    using assms(2) f'(1) by (simp add: Record_SetInt_name_def Record_SetInt_def update_field_eq_Inr)
  moreover have "field_at ?r i = Inr f'" using f(2) by (simp add: field_at_eq_Inr)
  moreover have "GetFieldIdx ?r name = Inr i" using assms(2) by (simp add: GetFieldIdx_def)
  moreover have "\<forall>j. j \<noteq> i \<longrightarrow> GetField ?r j = GetField r j"
    by (simp add: GetField_def slot_peek_def vec_at_def word_unat_eq_iff)
  ultimately show ?thesis
    using f' by (simp add: Record_GetInt_name_def Record_GetInt_def Record_IsChanged_def)
qed

text \<open>\<open>ClsEditFlag\<close> succeeds on a complete record and clears the change flag of every column, keeping the values.\<close>

theorem ClsEditFlag_clears_all:
  assumes "wf_record r"
  shows "\<exists>r'. ClsEditFlag r = Inr r' \<and> (\<forall>i. unat i < unat (GetFieldNum r) \<longrightarrow>
     Record_IsChanged r' i = Inr False \<and> (\<exists>f. GetField r i = Inr (Some f) \<and> GetField r' i = Inr (Some (TagChanged False f))))"
proof -
  let ?r = "r\<lparr>rc_fields := map (map_option (TagChanged False)) (rc_fields r)\<rparr>"
  have "Record_IsChanged ?r i = Inr False \<and>
      (\<exists>f. GetField r i = Inr (Some f) \<and> GetField ?r i = Inr (Some (TagChanged False f)))"
    if "unat i < unat (GetFieldNum r)" for i
  proof -
    have i: "unat i < length (rc_fields r)" using that wf_recordD(1) [OF assms] by (simp add: GetFieldNum_def)
    then obtain f where f: "rc_fields r ! unat i = Some f" using wf_recordD(2) [OF assms] by blast
    then have "field_at ?r i = Inr (TagChanged False f)" using i by (simp add: field_at_eq_Inr)
    then show ?thesis
      using i f by (simp add: Record_IsChanged_def GetField_def slot_peek_eq_Inr IsChanged_def TagChanged_def)
  qed
  then show ?thesis by (intro exI [of _ ?r]) (simp add: ClsEditFlag_eq [OF assms])
qed

text \<open>A row written to a slot of a set is returned by \<open>GetRecord\<close>, \<open>operator[]\<close> and once by \<open>PopRecord\<close>; afterwards the slot holds a null pointer, so \<open>operator[]\<close> dereferences null, while the size and the other rows are unchanged.\<close>

theorem recordset_write_pop:
  assumes "unat i < length (rs_records s)"
  shows "\<exists>s1 s2. WriteRecord s i r = Inr s1 \<and> GetRecord s1 i = Inr (Some r) \<and> Recordset_index s1 i = Inr r \<and>
     PopRecord s1 i = Inr (Some r, s2) \<and> GetRecord s2 i = Inr None \<and> Recordset_index s2 i = Inl NullDeref \<and>
     GetSize s2 = GetSize s \<and> (\<forall>j. j \<noteq> i \<longrightarrow> GetRecord s2 j = GetRecord s j)"
  using assms
  by (simp add: WriteRecord_def PopRecord_def GetRecord_def Recordset_index_def GetSize_def
      slot_store_def slot_peek_def vec_at_def word_unat_eq_iff)

subsection \<open>A sample record\<close>

definition sample_record :: Record where
  "sample_record =
     \<lparr>rc_mode = MODE_EDIT, rc_fieldNum = 2, rc_tableName = ''t'',
      rc_fields = [Some (sample_field FIELD_TYPE_TINY 0 (VInt8 0)), Some (sample_field FIELD_TYPE_VAR_STRING 0 (VString []))],
      rc_name2idx = [(''c'', 0)], rc_keyIdx = 0, rc_autoIncIdx = - 1\<rparr>"

lemma sample_record_wf [simp]: "wf_record sample_record"
  by (auto simp: wf_record_def sample_record_def valid_idx_def slot_peek_def vec_at_def
      sample_field_def sample_info_def new_field_def GetName_def wf_field_def CreateField_def)


theorem set_int_by_name_witness:
  "\<exists>r' x. Record_SetInt_name sample_record ''c'' 200 = Inr r' \<and> Record_GetInt_name r' ''c'' = Inr x \<and> sint x = - 56"
proof -
  have h: "GetFieldIdx sample_record ''c'' = Inr 0"
    "GetField sample_record 0 = Inr (Some (sample_field FIELD_TYPE_TINY 0 (VInt8 0)))"
    "int_kind (bf_val (sample_field FIELD_TYPE_TINY 0 (VInt8 0)))"
    by (simp_all add: sample_record_def GetFieldIdx_def GetField_def slot_peek_eq_Inr)
  from set_int_by_name [OF sample_record_wf h, of 200] show ?thesis by auto
qed

theorem ClsEditFlag_clears_all_witness:
  "\<exists>r'. ClsEditFlag sample_record = Inr r' \<and> Record_IsChanged r' 1 = Inr False"
  using ClsEditFlag_clears_all [OF sample_record_wf] by (force simp: GetFieldNum_def sample_record_def)

theorem recordset_write_pop_witness:
  "\<exists>s1 s2. WriteRecord (new_Recordset 2) 1 sample_record = Inr s1 \<and>
     PopRecord s1 1 = Inr (Some sample_record, s2) \<and> Recordset_index s2 1 = Inl NullDeref"
proof -
  have "unat (1::uint32) < length (rs_records (new_Recordset 2))" by (simp add: new_Recordset_def)
  from recordset_write_pop [OF this, of sample_record] show ?thesis by blast
qed

end
