(* ===== verification/Db_FieldCache.thy ===== *)
theory Db_FieldCache
  imports Db_Record
begin

text \<open>
  The column descriptions a database keeps (\<open>MysqlDB::QueryDBFieldInfo\<close> in \<open>Database.cpp\<close>, with the
  member \<open>_fieldInfos\<close> of \<open>Database.h\<close>). The map is a client of the container interface of
  \<open>Std_Map\<close>. Entries are shared by all connections and never replaced; the lock makes each call
  atomic, so a call is one function on the map.
\<close>

type_synonym field_cache = "(bytes, DBFieldInfo) std_map"

definition field_key :: "bytes \<Rightarrow> bytes \<Rightarrow> bytes" where
  "field_key table name = map tolower (snprintf 1023 (cstr table @ ''.'' @ cstr name))"

definition field_info_of :: "MYSQL_FIELD \<Rightarrow> bytes \<Rightarrow> DBFieldInfo" where
  "field_info_of field name =
     \<lparr>fi_name = cstr name, fi_type = type_code (mf_type field), fi_attr = mf_flags field,
      fi_len = ucast (mf_length field)\<rparr>"

definition QueryDBFieldInfo :: "field_cache \<Rightarrow> MYSQL_FIELD \<Rightarrow> DBFieldInfo option \<times> field_cache" where
  "QueryDBFieldInfo m field =
     (case (org_name field, org_table field) of
        (Some name, Some table) \<Rightarrow>
          (let findKey = field_key table name in
           case map_find m findKey of
             Some info \<Rightarrow> (Some info, m)
           | None \<Rightarrow> (let info = field_info_of field name in (Some info, map_insert m findKey info)))
      | _ \<Rightarrow> (None, m))"

subsection \<open>Lemmas and properties\<close>

text \<open>\<open>m'\<close> has every entry of \<open>m\<close>, unchanged.\<close>

definition cache_extends :: "field_cache \<Rightarrow> field_cache \<Rightarrow> bool" where
  "cache_extends m m' \<longleftrightarrow> map_ok m' \<and> (\<forall>k info. map_find m k = Some info \<longrightarrow> map_find m' k = Some info)"

lemma cache_extends_refl: "map_ok m \<Longrightarrow> cache_extends m m"
  by (simp add: cache_extends_def)

lemma cache_extends_trans: "cache_extends m1 m2 \<Longrightarrow> cache_extends m2 m3 \<Longrightarrow> cache_extends m1 m3"
  by (simp add: cache_extends_def)

lemma map_insert_find:
  "map_ok m \<Longrightarrow> map_find (map_insert m k v) l =
    (if l = k then (case map_find m k of None \<Rightarrow> Some v | Some w \<Rightarrow> Some w) else map_find m l)"
  by (auto simp: map_insert_def smap.find_put split: option.split)

lemma map_insert_ok: "map_ok m \<Longrightarrow> map_ok (map_insert m k v)"
  by (simp add: map_insert_def smap.ok_put split: option.split)

lemma QueryDBFieldInfo_simps:
  assumes "org_name field = Some name" "org_table field = Some table"
  shows "map_find m (field_key table name) = Some info \<Longrightarrow> QueryDBFieldInfo m field = (Some info, m)"
    and "map_find m (field_key table name) = None \<Longrightarrow>
      QueryDBFieldInfo m field = (Some (field_info_of field name), map_insert m (field_key table name) (field_info_of field name))"
  using assms by (simp_all add: QueryDBFieldInfo_def Let_def)

lemma QueryDBFieldInfo_extends:
  assumes "map_ok m" "QueryDBFieldInfo m field = (r, m')"
  shows "cache_extends m m'"
proof (cases "org_name field")
  case (Some name)
  show ?thesis
  proof (cases "org_table field")
    case (Some table)
    note n = QueryDBFieldInfo_simps [OF \<open>org_name field = Some name\<close> Some]
    show ?thesis
      using assms n [of m] cache_extends_refl [OF assms(1)]
      by (cases "map_find m (field_key table name)")
        (auto simp: cache_extends_def map_insert_ok map_insert_find)
  qed (use assms Some cache_extends_refl in \<open>auto simp: QueryDBFieldInfo_def\<close>)
qed (use assms cache_extends_refl in \<open>auto simp: QueryDBFieldInfo_def\<close>)

lemma QueryDBFieldInfo_fresh:
  assumes "org_name field = Some name" "org_table field = Some table" "map_ok m"
    and "map_find m (field_key table name) = None"
  shows "fst (QueryDBFieldInfo m field) = Some (field_info_of field name)"
  using QueryDBFieldInfo_simps(2) [OF assms(1,2,4)] by simp

lemma QueryDBFieldInfo_stored:
  assumes "map_ok m" "QueryDBFieldInfo m field = (Some info, m')"
  shows "\<exists>name table. org_name field = Some name \<and> org_table field = Some table \<and>
    map_find m' (field_key table name) = Some info"
proof -
  obtain name table where n: "org_name field = Some name" "org_table field = Some table"
    using assms(2) by (auto simp: QueryDBFieldInfo_def split: option.splits)
  show ?thesis
    using assms n QueryDBFieldInfo_simps [OF n, of m]
    by (cases "map_find m (field_key table name)") (auto simp: map_insert_find)
qed

text \<open>The column cache gives one description per key for its whole life: whatever other columns are looked up in between, a later lookup of any column whose table and name have the same lower-case key returns the description of the first one.\<close>

theorem field_info_is_the_first_ones:
  assumes "map_ok m" "QueryDBFieldInfo m f = (Some info, m1)" "cache_extends m1 m2"
    and "org_name f = Some n" "org_table f = Some t" "org_name g = Some n'" "org_table g = Some t'"
    and "field_key t' n' = field_key t n"
  shows "QueryDBFieldInfo m2 g = (Some info, m2)"
proof -
  have "map_find m1 (field_key t n) = Some info"
    using QueryDBFieldInfo_stored [OF assms(1,2)] assms(4,5) by auto
  then have "map_find m2 (field_key t' n') = Some info"
    using assms(3,8) by (simp add: cache_extends_def)
  then show ?thesis by (rule QueryDBFieldInfo_simps(1) [OF assms(6,7)])
qed

text \<open>All computed columns, which have neither a table nor a column name, share one cache entry: the description of the first computed column, its type and length included, is used for every later one.\<close>

theorem computed_columns_share_one_description:
  assumes "map_ok m" "org_name f = Some []" "org_table f = Some []" "org_name g = Some []" "org_table g = Some []"
    and "map_find m ''.'' = None"
  shows "\<exists>m1. QueryDBFieldInfo m f = (Some (field_info_of f []), m1) \<and>
    QueryDBFieldInfo m1 g = (Some (field_info_of f []), m1)"
proof -
  have k: "field_key [] [] = ''.''" by (simp add: field_key_def cstr_def snprintf_def tolower_def Let_def)
  obtain m1 where m1: "QueryDBFieldInfo m f = (Some (field_info_of f []), m1)"
    using QueryDBFieldInfo_simps(2) [OF assms(2,3)] assms(6) k by simp
  have "map_ok m1" using QueryDBFieldInfo_extends [OF assms(1) m1] by (simp add: cache_extends_def)
  then have "QueryDBFieldInfo m1 g = (Some (field_info_of f []), m1)"
    using QueryDBFieldInfo_stored [OF assms(1) m1] assms(2-5) QueryDBFieldInfo_simps(1) [OF assms(4,5)] by auto
  with m1 show ?thesis by blast
qed

lemma append_separator_eq:
  "c \<notin> set s \<Longrightarrow> c \<notin> set s' \<Longrightarrow> (s @ c # t = s' @ c # t') = (s = s' \<and> t = t')"
proof (induction s arbitrary: s')
  case Nil
  then show ?case by (cases s') auto
next
  case (Cons a s)
  then show ?case by (cases s') auto
qed

lemma tolower_dot: "tolower c = CHR ''.'' \<longleftrightarrow> c = CHR ''.''"
proof
  assume "tolower c = CHR ''.''"
  show "c = CHR ''.''"
  proof (cases "65 \<le> (of_char c :: nat) \<and> (of_char c :: nat) \<le> 90")
    case True
    then have "of_char (tolower c) = (of_char c + 32 :: nat)"
      by (simp add: tolower_def Let_def)
    with \<open>tolower c = CHR ''.''\<close> True show ?thesis by simp
  next
    case False
    with \<open>tolower c = CHR ''.''\<close> show ?thesis by (auto simp: tolower_def Let_def split: if_splits)
  qed
qed (simp add: tolower_def Let_def)

lemma field_key_short:
  assumes "no_nul t" "no_nul n" "length t + length n \<le> 1021"
  shows "field_key t n = map tolower t @ CHR ''.'' # map tolower n"
  using assms by (simp add: field_key_def tolower_dot)

text \<open>Names without a dot in the table name, within MySQL's length limits, collide only when they are equal up to case: two columns with the same cache key have the same table and column name up to ASCII case.\<close>

theorem field_key_injective:
  assumes "no_nul t" "no_nul n" "no_nul t'" "no_nul n'" "CHR ''.'' \<notin> set t" "CHR ''.'' \<notin> set t'"
    and "length t + length n \<le> 1021" "length t' + length n' \<le> 1021" "field_key t n = field_key t' n'"
  shows "map tolower t = map tolower t' \<and> map tolower n = map tolower n'"
proof -
  have dots: "CHR ''.'' \<notin> set (map tolower t)" "CHR ''.'' \<notin> set (map tolower t')"
    using assms(5,6) by (auto simp: tolower_dot [symmetric] image_iff) (metis tolower_dot)+
  have "map tolower t @ CHR ''.'' # map tolower n = map tolower t' @ CHR ''.'' # map tolower n'"
    using assms(9) by (simp only: field_key_short [OF assms(1,2,7)] field_key_short [OF assms(3,4,8)])
  then show ?thesis using dots by (simp only: append_separator_eq simp_thms)
qed

subsection \<open>Sample columns\<close>

definition sample_column_info :: "bytes \<Rightarrow> bytes \<Rightarrow> enum_field_types \<Rightarrow> uint64 \<Rightarrow> MYSQL_FIELD" where
  "sample_column_info table name t len =
     \<lparr>org_name = Some name, org_table = Some table, mf_def = None, mf_length = len, mf_max_length = 5,
      mf_flags = 0, mf_type = t\<rparr>"

lemma sample_keys: "field_key ''t'' ''a'' = field_key ''T'' ''A''"
  by code_simp

theorem field_info_is_the_first_ones_witness:
  "\<exists>info m1. QueryDBFieldInfo [] (sample_column_info ''T'' ''A'' MYSQL_TYPE_TINY 4) = (Some info, m1) \<and>
     QueryDBFieldInfo m1 (sample_column_info ''t'' ''a'' MYSQL_TYPE_BLOB 65535) = (Some info, m1)"
proof -
  let ?f = "sample_column_info ''T'' ''A'' MYSQL_TYPE_TINY 4"
  let ?g = "sample_column_info ''t'' ''a'' MYSQL_TYPE_BLOB 65535"
  obtain info m1 where q: "QueryDBFieldInfo [] ?f = (Some info, m1)"
    by (simp add: QueryDBFieldInfo_def sample_column_info_def Let_def)
  have ext: "cache_extends m1 m1" using QueryDBFieldInfo_extends [OF _ q] by (simp add: cache_extends_def)
  have "QueryDBFieldInfo m1 ?g = (Some info, m1)"
    by (rule field_info_is_the_first_ones [OF _ q ext, where n = "''A''" and t = "''T''" and n' = "''a''" and t' = "''t''"])
      (simp_all add: sample_column_info_def sample_keys)
  with q show ?thesis by blast
qed

theorem computed_columns_share_one_description_witness:
  "\<exists>m1. QueryDBFieldInfo [] (sample_column_info [] [] MYSQL_TYPE_LONGLONG 21) =
       (Some (field_info_of (sample_column_info [] [] MYSQL_TYPE_LONGLONG 21) []), m1) \<and>
     QueryDBFieldInfo m1 (sample_column_info [] [] MYSQL_TYPE_VAR_STRING 80) =
       (Some (field_info_of (sample_column_info [] [] MYSQL_TYPE_LONGLONG 21) []), m1)"
  by (rule computed_columns_share_one_description) (simp_all add: sample_column_info_def)

theorem field_key_injective_witness:
  "field_key ''t'' ''a'' \<noteq> field_key ''t'' ''b''"
proof (rule notI)
  assume eq: "field_key ''t'' ''a'' = field_key ''t'' ''b''"
  have "map tolower ''t'' = map tolower ''t'' \<and> map tolower ''a'' = map tolower ''b''"
    by (rule field_key_injective [OF _ _ _ _ _ _ _ _ eq]) simp_all
  then show False by (simp add: tolower_def Let_def)
qed

end
