(* ===== verification/Db_SqlUtil.thy ===== *)
theory Db_SqlUtil
  imports Db_Record
begin

text \<open>
  The statement builder \<open>SqlUtil\<close> (\<open>SqlUtil.cpp\<close>): the where clause from the key column, the
  assignment of one changed column, the list of assignments, and the update, delete and insert
  statements. Buffers are modelled by their size: \<open>snprintf\<close> cuts the text to fit, and a write past
  the end of a heap buffer is a fault. The client library's escape functions are the parameters
  \<open>esc\<close> (\<open>mysql_escape_string\<close>) and \<open>real_esc\<close> (\<open>mysql_real_escape_string\<close> on the open connection):
  they take the bytes to escape and return the bytes they write before the final NUL.
\<close>

definition DefaultNum2StrLen :: sint32 where
  "DefaultNum2StrLen = 20"

definition IS_FIELD_NUM :: "uint32 \<Rightarrow> bool" where
  "IS_FIELD_NUM x \<longleftrightarrow>
     x = FIELD_TYPE_TINY \<or> x = FIELD_TYPE_YEAR \<or> x = FIELD_TYPE_SHORT \<or> x = FIELD_TYPE_INT24 \<or>
     x = FIELD_TYPE_LONG \<or> x = FIELD_TYPE_LONGLONG \<or> x = FIELD_TYPE_FLOAT \<or> x = FIELD_TYPE_DOUBLE"

text \<open>The text \<open>`name`=\<close> that starts a condition and an assignment.\<close>

definition name_eq :: "bytes \<Rightarrow> bytes" where
  "name_eq name = ''`'' @ name @ ''`=''"

definition quoted :: "bytes \<Rightarrow> bytes" where
  "quoted s = [CHR 0x27] @ s @ [CHR 0x27]"

subsection \<open>The key column\<close>

text \<open>The auto-increment column if there is one, else the primary key.\<close>

definition key_index :: "Record \<Rightarrow> sint32" where
  "key_index r = (if sint (GetAutoIncIdx r) < 0 then GetKeyIdx r else GetAutoIncIdx r)"

text \<open>
  The guard \<open>keyIdx < 0 && keyIdx >= record->GetFieldNum()\<close>: the second comparison converts the
  index to unsigned, as \<open>\<le>\<close> on words does.
\<close>

definition no_key :: "Record \<Rightarrow> bool" where
  "no_key r \<longleftrightarrow> sint (key_index r) < 0 \<and> GetFieldNum r \<le> key_index r"

text \<open>\<open>BuildCondition\<close>: \<open>None\<close> when the code returns false.\<close>

definition BuildCondition :: "Record \<Rightarrow> bytes option res" where
  "BuildCondition r =
     (if no_key r then Inr None
      else
        let keyIdx = key_index r in
        rbind (GetField r keyIdx) (\<lambda>p. rbind (deref p) (\<lambda>keyField.
          let keyName = GetName keyField; keyType = GetType keyField in
          if IS_FIELD_NUM keyType then
            rbind (Record_GetInt r keyIdx) (\<lambda>v.
              Inr (Some (snprintf 1023 (name_eq keyName @ print_signed v))))
          else
            rbind (Record_GetStr r keyIdx) (\<lambda>keyVal.
              Inr (Some (snprintf 1023 (name_eq keyName @ quoted (cstr keyVal))))))))"

subsection \<open>One assignment\<close>

text \<open>
  \<open>BuildFormatSql\<close> on a zeroed buffer of \<open>formatSize\<close> bytes; the result is the C string left there.
  The temporary buffer of the string branch has room for twice the value and no more, although the
  escape function also writes a NUL; it is never deleted. The blob branch writes past
  \<open>snprintf\<close>'s text without a bound.
\<close>

definition BuildFormatSql :: "(bytes \<Rightarrow> bytes) \<Rightarrow> (bytes \<Rightarrow> bytes) \<Rightarrow> BaseField \<Rightarrow> nat \<Rightarrow> bytes res" where
  "BuildFormatSql esc real_esc field formatSize =
     (let t = GetType field; name = GetName field; unsigned = GetAttr field AND UNSIGNED_FLAG \<noteq> 0 in
      if t = FIELD_TYPE_STRING \<or> t = FIELD_TYPE_VAR_STRING \<or> t = FIELD_TYPE_DATE \<or> t = FIELD_TYPE_DATETIME then
        rbind (GetStr field) (\<lambda>s.
          if s = [] then Inr (snprintf formatSize (name_eq name @ quoted []))
          else if length s * 2 < length (esc s) + 1 then Inl BufferOverflow
          else Inr (snprintf formatSize (name_eq name @ quoted (cstr (esc s)))))
      else if t = FIELD_TYPE_DOUBLE \<or> t = FIELD_TYPE_FLOAT then
        rbind (GetDouble field) (\<lambda>x. Inr (snprintf formatSize (name_eq name @ print_f x)))
      else if t = FIELD_TYPE_TINY \<or> t = FIELD_TYPE_SHORT then
        rbind (GetInt field) (\<lambda>v.
          Inr (snprintf formatSize (name_eq name @
            (if unsigned then print_unsigned v else print_signed (ucast v :: sint32)))))
      else if t = FIELD_TYPE_LONG then
        rbind (GetInt field) (\<lambda>v.
          Inr (snprintf formatSize (name_eq name @
            (if unsigned then print_unsigned v else print_signed v))))
      else if t = FIELD_TYPE_LONGLONG then
        rbind (GetInt field) (\<lambda>v.
          Inr (snprintf formatSize (name_eq name @
            (if unsigned then print_unsigned v else print_signed v))))
      else if t = FIELD_TYPE_TINY_BLOB \<or> t = FIELD_TYPE_BLOB \<or> t = FIELD_TYPE_MEDIUM_BLOB \<or>
              t = FIELD_TYPE_LONG_BLOB then
        rbind (GetStr field) (\<lambda>s.
          let w = snprintf formatSize (name_eq name @ [CHR 0x27]) @ real_esc s in
          if formatSize < length w + 2 then Inl BufferOverflow
          else Inr (cstr (w @ [CHR 0x27])))
      else Inl AssertFail)"

subsection \<open>The list of assignments\<close>

text \<open>
  The first loop of \<open>BuildOperation\<close>: the changed columns in order, and the length the buffer is
  sized from. The comparison \<open>field->GetLen() > maxFeildStrLen\<close> is unsigned, and doubling wraps.
\<close>

definition next_len :: "sint32 \<Rightarrow> BaseField \<Rightarrow> sint32" where
  "next_len mx f =
     (if IS_FIELD_NUM (GetType f) \<and> mx = 0 then DefaultNum2StrLen
      else if mx < GetLen f then GetLen f * 2
      else mx)"

fun scan_changed :: "Record \<Rightarrow> nat list \<Rightarrow> sint32 \<Rightarrow> BaseField list \<Rightarrow> (sint32 \<times> BaseField list) res" where
  "scan_changed r [] mx fs = Inr (mx, fs)"
| "scan_changed r (i # is) mx fs =
     rbind (GetField r (word_of_nat i)) (\<lambda>p. rbind (deref p) (\<lambda>f.
       if \<not> IsChanged f then scan_changed r is mx fs
       else scan_changed r is (next_len mx f) (fs @ [f])))"

text \<open>
  \<open>maxFeildStrLen += 128\<close> and \<open>std::vector<char> __buf(maxFeildStrLen)\<close> with \<open>&__buf[0]\<close>: a negative
  length is a \<open>std::length_error\<close>, an empty vector has no element 0.
\<close>

definition buffer_size :: "sint32 \<Rightarrow> nat res" where
  "buffer_size mx =
     (let n = sint mx + 128 in
      if 2 ^ 31 \<le> n then Inl ArithUndefined
      else if n < 0 then Inl LengthError
      else if n = 0 then Inl IndexOutOfRange
      else Inr (nat n))"

text \<open>The second loop: the assignments streamed one after the other with commas.\<close>

fun stream_fields :: "(bytes \<Rightarrow> bytes) \<Rightarrow> (bytes \<Rightarrow> bytes) \<Rightarrow> nat \<Rightarrow> bool \<Rightarrow> BaseField list \<Rightarrow> bytes res" where
  "stream_fields esc real_esc n first [] = Inr []"
| "stream_fields esc real_esc n first (f # fs) =
     rbind (BuildFormatSql esc real_esc f n) (\<lambda>s.
       rbind (stream_fields esc real_esc n False fs) (\<lambda>rest.
         Inr ((if first then s else '','' @ s) @ rest)))"

definition BuildOperation :: "(bytes \<Rightarrow> bytes) \<Rightarrow> (bytes \<Rightarrow> bytes) \<Rightarrow> Record \<Rightarrow> bytes option res" where
  "BuildOperation esc real_esc r =
     (if no_key r then Inr None
      else
        rbind (scan_changed r [0..<unat (GetFieldNum r)] 0 []) (\<lambda>(mx, fs).
          if fs = [] then Inr (Some [])
          else rbind (buffer_size mx) (\<lambda>n.
            rbind (stream_fields esc real_esc n True fs) (\<lambda>s. Inr (Some s)))))"

subsection \<open>Statements\<close>

text \<open>The result is the return value with the \<open>sql\<close> argument afterwards.\<close>

definition BuildUpdateSql :: "(bytes \<Rightarrow> bytes) \<Rightarrow> (bytes \<Rightarrow> bytes) \<Rightarrow> Record \<Rightarrow> bytes \<Rightarrow> (bool \<times> bytes) res" where
  "BuildUpdateSql esc real_esc r sql =
     rbind (BuildCondition r) (\<lambda>c.
       case c of
         None \<Rightarrow> Inr (False, sql)
       | Some cond \<Rightarrow>
           rbind (BuildOperation esc real_esc r) (\<lambda>o'.
             case o' of
               None \<Rightarrow> Inr (False, sql)
             | Some op \<Rightarrow>
                 if op = [] then Inr (True, sql)
                 else
                   let tableNam = GetTableName r;
                       buffSize = length cond + length op + length tableNam + 128
                   in Inr (True, snprintf buffSize
                        (''update `'' @ cstr tableNam @ ''` set '' @ cstr op @ '' where '' @ cstr cond @ '' limit 1''))))"

definition BuildDelSql :: "Record \<Rightarrow> bytes \<Rightarrow> (bool \<times> bytes) res" where
  "BuildDelSql r sql =
     rbind (BuildCondition r) (\<lambda>c.
       case c of
         None \<Rightarrow> Inr (False, sql)
       | Some cond \<Rightarrow>
           Inr (True, snprintf 1023
             (''delete from `'' @ cstr (GetTableName r) @ ''` where '' @ cstr cond @ '' limit 1'')))"

definition BuildInsertSql :: "(bytes \<Rightarrow> bytes) \<Rightarrow> (bytes \<Rightarrow> bytes) \<Rightarrow> Record \<Rightarrow> bytes \<Rightarrow> (bool \<times> bytes) res" where
  "BuildInsertSql esc real_esc r sql =
     rbind (BuildOperation esc real_esc r) (\<lambda>o'.
       case o' of
         None \<Rightarrow> Inr (False, sql)
       | Some op \<Rightarrow>
           if op = [] then Inr (False, sql)
           else
             let tableNam = GetTableName r;
                 buffSize = length op + length tableNam + 128
             in Inr (True, snprintf buffSize
                  (''insert into `'' @ cstr tableNam @ ''` set '' @ cstr op)))"

subsection \<open>What the builder should produce\<close>

text \<open>The number an integer field holds, and the text of an assignment without any buffer.\<close>

fun field_int :: "field_val \<Rightarrow> int" where
  "field_int (VUInt64 w) = uint w"
| "field_int (VUInt32 w) = uint w"
| "field_int (VUInt16 w) = uint w"
| "field_int (VUInt8 w) = uint w"
| "field_int (VInt64 w) = sint w"
| "field_int (VInt32 w) = sint w"
| "field_int (VInt16 w) = sint w"
| "field_int (VInt8 w) = sint w"
| "field_int _ = 0"

definition blob_type :: "uint32 \<Rightarrow> bool" where
  "blob_type t \<longleftrightarrow> t = FIELD_TYPE_TINY_BLOB \<or> t = FIELD_TYPE_BLOB \<or> t = FIELD_TYPE_MEDIUM_BLOB \<or> t = FIELD_TYPE_LONG_BLOB"

definition text_type :: "uint32 \<Rightarrow> bool" where
  "text_type t \<longleftrightarrow> t = FIELD_TYPE_STRING \<or> t = FIELD_TYPE_VAR_STRING \<or> t = FIELD_TYPE_DATE \<or> t = FIELD_TYPE_DATETIME"

definition literal :: "(bytes \<Rightarrow> bytes) \<Rightarrow> (bytes \<Rightarrow> bytes) \<Rightarrow> BaseField \<Rightarrow> bytes" where
  "literal esc real_esc f =
     (case bf_val f of
        VString s \<Rightarrow> quoted (if blob_type (GetType f) then real_esc s else esc s)
      | VDouble x \<Rightarrow> print_f x
      | v \<Rightarrow> int_digits (field_int v))"

definition assignment :: "(bytes \<Rightarrow> bytes) \<Rightarrow> (bytes \<Rightarrow> bytes) \<Rightarrow> BaseField \<Rightarrow> bytes" where
  "assignment esc real_esc f = name_eq (GetName f) @ literal esc real_esc f"

text \<open>
  What the client library documents of its escape functions: at most two bytes for one, and a NUL is
  written as a backslash and a zero digit.
\<close>

definition escape_law :: "(bytes \<Rightarrow> bytes) \<Rightarrow> bool" where
  "escape_law e \<longleftrightarrow> (\<forall>s. no_nul (e s) \<and> length (e s) \<le> 2 * length s)"

lemma escape_lawD: "escape_law e \<Longrightarrow> no_nul (e s)" "escape_law e \<Longrightarrow> length (e s) \<le> 2 * length s"
  by (simp_all add: escape_law_def)

lemma escape_law_empty: "escape_law e \<Longrightarrow> e [] = []"
  using escape_lawD(2) [of e "[]"] by simp

text \<open>A type the builder can write at all.\<close>

definition writable_type :: "uint32 \<Rightarrow> bool" where
  "writable_type t \<longleftrightarrow> t \<noteq> FIELD_TYPE_TIMESTAMP \<and> t \<noteq> FIELD_TYPE_NEWDECIMAL"

definition escapes_fit :: "(bytes \<Rightarrow> bytes) \<Rightarrow> BaseField \<Rightarrow> bool" where
  "escapes_fit esc f \<longleftrightarrow>
     (case bf_val f of VString s \<Rightarrow> text_type (GetType f) \<longrightarrow> s = [] \<or> length (esc s) < 2 * length s | _ \<Rightarrow> True)"

lemma no_nul_GetName [simp]: "no_nul (GetName f)"
  by (simp add: GetName_def)

lemma int_digits_uint: "int_digits (uint w) = nat_digits (unat w)"
  by (simp add: int_digits_def not_less)

lemma unat_widen: "LENGTH('n::len) \<le> 64 \<Longrightarrow> unat (ucast (w :: 'n word) :: 64 word) = unat w"
  by (simp only: unat_eq_nat_uint uint_widen)

lemma sint_int32:
  assumes "LENGTH('n::len) \<le> 32"
  shows "sint (ucast (scast (w :: 'n word) :: 64 word) :: 32 word) = sint w"
proof -
  have "sint (ucast (scast w :: 64 word) :: 32 word) = signed_take_bit 31 (sint w)"
    using assms by (simp add: sint_narrow sint_widen)
  also have "\<dots> = signed_take_bit 31 (signed_take_bit (LENGTH('n) - 1) (uint w))"
    by (simp add: sint_uint)
  also have "\<dots> = signed_take_bit (LENGTH('n) - 1) (uint w)"
    using assms by (cases "LENGTH('n) = 32") (simp_all add: min_def)
  also have "\<dots> = sint w"
    by (simp add: sint_uint)
  finally show ?thesis .
qed

lemma BuildFormatSql_int:
  assumes "wf_field f" "int_kind (bf_val f)" "GetType f \<noteq> FIELD_TYPE_TIMESTAMP"
  shows "BuildFormatSql esc real_esc f n = Inr (snprintf n (assignment esc real_esc f))"
proof -
  note ev = BuildFormatSql_def assignment_def literal_def GetInt_def sint_int32
      print_unsigned_def print_signed_def int_digits_uint unat_widen sint_widen
  have ty: "GetType f = FIELD_TYPE_TINY \<or> GetType f = FIELD_TYPE_SHORT \<or> GetType f = FIELD_TYPE_LONG \<or> GetType f = FIELD_TYPE_LONGLONG"
    using wf_type(2) [OF assms(1,2)] wf_float [OF assms(1)] assms(2,3) by (auto simp: int_column_type_def int_kind_iff)
  show ?thesis
    using ty wf_kind_of [OF assms(1)] assms(2)
    by (elim disjE; cases "GetAttr f AND UNSIGNED_FLAG = 0"; cases "bf_val f"; simp add: ev)
qed

lemma BuildFormatSql_double:
  assumes "wf_field f" "bf_val f = VDouble x" "GetType f \<noteq> FIELD_TYPE_NEWDECIMAL"
  shows "BuildFormatSql esc real_esc f n = Inr (snprintf n (assignment esc real_esc f))"
  using wf_kind_of [OF assms(1)] assms(2,3)
  by (auto simp: BuildFormatSql_def assignment_def literal_def GetDouble_def Let_def split: if_splits)

lemma name_eq_no_nul [simp]: "no_nul (name_eq (GetName f))"
  by (simp add: name_eq_def)

lemma quoted_no_nul [simp]: "no_nul (quoted s) = no_nul s"
  by (simp add: quoted_def)

lemma wf_string_types:
  assumes "wf_field f" "bf_val f = VString s"
  shows "text_type (GetType f) \<noteq> blob_type (GetType f)"
proof -
  have "string_column_type (GetType f)" using wf_type(1) [OF assms(1)] assms(2) by simp
  then show ?thesis by (auto simp: string_column_type_def text_type_def blob_type_def)
qed

lemma text_branch:
  assumes "text_type (GetType f)"
  shows "BuildFormatSql esc real_esc f n = rbind (GetStr f) (\<lambda>s.
          if s = [] then Inr (snprintf n (name_eq (GetName f) @ quoted []))
          else if length s * 2 < length (esc s) + 1 then Inl BufferOverflow
          else Inr (snprintf n (name_eq (GetName f) @ quoted (cstr (esc s)))))"
  using assms unfolding BuildFormatSql_def text_type_def Let_def by (rule if_P)

lemma text_not_blob: "text_type t \<Longrightarrow> \<not> blob_type t"
  unfolding text_type_def blob_type_def by (elim disjE) simp_all

lemma blob_branch:
  assumes "blob_type (GetType f)"
  shows "BuildFormatSql esc real_esc f n = rbind (GetStr f) (\<lambda>s.
          let w = snprintf n (name_eq (GetName f) @ [CHR 0x27]) @ real_esc s in
          if n < length w + 2 then Inl BufferOverflow
          else Inr (cstr (w @ [CHR 0x27])))"
  using assms unfolding BuildFormatSql_def blob_type_def Let_def by (elim disjE) simp_all

lemma BuildFormatSql_text:
  assumes "bf_val f = VString s" "text_type (GetType f)" "escape_law esc"
    and "s = [] \<or> length (esc s) < 2 * length s"
  shows "BuildFormatSql esc real_esc f n = Inr (snprintf n (assignment esc real_esc f))"
  using assms text_not_blob [OF assms(2)]
  by (auto simp: text_branch assignment_def literal_def GetStr_def escape_lawD escape_law_empty quoted_def)

lemma BuildFormatSql_blob:
  assumes "bf_val f = VString s" "blob_type (GetType f)" "escape_law real_esc"
    and "length (assignment esc real_esc f) < n"
  shows "BuildFormatSql esc real_esc f n = Inr (assignment esc real_esc f)"
proof -
  have lit: "assignment esc real_esc f = name_eq (GetName f) @ quoted (real_esc s)"
    using assms(1,2) by (simp add: assignment_def literal_def)
  then have "snprintf n (name_eq (GetName f) @ [CHR 0x27]) = name_eq (GetName f) @ [CHR 0x27]"
    and room: "\<not> n < length (name_eq (GetName f) @ [CHR 0x27] @ real_esc s) + 2"
    using assms(4) by (simp_all add: quoted_def)
  moreover have "no_nul ((name_eq (GetName f) @ [CHR 0x27] @ real_esc s) @ [CHR 0x27])"
    using assms(3) by (simp add: escape_lawD)
  ultimately show ?thesis
    using assms(1) lit
    by (simp add: blob_branch [OF assms(2)] GetStr_def Let_def quoted_def)
qed

text \<open>One assignment is exact when it fits the buffer.\<close>

lemma BuildFormatSql_fits:
  assumes "wf_field f" "writable_type (GetType f)" "escape_law esc" "escape_law real_esc" "escapes_fit esc f"
    and "length (assignment esc real_esc f) < n"
  shows "BuildFormatSql esc real_esc f n = Inr (assignment esc real_esc f)"
proof (cases "bf_val f")
  case (VString s)
  show ?thesis
  proof (cases "blob_type (GetType f)")
    case True
    then show ?thesis using BuildFormatSql_blob [OF VString] assms by blast
  next
    case False
    then have "text_type (GetType f)" using wf_string_types [OF assms(1) VString] by blast
    then show ?thesis
      using BuildFormatSql_text [OF VString _ assms(3)] assms(5,6) VString by (simp add: escapes_fit_def)
  qed
next
  case (VDouble x)
  then show ?thesis using BuildFormatSql_double [OF assms(1)] assms(2,6) by (simp add: writable_type_def)
qed (use BuildFormatSql_int [OF assms(1)] assms(2,6) in \<open>simp_all add: writable_type_def\<close>)

subsection \<open>The list of assignments\<close>

definition changed_fields :: "Record \<Rightarrow> BaseField list" where
  "changed_fields r = filter IsChanged (map the (rc_fields r))"

fun join :: "bytes list \<Rightarrow> bytes" where
  "join [] = []"
| "join [s] = s"
| "join (s # t # ss) = s @ '','' @ join (t # ss)"

lemma stream_fields_tail:
  "(\<And>f. f \<in> set fs \<Longrightarrow> BuildFormatSql esc real_esc f n = Inr (g f)) \<Longrightarrow>
   stream_fields esc real_esc n False fs = Inr (concat (map (\<lambda>f. '','' @ g f) fs))"
  by (induction fs) simp_all

lemma join_concat: "join (s # ss) = s @ concat (map (\<lambda>t. '','' @ t) ss)"
  by (induction ss arbitrary: s) simp_all

lemma stream_fields_join:
  assumes "\<And>f. f \<in> set fs \<Longrightarrow> BuildFormatSql esc real_esc f n = Inr (g f)"
  shows "stream_fields esc real_esc n True fs = Inr (join (map g fs))"
proof (cases fs)
  case (Cons f fs')
  then show ?thesis
    using assms stream_fields_tail [of fs' esc real_esc n g] by (simp add: join_concat comp_def)
qed simp

lemma scan_changed_eq:
  assumes "wf_record r" "\<forall>i\<in>set is. i < unat (GetFieldNum r)"
  shows "scan_changed r is mx fs =
    (let ch = filter IsChanged (map (\<lambda>i. the (rc_fields r ! i)) is) in Inr (foldl next_len mx ch, fs @ ch))"
  using assms(2)
proof (induction "is" arbitrary: mx fs)
  case (Cons i "is")
  have i: "i < unat (rc_fieldNum r)" using Cons.prems by (simp add: GetFieldNum_def)
  then have "i < 2 ^ 32" using unsigned_less [of "rc_fieldNum r", where ?'a = nat] by simp
  then have u: "unat (word_of_nat i :: 32 word) = i" by (simp add: unat_of_nat)
  obtain f where "rc_fields r ! i = Some f" using wf_recordD(1,2) [OF assms(1)] i by metis
  then have "GetField r (word_of_nat i) = Inr (Some f)" "the (rc_fields r ! i) = f"
    using u i wf_recordD(1) [OF assms(1)] by (simp_all add: GetField_def slot_peek_eq_Inr)
  then show ?case using Cons by (simp add: Let_def)
qed simp

lemma scan_changed_all:
  assumes "wf_record r"
  shows "scan_changed r [0..<unat (GetFieldNum r)] mx [] =
    Inr (foldl next_len mx (changed_fields r), changed_fields r)"
proof -
  have "map (\<lambda>i. the (rc_fields r ! i)) [0..<unat (GetFieldNum r)] = map the (rc_fields r)"
    using wf_recordD(1) [OF assms] by (simp add: GetFieldNum_def list_eq_iff_nth_eq)
  then show ?thesis using assms by (simp add: scan_changed_eq changed_fields_def Let_def)
qed

lemma BuildOperation_eq:
  assumes "wf_record r"
  shows "BuildOperation esc real_esc r =
    (if no_key r then Inr None
     else if changed_fields r = [] then Inr (Some [])
     else rbind (buffer_size (foldl next_len 0 (changed_fields r)))
       (\<lambda>n. rbind (stream_fields esc real_esc n True (changed_fields r)) (\<lambda>s. Inr (Some s))))"
  by (simp add: BuildOperation_def scan_changed_all [OF assms])

lemma changed_fields_wf: "wf_record r \<Longrightarrow> f \<in> set (changed_fields r) \<Longrightarrow> wf_field f \<and> IsChanged f"
  by (force simp: changed_fields_def wf_record_def)

lemma BuildOperation_join:
  assumes "wf_record r" "\<not> no_key r" "changed_fields r \<noteq> []" "buffer_size (foldl next_len 0 (changed_fields r)) = Inr n"
    and "\<And>f. f \<in> set (changed_fields r) \<Longrightarrow> BuildFormatSql esc real_esc f n = Inr (g f)"
  shows "BuildOperation esc real_esc r = Inr (Some (join (map g (changed_fields r))))"
  using assms(1-4) stream_fields_join [where g = g, OF assms(5)] by (simp add: BuildOperation_eq)

text \<open>C7: When the record has a key and every changed column has a type the builder can write and an assignment shorter than the buffer, the assignments are exactly those of the changed columns, in column order, each complete, separated by commas, with string and blob values escaped.\<close>

theorem BuildOperation_spec:
  assumes "wf_record r" "\<not> no_key r" "escape_law esc" "escape_law real_esc"
    and "changed_fields r \<noteq> []" "buffer_size (foldl next_len 0 (changed_fields r)) = Inr n"
    and "\<forall>f\<in>set (changed_fields r). writable_type (GetType f) \<and> escapes_fit esc f \<and>
      length (assignment esc real_esc f) < n"
  shows "BuildOperation esc real_esc r = Inr (Some (join (map (assignment esc real_esc) (changed_fields r))))"
  using assms by (auto intro!: BuildOperation_join BuildFormatSql_fits dest: changed_fields_wf)

subsection \<open>Size of the assignment buffer\<close>

lemma next_len_grows:
  assumes "unat mx < 2 ^ 31 - 128" "unat (GetLen f) < 2 ^ 30 - 64"
  shows "unat mx \<le> unat (next_len mx f) \<and> unat (next_len mx f) < 2 ^ 31 - 128 \<and>
    (\<not> IS_FIELD_NUM (GetType f) \<longrightarrow> unat (GetLen f) \<le> unat (next_len mx f))"
proof -
  have "unat (GetLen f * 2) = unat (GetLen f) * 2"
    using assms(2) by (simp add: unat_word_ariths)
  then show ?thesis
    using assms by (auto simp: next_len_def DefaultNum2StrLen_def word_less_nat_alt)
qed

lemma foldl_next_len:
  assumes "unat mx < 2 ^ 31 - 128" "\<forall>f\<in>set fs. unat (GetLen f) < 2 ^ 30 - 64"
  shows "unat mx \<le> unat (foldl next_len mx fs) \<and> unat (foldl next_len mx fs) < 2 ^ 31 - 128 \<and>
    (\<forall>f\<in>set fs. \<not> IS_FIELD_NUM (GetType f) \<longrightarrow> unat (GetLen f) \<le> unat (foldl next_len mx fs))"
  using assms
proof (induction fs arbitrary: mx)
  case (Cons f fs)
  have n: "unat mx \<le> unat (next_len mx f)" "unat (next_len mx f) < 2 ^ 31 - 128"
    "\<not> IS_FIELD_NUM (GetType f) \<Longrightarrow> unat (GetLen f) \<le> unat (next_len mx f)"
    using next_len_grows [of mx f] Cons.prems by auto
  have "unat (next_len mx f) \<le> unat (foldl next_len (next_len mx f) fs) \<and>
      unat (foldl next_len (next_len mx f) fs) < 2 ^ 31 - 128 \<and>
      (\<forall>g\<in>set fs. \<not> IS_FIELD_NUM (GetType g) \<longrightarrow> unat (GetLen g) \<le> unat (foldl next_len (next_len mx f) fs))"
    using Cons.IH [OF n(2)] Cons.prems(2) by simp
  with n show ?case by (auto intro: order.trans)
qed simp

lemma sint_small_unat:
  assumes "unat (w :: 32 word) < 2 ^ 31"
  obtains k where "unat w = k" "sint w = int k" "k < 2 ^ 31"
proof -
  have u: "uint w = int (unat w)" by simp
  also have "int (unat w) < int (2 ^ 31)" using assms by (simp only: of_nat_less_iff)
  finally have "uint w < 2 ^ 31" by simp
  then have "sint w = uint w"
    by (simp add: sint_uint signed_take_bit_int_eq_self order.trans [OF _ uint_ge_0])
  then show thesis using that [of "unat w"] assms by simp
qed

lemma buffer_size_small:
  assumes "unat mx < 2 ^ 31 - 128"
  shows "buffer_size mx = Inr (unat mx + 128)"
proof -
  have "unat mx < 2 ^ 31" using assms by simp
  then obtain k where k: "unat mx = k" "sint mx = int k" by (rule sint_small_unat)
  then show ?thesis using assms by (simp only: buffer_size_def k) (simp add: Let_def nat_add_distrib)
qed

text \<open>Without wrap-around the assignment buffer holds at least 128 bytes more than the declared length of every changed column that is not numeric.\<close>

theorem buffer_covers_declared_lengths:
  assumes "\<forall>f\<in>set fs. unat (GetLen f) < 2 ^ 30 - 64"
  shows "\<exists>n. buffer_size (foldl next_len 0 fs) = Inr n \<and> 128 \<le> n \<and>
    (\<forall>f\<in>set fs. \<not> IS_FIELD_NUM (GetType f) \<longrightarrow> unat (GetLen f) + 128 \<le> n)"
  using foldl_next_len [of 0 fs] assms by (auto simp: buffer_size_small)

text \<open>A changed \<open>LONGBLOB\<close> or \<open>LONGTEXT\<close> column declares \<open>2^32 - 1\<close> bytes; doubling wraps, so the buffer has 126 bytes and any value whose escaped text with the name exceeds 120 bytes is written past its end.\<close>

theorem long_blob_buffer_wraps:
  assumes "wf_record r" "\<not> no_key r" "changed_fields r = [f]" "GetType f = FIELD_TYPE_LONG_BLOB"
    and "GetLen f = - 1" "bf_val f = VString s" "length (GetName f) \<le> 64"
    and "120 < length (GetName f) + length (real_esc s)"
  shows "BuildOperation esc real_esc r = Inl BufferOverflow"
proof -
  have "next_len 0 f = - 2" using assms(4,5) by (simp add: next_len_def IS_FIELD_NUM_def word_greater_zero_iff)
  then have "buffer_size (foldl next_len 0 (changed_fields r)) = Inr 126"
    using assms(3) by (simp add: buffer_size_def)
  moreover have "BuildFormatSql esc real_esc f 126 = Inl BufferOverflow"
    using assms(4,6,7,8) by (simp add: BuildFormatSql_def GetStr_def Let_def name_eq_def)
  ultimately show ?thesis using assms(1,2,3) by (simp add: BuildOperation_eq)
qed

text \<open>C22: The doubled length is kept from the first column that exceeds it, so a blob column no longer than twice the one before it, with a value that needs escaping, is written past the end of the buffer.\<close>

theorem second_blob_overflows:
  assumes "wf_record r" "\<not> no_key r" "changed_fields r = [f, g]"
    and "\<not> IS_FIELD_NUM (GetType f)" "BuildFormatSql esc real_esc f (2 * unat (GetLen f) + 128) = Inr t"
    and "blob_type (GetType g)" "bf_val g = VString s" "length (GetName g) \<le> 64"
    and "0 < GetLen f" "GetLen g \<le> GetLen f * 2" "unat (GetLen f) < 2 ^ 30 - 64"
    and "2 * unat (GetLen f) + 122 < length (GetName g) + length (real_esc s)"
  shows "BuildOperation esc real_esc r = Inl BufferOverflow"
proof -
  let ?n = "2 * unat (GetLen f) + 128"
  have dbl: "unat (GetLen f * 2) = 2 * unat (GetLen f)" using assms(11) by (simp add: unat_word_ariths)
  have num: "\<not> IS_FIELD_NUM (GetType g)" using assms(6) by (auto simp: blob_type_def IS_FIELD_NUM_def)
  have "foldl next_len 0 (changed_fields r) = GetLen f * 2"
    using assms(3,4,9,10) num by (simp add: next_len_def leD)
  then have "buffer_size (foldl next_len 0 (changed_fields r)) = Inr ?n"
    using dbl assms(11) by (simp add: buffer_size_small)
  moreover have "BuildFormatSql esc real_esc g ?n = Inl BufferOverflow"
    using assms(7,8,12) by (simp add: blob_branch [OF assms(6)] GetStr_def Let_def name_eq_def)
  ultimately show ?thesis using assms(1,2,3,5) by (simp add: BuildOperation_eq)
qed

text \<open>The temporary buffer of a string column overflows (by the terminating NUL) exactly when every byte of the value needs escaping.\<close>

theorem text_escape_buffer_overflows:
  assumes "bf_val f = VString s" "text_type (GetType f)" "escape_law esc" "s \<noteq> []"
  shows "(BuildFormatSql esc real_esc f n = Inl BufferOverflow) = (length (esc s) = 2 * length s)"
  using assms escape_lawD(2) [OF assms(3), of s]
  by (auto simp: BuildFormatSql_def GetStr_def Let_def text_type_def)

text \<open>A changed \<open>TIMESTAMP\<close> or \<open>DECIMAL\<close> column, which the factory accepts and the setters change, makes the statement builder fail its assertion.\<close>

theorem timestamp_and_decimal_cannot_be_written:
  assumes "GetType f = FIELD_TYPE_TIMESTAMP \<or> GetType f = FIELD_TYPE_NEWDECIMAL"
  shows "BuildFormatSql esc real_esc f n = Inl AssertFail"
  using assms by (auto simp: BuildFormatSql_def Let_def)

lemma ucast_scast_id: "LENGTH('n::len) \<le> 64 \<Longrightarrow> ucast (scast (w :: 'n word) :: 64 word) = w"
proof -
  assume "LENGTH('n) \<le> 64"
  then have "sint (ucast (scast w :: 64 word) :: 'n word) = sint w"
    by (simp add: sint_narrow sint_widen) (simp add: sint_uint)
  then show ?thesis by (auto intro: signed_word_eqI)
qed

lemma ucast_ucast_id: "LENGTH('n::len) \<le> 64 \<Longrightarrow> ucast (ucast (w :: 'n word) :: 64 word) = w"
  by (simp add: ucast_up_ucast_id is_up)

lemma cast_int_field_int:
  "int_kind v \<Longrightarrow> kind_of k = kind_of v \<Longrightarrow> cast_int k (word_of_int (field_int v)) = Inr v"
  by (cases v; cases k) (simp_all add: ucast_scast_id ucast_ucast_id)

lemma uint_below_64:
  assumes "LENGTH('n::len) \<le> 64"
  shows "uint (w :: 'n word) < 2 ^ 64"
proof -
  have "uint w < 2 ^ LENGTH('n)" by simp
  also have "(2::int) ^ LENGTH('n) \<le> 2 ^ 64" using assms by (intro power_increasing) simp_all
  finally show ?thesis .
qed

lemma sint_within_64:
  assumes "LENGTH('n::len) \<le> 64"
  shows "- (2 ^ 63) \<le> sint (w :: 'n word)" "sint w < 2 ^ 63" "sint w < 2 ^ 64"
  using sint64_range [of "scast w"] assms by (simp_all add: sint_widen)

lemma field_int_range: "- (2 ^ 63) \<le> field_int v" "field_int v < 2 ^ 64"
proof -
  show "- (2 ^ 63) \<le> field_int v"
    by (cases v; simp only: field_int.simps)
      (simp_all only: sint_within_64 len_num1 len_bit0, simp_all add: order.trans [OF _ uint_ge_0])
  show "field_int v < 2 ^ 64"
    by (cases v; simp only: field_int.simps)
      (simp_all only: uint_below_64 sint_within_64 len_num1 len_bit0, simp_all)
qed

lemma length_int_digits: "- (2 ^ 63) \<le> i \<Longrightarrow> i < 2 ^ 64 \<Longrightarrow> length (int_digits i) \<le> 20"
  using length_nat_digits [of "nat (- i)" 19] length_nat_digits [of "nat i" 20]
  by (auto simp: int_digits_def)

text \<open>The literal an update writes for an integer column, loaded back as the text of that column, gives the same value (an unsigned bigint only below \<open>2^63\<close>).\<close>

theorem int_literal_round_trip:
  assumes "wf_field f" "int_kind (bf_val f)" "GetType f \<noteq> FIELD_TYPE_TIMESTAMP"
    and "length (GetName f) \<le> 64" "128 \<le> n" "field_int (bf_val f) < 2 ^ 63"
    and "wf_field g" "bf_info g = bf_info f"
  shows "\<exists>txt. BuildFormatSql esc real_esc f n = Inr (name_eq (GetName f) @ txt) \<and>
    SetValue g (Some (txt @ CHR 0x00 # rest)) len = Inr (True, g\<lparr>bf_val := bf_val f\<rparr>)"
proof -
  let ?i = "field_int (bf_val f)"
  have "assignment esc real_esc f = name_eq (GetName f) @ int_digits ?i"
    using assms(2) by (cases "bf_val f") (simp_all add: assignment_def literal_def)
  moreover have "length (name_eq (GetName f) @ int_digits ?i) < n"
    using length_int_digits [OF field_int_range, of "bf_val f"] assms(4,5) by (simp add: name_eq_def)
  ultimately have fmt: "BuildFormatSql esc real_esc f n = Inr (name_eq (GetName f) @ int_digits ?i)"
    using BuildFormatSql_int [OF assms(1-3)] by simp
  have kind: "kind_of (bf_val g) = kind_of (bf_val f)"
    using wf_kind_of [OF assms(1)] wf_kind_of [OF assms(7)] assms(8) by (simp add: GetType_def GetAttr_def)
  then have g: "int_kind (bf_val g)" using assms(2) by (simp add: int_kind_iff)
  have "atoll (int_digits ?i) = word_of_int ?i"
    using field_int_range(1) assms(6) by (simp add: atoll_int_digits clamp_i64_id)
  then have "SetValue g (Some (int_digits ?i @ CHR 0x00 # rest)) len = Inr (True, g\<lparr>bf_val := bf_val f\<rparr>)"
    using wf_type(2) [OF assms(7) g] g cast_int_field_int [OF assms(2) kind]
    by (simp add: SetValue_int_text int_kind_iff)
  with fmt show ?thesis by blast
qed

subsection \<open>Statements\<close>

lemma BuildCondition_None: "(BuildCondition r = Inr None) = no_key r"
  by (auto simp: BuildCondition_def Let_def res_simps)

lemma BuildCondition_no_nul: "BuildCondition r = Inr (Some cond) \<Longrightarrow> no_nul cond"
  by (auto simp: BuildCondition_def Let_def res_simps split: if_splits intro!: no_nul_snprintf)

lemma BuildFormatSql_no_nul: "BuildFormatSql esc real_esc f n = Inr s \<Longrightarrow> no_nul s"
  by (auto simp: BuildFormatSql_def Let_def rbind_eq_Inr split: if_splits intro!: no_nul_snprintf)

lemma stream_fields_no_nul: "stream_fields esc real_esc n first fs = Inr s \<Longrightarrow> no_nul s"
proof (induction fs arbitrary: first s)
  case (Cons f fs)
  then show ?case using BuildFormatSql_no_nul by (auto simp: rbind_eq_Inr)
qed simp

lemma BuildOperation_no_nul: "BuildOperation esc real_esc r = Inr (Some op) \<Longrightarrow> no_nul op"
  by (auto simp: BuildOperation_def rbind_eq_Inr split: if_splits dest: stream_fields_no_nul)


text \<open>The insert statement is never cut, whatever the length of the assignments.\<close>

theorem insert_statement_complete:
  assumes "BuildOperation esc real_esc r = Inr (Some op)" "op \<noteq> []"
  shows "BuildInsertSql esc real_esc r sql =
    Inr (True, ''insert into `'' @ cstr (GetTableName r) @ ''` set '' @ op)"
  using assms BuildOperation_no_nul [OF assms(1)] length_cstr_le [of "GetTableName r"]
  by (simp add: BuildInsertSql_def Let_def)

text \<open>With no changed column an update succeeds without a statement when the record has a key, and an insert fails.\<close>

theorem nothing_changed:
  assumes "wf_record r" "changed_fields r = []" "BuildCondition r = Inr c"
  shows "BuildUpdateSql esc real_esc r sql = Inr (c \<noteq> None, sql) \<and>
    BuildInsertSql esc real_esc r sql = Inr (False, sql)"
proof -
  have op: "BuildOperation esc real_esc r = Inr (if no_key r then None else Some [])"
    using assms(1,2) by (simp add: BuildOperation_eq)
  show ?thesis
  proof (cases c)
    case None
    then show ?thesis using assms(3) op by (simp add: BuildUpdateSql_def BuildInsertSql_def)
  next
    case (Some cond)
    then have "\<not> no_key r" using assms(3) BuildCondition_None [of r] by auto
    then show ?thesis using assms(3) op Some by (simp add: BuildUpdateSql_def BuildInsertSql_def)
  qed
qed

text \<open>The guard that looks contradictory (a negative index that is at least the number of columns) rejects exactly the records with neither a primary key nor an auto-increment column, because the second comparison is unsigned.\<close>

theorem key_guard:
  assumes "wf_record r" "unat (GetFieldNum r) \<le> 2 ^ 31"
  shows "no_key r = (GetKeyIdx r = - 1 \<and> GetAutoIncIdx r = - 1)"
proof -
  have neg: "sint i < 0 \<longleftrightarrow> i = - 1" if "valid_idx r i" for i
  proof (cases "i = - 1")
    case False
    then have "unat i < 2 ^ 31" using that assms(2) by (simp add: valid_idx_def GetFieldNum_def)
    then obtain k where "sint i = int k" by (rule sint_small_unat)
    with False show ?thesis by simp
  qed simp
  have "valid_idx r (GetKeyIdx r)" "valid_idx r (GetAutoIncIdx r)"
    using assms(1) by (simp_all add: wf_record_def GetKeyIdx_def GetAutoIncIdx_def)
  then show ?thesis by (auto simp: no_key_def key_index_def neg)
qed

subsection \<open>The where clause\<close>

definition delete_where :: "Record \<Rightarrow> bytes \<Rightarrow> bytes" where
  "delete_where r cond = ''delete from `'' @ cstr (GetTableName r) @ ''` where '' @ cond"

text \<open>The delete statement is built in a fixed buffer and cut at 1022 bytes: it is complete exactly when the part up to the condition has at most 1014 bytes, and from 1022 bytes on the \<open>limit 1\<close> is gone.\<close>

theorem delete_statement_may_lose_limit:
  assumes "BuildCondition r = Inr (Some cond)"
  shows "\<exists>s. BuildDelSql r sql = Inr (True, s) \<and>
    (s = delete_where r cond @ '' limit 1'' \<longleftrightarrow> length (delete_where r cond) \<le> 1014) \<and>
    (1022 \<le> length (delete_where r cond) \<longrightarrow> s = take 1022 (delete_where r cond))"
proof -
  have "BuildDelSql r sql = Inr (True, take 1022 (delete_where r cond @ '' limit 1''))"
    using assms BuildCondition_no_nul [OF assms] by (simp add: BuildDelSql_def delete_where_def snprintf_def)
  moreover have "take 1022 (delete_where r cond @ '' limit 1'') = delete_where r cond @ '' limit 1'' \<longleftrightarrow>
      length (delete_where r cond @ '' limit 1'') \<le> 1022"
    by (rule take_all_iff)
  ultimately show ?thesis by simp
qed

lemma BuildCondition_cases:
  assumes "\<not> no_key r" "GetField r (key_index r) = Inr (Some f)"
  shows "BuildCondition r =
    (if IS_FIELD_NUM (GetType f) then
       rbind (GetInt f) (\<lambda>v. Inr (Some (snprintf 1023 (name_eq (GetName f) @ print_signed v))))
     else rbind (GetStr f) (\<lambda>s. Inr (Some (snprintf 1023 (name_eq (GetName f) @ quoted (cstr s))))))"
proof -
  have "field_at r (key_index r) = Inr f" using assms(2) by (simp add: field_at_def GetField_def)
  then show ?thesis
    using assms by (simp add: BuildCondition_def Let_def Record_GetInt_def Record_GetStr_def)
qed

text \<open>The value of a string key is copied into the where clause unescaped: a quote in it ends the literal and the rest of the value becomes part of the statement.\<close>

theorem condition_ends_at_a_quote_in_the_key:
  assumes "\<not> no_key r" "GetField r (key_index r) = Inr (Some f)" "\<not> IS_FIELD_NUM (GetType f)"
    and "bf_val f = VString (v @ [CHR 0x27] @ tail)" "no_nul v" "no_nul tail"
    and "length (GetName f) + length v + length tail \<le> 1016"
  shows "BuildCondition r = Inr (Some (name_eq (GetName f) @ quoted v @ tail @ [CHR 0x27]))"
proof -
  have "cstr (v @ [CHR 0x27] @ tail) = v @ [CHR 0x27] @ tail" using assms(5,6) by simp
  then show ?thesis
    using assms(3,4,7) by (simp add: BuildCondition_cases [OF assms(1,2)] GetStr_def quoted_def name_eq_def)
qed

definition as_signed64 :: "int \<Rightarrow> int" where
  "as_signed64 i = (if 2 ^ 63 \<le> i then i - 2 ^ 64 else i)"

lemma sint_as_signed64: "sint (w :: 64 word) = as_signed64 (uint w)"
proof (cases "uint w < 2 ^ 63")
  case True
  then show ?thesis
    by (simp add: as_signed64_def sint_uint signed_take_bit_int_eq_self order.trans [OF _ uint_ge_0])
next
  case False
  have "uint w < 2 ^ 64" by (rule uint_below_64) simp
  with False have "(uint w + 2 ^ 63) mod 2 ^ 64 = uint w + 2 ^ 63 - 2 ^ 64"
    by (subst mod_pos_geq) simp_all
  then show ?thesis
    using False by (simp add: as_signed64_def sint_uint signed_take_bit_eq_take_bit_shift take_bit_eq_mod)
qed

lemma as_signed64_sint: "as_signed64 (sint (w :: 'n::len word)) = sint w" if "LENGTH('n) \<le> 64"
  using sint_within_64(2) [OF that, of w] by (simp add: as_signed64_def)

lemma as_signed64_uint:
  assumes "LENGTH('n) < 64"
  shows "as_signed64 (uint (w :: 'n::len word)) = uint w"
proof -
  have "uint w < 2 ^ LENGTH('n)" by simp
  also have "(2::int) ^ LENGTH('n) \<le> 2 ^ 63" using assms by (intro power_increasing) simp_all
  finally show ?thesis by (simp add: as_signed64_def)
qed

lemma val_int_field_int:
  assumes "int_kind v"
  shows "\<exists>x. val_int v = Inr x \<and> sint x = as_signed64 (field_int v)"
proof (cases v)
  case (VUInt64 w)
  then show ?thesis by (simp add: sint_as_signed64)
qed (use assms in \<open>simp_all add: sint_widen as_signed64_sint sint_widen_unsigned as_signed64_uint\<close>)

text \<open>For an integer key the condition compares with the signed 64-bit reading of the key: the number itself, and for an unsigned bigint of \<open>2^63\<close> or more that number minus \<open>2^64\<close>.\<close>

theorem condition_integer_key:
  assumes "\<not> no_key r" "GetField r (key_index r) = Inr (Some f)" "wf_field f" "int_kind (bf_val f)"
    and "GetType f \<noteq> FIELD_TYPE_TIMESTAMP" "length (GetName f) \<le> 64"
  shows "BuildCondition r = Inr (Some (name_eq (GetName f) @ int_digits (as_signed64 (field_int (bf_val f)))))"
proof -
  obtain x where x: "val_int (bf_val f) = Inr x" "sint x = as_signed64 (field_int (bf_val f))"
    using val_int_field_int [OF assms(4)] by blast
  have num: "IS_FIELD_NUM (GetType f)"
    using wf_kind_of [OF assms(3)] assms(4,5) by (auto simp: int_kind_iff IS_FIELD_NUM_def Let_def split: if_splits)
  have "length (int_digits (sint x)) \<le> 20"
    using length_print_signed [of x] by (simp add: print_signed_def)
  then show ?thesis
    using num x assms(6)
    by (simp add: BuildCondition_cases [OF assms(1,2)] GetInt_def print_signed_def name_eq_def)
qed

subsection \<open>Sample statements\<close>

text \<open>An escape function with the documented behaviour, and records to apply the properties to.\<close>

definition sample_escape :: "bytes \<Rightarrow> bytes" where
  "sample_escape s = concat (map (\<lambda>c.
     if c = CHR 0x00 then [CHR 0x5c, CHR ''0'']
     else if c = CHR 0x0a then [CHR 0x5c, CHR ''n'']
     else if c = CHR 0x0d then [CHR 0x5c, CHR ''r'']
     else if c = CHR 0x1a then [CHR 0x5c, CHR ''Z'']
     else if c = CHR 0x27 \<or> c = CHR 0x22 \<or> c = CHR 0x5c then [CHR 0x5c, c]
     else [c]) s)"

lemma sample_escape_law: "escape_law sample_escape"
proof -
  have "no_nul (sample_escape s) \<and> length (sample_escape s) \<le> 2 * length s" for s
    by (induction s) (auto simp: sample_escape_def)
  then show ?thesis by (simp add: escape_law_def)
qed

lemma length_sample_escape_quotes: "length (sample_escape (replicate n (CHR 0x27))) = 2 * n"
  by (induction n) (simp_all add: sample_escape_def)

lemma length_sample_escape_plain: "length (sample_escape (replicate n (CHR ''x''))) = n"
  by (induction n) (simp_all add: sample_escape_def)

definition column :: "bytes \<Rightarrow> uint32 \<Rightarrow> uint32 \<Rightarrow> uint32 \<Rightarrow> field_val \<Rightarrow> BaseField" where
  "column name t a len v = \<lparr>bf_info = \<lparr>fi_name = name, fi_type = t, fi_attr = a, fi_len = len\<rparr>, bf_changed = True, bf_val = v\<rparr>"

definition row_of :: "BaseField list \<Rightarrow> Record" where
  "row_of fs = \<lparr>rc_mode = MODE_EDIT, rc_fieldNum = word_of_nat (length fs), rc_tableName = ''t'',
     rc_fields = map Some fs, rc_name2idx = [], rc_keyIdx = 0, rc_autoIncIdx = - 1\<rparr>"

lemma column_simps [simp]:
  "GetType (column name t a len v) = t" "GetLen (column name t a len v) = len"
  "bf_val (column name t a len v) = v" "GetName (column name t a len v) = cstr name"
  "IsChanged (column name t a len v)"
  by (simp_all add: column_def GetType_def GetLen_def GetName_def IsChanged_def)

lemma column_wf:
  "wf_field (column name t a len v) =
   (case CreateField \<lparr>fi_name = name, fi_type = t, fi_attr = a, fi_len = len\<rparr> of None \<Rightarrow> False | Some g \<Rightarrow> kind_of v = kind_of (bf_val g))"
  by (simp add: wf_field_def column_def split: option.split)

lemma sample_column_wf [simp]:
  "wf_field (column name FIELD_TYPE_TINY 0 len (VInt8 v8))"
  "wf_field (column name FIELD_TYPE_LONGLONG UNSIGNED_FLAG len (VUInt64 v64))"
  "wf_field (column name FIELD_TYPE_VAR_STRING 0 len (VString s))"
  "wf_field (column name FIELD_TYPE_BLOB 0 len (VString s))"
  "wf_field (column name FIELD_TYPE_LONG_BLOB 0 len (VString s))"
  by (simp_all add: column_wf CreateField_def new_field_def UNSIGNED_FLAG_def)

lemma row_of_wf:
  assumes "fs \<noteq> []" "length fs < 2 ^ 31" "\<forall>f\<in>set fs. wf_field f"
  shows "wf_record (row_of fs)"
  using assms by (auto simp: wf_record_def row_of_def valid_idx_def unat_of_nat)

lemma row_of_simps [simp]:
  "key_index (row_of fs) = 0" "\<not> no_key (row_of fs)" "changed_fields (row_of fs) = filter IsChanged fs"
  "GetTableName (row_of fs) = ''t''"
  "GetField (row_of (f # fs)) 0 = Inr (Some f)"
  by (simp_all add: key_index_def no_key_def row_of_def GetAutoIncIdx_def GetKeyIdx_def changed_fields_def comp_def
      GetTableName_def GetField_def slot_peek_eq_Inr)

abbreviation (input) tiny_col where "tiny_col \<equiv> column ''id'' FIELD_TYPE_TINY 0 4 (VInt8 (- 5))"
abbreviation (input) text_col where "text_col \<equiv> column ''n'' FIELD_TYPE_VAR_STRING 0 100 (VString [CHR ''a'', CHR 0x27])"

lemma tiny_text_record: "wf_record (row_of [tiny_col, text_col])"
  by (rule row_of_wf) simp_all

theorem BuildOperation_spec_witness:
  "BuildOperation sample_escape sample_escape (row_of [tiny_col, text_col]) =
     Inr (Some (''`id`=-5,`n`='' @ [CHR 0x27, CHR ''a'', CHR 0x5c, CHR 0x27, CHR 0x27]))"
proof -
  have buf: "buffer_size (foldl next_len 0 (changed_fields (row_of [tiny_col, text_col]))) = Inr 328"
    by (simp add: next_len_def IS_FIELD_NUM_def DefaultNum2StrLen_def buffer_size_def)
  have esc: "sample_escape [CHR ''a'', CHR 0x27] = [CHR ''a'', CHR 0x5c, CHR 0x27]"
    by (simp add: sample_escape_def)
  have asg: "assignment sample_escape sample_escape tiny_col = ''`id`=-5''"
    "assignment sample_escape sample_escape text_col = ''`n`='' @ [CHR 0x27, CHR ''a'', CHR 0x5c, CHR 0x27, CHR 0x27]"
    by (simp_all add: assignment_def literal_def name_eq_def quoted_def esc blob_type_def int_digits_def
        nat_digits.simps cstr_def)
  have fit: "\<forall>f\<in>set (changed_fields (row_of [tiny_col, text_col])).
      writable_type (GetType f) \<and> escapes_fit sample_escape f \<and> length (assignment sample_escape sample_escape f) < 328"
    by (simp add: asg writable_type_def escapes_fit_def esc)
  from BuildOperation_spec [OF tiny_text_record _ sample_escape_law sample_escape_law _ buf fit]
  show ?thesis by (simp add: asg)
qed

theorem buffer_covers_declared_lengths_witness:
  "\<exists>n. buffer_size (foldl next_len 0 [tiny_col, text_col]) = Inr n \<and> 228 \<le> n"
  using buffer_covers_declared_lengths [of "[tiny_col, text_col]"] by (auto simp: IS_FIELD_NUM_def)

abbreviation (input) long_blob_col where
  "long_blob_col \<equiv> column ''b'' FIELD_TYPE_LONG_BLOB 0 (- 1) (VString (replicate 200 (CHR ''x'')))"

theorem long_blob_buffer_wraps_witness:
  "BuildOperation sample_escape sample_escape (row_of [long_blob_col]) = Inl BufferOverflow"
  by (rule long_blob_buffer_wraps [of _ long_blob_col "replicate 200 (CHR ''x'')"])
    (simp_all add: row_of_wf length_sample_escape_plain)

abbreviation (input) quotes_col where
  "quotes_col \<equiv> column ''b'' FIELD_TYPE_BLOB 0 200 (VString (replicate 200 (CHR 0x27)))"

lemma text_col_assignment: "BuildFormatSql sample_escape sample_escape text_col (2 * unat (GetLen text_col) + 128) =
    Inr (assignment sample_escape sample_escape text_col)"
  by (rule BuildFormatSql_fits)
    (simp_all add: sample_escape_law writable_type_def escapes_fit_def assignment_def literal_def sample_escape_def
      name_eq_def quoted_def blob_type_def cstr_def)

theorem second_blob_overflows_witness:
  "BuildOperation sample_escape sample_escape (row_of [text_col, quotes_col]) = Inl BufferOverflow"
  by (rule second_blob_overflows [OF _ _ _ _ text_col_assignment, where g = quotes_col and s = "replicate 200 (CHR 0x27)"])
    (simp_all only: length_sample_escape_quotes, simp_all add: row_of_wf IS_FIELD_NUM_def blob_type_def)

theorem text_escape_buffer_overflows_witness:
  "BuildFormatSql sample_escape sample_escape (column ''n'' FIELD_TYPE_VAR_STRING 0 100 (VString [CHR 0x27])) 300 = Inl BufferOverflow"
  by (subst text_escape_buffer_overflows [where s = "[CHR 0x27]"])
    (simp_all add: text_type_def sample_escape_law, simp add: sample_escape_def)

theorem timestamp_and_decimal_cannot_be_written_witness:
  "BuildFormatSql sample_escape sample_escape (column ''n'' FIELD_TYPE_NEWDECIMAL 0 10 (VDouble (NaN False))) 300 = Inl AssertFail"
  by (rule timestamp_and_decimal_cannot_be_written) simp

theorem int_literal_round_trip_witness:
  "\<exists>lit. BuildFormatSql sample_escape sample_escape tiny_col 328 = Inr (name_eq ''id'' @ lit) \<and>
     SetValue tiny_col (Some (lit @ [CHR 0x00])) 7 = Inr (True, tiny_col)"
proof -
  have "\<exists>lit. BuildFormatSql sample_escape sample_escape tiny_col 328 = Inr (name_eq (GetName tiny_col) @ lit) \<and>
     SetValue tiny_col (Some (lit @ CHR 0x00 # [])) 7 = Inr (True, tiny_col\<lparr>bf_val := bf_val tiny_col\<rparr>)"
    by (rule int_literal_round_trip) (simp_all add: cstr_def)
  moreover have "tiny_col\<lparr>bf_val := bf_val tiny_col\<rparr> = tiny_col" by (simp add: column_def)
  ultimately show ?thesis by (simp only: column_simps) (simp add: cstr_def)
qed

theorem condition_integer_key_witness:
  "BuildCondition (row_of [tiny_col]) = Inr (Some (name_eq ''id'' @ int_digits (- 5)))"
proof -
  have "BuildCondition (row_of [tiny_col]) =
      Inr (Some (name_eq (GetName tiny_col) @ int_digits (as_signed64 (field_int (bf_val tiny_col)))))"
    by (rule condition_integer_key) (simp_all add: cstr_def)
  then show ?thesis by (simp add: cstr_def as_signed64_def)
qed

lemma text_col_operation:
  "BuildOperation sample_escape sample_escape (row_of [text_col]) = Inr (Some (assignment sample_escape sample_escape text_col))"
proof -
  have b: "buffer_size (foldl next_len 0 (changed_fields (row_of [text_col]))) = Inr (2 * unat (GetLen text_col) + 128)"
    by (simp add: next_len_def IS_FIELD_NUM_def buffer_size_def word_greater_zero_iff)
  show ?thesis
    using b text_col_assignment by (simp add: BuildOperation_eq row_of_wf)
qed

lemma text_col_condition: "BuildCondition (row_of [text_col]) = Inr (Some (name_eq ''n'' @ quoted [CHR ''a'', CHR 0x27]))"
  by (simp add: BuildCondition_cases GetStr_def IS_FIELD_NUM_def name_eq_def quoted_def cstr_def)

lemma text_col_text: "assignment sample_escape sample_escape text_col = ''`n`='' @ [CHR 0x27, CHR ''a'', CHR 0x5c, CHR 0x27, CHR 0x27]"
  by (simp add: assignment_def literal_def name_eq_def quoted_def blob_type_def cstr_def sample_escape_def)


theorem insert_statement_complete_witness:
  "BuildInsertSql sample_escape sample_escape (row_of [text_col]) [] = Inr (True,
     ''insert into `t` set `n`='' @ [CHR 0x27, CHR ''a'', CHR 0x5c, CHR 0x27, CHR 0x27])"
  using insert_statement_complete [OF text_col_operation, of "[]"]
  by (simp add: text_col_text cstr_def)

theorem nothing_changed_witness:
  "BuildUpdateSql sample_escape sample_escape (row_of [TagChanged False text_col]) [] = Inr (True, []) \<and>
   BuildInsertSql sample_escape sample_escape (row_of [TagChanged False text_col]) [] = Inr (False, [])"
proof -
  let ?r = "row_of [TagChanged False text_col]"
  have wf: "wf_record ?r" by (rule row_of_wf) (simp_all add: wf_field_TagChanged)
  have c: "BuildCondition ?r = Inr (Some (name_eq ''n'' @ quoted [CHR ''a'', CHR 0x27]))"
    by (simp add: BuildCondition_cases GetStr_def IS_FIELD_NUM_def name_eq_def quoted_def cstr_def
        TagChanged_def column_def GetType_def GetName_def)
  have "changed_fields ?r = []" by (simp add: TagChanged_def IsChanged_def)
  from nothing_changed [OF wf this c] show ?thesis by simp
qed

theorem key_guard_witness:
  "\<not> no_key sample_record \<and> no_key (SetKeyIdx sample_record (- 1))"
proof -
  have "no_key sample_record = (GetKeyIdx sample_record = - 1 \<and> GetAutoIncIdx sample_record = - 1)"
    by (rule key_guard [OF sample_record_wf]) (simp add: GetFieldNum_def sample_record_def)
  moreover have "wf_record (SetKeyIdx sample_record (- 1))"
    using sample_record_wf by (simp add: wf_record_def SetKeyIdx_def valid_idx_def)
  then have "no_key (SetKeyIdx sample_record (- 1)) =
      (GetKeyIdx (SetKeyIdx sample_record (- 1)) = - 1 \<and> GetAutoIncIdx (SetKeyIdx sample_record (- 1)) = - 1)"
    by (rule key_guard) (simp add: GetFieldNum_def sample_record_def SetKeyIdx_def)
  ultimately show ?thesis
    by (simp add: GetKeyIdx_def GetAutoIncIdx_def SetKeyIdx_def sample_record_def)
qed

abbreviation (input) long_key_col where
  "long_key_col \<equiv> column ''k'' FIELD_TYPE_VAR_STRING 0 2000 (VString (replicate 1100 (CHR ''x'')))"

lemma long_key_condition: "BuildCondition (row_of [long_key_col]) =
    Inr (Some (snprintf 1023 (name_eq ''k'' @ quoted (replicate 1100 (CHR ''x'')))))"
proof -
  have "no_nul (replicate 1100 (CHR ''x''))" by (simp add: no_nul_def)
  then show ?thesis
    by (simp add: BuildCondition_cases GetStr_def IS_FIELD_NUM_def cstr_def [of "''k''"])
qed

theorem delete_statement_may_lose_limit_witness:
  "\<exists>s. BuildDelSql (row_of [long_key_col]) [] = Inr (True, s) \<and>
     s = take 1022 (delete_where (row_of [long_key_col]) (snprintf 1023 (name_eq ''k'' @ quoted (replicate 1100 (CHR ''x'')))))"
proof -
  have "1022 \<le> length (delete_where (row_of [long_key_col]) (snprintf 1023 (name_eq ''k'' @ quoted (replicate 1100 (CHR ''x'')))))"
    by (simp add: delete_where_def snprintf_def name_eq_def quoted_def)
  with delete_statement_may_lose_limit [OF long_key_condition, of "[]"] show ?thesis by blast
qed

text \<open>The classical attack: the key \<open>1' or '1'='1\<close>.\<close>

definition attack :: bytes where
  "attack = '' or '' @ [CHR 0x27] @ ''1'' @ [CHR 0x27] @ ''='' @ [CHR 0x27] @ ''1''"

abbreviation (input) attack_col where
  "attack_col \<equiv> column ''k'' FIELD_TYPE_VAR_STRING 0 100 (VString (''1'' @ [CHR 0x27] @ attack))"

theorem condition_ends_at_a_quote_in_the_key_witness:
  "BuildCondition (row_of [attack_col]) = Inr (Some (name_eq ''k'' @ quoted ''1'' @ attack @ [CHR 0x27]))"
proof -
  have "BuildCondition (row_of [attack_col]) = Inr (Some (name_eq (GetName attack_col) @ quoted ''1'' @ attack @ [CHR 0x27]))"
    by (rule condition_ends_at_a_quote_in_the_key)
      (simp_all add: IS_FIELD_NUM_def attack_def cstr_def)
  then show ?thesis by (simp add: cstr_def [of "''k''"])
qed

end
