(* ===== verification/Db_Connect.thy ===== *)
theory Db_Connect
  imports Db_FieldCache Db_SqlUtil
begin

text \<open>
  A connection: \<open>MysqlConnect\<close> (\<open>MysqlConnect.h\<close>, \<open>MysqlConnect.cpp\<close>). The MySQL client library is
  external; its operations are the members of the parameter \<open>mysql_client\<close>, over a type of client
  and server states that each call may change. Connection handles and results are numbers. A call
  that takes a handle may fail because the handle was freed. The column cache of the owning
  database is passed in and returned. Log calls and the timer that triggers one are left out; the
  client library is a C library, so the \<open>catch\<close> branch around the query is never taken.
\<close>

subsection \<open>The client library\<close>

datatype mysql_option = MYSQL_OPT_RECONNECT | MYSQL_SET_CHARSET_NAME

type_synonym row = "bytes option list"

record 'w mysql_client =
  mysql_init :: "'w \<Rightarrow> nat option \<times> 'w"
  mysql_real_connect :: "nat \<Rightarrow> DatabaseParam \<Rightarrow> 'w \<Rightarrow> bool \<times> 'w"
  mysql_options :: "nat \<Rightarrow> mysql_option \<Rightarrow> bytes \<Rightarrow> 'w \<Rightarrow> 'w"
  mysql_close :: "nat \<Rightarrow> 'w \<Rightarrow> 'w res"
  mysql_ping :: "nat \<Rightarrow> 'w \<Rightarrow> (sint32 \<times> 'w) res"
  mysql_errno :: "nat option \<Rightarrow> 'w \<Rightarrow> uint32 res"
  mysql_error :: "nat option \<Rightarrow> 'w \<Rightarrow> bytes res"
  mysql_real_query :: "nat \<Rightarrow> bytes \<Rightarrow> uint64 \<Rightarrow> 'w \<Rightarrow> (sint32 \<times> 'w) res"
  mysql_store_result :: "nat \<Rightarrow> 'w \<Rightarrow> (nat option \<times> 'w) res"
  mysql_data_seek :: "nat \<Rightarrow> uint64 \<Rightarrow> 'w \<Rightarrow> 'w"
  mysql_fetch_fields :: "nat \<Rightarrow> 'w \<Rightarrow> MYSQL_FIELD list option"
  mysql_fetch_lengths :: "nat \<Rightarrow> 'w \<Rightarrow> uint64 list option"
  mysql_num_fields :: "nat \<Rightarrow> 'w \<Rightarrow> uint32"
  mysql_num_rows :: "nat \<Rightarrow> 'w \<Rightarrow> uint64"
  mysql_fetch_row :: "nat \<Rightarrow> 'w \<Rightarrow> row option \<times> 'w"
  mysql_free_result :: "nat \<Rightarrow> 'w \<Rightarrow> 'w"

subsection \<open>State\<close>

record MysqlConnect =
  mc_cfg :: DatabaseParam
  mc_lastErrorCode :: sint32
  mc_lastError :: bytes
  mc_opened :: bool
  mc_dbHandler :: "nat option"

definition new_MysqlConnect :: "DatabaseParam \<Rightarrow> MysqlConnect" where
  "new_MysqlConnect cfg =
     \<lparr>mc_cfg = cfg, mc_lastErrorCode = 0, mc_lastError = [], mc_opened = False, mc_dbHandler = None\<rparr>"

subsection \<open>Opening and closing\<close>

definition SetLastError :: "'w mysql_client \<Rightarrow> MysqlConnect \<Rightarrow> 'w \<Rightarrow> MysqlConnect res" where
  "SetLastError c conn w =
     rbind (mysql_errno c (mc_dbHandler conn) w) (\<lambda>code.
       rbind (mysql_error c (mc_dbHandler conn) w) (\<lambda>text.
         Inr (conn\<lparr>mc_lastErrorCode := code, mc_lastError := cstr text\<rparr>)))"

definition Connect :: "'w mysql_client \<Rightarrow> MysqlConnect \<Rightarrow> 'w \<Rightarrow> (bool \<times> MysqlConnect \<times> 'w) res" where
  "Connect c conn w =
     (case mysql_init c w of
        (None, w1) \<Rightarrow> Inr (False, conn, w1)
      | (Some hdbc, w1) \<Rightarrow>
          (case mysql_real_connect c hdbc (mc_cfg conn) w1 of
             (False, w2) \<Rightarrow>
               rbind (SetLastError c conn w2) (\<lambda>conn'.
                 rbind (mysql_close c hdbc w2) (\<lambda>w3. Inr (False, conn', w3)))
           | (True, w2) \<Rightarrow>
               (let w3 = mysql_options c hdbc MYSQL_OPT_RECONNECT [CHR 0x01] w2;
                    w4 = mysql_options c hdbc MYSQL_SET_CHARSET_NAME ''utf8mb4'' w3
                in Inr (True, conn\<lparr>mc_opened := True, mc_dbHandler := Some hdbc\<rparr>, w4))))"

definition Ping :: "'w mysql_client \<Rightarrow> MysqlConnect \<Rightarrow> 'w \<Rightarrow> (bool \<times> 'w) res" where
  "Ping c conn w =
     (case mc_dbHandler conn of
        None \<Rightarrow> Inr (False, w)
      | Some h \<Rightarrow> rbind (mysql_ping c h w) (\<lambda>(r, w'). Inr (r = 0, w')))"

definition IsConnect :: "MysqlConnect \<Rightarrow> bool" where
  "IsConnect conn = mc_opened conn"

definition Disconnect :: "'w mysql_client \<Rightarrow> MysqlConnect \<Rightarrow> 'w \<Rightarrow> (MysqlConnect \<times> 'w) res" where
  "Disconnect c conn w =
     (case mc_dbHandler conn of
        Some h \<Rightarrow>
          if mc_opened conn then
            rbind (mysql_close c h w) (\<lambda>w'. Inr (conn\<lparr>mc_opened := False\<rparr>, w'))
          else Inr (conn, w)
      | None \<Rightarrow> Inr (conn, w))"

definition GetHandler :: "MysqlConnect \<Rightarrow> nat option" where
  "GetHandler conn = mc_dbHandler conn"

definition GetLastErrorNo :: "MysqlConnect \<Rightarrow> sint32" where
  "GetLastErrorNo conn = mc_lastErrorCode conn"

definition GetLastError :: "MysqlConnect \<Rightarrow> bytes" where
  "GetLastError conn = mc_lastError conn"

subsection \<open>One row\<close>

text \<open>
  The loop of \<open>CreateRecord\<close> over the columns. A null row means the column defaults, null lengths
  mean \<open>max_length\<close>; the length becomes the \<open>uint32\<close> argument of \<open>SetValue\<close>, whose result is ignored.
\<close>

fun fill_record :: "row option \<Rightarrow> MYSQL_FIELD list \<Rightarrow> uint64 list option \<Rightarrow> nat list \<Rightarrow> field_cache \<Rightarrow> Record \<Rightarrow>
    (Record option \<times> field_cache) res" where
  "fill_record row dbFields colLens [] m newRec = Inr (Some newRec, m)"
| "fill_record row dbFields colLens (i # is) m newRec =
     rbind (vec_at dbFields i) (\<lambda>dbField.
       case QueryDBFieldInfo m dbField of
         (None, m') \<Rightarrow> Inr (None, m')
       | (Some fieldInfo, m') \<Rightarrow>
           (let rec1 = (if mf_flags dbField AND PRI_KEY_FLAG \<noteq> 0 then SetKeyIdx newRec (word_of_nat i) else newRec);
                rec2 = (if mf_flags dbField AND AUTO_INCREMENT_FLAG \<noteq> 0 then SetAutoIncIdx rec1 (word_of_nat i) else rec1)
            in case CreateField fieldInfo of
                 None \<Rightarrow> Inr (None, m')
               | Some baseField \<Rightarrow>
                   rbind (case row of None \<Rightarrow> Inr (mf_def dbField) | Some cells \<Rightarrow> vec_at cells i) (\<lambda>value.
                   rbind (case colLens of None \<Rightarrow> Inr (mf_max_length dbField) | Some lens \<Rightarrow> vec_at lens i) (\<lambda>len.
                   rbind (SetValue baseField value (ucast len)) (\<lambda>(_, loaded).
                   rbind (WriteField rec2 (word_of_nat i) loaded) (\<lambda>rec3.
                     fill_record row dbFields colLens is m' rec3))))))"

definition CreateRecord :: "field_cache \<Rightarrow> row option \<Rightarrow> MYSQL_FIELD list \<Rightarrow> uint64 list option \<Rightarrow> uint32 \<Rightarrow> MODE \<Rightarrow>
    (Record option \<times> field_cache) res" where
  "CreateRecord m row dbFields colLens fieldNum mode =
     rbind (vec_at dbFields 0) (\<lambda>first.
       rbind (deref (org_table first)) (\<lambda>table.
         fill_record row dbFields colLens [0..<unat fieldNum] m (new_Record fieldNum (cstr table) mode)))"

subsection \<open>Queries\<close>

text \<open>The query all others use; \<open>want\<close> says whether a result pointer was passed.\<close>

definition Query_result :: "'w mysql_client \<Rightarrow> MysqlConnect \<Rightarrow> bytes \<Rightarrow> bool \<Rightarrow> 'w \<Rightarrow>
    (bool \<times> nat option \<times> MysqlConnect \<times> 'w) res" where
  "Query_result c conn sql want w =
     (if \<not> IsConnect conn then Inr (False, None, conn, w)
      else
        rbind (deref (mc_dbHandler conn)) (\<lambda>h.
          rbind (mysql_real_query c h (cstr sql) (scast (word_of_nat (length (cstr sql)) :: sint32)) w) (\<lambda>(ret, w1).
            if ret \<noteq> 0 then
              rbind (SetLastError c conn w1) (\<lambda>conn'. Inr (False, None, conn', w1))
            else if want then
              rbind (mysql_store_result c h w1) (\<lambda>(res, w2). Inr (True, res, conn, w2))
            else Inr (True, None, conn, w1))))"

definition Query_sql :: "'w mysql_client \<Rightarrow> MysqlConnect \<Rightarrow> bytes \<Rightarrow> 'w \<Rightarrow> (bool \<times> MysqlConnect \<times> 'w) res" where
  "Query_sql c conn sql w = rbind (Query_result c conn sql False w) (\<lambda>(ok, _, conn', w'). Inr (ok, conn', w'))"

text \<open>
  The loop over the fetched rows. The first argument bounds the rows; the set has a slot per row,
  so a row beyond the slots fails in \<open>WriteRecord\<close> and one more than the number of slots is enough.
\<close>

fun fetch_rows :: "nat \<Rightarrow> 'w mysql_client \<Rightarrow> nat \<Rightarrow> MYSQL_FIELD list \<Rightarrow> uint64 list option \<Rightarrow> uint32 \<Rightarrow> MODE \<Rightarrow>
    uint32 \<Rightarrow> Recordset \<Rightarrow> field_cache \<Rightarrow> 'w \<Rightarrow> ((Recordset \<times> uint32) option \<times> field_cache \<times> 'w) res" where
  "fetch_rows 0 c res dbFields colLens fieldNum mode idx recSet m w = Inl IndexOutOfRange"
| "fetch_rows (Suc n) c res dbFields colLens fieldNum mode idx recSet m w =
     (case mysql_fetch_row c res w of
        (None, w') \<Rightarrow> Inr (Some (recSet, idx), m, w')
      | (Some row, w') \<Rightarrow>
          rbind (CreateRecord m (Some row) dbFields colLens fieldNum mode) (\<lambda>(newRec, m').
            case newRec of
              None \<Rightarrow> Inr (None, m', w')
            | Some r \<Rightarrow>
                rbind (WriteRecord recSet idx r) (\<lambda>recSet'.
                  fetch_rows n c res dbFields colLens fieldNum mode (idx + 1) recSet' m' w')))"

definition Query_records :: "'w mysql_client \<Rightarrow> MysqlConnect \<Rightarrow> bytes \<Rightarrow> MODE \<Rightarrow> field_cache \<Rightarrow> 'w \<Rightarrow>
    (Recordset option \<times> MysqlConnect \<times> field_cache \<times> 'w) res" where
  "Query_records c conn sql mode m w =
     rbind (Query_result c conn sql True w) (\<lambda>(ok, res, conn', w1).
       if \<not> ok then Inr (None, conn', m, w1)
       else case res of
         None \<Rightarrow> Inr (None, conn', m, w1)
       | Some r \<Rightarrow>
           (let w2 = mysql_data_seek c r 0 w1 in
            case mysql_fetch_fields c r w2 of
              None \<Rightarrow> Inr (None, conn', m, mysql_free_result c r w2)
            | Some dbFields \<Rightarrow>
                (let colLens = mysql_fetch_lengths c r w2;
                     fieldNum = mysql_num_fields c r w2;
                     recSet = new_Recordset (ucast (mysql_num_rows c r w2))
                 in rbind (fetch_rows (Suc (unat (GetSize recSet))) c r dbFields colLens fieldNum mode 0 recSet m w2)
                      (\<lambda>(result, m', w3).
                         case result of
                           None \<Rightarrow> Inr (None, conn', m', mysql_free_result c r w3)
                         | Some (recSet', idx) \<Rightarrow>
                             if idx = GetSize recSet' then Inr (Some recSet', conn', m', mysql_free_result c r w3)
                             else Inl AssertFail))))"

definition MakeDefRecord :: "'w mysql_client \<Rightarrow> MysqlConnect \<Rightarrow> bytes \<Rightarrow> field_cache \<Rightarrow> 'w \<Rightarrow>
    (Record option \<times> MysqlConnect \<times> field_cache \<times> 'w) res" where
  "MakeDefRecord c conn tableName m w =
     (let sql = snprintf 255 (''select * from '' @ cstr tableName @ '' limit 0'') in
      rbind (Query_result c conn sql True w) (\<lambda>(ok, res, conn', w1).
        if \<not> ok then Inr (None, conn', m, w1)
        else case res of
          None \<Rightarrow> Inr (None, conn', m, w1)
        | Some r \<Rightarrow>
            (case mysql_fetch_fields c r w1 of
               None \<Rightarrow> Inr (None, conn', m, mysql_free_result c r w1)
             | Some dbFields \<Rightarrow>
                 (let colLens = mysql_fetch_lengths c r w1; fieldNum = mysql_num_fields c r w1 in
                  rbind (CreateRecord m None dbFields colLens fieldNum MODE_EDIT) (\<lambda>(newRec, m').
                    Inr (newRec, conn', m', mysql_free_result c r w1))))))"

subsection \<open>Rows\<close>

text \<open>What the loop of \<open>CreateRecord\<close> has done after \<open>i\<close> columns.\<close>

definition filled :: "Record \<Rightarrow> nat \<Rightarrow> bool" where
  "filled r i \<longleftrightarrow>
     length (rc_fields r) = unat (rc_fieldNum r) \<and> i \<le> unat (rc_fieldNum r) \<and>
     (\<forall>j<i. \<exists>f. rc_fields r ! j = Some f \<and> wf_field f \<and> \<not> IsChanged f) \<and>
     map_ok (rc_name2idx r) \<and>
     (\<forall>name k. map_find (rc_name2idx r) name = Some k \<longrightarrow>
        unat k < i \<and> (\<exists>f. rc_fields r ! unat k = Some f \<and> GetName f = name)) \<and>
     (rc_keyIdx r = - 1 \<or> unat (rc_keyIdx r) < i) \<and> (rc_autoIncIdx r = - 1 \<or> unat (rc_autoIncIdx r) < i)"

lemma filled_new: "filled (new_Record n table mode) 0"
  by (simp add: filled_def new_Record_def)

lemma filled_wf: "filled r (unat (rc_fieldNum r)) \<Longrightarrow> wf_record r"
  by (fastforce simp: filled_def wf_record_def valid_idx_def slot_peek_eq_Inr in_set_conv_nth)

lemma unat_word_of_nat: "i < unat (n :: uint32) \<Longrightarrow> unat (word_of_nat i :: uint32) = i"
  using unsigned_less [of n, where ?'a = nat] by (simp add: unat_of_nat)

lemma WriteField_filled:
  assumes "filled r i" "i < unat (rc_fieldNum r)" "wf_field f" "\<not> IsChanged f"
    and "WriteField (r\<lparr>rc_keyIdx := k, rc_autoIncIdx := a\<rparr>) (word_of_nat i) f = Inr r'"
    and "k = - 1 \<or> unat k \<le> i" "a = - 1 \<or> unat a \<le> i"
  shows "filled r' (Suc i)"
proof -
  have u: "unat (word_of_nat i :: uint32) = i" using assms(2) by (rule unat_word_of_nat)
  have len: "length (rc_fields r) = unat (rc_fieldNum r)" using assms(1) by (simp add: filled_def)
  let ?m = "map_put (rc_name2idx r) (GetName f) (word_of_nat i)"
  let ?fs = "(rc_fields r)[i := Some f]"
  have r': "r' = r\<lparr>rc_keyIdx := k, rc_autoIncIdx := a, rc_name2idx := ?m, rc_fields := ?fs\<rparr>"
    using assms(5) u by (auto simp: WriteField_def Let_def res_simps slot_store_eq_Inr)
  have ok: "map_ok (rc_name2idx r)" using assms(1) by (simp add: filled_def)
  have slots: "\<forall>j<Suc i. \<exists>g. ?fs ! j = Some g \<and> wf_field g \<and> \<not> IsChanged g"
    using assms(1,2,3,4) len by (auto simp: filled_def less_Suc_eq)
  have idx: "\<forall>name k. map_find ?m name = Some k \<longrightarrow>
      unat k < Suc i \<and> (\<exists>g. ?fs ! unat k = Some g \<and> GetName g = name)"
    using assms(1,2) len u by (auto simp: smap.find_put [OF ok] filled_def) fastforce+
  show ?thesis
    unfolding r' filled_def
    using len assms(2,6,7) slots idx smap.ok_put [OF ok] by auto
qed

text \<open>What one column of a row is loaded from.\<close>

definition cell :: "row option \<Rightarrow> MYSQL_FIELD list \<Rightarrow> nat \<Rightarrow> bytes option res" where
  "cell row dbFields i = (case row of None \<Rightarrow> Inr (mf_def (dbFields ! i)) | Some cells \<Rightarrow> vec_at cells i)"

definition cell_len :: "MYSQL_FIELD list \<Rightarrow> uint64 list option \<Rightarrow> nat \<Rightarrow> uint64 res" where
  "cell_len dbFields colLens i = (case colLens of None \<Rightarrow> Inr (mf_max_length (dbFields ! i)) | Some lens \<Rightarrow> vec_at lens i)"

definition column_loaded :: "row option \<Rightarrow> MYSQL_FIELD list \<Rightarrow> uint64 list option \<Rightarrow> field_cache \<Rightarrow> nat \<Rightarrow> BaseField \<Rightarrow> bool" where
  "column_loaded row dbFields colLens m i f \<longleftrightarrow>
     (\<exists>info g value len b. fst (QueryDBFieldInfo m (dbFields ! i)) = Some info \<and> CreateField info = Some g \<and>
        cell row dbFields i = Inr value \<and> cell_len dbFields colLens i = Inr len \<and>
        SetValue g value (ucast len) = Inr (b, f))"

definition last_flagged :: "uint32 \<Rightarrow> MYSQL_FIELD list \<Rightarrow> nat \<Rightarrow> sint32" where
  "last_flagged flag dbFields n =
     (let is = filter (\<lambda>i. mf_flags (dbFields ! i) AND flag \<noteq> 0) [0..<n]
      in if is = [] then - 1 else word_of_nat (last is))"

lemma last_flagged_simps [simp]:
  "last_flagged flag dbFields 0 = - 1"
  "last_flagged flag dbFields (Suc n) =
     (if mf_flags (dbFields ! n) AND flag \<noteq> 0 then word_of_nat n else last_flagged flag dbFields n)"
  by (simp_all add: last_flagged_def)

lemma column_loaded_extends:
  assumes "column_loaded row dbFields colLens m i f" "map_ok m" "cache_extends m m'"
    and "map_find m (field_key (the (org_table (dbFields ! i))) (the (org_name (dbFields ! i)))) \<noteq> None"
  shows "column_loaded row dbFields colLens m' i f"
proof -
  obtain info g v len b where c: "fst (QueryDBFieldInfo m (dbFields ! i)) = Some info" "CreateField info = Some g"
      "cell row dbFields i = Inr v" "cell_len dbFields colLens i = Inr len" "SetValue g v (ucast len) = Inr (b, f)"
    using assms(1) by (auto simp: column_loaded_def)
  obtain name table where n: "org_name (dbFields ! i) = Some name" "org_table (dbFields ! i) = Some table"
    using c(1) by (auto simp: QueryDBFieldInfo_def split: option.splits)
  then have "map_find m (field_key table name) = Some info"
    using c(1) assms(4) QueryDBFieldInfo_simps(1) [OF n] by auto
  then have "fst (QueryDBFieldInfo m' (dbFields ! i)) = Some info"
    using assms(3) QueryDBFieldInfo_simps(1) [OF n] by (simp add: cache_extends_def)
  with c show ?thesis by (auto simp: column_loaded_def)
qed

text \<open>One column of a successful row.\<close>

lemma fill_record_step:
  assumes "fill_record row dbFields colLens (i # is) m r = Inr (Some r', m')"
  obtains info m1 g v len b f r1 where "QueryDBFieldInfo m (dbFields ! i) = (Some info, m1)"
    "CreateField info = Some g" "cell row dbFields i = Inr v" "cell_len dbFields colLens i = Inr len"
    "SetValue g v (ucast len) = Inr (b, f)"
    "WriteField (r\<lparr>rc_keyIdx := if mf_flags (dbFields ! i) AND PRI_KEY_FLAG \<noteq> 0 then word_of_nat i else rc_keyIdx r,
      rc_autoIncIdx := if mf_flags (dbFields ! i) AND AUTO_INCREMENT_FLAG \<noteq> 0 then word_of_nat i else rc_autoIncIdx r\<rparr>)
      (word_of_nat i) f = Inr r1"
    "fill_record row dbFields colLens is m1 r1 = Inr (Some r', m')"
  using assms
  by (auto simp: res_simps vec_at_eq_Inr Let_def SetKeyIdx_def SetAutoIncIdx_def cell_def cell_len_def
      split: prod.splits option.splits if_splits)

lemma WriteField_frame:
  assumes "WriteField r i f = Inr r'"
  shows "rc_fieldNum r' = rc_fieldNum r" "rc_mode r' = rc_mode r" "rc_tableName r' = rc_tableName r"
    "rc_keyIdx r' = rc_keyIdx r" "rc_autoIncIdx r' = rc_autoIncIdx r"
    "rc_fields r' = (rc_fields r)[unat i := Some f]"
  using assms by (auto simp: WriteField_def Let_def res_simps slot_store_eq_Inr)

lemma fill_record_spec:
  assumes "fill_record row dbFields colLens [i..<n] m r = Inr (Some r', m')" "map_ok m" "filled r i"
    and "n = unat (rc_fieldNum r)" "i \<le> n"
    and "rc_keyIdx r = last_flagged PRI_KEY_FLAG dbFields i"
    and "rc_autoIncIdx r = last_flagged AUTO_INCREMENT_FLAG dbFields i"
  shows "filled r' n \<and> cache_extends m m' \<and> rc_fieldNum r' = rc_fieldNum r \<and> rc_mode r' = rc_mode r \<and>
    rc_tableName r' = rc_tableName r \<and> rc_keyIdx r' = last_flagged PRI_KEY_FLAG dbFields n \<and>
    rc_autoIncIdx r' = last_flagged AUTO_INCREMENT_FLAG dbFields n \<and>
    (\<forall>j<i. rc_fields r' ! j = rc_fields r ! j) \<and>
    (\<forall>j. i \<le> j \<and> j < n \<longrightarrow> (\<exists>f. rc_fields r' ! j = Some f \<and> column_loaded row dbFields colLens m' j f))"
  using assms
proof (induction "n - i" arbitrary: i m r)
  case 0
  then show ?case by (auto simp: cache_extends_refl)
next
  case (Suc k)
  have i: "i < n" using Suc.hyps(2) by simp
  then have "[i..<n] = i # [Suc i..<n]" by (rule upt_conv_Cons)
  with Suc.prems(1) have "fill_record row dbFields colLens (i # [Suc i..<n]) m r = Inr (Some r', m')" by (simp only:)
  then obtain info m1 g v len b f r1 where
    step: "QueryDBFieldInfo m (dbFields ! i) = (Some info, m1)" "CreateField info = Some g"
      "cell row dbFields i = Inr v" "cell_len dbFields colLens i = Inr len" "SetValue g v (ucast len) = Inr (b, f)"
    and wr: "WriteField (r\<lparr>rc_keyIdx := if mf_flags (dbFields ! i) AND PRI_KEY_FLAG \<noteq> 0 then word_of_nat i else rc_keyIdx r,
      rc_autoIncIdx := if mf_flags (dbFields ! i) AND AUTO_INCREMENT_FLAG \<noteq> 0 then word_of_nat i else rc_autoIncIdx r\<rparr>)
      (word_of_nat i) f = Inr r1"
    and rest: "fill_record row dbFields colLens [Suc i..<n] m1 r1 = Inr (Some r', m')"
    by (rule fill_record_step)
  have u: "unat (word_of_nat i :: uint32) = i" using i Suc.prems(4) by (simp add: unat_word_of_nat)
  have ext: "cache_extends m m1" using QueryDBFieldInfo_extends [OF Suc.prems(2) step(1)] .
  then have ok1: "map_ok m1" by (simp add: cache_extends_def)
  have f: "wf_field f" "\<not> IsChanged f"
    using SetValue_frame [OF step(5)] CreateField_wf [OF step(2)] CreateField_info [OF step(2)]
    by (auto intro: wf_fieldI simp: IsChanged_def)
  have fill: "filled r1 (Suc i)"
    by (rule WriteField_filled [OF Suc.prems(3) _ f wr])
      (use i Suc.prems(3,4) u in \<open>auto simp: filled_def\<close>)
  note fr = WriteField_frame [OF wr]
  have "filled r' n \<and> cache_extends m1 m' \<and> rc_fieldNum r' = rc_fieldNum r1 \<and> rc_mode r' = rc_mode r1 \<and>
    rc_tableName r' = rc_tableName r1 \<and> rc_keyIdx r' = last_flagged PRI_KEY_FLAG dbFields n \<and>
    rc_autoIncIdx r' = last_flagged AUTO_INCREMENT_FLAG dbFields n \<and>
    (\<forall>j<Suc i. rc_fields r' ! j = rc_fields r1 ! j) \<and>
    (\<forall>j. Suc i \<le> j \<and> j < n \<longrightarrow> (\<exists>f. rc_fields r' ! j = Some f \<and> column_loaded row dbFields colLens m' j f))"
    by (rule Suc.hyps(1) [OF _ rest ok1 fill]) (use Suc.hyps(2) Suc.prems fr i in auto)
  note IH = this
  have "column_loaded row dbFields colLens m1 i f"
  proof -
    obtain name table where n: "org_name (dbFields ! i) = Some name" "org_table (dbFields ! i) = Some table"
      "map_find m1 (field_key table name) = Some info"
      using QueryDBFieldInfo_stored [OF Suc.prems(2) step(1)] by blast
    then have "fst (QueryDBFieldInfo m1 (dbFields ! i)) = Some info" by (simp add: QueryDBFieldInfo_simps(1))
    with step show ?thesis by (auto simp: column_loaded_def)
  qed
  moreover have "map_find m1 (field_key (the (org_table (dbFields ! i))) (the (org_name (dbFields ! i)))) \<noteq> None"
    using QueryDBFieldInfo_stored [OF Suc.prems(2) step(1)] by auto
  ultimately have here: "column_loaded row dbFields colLens m' i f"
    using column_loaded_extends ok1 IH by blast
  have slot: "rc_fields r1 ! i = Some f"
    using fr(6) u i Suc.prems(3,4) by (simp add: filled_def)
  have "\<exists>f. rc_fields r' ! j = Some f \<and> column_loaded row dbFields colLens m' j f" if "i \<le> j" "j < n" for j
    using IH here slot that by (cases "j = i") auto
  moreover have "\<forall>j<i. rc_fields r' ! j = rc_fields r ! j" using IH fr(6) u by simp
  ultimately show ?case using IH cache_extends_trans [OF ext] fr by simp
qed

lemma CreateRecord_spec:
  assumes "CreateRecord m row dbFields colLens fieldNum mode = Inr (Some r, m')" "map_ok m"
  shows "filled r (unat fieldNum) \<and> cache_extends m m' \<and> rc_fieldNum r = fieldNum \<and> rc_mode r = mode \<and>
    (\<exists>table. org_table (dbFields ! 0) = Some table \<and> rc_tableName r = cstr table) \<and>
    rc_keyIdx r = last_flagged PRI_KEY_FLAG dbFields (unat fieldNum) \<and>
    rc_autoIncIdx r = last_flagged AUTO_INCREMENT_FLAG dbFields (unat fieldNum) \<and>
    (\<forall>j<unat fieldNum. \<exists>f. rc_fields r ! j = Some f \<and> column_loaded row dbFields colLens m' j f)"
proof -
  obtain table where t: "org_table (dbFields ! 0) = Some table"
    and fill: "fill_record row dbFields colLens [0..<unat fieldNum] m (new_Record fieldNum (cstr table) mode) = Inr (Some r, m')"
    using assms(1) by (auto simp: CreateRecord_def rbind_eq_Inr vec_at_eq_Inr)
  from fill_record_spec [OF fill assms(2) filled_new] t show ?thesis by (simp add: new_Record_def)
qed


text \<open>The key column of a row is the last column with the primary key flag, so of a composite primary key only the last column is used, and there is no key column exactly when no column has the flag; likewise for the auto-increment column.\<close>

theorem CreateRecord_keys:
  assumes "CreateRecord m row dbFields colLens fieldNum mode = Inr (Some r, m')" "map_ok m"
  shows "GetKeyIdx r = last_flagged PRI_KEY_FLAG dbFields (unat fieldNum) \<and>
    GetAutoIncIdx r = last_flagged AUTO_INCREMENT_FLAG dbFields (unat fieldNum)"
  using CreateRecord_spec [OF assms] by (simp add: GetKeyIdx_def GetAutoIncIdx_def)

lemma column_loaded_string:
  assumes "column_loaded (Some cells) dbFields None m i f" "kind_of (bf_val f) = StringField" "cells ! i = Some mem"
  shows "let n = unat (ucast (mf_max_length (dbFields ! i)) :: uint32) in n \<le> length mem \<and> bf_val f = VString (take n mem)"
proof -
  obtain info g len b where c: "CreateField info = Some g" "cell_len dbFields None i = Inr len"
      "SetValue g (Some mem) (ucast len) = Inr (b, f)"
    using assms(1,3) by (auto simp: column_loaded_def cell_def vec_at_eq_Inr)
  have k: "kind_of (bf_val g) = StringField" using SetValue_frame [OF c(3)] assms(2) by simp
  then have t: "string_column_type (GetType g)"
    using CreateField_string [OF c(1)] CreateField_info [OF c(1)] by (simp add: GetType_def)
  then show ?thesis
    using c(2,3) k
    by (auto simp: SetValue_def SetValue_str_def cell_len_def read_n_def Let_def res_simps split: field_val.splits if_splits)
qed


text \<open>A default record never has the default values of its table: the client library sets the column defaults only for \<open>mysql_list_fields\<close>, so every column keeps the zero or the empty string it was created with.\<close>

theorem default_record_has_no_defaults:
  assumes "CreateRecord m None dbFields colLens fieldNum mode = Inr (Some r, m')" "map_ok m"
    and "\<forall>f\<in>set dbFields. mf_def f = None" "unat fieldNum \<le> length dbFields"
    and "unat i < unat fieldNum" "GetField r i = Inr (Some f)"
  shows "\<exists>g. CreateField (bf_info f) = Some g \<and> bf_val f = bf_val g"
proof -
  have "column_loaded None dbFields colLens m' (unat i) f"
    using CreateRecord_spec [OF assms(1,2)] assms(5,6) by (auto simp: GetField_def slot_peek_eq_Inr)
  then obtain info g v len b where c: "CreateField info = Some g" "v = mf_def (dbFields ! unat i)"
      "SetValue g v len = Inr (b, f)"
    by (auto simp: column_loaded_def cell_def)
  have v: "v = None" using assms(3,4,5) c(2) by simp
  have info: "bf_info f = info" using SetValue_frame [OF c(3)] CreateField_info [OF c(1)] by simp
  have "bf_val f = bf_val g"
    using c(1,3) unfolding v
    by (auto simp: CreateField_def new_field_def SetValue_def SetValue_num_def SetValue_str_def res_simps Let_def
        double_of_int_def float_column_type_def GetType_def split: if_splits)
  with c(1) info show ?thesis by blast
qed

subsection \<open>The connection\<close>

text \<open>A connection that was opened is connected and has a handle; closing it marks it closed, and closing it again does nothing, so the handle is closed once.\<close>

theorem connect_then_disconnect:
  assumes "Connect c conn w = Inr (True, conn1, w1)" "Disconnect c conn1 w1 = Inr (conn2, w2)"
  shows "IsConnect conn1 \<and> GetHandler conn1 \<noteq> None \<and> \<not> IsConnect conn2 \<and> Disconnect c conn2 w = Inr (conn2, w)"
  using assms
  by (auto simp: Connect_def Disconnect_def IsConnect_def GetHandler_def Let_def rbind_eq_Inr
      split: prod.splits option.splits bool.splits if_splits)

text \<open>What the client library documents: a closed handle is freed.\<close>

definition close_frees :: "'w mysql_client \<Rightarrow> bool" where
  "close_frees c \<longleftrightarrow> (\<forall>h w w'. mysql_close c h w = Inr w' \<longrightarrow> mysql_ping c h w' = Inl UseAfterFree)"

text \<open>\<open>Disconnect\<close> keeps the handle it has closed, so \<open>Ping\<close> after it, which tests the handle and not the connected flag, uses a freed handle instead of returning false.\<close>

theorem ping_after_disconnect_uses_freed_handle:
  assumes "close_frees c" "IsConnect conn" "GetHandler conn = Some h" "Disconnect c conn w = Inr (conn', w')"
  shows "Ping c conn' w' = Inl UseAfterFree"
proof -
  have "mysql_close c h w = Inr w'" "mc_dbHandler conn' = Some h"
    using assms(2-4) by (auto simp: Disconnect_def IsConnect_def GetHandler_def rbind_eq_Inr)
  then show ?thesis using assms(1) by (simp add: Ping_def close_frees_def)
qed

text \<open>A failed first connect records the error of no handle at all, not of the handle that failed.\<close>

theorem failed_connect_reports_no_handle:
  assumes "GetHandler conn = None" "mysql_init c w = (Some h, w1)" "mysql_real_connect c h (mc_cfg conn) w1 = (False, w2)"
    and "mysql_errno c None w2 = Inr code" "mysql_error c None w2 = Inr text" "mysql_close c h w2 = Inr w3"
  shows "\<exists>conn'. Connect c conn w = Inr (False, conn', w3) \<and> GetLastErrorNo conn' = code \<and>
    GetLastError conn' = cstr text \<and> IsConnect conn' = IsConnect conn"
  using assms
  by (simp add: Connect_def SetLastError_def GetHandler_def GetLastErrorNo_def GetLastError_def IsConnect_def)

text \<open>A query on a connection that is not open returns the failure value of each query function without a call to the client library: no row set, no default record, false, and nothing changed.\<close>

theorem query_needs_connection:
  assumes "\<not> IsConnect conn"
  shows "Query_sql c conn sql w = Inr (False, conn, w) \<and>
    Query_records c conn sql mode m w = Inr (None, conn, m, w) \<and>
    MakeDefRecord c conn name m w = Inr (None, conn, m, w)"
  using assms by (simp add: Query_sql_def Query_records_def MakeDefRecord_def Query_result_def)

subsection \<open>Row sets\<close>

text \<open>The client library hands out the stored rows in order and then a null row.\<close>

fun serves :: "'w mysql_client \<Rightarrow> nat \<Rightarrow> row list \<Rightarrow> 'w \<Rightarrow> bool" where
  "serves c res [] w \<longleftrightarrow> fst (mysql_fetch_row c res w) = None"
| "serves c res (x # xs) w \<longleftrightarrow>
     fst (mysql_fetch_row c res w) = Some x \<and> serves c res xs (snd (mysql_fetch_row c res w))"

text \<open>The reference: the rows turned into records one after the other.\<close>

fun create_all :: "MYSQL_FIELD list \<Rightarrow> uint64 list option \<Rightarrow> uint32 \<Rightarrow> MODE \<Rightarrow> row list \<Rightarrow> field_cache \<Rightarrow>
    (Record list option \<times> field_cache) res" where
  "create_all dbFields colLens n mode [] m = Inr (Some [], m)"
| "create_all dbFields colLens n mode (row # rows) m =
     rbind (CreateRecord m (Some row) dbFields colLens n mode) (\<lambda>(newRec, m').
       case newRec of
         None \<Rightarrow> Inr (None, m')
       | Some r \<Rightarrow> rbind (create_all dbFields colLens n mode rows m') (\<lambda>(rs, m''). Inr (map_option (Cons r) rs, m'')))"

lemma fetch_rows_create_all:
  assumes "serves c res rows w" "create_all dbFields colLens n mode rows m = Inr (rs, m')"
    and "length rows < k" "length recs + length rows = unat (rs_recordNum s)"
    and "rs_records s = map Some recs @ replicate (length rows) None" "idx = word_of_nat (length recs)"
  shows "\<exists>w'. fetch_rows k c res dbFields colLens n mode idx s m w =
    Inr (map_option (\<lambda>rs. (s\<lparr>rs_records := map Some (recs @ rs)\<rparr>, word_of_nat (length recs + length rows))) rs, m', w')"
  using assms
proof (induction rows arbitrary: k idx s m w recs rs)
  case Nil
  then obtain k' where k: "k = Suc k'" by (cases k) auto
  obtain w' where w': "mysql_fetch_row c res w = (None, w')" using Nil.prems(1) by (cases "mysql_fetch_row c res w") auto
  have "s\<lparr>rs_records := map Some recs\<rparr> = s" using Nil.prems(5) by simp
  with Nil.prems w' k show ?case by auto
next
  case (Cons row rows)
  then obtain k' where k: "k = Suc k'" "length rows < k'" by (cases k) auto
  obtain w1 where w1: "mysql_fetch_row c res w = (Some row, w1)" "serves c res rows w1"
    using Cons.prems(1) by (cases "mysql_fetch_row c res w") auto
  have idx: "unat idx = length recs"
    using Cons.prems(4,6) unat_word_of_nat [of "length recs" "rs_recordNum s"] by simp
  obtain newRec m1 where cr: "CreateRecord m (Some row) dbFields colLens n mode = Inr (newRec, m1)"
    using Cons.prems(2) by (auto simp: rbind_eq_Inr)
  show ?case
  proof (cases newRec)
    case None
    then show ?thesis using Cons.prems(2) cr w1 k by auto
  next
    case (Some r)
    obtain rs1 where rs1: "create_all dbFields colLens n mode rows m1 = Inr (rs1, m')" "rs = map_option (Cons r) rs1"
      using Cons.prems(2) cr Some by (auto simp: rbind_eq_Inr)
    let ?s = "s\<lparr>rs_records := map Some (recs @ [r]) @ replicate (length rows) None\<rparr>"
    have wr: "WriteRecord s idx r = Inr ?s"
      using Cons.prems(5) idx by (simp add: WriteRecord_def slot_store_def list_update_append)
    have "\<exists>w'. fetch_rows k' c res dbFields colLens n mode (idx + 1) ?s m1 w1 =
      Inr (map_option (\<lambda>rs. (?s\<lparr>rs_records := map Some ((recs @ [r]) @ rs)\<rparr>,
        word_of_nat (length (recs @ [r]) + length rows))) rs1, m', w')"
      by (rule Cons.IH [OF w1(2) rs1(1) k(2)]) (use Cons.prems(4,6) in \<open>simp_all add: add.commute\<close>)
    then show ?thesis using cr Some w1(1) wr k(1) rs1(2) by (auto simp: option.map_comp comp_def)
  qed
qed

text \<open>C3: A query with a result set returns exactly the fetched rows, in order, each built by \<open>CreateRecord\<close>, or nothing when one of them cannot be built; the loop ends, the assertion on the row count holds and no slot is missed.\<close>

theorem query_returns_all_rows:
  assumes "Query_result c conn sql True w = Inr (True, Some res, conn', w1)"
    and "mysql_fetch_fields c res (mysql_data_seek c res 0 w1) = Some dbFields"
    and "serves c res rows (mysql_data_seek c res 0 w1)"
    and "mysql_num_rows c res (mysql_data_seek c res 0 w1) = word_of_nat (length rows)" "length rows < 2 ^ 32"
    and "create_all dbFields (mysql_fetch_lengths c res (mysql_data_seek c res 0 w1))
      (mysql_num_fields c res (mysql_data_seek c res 0 w1)) mode rows m = Inr (rs, m')"
  shows "\<exists>w'. Query_records c conn sql mode m w =
    Inr (map_option (\<lambda>rs. \<lparr>rs_recordNum = word_of_nat (length rows), rs_records = map Some rs\<rparr>) rs, conn', m', w')"
proof -
  let ?w2 = "mysql_data_seek c res 0 w1"
  let ?s = "new_Recordset (ucast (mysql_num_rows c res ?w2))"
  have num: "(ucast (mysql_num_rows c res ?w2) :: uint32) = word_of_nat (length rows)"
    by (simp add: assms(4) unsigned_of_nat word_of_nat_eq_iff)
  have len: "unat (word_of_nat (length rows) :: uint32) = length rows"
    using assms(5) by (simp add: unat_of_nat)
  obtain w' where fetch: "fetch_rows (Suc (length rows)) c res dbFields (mysql_fetch_lengths c res ?w2)
      (mysql_num_fields c res ?w2) mode 0 ?s m ?w2 =
    Inr (map_option (\<lambda>rs. (?s\<lparr>rs_records := map Some ([] @ rs)\<rparr>, word_of_nat (length ([]::Record list) + length rows))) rs, m', w')"
    using fetch_rows_create_all [OF assms(3,6), of "Suc (length rows)" "[]" ?s 0] num len
    by (auto simp: new_Recordset_def)
  have sz: "unat (GetSize ?s) = length rows" using num len by (simp add: GetSize_def new_Recordset_def)
  have rs: "?s\<lparr>rs_records := map Some rs\<rparr> = \<lparr>rs_recordNum = word_of_nat (length rows), rs_records = map Some rs\<rparr>"
    "rs_recordNum ?s = word_of_nat (length rows)" for rs
    using num by (simp_all add: new_Recordset_def)
  from fetch [folded sz] show ?thesis
    using assms(1,2) rs
    by (cases rs) (simp_all add: Query_records_def Let_def GetSize_def del: fetch_rows.simps)
qed

lemma fill_record_cache:
  "fill_record row dbFields colLens is m r = Inr (x, m') \<Longrightarrow> map_ok m \<Longrightarrow> cache_extends m m'"
proof (induction "is" arbitrary: m r)
  case (Cons i "is")
  obtain info m1 where q: "QueryDBFieldInfo m (dbFields ! i) = (info, m1)" by fastforce
  have e: "cache_extends m m1" by (rule QueryDBFieldInfo_extends [OF Cons.prems(2) q])
  then have "map_ok m1" by (simp add: cache_extends_def)
  with Cons q e show ?case
    by (fastforce simp: rbind_eq_Inr vec_at_eq_Inr Let_def split: option.splits intro: cache_extends_trans)
qed (simp add: cache_extends_refl)

lemma CreateRecord_cache:
  "CreateRecord m row dbFields colLens n mode = Inr (x, m') \<Longrightarrow> map_ok m \<Longrightarrow> cache_extends m m'"
  by (auto simp: CreateRecord_def rbind_eq_Inr intro: fill_record_cache)

lemma fetch_rows_cache:
  "fetch_rows k c res dbFields colLens n mode idx s m w = Inr (x, m', w') \<Longrightarrow> map_ok m \<Longrightarrow> cache_extends m m'"
proof (induction k arbitrary: idx s m w)
  case (Suc k)
  show ?case
  proof (cases "mysql_fetch_row c res w")
    case (Pair row w1)
    show ?thesis
    proof (cases row)
      case None
      then show ?thesis using Suc.prems Pair by (simp add: cache_extends_refl)
    next
      case (Some cells)
      obtain y m1 where cr: "CreateRecord m (Some cells) dbFields colLens n mode = Inr (y, m1)"
        using Suc.prems(1) Pair Some by (auto simp: rbind_eq_Inr)
      have e: "cache_extends m m1" by (rule CreateRecord_cache [OF cr Suc.prems(2)])
      then have "map_ok m1" by (simp add: cache_extends_def)
      with Suc Pair Some cr e show ?thesis
        by (auto simp: rbind_eq_Inr split: option.splits intro: cache_extends_trans)
    qed
  qed
qed simp

lemma Query_records_cache:
  assumes "Query_records c conn sql mode m w = Inr (x, conn', m', w')" "map_ok m"
  shows "cache_extends m m'"
proof -
  obtain ok res conn1 w1 where q: "Query_result c conn sql True w = Inr (ok, res, conn1, w1)"
    using assms(1) by (auto simp: Query_records_def rbind_eq_Inr)
  note unfolded = assms(1) [unfolded Query_records_def q rbind_simps prod.case Let_def]
  show ?thesis
  proof (cases "ok \<and> (\<exists>r cols. res = Some r \<and> mysql_fetch_fields c r (mysql_data_seek c r 0 w1) = Some cols)")
    case False
    then have "m' = m" using unfolded by (auto split: option.splits if_splits)
    then show ?thesis using assms(2) cache_extends_refl by simp
  next
    case True
    then obtain r cols where r: "ok" "res = Some r" "mysql_fetch_fields c r (mysql_data_seek c r 0 w1) = Some cols" by blast
    note fetched = unfolded [unfolded r(2,3) option.case]
    from fetched r(1) obtain result m1 w2 k s lens n where
      f: "fetch_rows k c r cols lens n mode 0 s m (mysql_data_seek c r 0 w1) = Inr (result, m1, w2)" and "m' = m1"
      by (auto simp: rbind_eq_Inr simp del: fetch_rows.simps split: option.splits if_splits) blast
    then show ?thesis using fetch_rows_cache [OF f assms(2)] by simp
  qed
qed

subsection \<open>A sample client\<close>

text \<open>
  A client library with one stored result, to apply the properties to: its state is the list of
  closed handles and the position of the next row.
\<close>

definition sample_client :: "bool \<Rightarrow> MYSQL_FIELD list \<Rightarrow> row list \<Rightarrow> (nat list \<times> nat) mysql_client" where
  "sample_client up cols rows =
     \<lparr>mysql_init = (\<lambda>w. (Some (Suc (length (fst w))), w)),
      mysql_real_connect = (\<lambda>h cfg w. (up, w)),
      mysql_options = (\<lambda>h opt v w. w),
      mysql_close = (\<lambda>h w. Inr (h # fst w, snd w)),
      mysql_ping = (\<lambda>h w. if h \<in> set (fst w) then Inl UseAfterFree else Inr (0, w)),
      mysql_errno = (\<lambda>h w. case h of None \<Rightarrow> Inr 0 | Some k \<Rightarrow> if k \<in> set (fst w) then Inl UseAfterFree else Inr 1045),
      mysql_error = (\<lambda>h w. case h of None \<Rightarrow> Inr [] | Some k \<Rightarrow> if k \<in> set (fst w) then Inl UseAfterFree else Inr ''denied''),
      mysql_real_query = (\<lambda>h sql len w. if h \<in> set (fst w) then Inl UseAfterFree else Inr (0, w)),
      mysql_store_result = (\<lambda>h w. Inr (Some 0, w)),
      mysql_data_seek = (\<lambda>r pos w. (fst w, unat pos)),
      mysql_fetch_fields = (\<lambda>r w. Some cols),
      mysql_fetch_lengths = (\<lambda>r w. if snd w = 0 then None
        else Some (map (\<lambda>cell. case cell of None \<Rightarrow> 0 | Some mem \<Rightarrow> word_of_nat (length (cstr mem))) (rows ! (snd w - 1)))),
      mysql_num_fields = (\<lambda>r w. word_of_nat (length cols)),
      mysql_num_rows = (\<lambda>r w. word_of_nat (length rows)),
      mysql_fetch_row = (\<lambda>r w. if snd w < length rows then (Some (rows ! snd w), (fst w, Suc (snd w))) else (None, w)),
      mysql_free_result = (\<lambda>r w. w)\<rparr>"

definition sample_cfg :: DatabaseParam where
  "sample_cfg = \<lparr>dp_name = ''main'', dp_ip = ''127.0.0.1'', dp_port = 3306, dp_user = ''u'', dp_passwd = ''p'',
     dp_dbName = ''db'', dp_asyncConnNum = 1\<rparr>"

definition sample_columns :: "MYSQL_FIELD list" where
  "sample_columns = [(sample_column_info ''t'' ''id'' MYSQL_TYPE_LONG 11)\<lparr>mf_flags := 2\<rparr>,
     sample_column_info ''t'' ''n'' MYSQL_TYPE_VAR_STRING 100]"

definition sample_cells :: row where
  "sample_cells = [Some (''7'' @ [CHR 0x00]), Some (''ab'' @ CHR 0x00 # ''xyz'')]"

definition sample_infos :: field_cache where
  "sample_infos = [(''t.id'', \<lparr>fi_name = ''id'', fi_type = 3, fi_attr = 2, fi_len = 11\<rparr>),
     (''t.n'', \<lparr>fi_name = ''n'', fi_type = 253, fi_attr = 0, fi_len = 100\<rparr>)]"

definition sample_row :: "field_val \<Rightarrow> field_val \<Rightarrow> Record" where
  "sample_row v1 v2 =
     \<lparr>rc_mode = MODE_EDIT, rc_fieldNum = 2, rc_tableName = ''t'',
      rc_fields = [Some (new_field (snd (sample_infos ! 0)) v1), Some (new_field (snd (sample_infos ! 1)) v2)],
      rc_name2idx = [(''id'', 0), (''n'', 1)], rc_keyIdx = 0, rc_autoIncIdx = - 1\<rparr>"

lemma sample_row_created:
  "CreateRecord [] (Some sample_cells) sample_columns None 2 MODE_EDIT =
     Inr (Some (sample_row (VInt32 7) (VString (''ab'' @ CHR 0x00 # ''xy''))), sample_infos)"
  by code_simp

lemma sample_default_created:
  "CreateRecord [] None sample_columns None 2 MODE_EDIT = Inr (Some (sample_row (VInt32 0) (VString [])), sample_infos)"
  by code_simp


theorem CreateRecord_keys_witness:
  "last_flagged PRI_KEY_FLAG sample_columns 2 = 0 \<and> last_flagged AUTO_INCREMENT_FLAG sample_columns 2 = - 1"
  using CreateRecord_keys [OF sample_row_created] by (simp add: GetKeyIdx_def GetAutoIncIdx_def sample_row_def)


theorem default_record_has_no_defaults_witness:
  "\<exists>g. CreateField (snd (sample_infos ! 0)) = Some g \<and> bf_val g = VInt32 0"
proof -
  have "\<exists>g. CreateField (bf_info (new_field (snd (sample_infos ! 0)) (VInt32 0))) = Some g \<and>
      bf_val (new_field (snd (sample_infos ! 0)) (VInt32 0)) = bf_val g"
    by (rule default_record_has_no_defaults [OF sample_default_created, of 0])
      (simp_all add: sample_columns_def sample_column_info_def GetField_def sample_row_def slot_peek_eq_Inr)
  then show ?thesis by (auto simp: new_field_def)
qed

definition sample_conn :: MysqlConnect where
  "sample_conn = (new_MysqlConnect sample_cfg)\<lparr>mc_opened := True, mc_dbHandler := Some 1\<rparr>"

theorem connect_then_disconnect_witness:
  "\<exists>conn2. Disconnect (sample_client True [] []) sample_conn ([], 0) = Inr (conn2, ([1], 0)) \<and> \<not> IsConnect conn2"
proof -
  have c: "Connect (sample_client True [] []) (new_MysqlConnect sample_cfg) ([], 0) = Inr (True, sample_conn, ([], 0))"
    by (simp add: Connect_def sample_client_def new_MysqlConnect_def sample_conn_def)
  obtain conn2 where d: "Disconnect (sample_client True [] []) sample_conn ([], 0) = Inr (conn2, ([1], 0))"
    by (simp add: Disconnect_def sample_client_def sample_conn_def new_MysqlConnect_def)
  from connect_then_disconnect [OF c d] d show ?thesis by blast
qed

theorem ping_after_disconnect_uses_freed_handle_witness:
  "\<exists>conn' w'. Disconnect (sample_client True [] []) sample_conn ([], 0) = Inr (conn', w') \<and>
     Ping (sample_client True [] []) conn' w' = Inl UseAfterFree"
proof -
  have free: "close_frees (sample_client True [] [])" by (auto simp: close_frees_def sample_client_def)
  obtain conn' w' where d: "Disconnect (sample_client True [] []) sample_conn ([], 0) = Inr (conn', w')"
    by (simp add: Disconnect_def sample_client_def sample_conn_def new_MysqlConnect_def)
  have "Ping (sample_client True [] []) conn' w' = Inl UseAfterFree"
    by (rule ping_after_disconnect_uses_freed_handle [OF free _ _ d])
      (simp_all add: IsConnect_def GetHandler_def sample_conn_def)
  with d show ?thesis by blast
qed

theorem failed_connect_reports_no_handle_witness:
  "\<exists>conn'. Connect (sample_client False [] []) (new_MysqlConnect sample_cfg) ([], 0) = Inr (False, conn', ([1], 0)) \<and>
     GetLastErrorNo conn' = 0 \<and> mysql_errno (sample_client False [] []) (Some 1) ([], 0) = Inr 1045"
proof -
  have "\<exists>conn'. Connect (sample_client False [] []) (new_MysqlConnect sample_cfg) ([], 0) = Inr (False, conn', ([1], 0)) \<and>
      GetLastErrorNo conn' = 0 \<and> GetLastError conn' = cstr [] \<and>
      IsConnect conn' = IsConnect (new_MysqlConnect sample_cfg)"
    by (rule failed_connect_reports_no_handle [where h = 1 and ?w1.0 = "([], 0)" and ?w2.0 = "([], 0)"])
      (simp_all add: sample_client_def new_MysqlConnect_def GetHandler_def)
  then show ?thesis by (auto simp: sample_client_def)
qed

theorem query_needs_connection_witness:
  "Query_sql (sample_client True [] []) (new_MysqlConnect sample_cfg) ''select 1'' ([], 0) =
     Inr (False, new_MysqlConnect sample_cfg, ([], 0))"
  using query_needs_connection [of "new_MysqlConnect sample_cfg" "sample_client True [] []" "''select 1''"]
  by (simp add: IsConnect_def new_MysqlConnect_def)

theorem query_returns_all_rows_witness:
  "\<exists>conn' m' w'. Query_records (sample_client True sample_columns [sample_cells, sample_cells]) sample_conn
       ''select * from t'' MODE_EDIT [] ([], 0) =
     Inr (Some \<lparr>rs_recordNum = 2, rs_records = replicate 2 (Some (sample_row (VInt32 7) (VString (''ab'' @ CHR 0x00 # ''xy''))))\<rparr>,
       conn', m', w')"
proof -
  let ?c = "sample_client True sample_columns [sample_cells, sample_cells]"
  let ?r = "sample_row (VInt32 7) (VString (''ab'' @ CHR 0x00 # ''xy''))"
  have again: "CreateRecord sample_infos (Some sample_cells) sample_columns None 2 MODE_EDIT = Inr (Some ?r, sample_infos)"
    by code_simp
  have all: "create_all sample_columns None 2 MODE_EDIT [sample_cells, sample_cells] [] = Inr (Some [?r, ?r], sample_infos)"
    using sample_row_created again by simp
  have n: "mysql_num_fields ?c 0 ([], 0) = 2" by (simp add: sample_client_def sample_columns_def)
  have "\<exists>w'. Query_records ?c sample_conn ''select * from t'' MODE_EDIT [] ([], 0) =
    Inr (map_option (\<lambda>rs. \<lparr>rs_recordNum = word_of_nat (length [sample_cells, sample_cells]), rs_records = map Some rs\<rparr>)
      (Some [?r, ?r]), sample_conn, sample_infos, w')"
    by (rule query_returns_all_rows [where res = 0 and ?w1.0 = "([], 0)" and dbFields = sample_columns])
      (use all n in \<open>simp_all add: sample_client_def Query_result_def IsConnect_def sample_conn_def\<close>)
  then show ?thesis by (auto simp: numeral_2_eq_2)
qed

end
