(* ===== verification/Db_Queue.thy ===== *)
theory Db_Queue
  imports Db_Connect
begin

text \<open>
  Asynchronous tasks (\<open>AsyncTask.h\<close>) and the queue between the main thread and a worker thread
  (\<open>AsyncTaskQueue.h\<close>, \<open>AsyncTaskQueue.cpp\<close>). Each operation of the queue holds its lock, so it is one
  function on the queue; a timed wait is the state the queue has when the wait ends. The contract of
  a FIFO queue is a locale, and what follows from it for any sequence of operations is proved there.
\<close>

subsection \<open>Tasks\<close>

datatype AsyncTaskType = AsyncTask_None | AsyncTask_Query | AsyncTask_ExecuteSql

text \<open>
  The two task classes: \<open>TaskQuery\<close> holds the mode, the result and the callback, \<open>TaskQuerySql\<close> the
  result and the callback. A callback is a number, \<open>None\<close> for an empty \<open>std::function\<close>.
\<close>

datatype task_info =
    TaskQueryRecordset MODE "Recordset option" "nat option"
  | TaskQuerySql bool "nat option"

record AsyncTask =
  at_sql :: bytes
  at_taskType :: AsyncTaskType
  at_task :: task_info

text \<open>What a callback is called with.\<close>

datatype callback_event =
    QueryCB nat "Recordset option"
  | SqlCB nat bool

definition Invoke :: "AsyncTask \<Rightarrow> callback_event res" where
  "Invoke t =
     (case at_task t of
        TaskQueryRecordset mode result cb \<Rightarrow> (case cb of None \<Rightarrow> Inl BadFunctionCall | Some f \<Rightarrow> Inr (QueryCB f result))
      | TaskQuerySql result cb \<Rightarrow> (case cb of None \<Rightarrow> Inl BadFunctionCall | Some f \<Rightarrow> Inr (SqlCB f result)))"

subsection \<open>The queue\<close>

record 'a AsyncTaskQueue =
  aq_count :: sint32
  aq_tasks :: "'a list"

definition new_AsyncTaskQueue :: "'a AsyncTaskQueue" where
  "new_AsyncTaskQueue = \<lparr>aq_count = 0, aq_tasks = []\<rparr>"

definition Push :: "'a AsyncTaskQueue \<Rightarrow> 'a \<Rightarrow> 'a AsyncTaskQueue" where
  "Push q task = q\<lparr>aq_tasks := aq_tasks q @ [task]\<rparr>"

text \<open>\<open>TimePop\<close> when its wait ends, and \<open>TryPop\<close>, which does not wait.\<close>

definition TimePop :: "'a AsyncTaskQueue \<Rightarrow> 'a option \<times> 'a AsyncTaskQueue" where
  "TimePop q = (case aq_tasks q of [] \<Rightarrow> (None, q) | t # ts \<Rightarrow> (Some t, q\<lparr>aq_tasks := ts\<rparr>))"

definition TryPop :: "'a AsyncTaskQueue \<Rightarrow> 'a option \<times> 'a AsyncTaskQueue" where
  "TryPop q = (if aq_tasks q = [] then (None, q) else (Some (hd (aq_tasks q)), q\<lparr>aq_tasks := tl (aq_tasks q)\<rparr>))"

text \<open>The loop that moves the tasks to the caller's vector.\<close>

fun drain :: "'a list \<Rightarrow> 'a list \<Rightarrow> 'a list \<times> 'a list" where
  "drain tasks [] = (tasks, [])"
| "drain tasks (t # ts) = drain (tasks @ [t]) ts"

definition PopAll :: "'a AsyncTaskQueue \<Rightarrow> 'a list \<Rightarrow> 'a list \<times> 'a AsyncTaskQueue" where
  "PopAll q tasks = (let (tasks', rest) = drain tasks (aq_tasks q) in (tasks', q\<lparr>aq_tasks := rest\<rparr>))"

definition TimePopAll :: "'a AsyncTaskQueue \<Rightarrow> 'a list \<Rightarrow> 'a list \<times> 'a AsyncTaskQueue" where
  "TimePopAll q tasks =
     (if aq_tasks q = [] then (tasks, q)
      else (let (tasks', rest) = drain tasks (aq_tasks q) in (tasks', q\<lparr>aq_tasks := rest\<rparr>)))"

definition Empty :: "'a AsyncTaskQueue \<Rightarrow> bool" where
  "Empty q \<longleftrightarrow> aq_count q = 0"

definition Size :: "'a AsyncTaskQueue \<Rightarrow> sint32" where
  "Size q = aq_count q"

lemma drain_eq [simp]: "drain tasks ts = (tasks @ ts, [])"
  by (induction ts arbitrary: tasks) simp_all

lemma PopAll_eq: "PopAll q tasks = (tasks @ aq_tasks q, q\<lparr>aq_tasks := []\<rparr>)"
  by (simp add: PopAll_def)

lemma TimePopAll_eq: "TimePopAll q tasks = (tasks @ aq_tasks q, q\<lparr>aq_tasks := []\<rparr>)"
  by (cases "aq_tasks q = []") (simp_all add: TimePopAll_def)

lemma TimePop_TryPop: "TimePop q = TryPop q"
  by (simp add: TimePop_def TryPop_def split: list.split)

subsection \<open>The contract of a queue\<close>

locale fifo_queue =
  fixes content :: "'q \<Rightarrow> 'a list"
    and push :: "'q \<Rightarrow> 'a \<Rightarrow> 'q"
    and pop :: "'q \<Rightarrow> 'a option \<times> 'q"
    and pop_all :: "'q \<Rightarrow> 'a list \<Rightarrow> 'a list \<times> 'q"
  assumes content_push: "content (push q x) = content q @ [x]"
    and pop_empty: "content q = [] \<Longrightarrow> pop q = (None, q)"
    and pop_front: "content q = x # xs \<Longrightarrow> \<exists>q'. pop q = (Some x, q') \<and> content q' = xs"
    and pop_all_content: "\<exists>q'. pop_all q acc = (acc @ content q, q') \<and> content q' = []"
begin

text \<open>A client's operations: push a task, pop one, pop all.\<close>

fun step :: "('a + bool) \<Rightarrow> 'q \<Rightarrow> 'a list \<times> 'q" where
  "step (Inl x) q = ([], push q x)"
| "step (Inr False) q = (case pop q of (None, q') \<Rightarrow> ([], q') | (Some x, q') \<Rightarrow> ([x], q'))"
| "step (Inr True) q = pop_all q []"

fun run :: "('a + bool) list \<Rightarrow> 'q \<Rightarrow> 'a list \<times> 'q" where
  "run [] q = ([], q)"
| "run (a # as) q = (let (xs, q') = step a q; (ys, q'') = run as q' in (xs @ ys, q''))"

fun pushed :: "('a + bool) list \<Rightarrow> 'a list" where
  "pushed [] = []"
| "pushed (Inl x # as) = x # pushed as"
| "pushed (Inr _ # as) = pushed as"

lemma step_conserves: "step a q = (xs, q') \<Longrightarrow> xs @ content q' = content q @ pushed [a]"
proof (induction a q rule: step.induct)
  case (2 q)
  then show ?case
    using pop_empty [of q] pop_front [of q] by (cases "content q") (fastforce split: prod.splits)+
next
  case (3 q)
  then show ?case using pop_all_content [of q "[]"] by auto
qed (auto simp: content_push)

lemma run_conserves: "run as q = (xs, q') \<Longrightarrow> xs @ content q' = content q @ pushed as"
proof (induction as arbitrary: q xs)
  case (Cons a as)
  obtain ys q1 zs where s: "step a q = (ys, q1)" "run as q1 = (zs, q')" "xs = ys @ zs"
    using Cons.prems by (auto simp: Let_def split: prod.splits)
  have "pushed (a # as) = pushed [a] @ pushed as" by (cases a) simp_all
  with s step_conserves [OF s(1)] Cons.IH [OF s(2)] show ?case by (metis append.assoc)
qed simp

text \<open>What was popped is a prefix of what was queued, in order, and nothing is lost.\<close>

lemma popped_prefix:
  assumes "run as q = (xs, q')"
  shows "xs = take (length xs) (content q @ pushed as)"
  using run_conserves [OF assms] by (metis append_eq_conv_conj)

end

interpretation task_queue: fifo_queue aq_tasks Push TryPop PopAll
  by unfold_locales (auto simp: Push_def TryPop_def PopAll_def)

interpretation timed_queue: fifo_queue aq_tasks Push TimePop TimePopAll
  by unfold_locales (auto simp: Push_def TimePop_def TimePopAll_eq)

subsection \<open>Properties\<close>

text \<open>The operations of the code as a run.\<close>

datatype 'a queue_op = OpPush 'a | OpTryPop | OpTimePop | OpPopAll | OpTimePopAll

fun queue_step :: "'a queue_op \<Rightarrow> 'a AsyncTaskQueue \<Rightarrow> 'a list \<times> 'a AsyncTaskQueue" where
  "queue_step (OpPush x) q = ([], Push q x)"
| "queue_step OpTryPop q = (let (t, q') = TryPop q in (case t of None \<Rightarrow> [] | Some x \<Rightarrow> [x], q'))"
| "queue_step OpTimePop q = (let (t, q') = TimePop q in (case t of None \<Rightarrow> [] | Some x \<Rightarrow> [x], q'))"
| "queue_step OpPopAll q = PopAll q []"
| "queue_step OpTimePopAll q = TimePopAll q []"

fun queue_run :: "'a queue_op list \<Rightarrow> 'a AsyncTaskQueue \<Rightarrow> 'a list \<times> 'a AsyncTaskQueue" where
  "queue_run [] q = ([], q)"
| "queue_run (a # as) q = (let (xs, q') = queue_step a q; (ys, q'') = queue_run as q' in (xs @ ys, q''))"

fun queue_pushed :: "'a queue_op list \<Rightarrow> 'a list" where
  "queue_pushed [] = []"
| "queue_pushed (OpPush x # as) = x # queue_pushed as"
| "queue_pushed (_ # as) = queue_pushed as"

fun queue_client_op :: "'a queue_op \<Rightarrow> 'a + bool" where
  "queue_client_op (OpPush x) = Inl x"
| "queue_client_op OpTryPop = Inr False"
| "queue_client_op OpTimePop = Inr False"
| "queue_client_op OpPopAll = Inr True"
| "queue_client_op OpTimePopAll = Inr True"

lemma queue_step_refines: "queue_step a q = task_queue.step (queue_client_op a) q"
  by (cases a) (simp_all add: TimePop_TryPop PopAll_eq TimePopAll_eq split: prod.split option.split)

lemma queue_run_refines: "queue_run as q = task_queue.run (map queue_client_op as) q"
  by (induction as arbitrary: q) (simp_all add: queue_step_refines)

lemma queue_pushed_refines: "queue_pushed as = task_queue.pushed (map queue_client_op as)"
proof (induction as)
  case (Cons a as)
  then show ?case by (cases a) simp_all
qed simp

text \<open>C18: The task queue is FIFO and loses nothing: after any sequence of its operations the tasks popped so far, in order, followed by the tasks still queued, are the initial tasks followed by the pushed ones.\<close>

theorem queue_is_fifo:
  assumes "queue_run as q = (popped, q')"
  shows "popped @ aq_tasks q' = aq_tasks q @ queue_pushed as"
  using assms task_queue.run_conserves by (simp add: queue_run_refines queue_pushed_refines)

theorem queue_is_fifo_witness:
  "fst (queue_run [OpPush (1::nat), OpPush 2, OpTryPop, OpPush 3, OpTimePopAll] new_AsyncTaskQueue) = [1, 2, 3]"
proof -
  let ?as = "[OpPush (1::nat), OpPush 2, OpTryPop, OpPush 3, OpTimePopAll]"
  obtain xs q' where r: "queue_run ?as new_AsyncTaskQueue = (xs, q')" by (cases "queue_run ?as new_AsyncTaskQueue")
  then have "aq_tasks q' = []"
    by (auto simp: Push_def TryPop_def TimePopAll_eq new_AsyncTaskQueue_def)
  with queue_is_fifo [OF r] r show ?thesis by (simp add: new_AsyncTaskQueue_def)
qed

lemma queue_step_count: "aq_count (snd (queue_step a q)) = aq_count q"
  by (cases a) (simp_all add: Push_def TryPop_def TimePop_TryPop PopAll_eq TimePopAll_eq)

text \<open>The counter behind \<open>Empty\<close> and \<open>Size\<close> is never updated: after any operations on a new queue \<open>Empty\<close> is true and \<open>Size\<close> is 0, also when tasks are queued.\<close>

theorem queue_always_reports_empty:
  "Empty (snd (queue_run as new_AsyncTaskQueue)) \<and> Size (snd (queue_run as new_AsyncTaskQueue)) = 0"
proof -
  have "aq_count (snd (queue_run as q)) = aq_count q" for q :: "'a AsyncTaskQueue"
  proof (induction as arbitrary: q)
    case (Cons a as)
    then show ?case using queue_step_count [of a q] by (simp add: case_prod_beta)
  qed simp
  then show ?thesis by (simp add: Empty_def Size_def new_AsyncTaskQueue_def)
qed

end
