(* ===== verification/Db_Database.thy ===== *)
theory Db_Database
  imports Db_Queue
begin

text \<open>
  A database (\<open>MysqlDB\<close> in \<open>Database.h\<close> and \<open>Database.cpp\<close>): one synchronous connection for the thread
  that initialised it, and per worker thread a connection, a task queue and a flush flag. This theory
  has the state and the operations that do not wait; the worker threads, \<open>Flush\<close> and \<open>Destroy\<close> are in
  \<open>Db_Async\<close>. \<open>self\<close> is the calling thread; \<open>esc\<close> and \<open>real_esc\<close> are the escape functions of the client
  library, the second also given the connection handle.
\<close>

subsection \<open>State\<close>

text \<open>Where a worker thread is in the loop of \<open>AsyncWorkFunc\<close>.\<close>

datatype worker_pc =
    AtPop
  | Working "AsyncTask list"
  | AtSetFlag
  | AtStopCheck
  | AtExit
  | Stopped

record MysqlDB =
  db_inited :: bool
  db_asyncThreadId :: "nat option"
  db_asyncConnNum :: uint32
  db_name :: bytes
  db_stoping :: bool
  db_flushing :: bool
  db_stopedNum :: sint32
  db_syncConn :: "MysqlConnect option"
  db_asyncConns :: "MysqlConnect list"
  db_asyncThreads :: "worker_pc list"
  db_taskQueues :: "AsyncTask AsyncTaskQueue list"
  db_flushFlag :: "bool list"
  db_finishTasks :: "AsyncTask list"
  db_fieldInfos :: field_cache

definition new_MysqlDB :: MysqlDB where
  "new_MysqlDB =
     \<lparr>db_inited = False, db_asyncThreadId = None, db_asyncConnNum = 0, db_name = [], db_stoping = False,
      db_flushing = False, db_stopedNum = 0, db_syncConn = None, db_asyncConns = [], db_asyncThreads = [],
      db_taskQueues = [], db_flushFlag = [], db_finishTasks = [], db_fieldInfos = []\<rparr>"

definition Database_GetName :: "MysqlDB \<Rightarrow> bytes" where
  "Database_GetName db = db_name db"

text \<open>\<open>CHECK_ASYNC_THREAD\<close>.\<close>

definition check_async_thread :: "MysqlDB \<Rightarrow> nat \<Rightarrow> unit res" where
  "check_async_thread db self = (if db_asyncThreadId db = Some self then Inr () else Inl AssertFail)"

subsection \<open>\<open>Init\<close>\<close>

text \<open>\<open>reset\<close> of an owning pointer to a connection: the destructor of the old one disconnects it.\<close>

definition release_conn :: "'w mysql_client \<Rightarrow> MysqlConnect option \<Rightarrow> 'w \<Rightarrow> 'w res" where
  "release_conn c p w =
     (case p of None \<Rightarrow> Inr w | Some conn \<Rightarrow> rbind (Disconnect c conn w) (\<lambda>(_, w'). Inr w'))"

fun connect_all :: "'w mysql_client \<Rightarrow> DatabaseParam \<Rightarrow> nat \<Rightarrow> MysqlConnect list \<Rightarrow> 'w \<Rightarrow>
    (bool \<times> MysqlConnect list \<times> 'w) res" where
  "connect_all c cfg 0 conns w = Inr (True, conns, w)"
| "connect_all c cfg (Suc n) conns w =
     rbind (Connect c (new_MysqlConnect cfg) w) (\<lambda>(ok, conn, w1).
       if ok then connect_all c cfg n (conns @ [conn]) w1
       else rbind (release_conn c (Some conn) w1) (\<lambda>w2. Inr (False, conns, w2)))"

text \<open>\<open>std::max<int>(cfg._asyncConnNum, 1)\<close>, stored as \<open>uint32\<close>.\<close>

definition async_conn_num :: "DatabaseParam \<Rightarrow> uint32" where
  "async_conn_num cfg = (if sint (dp_asyncConnNum cfg) < 1 then 1 else dp_asyncConnNum cfg)"

text \<open>
  A new \<open>std::atomic_bool\<close> is not initialised; \<open>Flush\<close> writes every flag before it reads one, so the
  model starts them at false.
\<close>

definition Init :: "'w mysql_client \<Rightarrow> MysqlDB \<Rightarrow> nat \<Rightarrow> DatabaseParam \<Rightarrow> 'w \<Rightarrow> (bool \<times> MysqlDB \<times> 'w) res" where
  "Init c db self cfg w =
     (if db_inited db then Inr (False, db, w)
      else
        rbind (release_conn c (db_syncConn db) w) (\<lambda>w0.
        rbind (Connect c (new_MysqlConnect cfg) w0) (\<lambda>(ok, conn, w1).
          let db1 = db\<lparr>db_syncConn := Some conn\<rparr> in
          if \<not> ok then Inr (False, db1, w1)
          else
            let n = async_conn_num cfg;
                db2 = db1\<lparr>db_asyncConnNum := n\<rparr> in
            rbind (connect_all c cfg (unat n) (db_asyncConns db2) w1) (\<lambda>(ok', conns, w2).
              let db3 = db2\<lparr>db_asyncConns := conns\<rparr> in
              if \<not> ok' then Inr (False, db3, w2)
              else Inr (True,
                db3\<lparr>db_flushFlag := db_flushFlag db3 @ replicate (unat n) False,
                    db_taskQueues := db_taskQueues db3 @ replicate (unat n) new_AsyncTaskQueue,
                    db_asyncThreads := db_asyncThreads db3 @ replicate (unat n) AtPop,
                    db_asyncThreadId := Some self, db_name := dp_name cfg, db_inited := True\<rparr>, w2)))))"

subsection \<open>Asynchronous queries and their results\<close>

definition AddAsyncTask :: "MysqlDB \<Rightarrow> nat \<Rightarrow> uint64 \<Rightarrow> AsyncTask \<Rightarrow> MysqlDB res" where
  "AddAsyncTask db self key task =
     rbind (check_async_thread db self) (\<lambda>_.
       if db_asyncConnNum db = 0 then Inl ArithUndefined
       else
         let i = unat (key mod ucast (db_asyncConnNum db)) in
         rbind (vec_at (db_taskQueues db) i) (\<lambda>q.
           Inr (db\<lparr>db_taskQueues := (db_taskQueues db)[i := Push q task]\<rparr>)))"

definition QueryAsync_records :: "MysqlDB \<Rightarrow> nat \<Rightarrow> uint64 \<Rightarrow> bytes \<Rightarrow> MODE \<Rightarrow> nat option \<Rightarrow> MysqlDB res" where
  "QueryAsync_records db self key sql mode cb =
     AddAsyncTask db self key
       \<lparr>at_sql = cstr sql, at_taskType = AsyncTask_Query, at_task = TaskQueryRecordset mode None cb\<rparr>"

definition QueryAsync_sql :: "MysqlDB \<Rightarrow> nat \<Rightarrow> uint64 \<Rightarrow> bytes \<Rightarrow> nat option \<Rightarrow> MysqlDB res" where
  "QueryAsync_sql db self key sql cb =
     AddAsyncTask db self key
       \<lparr>at_sql = cstr sql, at_taskType = AsyncTask_ExecuteSql, at_task = TaskQuerySql False cb\<rparr>"

text \<open>
  \<open>AsyncDoWork\<close> up to the push of the finished task: the query on the worker's connection. The
  \<open>dynamic_cast\<close> gives null when the task type does not match the class.
\<close>

definition run_task :: "'w mysql_client \<Rightarrow> MysqlConnect \<Rightarrow> AsyncTask \<Rightarrow> field_cache \<Rightarrow> 'w \<Rightarrow>
    (AsyncTask \<times> MysqlConnect \<times> field_cache \<times> 'w) res" where
  "run_task c conn task m w =
     (case at_taskType task of
        AsyncTask_Query \<Rightarrow>
          (case at_task task of
             TaskQueryRecordset mode _ cb \<Rightarrow>
               rbind (Query_records c conn (at_sql task) mode m w) (\<lambda>(result, conn', m', w').
                 Inr (task\<lparr>at_task := TaskQueryRecordset mode result cb\<rparr>, conn', m', w'))
           | TaskQuerySql _ _ \<Rightarrow> Inl NullDeref)
      | AsyncTask_ExecuteSql \<Rightarrow>
          (case at_task task of
             TaskQuerySql _ cb \<Rightarrow>
               rbind (Query_sql c conn (at_sql task) w) (\<lambda>(result, conn', w').
                 Inr (task\<lparr>at_task := TaskQuerySql result cb\<rparr>, conn', m, w'))
           | TaskQueryRecordset _ _ _ \<Rightarrow> Inl NullDeref)
      | AsyncTask_None \<Rightarrow> Inr (task, conn, m, w))"

definition AsyncDoWork :: "'w mysql_client \<Rightarrow> MysqlDB \<Rightarrow> nat \<Rightarrow> AsyncTask \<Rightarrow> 'w \<Rightarrow> (MysqlDB \<times> 'w) res" where
  "AsyncDoWork c db threadIdx task w =
     rbind (vec_at (db_asyncConns db) threadIdx) (\<lambda>conn.
       rbind (run_task c conn task (db_fieldInfos db) w) (\<lambda>(task', conn', m', w').
         Inr (db\<lparr>db_asyncConns := (db_asyncConns db)[threadIdx := conn'], db_fieldInfos := m',
                 db_finishTasks := db_finishTasks db @ [task']\<rparr>, w')))"

text \<open>\<open>OnUpdate\<close> takes all finished tasks at once and then runs their callbacks.\<close>

definition take_finished :: "MysqlDB \<Rightarrow> nat \<Rightarrow> (AsyncTask list \<times> MysqlDB) res" where
  "take_finished db self =
     rbind (check_async_thread db self) (\<lambda>_.
       if db_finishTasks db = [] then Inr ([], db)
       else Inr (db_finishTasks db, db\<lparr>db_finishTasks := []\<rparr>))"

fun invoke_all :: "AsyncTask list \<Rightarrow> callback_event list res" where
  "invoke_all [] = Inr []"
| "invoke_all (t # ts) = rbind (Invoke t) (\<lambda>e. rbind (invoke_all ts) (\<lambda>es. Inr (e # es)))"

definition OnUpdate :: "MysqlDB \<Rightarrow> nat \<Rightarrow> (callback_event list \<times> MysqlDB) res" where
  "OnUpdate db self =
     rbind (take_finished db self) (\<lambda>(tasks, db'). rbind (invoke_all tasks) (\<lambda>es. Inr (es, db')))"

subsection \<open>Synchronous queries\<close>

definition Database_Query_records :: "'w mysql_client \<Rightarrow> MysqlDB \<Rightarrow> nat \<Rightarrow> bytes \<Rightarrow> MODE \<Rightarrow> 'w \<Rightarrow>
    (Recordset option \<times> MysqlDB \<times> 'w) res" where
  "Database_Query_records c db self sql mode w =
     rbind (check_async_thread db self) (\<lambda>_.
     rbind (deref (db_syncConn db)) (\<lambda>conn.
     rbind (Query_records c conn sql mode (db_fieldInfos db) w) (\<lambda>(result, conn', m', w').
       Inr (result, db\<lparr>db_syncConn := Some conn', db_fieldInfos := m'\<rparr>, w'))))"

text \<open>The query on the synchronous connection, without and with the check of the calling thread.\<close>

definition sync_query :: "'w mysql_client \<Rightarrow> MysqlDB \<Rightarrow> bytes \<Rightarrow> 'w \<Rightarrow> (bool \<times> MysqlDB \<times> 'w) res" where
  "sync_query c db sql w =
     rbind (deref (db_syncConn db)) (\<lambda>conn.
     rbind (Query_sql c conn sql w) (\<lambda>(ok, conn', w'). Inr (ok, db\<lparr>db_syncConn := Some conn'\<rparr>, w')))"

definition Database_Query_sql :: "'w mysql_client \<Rightarrow> MysqlDB \<Rightarrow> nat \<Rightarrow> bytes \<Rightarrow> 'w \<Rightarrow> (bool \<times> MysqlDB \<times> 'w) res" where
  "Database_Query_sql c db self sql w =
     rbind (check_async_thread db self) (\<lambda>_. sync_query c db sql w)"

definition Database_MakeDefRecord :: "'w mysql_client \<Rightarrow> MysqlDB \<Rightarrow> bytes \<Rightarrow> 'w \<Rightarrow>
    (Record option \<times> MysqlDB \<times> 'w) res" where
  "Database_MakeDefRecord c db tableName w =
     rbind (deref (db_syncConn db)) (\<lambda>conn.
     rbind (MakeDefRecord c conn tableName (db_fieldInfos db) w) (\<lambda>(r, conn', m', w').
       Inr (r, db\<lparr>db_syncConn := Some conn', db_fieldInfos := m'\<rparr>, w')))"

definition Database_BuildUpdateSql :: "(bytes \<Rightarrow> bytes) \<Rightarrow> (nat option \<Rightarrow> bytes \<Rightarrow> bytes) \<Rightarrow> MysqlDB \<Rightarrow> Record \<Rightarrow> bytes \<Rightarrow> (bool \<times> bytes) res" where
  "Database_BuildUpdateSql esc real_esc db record sql =
     rbind (deref (db_syncConn db)) (\<lambda>conn. BuildUpdateSql esc (real_esc (GetHandler conn)) record sql)"

definition Database_BuildDelSql :: "MysqlDB \<Rightarrow> Record \<Rightarrow> bytes \<Rightarrow> (bool \<times> bytes) res" where
  "Database_BuildDelSql db record sql = rbind (deref (db_syncConn db)) (\<lambda>conn. BuildDelSql record sql)"

definition Database_BuildInsertSql :: "(bytes \<Rightarrow> bytes) \<Rightarrow> (nat option \<Rightarrow> bytes \<Rightarrow> bytes) \<Rightarrow> MysqlDB \<Rightarrow> Record \<Rightarrow> bytes \<Rightarrow> (bool \<times> bytes) res" where
  "Database_BuildInsertSql esc real_esc db record sql =
     rbind (deref (db_syncConn db)) (\<lambda>conn. BuildInsertSql esc (real_esc (GetHandler conn)) record sql)"

subsection \<open>Records\<close>

definition Insert :: "'w mysql_client \<Rightarrow> (bytes \<Rightarrow> bytes) \<Rightarrow> (nat option \<Rightarrow> bytes \<Rightarrow> bytes) \<Rightarrow> MysqlDB \<Rightarrow> Record \<Rightarrow> 'w \<Rightarrow>
    (bool \<times> MysqlDB \<times> 'w) res" where
  "Insert c esc real_esc db record w =
     rbind (Database_BuildInsertSql esc real_esc db record []) (\<lambda>(ok, sql).
       if \<not> ok then Inr (False, db, w) else sync_query c db sql w)"

definition Update :: "'w mysql_client \<Rightarrow> (bytes \<Rightarrow> bytes) \<Rightarrow> (nat option \<Rightarrow> bytes \<Rightarrow> bytes) \<Rightarrow> MysqlDB \<Rightarrow> Record \<Rightarrow> 'w \<Rightarrow>
    (bool \<times> Record \<times> MysqlDB \<times> 'w) res" where
  "Update c esc real_esc db record w =
     (if GetMode record \<noteq> MODE_EDIT then Inr (False, record, db, w)
      else
        rbind (Database_BuildUpdateSql esc real_esc db record []) (\<lambda>(ok, sql).
          if \<not> ok then Inr (False, record, db, w)
          else if sql = [] then Inr (True, record, db, w)
          else
            rbind (sync_query c db sql w) (\<lambda>(ret, db', w').
              if ret then rbind (ClsEditFlag record) (\<lambda>record'. Inr (ret, record', db', w'))
              else Inr (ret, record, db', w'))))"

definition Delete :: "'w mysql_client \<Rightarrow> MysqlDB \<Rightarrow> Record \<Rightarrow> 'w \<Rightarrow> (bool \<times> MysqlDB \<times> 'w) res" where
  "Delete c db record w =
     (if GetMode record \<noteq> MODE_EDIT then Inr (False, db, w)
      else
        rbind (Database_BuildDelSql db record []) (\<lambda>(ok, sql).
          if \<not> ok then Inr (False, db, w) else sync_query c db sql w))"

subsection \<open>The end of \<open>Destroy\<close>\<close>

fun release_all :: "'w mysql_client \<Rightarrow> MysqlConnect list \<Rightarrow> 'w \<Rightarrow> 'w res" where
  "release_all c [] w = Inr w"
| "release_all c (conn # conns) w = rbind (release_conn c (Some conn) w) (release_all c conns)"

text \<open>
  What \<open>Destroy\<close> does once every worker has stopped: the finished tasks are deleted, their callbacks
  never called, and everything is released. \<open>_stoping\<close> stays set and \<open>_asyncThreadId\<close> is kept.
\<close>

definition Destroy_finish :: "'w mysql_client \<Rightarrow> MysqlDB \<Rightarrow> 'w \<Rightarrow> (MysqlDB \<times> 'w) res" where
  "Destroy_finish c db w =
     rbind (release_conn c (db_syncConn db) w) (\<lambda>w1.
       rbind (release_all c (db_asyncConns db) w1) (\<lambda>w2.
         Inr (db\<lparr>db_asyncThreads := [], db_finishTasks := [], db_flushFlag := [], db_syncConn := None,
                 db_asyncConns := [], db_taskQueues := [], db_fieldInfos := [], db_asyncConnNum := 0,
                 db_inited := False\<rparr>, w2)))"

subsection \<open>Invariant\<close>

text \<open>A database before \<open>Init\<close> or after \<open>Destroy\<close>, and an initialised one.\<close>

definition closed_db :: "MysqlDB \<Rightarrow> bool" where
  "closed_db db \<longleftrightarrow> \<not> db_inited db \<and> db_syncConn db = None \<and> db_asyncConns db = [] \<and> db_asyncThreads db = [] \<and>
     db_taskQueues db = [] \<and> db_flushFlag db = [] \<and> db_finishTasks db = [] \<and> map_ok (db_fieldInfos db)"

definition wf_db :: "MysqlDB \<Rightarrow> bool" where
  "wf_db db \<longleftrightarrow>
     0 < unat (db_asyncConnNum db) \<and> length (db_asyncConns db) = unat (db_asyncConnNum db) \<and>
     length (db_asyncThreads db) = unat (db_asyncConnNum db) \<and> length (db_taskQueues db) = unat (db_asyncConnNum db) \<and>
     length (db_flushFlag db) = unat (db_asyncConnNum db) \<and> map_ok (db_fieldInfos db) \<and>
     db_syncConn db \<noteq> None \<and> db_asyncThreadId db \<noteq> None"

lemma closed_new: "closed_db new_MysqlDB"
  by (simp add: closed_db_def new_MysqlDB_def)

lemma Connect_ok: "Connect c conn w = Inr (True, conn', w') \<Longrightarrow> IsConnect conn' \<and> mc_cfg conn' = mc_cfg conn"
  by (auto simp: Connect_def IsConnect_def Let_def rbind_eq_Inr split: prod.splits option.splits bool.splits)

lemma connect_all_ok:
  "connect_all c cfg n conns w = Inr (True, conns', w') \<Longrightarrow>
     \<exists>new. conns' = conns @ new \<and> length new = n \<and> (\<forall>conn\<in>set new. IsConnect conn)"
proof (induction n arbitrary: conns w)
  case (Suc n)
  obtain ok conn w1 where conn: "Connect c (new_MysqlConnect cfg) w = Inr (ok, conn, w1)"
    using Suc.prems by (auto simp: rbind_eq_Inr)
  with Suc.prems have ok: "ok" by (cases ok) (auto simp: rbind_eq_Inr)
  with conn Suc.prems have "connect_all c cfg n (conns @ [conn]) w1 = Inr (True, conns', w')" by simp
  from Suc.IH [OF this] obtain new where new: "conns' = (conns @ [conn]) @ new" "length new = n"
    "\<forall>conn\<in>set new. IsConnect conn" by blast
  have "IsConnect conn" using Connect_ok conn ok by fastforce
  with new show ?case by (intro exI [of _ "conn # new"]) simp
qed simp

lemma Init_cases:
  assumes "Init c db self cfg w = Inr (True, db', w')"
  obtains conn conns n where "\<not> db_inited db" "IsConnect conn"
    "n = async_conn_num cfg"
    "\<exists>new. conns = db_asyncConns db @ new \<and> length new = unat n \<and> (\<forall>k\<in>set new. IsConnect k)"
    "db' = db\<lparr>db_syncConn := Some conn, db_asyncConnNum := n, db_asyncConns := conns,
       db_flushFlag := db_flushFlag db @ replicate (unat n) False,
       db_taskQueues := db_taskQueues db @ replicate (unat n) new_AsyncTaskQueue,
       db_asyncThreads := db_asyncThreads db @ replicate (unat n) AtPop,
       db_asyncThreadId := Some self, db_name := dp_name cfg, db_inited := True\<rparr>"
proof -
  let ?n = "async_conn_num cfg"
  from assms obtain w0 conn w1 conns where *: "\<not> db_inited db" "Connect c (new_MysqlConnect cfg) w0 = Inr (True, conn, w1)"
    "connect_all c cfg (unat ?n) (db_asyncConns db) w1 = Inr (True, conns, w')"
    "db' = db\<lparr>db_syncConn := Some conn, db_asyncConnNum := ?n, db_asyncConns := conns,
       db_flushFlag := db_flushFlag db @ replicate (unat ?n) False,
       db_taskQueues := db_taskQueues db @ replicate (unat ?n) new_AsyncTaskQueue,
       db_asyncThreads := db_asyncThreads db @ replicate (unat ?n) AtPop,
       db_asyncThreadId := Some self, db_name := dp_name cfg, db_inited := True\<rparr>"
    unfolding Init_def Let_def by (auto simp: rbind_eq_Inr split: if_splits prod.splits)
  show thesis
    by (rule that [OF *(1) _ refl connect_all_ok [OF *(3)] *(4)]) (use Connect_ok [OF *(2)] in blast)
qed

lemma async_conn_num_pos: "0 < unat (async_conn_num cfg)"
  by (auto simp: async_conn_num_def unat_gt_0)

text \<open>C16: A successful \<open>Init\<close> gives a ready database: as many worker threads, queues, flush flags and connections as configured, at least one, every queue empty, every worker at the start of its loop, every connection open, and the calling thread recorded.\<close>

theorem Init_makes_database_ready:
  assumes "closed_db db" "Init c db self cfg w = Inr (True, db', w')"
  shows "wf_db db' \<and> db_inited db' \<and> db_asyncThreadId db' = Some self \<and> Database_GetName db' = dp_name cfg \<and>
    db_asyncConnNum db' = (if sint (dp_asyncConnNum cfg) < 1 then 1 else dp_asyncConnNum cfg) \<and> 0 < unat (db_asyncConnNum db') \<and>
    (\<forall>q\<in>set (db_taskQueues db'). aq_tasks q = []) \<and> (\<forall>t\<in>set (db_asyncThreads db'). t = AtPop) \<and>
    (\<forall>conn\<in>set (db_asyncConns db'). IsConnect conn) \<and> db_finishTasks db' = [] \<and> db_stoping db' = db_stoping db"
  using assms(2)
proof (rule Init_cases)
  fix conn conns n
  assume n: "n = async_conn_num cfg"
    and conns: "\<exists>new. conns = db_asyncConns db @ new \<and> length new = unat n \<and> (\<forall>k\<in>set new. IsConnect k)"
    and db': "db' = db\<lparr>db_syncConn := Some conn, db_asyncConnNum := n, db_asyncConns := conns,
       db_flushFlag := db_flushFlag db @ replicate (unat n) False,
       db_taskQueues := db_taskQueues db @ replicate (unat n) new_AsyncTaskQueue,
       db_asyncThreads := db_asyncThreads db @ replicate (unat n) AtPop,
       db_asyncThreadId := Some self, db_name := dp_name cfg, db_inited := True\<rparr>"
  have "0 < unat n" unfolding n by (rule async_conn_num_pos)
  with assms(1) conns show ?thesis
    unfolding db' n
    by (auto simp: async_conn_num_def wf_db_def closed_db_def Database_GetName_def new_AsyncTaskQueue_def)
qed

lemma AddAsyncTask_ok:
  assumes "wf_db db" "db_asyncThreadId db = Some self"
  shows "\<exists>i. i = unat key mod unat (db_asyncConnNum db) \<and> i < length (db_taskQueues db) \<and>
    AddAsyncTask db self key task = Inr (db\<lparr>db_taskQueues := (db_taskQueues db)[i := Push (db_taskQueues db ! i) task]\<rparr>)"
proof -
  let ?n = "db_asyncConnNum db"
  have n: "0 < unat ?n" using assms(1) by (simp add: wf_db_def)
  have key: "unat (key mod ucast ?n) = unat key mod unat ?n"
    by (simp add: unat_mod unat_widen)
  moreover have "unat key mod unat ?n < length (db_taskQueues db)" using n assms(1) by (simp add: wf_db_def)
  moreover have "?n \<noteq> 0" using n by auto
  ultimately show ?thesis
    using assms(2) by (simp add: AddAsyncTask_def check_async_thread_def Let_def vec_at_simps)
qed

text \<open>An asynchronous query is appended to the queue its key selects, \<open>key mod n\<close>, so tasks with the same key share a queue and keep their order; every other queue and the rest of the database are unchanged.\<close>

theorem QueryAsync_appends_to_one_queue:
  assumes "wf_db db" "db_asyncThreadId db = Some self"
  shows "\<exists>db' i task. QueryAsync_sql db self key sql cb = Inr db' \<and> wf_db db' \<and>
    i = unat key mod unat (db_asyncConnNum db) \<and> i < length (db_taskQueues db') \<and>
    aq_tasks (db_taskQueues db' ! i) = aq_tasks (db_taskQueues db ! i) @ [task] \<and>
    at_sql task = cstr sql \<and> at_taskType task = AsyncTask_ExecuteSql \<and>
    (\<forall>j. j \<noteq> i \<longrightarrow> db_taskQueues db' ! j = db_taskQueues db ! j) \<and>
    db' = db\<lparr>db_taskQueues := db_taskQueues db'\<rparr>"
proof -
  let ?t = "\<lparr>at_sql = cstr sql, at_taskType = AsyncTask_ExecuteSql, at_task = TaskQuerySql False cb\<rparr>"
  obtain i where i: "i = unat key mod unat (db_asyncConnNum db)" "i < length (db_taskQueues db)"
    "AddAsyncTask db self key ?t = Inr (db\<lparr>db_taskQueues := (db_taskQueues db)[i := Push (db_taskQueues db ! i) ?t]\<rparr>)"
    using AddAsyncTask_ok [OF assms] by blast
  then show ?thesis
    using assms(1) by (intro exI [of _ "db\<lparr>db_taskQueues := (db_taskQueues db)[i := Push (db_taskQueues db ! i) ?t]\<rparr>"] exI [of _ i] exI [of _ ?t])
      (simp add: QueryAsync_sql_def wf_db_def Push_def)
qed

text \<open>Every database call from another thread than the one that initialised it, and every call before \<open>Init\<close>, fails the thread assertion.\<close>

theorem calls_from_other_threads_fail:
  assumes "db_asyncThreadId db \<noteq> Some self"
  shows "QueryAsync_sql db self key sql cb = Inl AssertFail \<and> QueryAsync_records db self key sql mode cb = Inl AssertFail \<and>
    Database_Query_sql c db self sql w = Inl AssertFail \<and> Database_Query_records c db self sql mode w = Inl AssertFail \<and>
    OnUpdate db self = Inl AssertFail"
  using assms
  by (simp add: QueryAsync_sql_def QueryAsync_records_def AddAsyncTask_def Database_Query_sql_def
      Database_Query_records_def OnUpdate_def take_finished_def check_async_thread_def)

lemma sync_query_frame:
  "sync_query c db sql w = Inr (ok, db', w') \<Longrightarrow> \<exists>conn. db' = db\<lparr>db_syncConn := Some conn\<rparr>"
  by (auto simp: sync_query_def rbind_eq_Inr)

lemma changed_fields_cleared:
  assumes "wf_record r" "ClsEditFlag r = Inr r'"
  shows "changed_fields r' = []" "map (map_option bf_val) (rc_fields r') = map (map_option bf_val) (rc_fields r)"
proof -
  have r': "rc_fields r' = map (map_option (TagChanged False)) (rc_fields r)"
    using assms by (auto simp: ClsEditFlag_eq)
  show "changed_fields r' = []"
    using assms(1) by (auto simp: changed_fields_def r' filter_empty_conv wf_record_def IsChanged_def TagChanged_def)
  show "map (map_option bf_val) (rc_fields r') = map (map_option bf_val) (rc_fields r)"
    by (simp add: r' option.map_comp comp_def)
qed

text \<open>C17: \<open>Update\<close> never loses an edit: it keeps every value and the record complete, and either leaves the record as it is (also when the server rejects the statement) or succeeds and clears every change flag; a record that is not in edit mode is refused without a query.\<close>

theorem Update_outcomes:
  assumes "wf_record r" "Update c esc real_esc db r w = Inr (ok, r', db', w')"
  shows "wf_record r' \<and> map (map_option bf_val) (rc_fields r') = map (map_option bf_val) (rc_fields r) \<and>
    (r' = r \<or> ok \<and> changed_fields r' = []) \<and> (GetMode r \<noteq> MODE_EDIT \<longrightarrow> \<not> ok \<and> db' = db \<and> w' = w)"
proof (cases "GetMode r = MODE_EDIT")
  case False
  then show ?thesis using assms by (simp add: Update_def)
next
  case True
  then obtain built sql where b: "Database_BuildUpdateSql esc real_esc db r [] = Inr (built, sql)"
    using assms(2) by (auto simp: Update_def rbind_eq_Inr)
  show ?thesis
  proof (cases "built \<and> sql \<noteq> []")
    case False
    then show ?thesis using assms True b by (auto simp: Update_def split: if_splits)
  next
    case run: True
    then obtain ret db1 w1 where q: "sync_query c db sql w = Inr (ret, db1, w1)"
      using assms(2) True b by (auto simp: Update_def rbind_eq_Inr)
    show ?thesis
    proof (cases ret)
      case False
      then show ?thesis using assms True b q run by (auto simp: Update_def)
    next
      case ret: True
      then have "ok \<and> ClsEditFlag r = Inr r'" using assms(2) True b q run by (auto simp: Update_def rbind_eq_Inr)
      then show ?thesis
        using True ClsEditFlag_wf [OF assms(1)] changed_fields_cleared [OF assms(1)] by auto
    qed
  qed
qed

text \<open>Updating a record without changes succeeds without a query when it has a key; inserting it fails.\<close>

theorem unchanged_record_needs_no_query:
  assumes "wf_record r" "changed_fields r = []" "GetMode r = MODE_EDIT" "BuildCondition r = Inr (Some cond)"
    and "db_syncConn db = Some conn"
  shows "Update c esc real_esc db r w = Inr (True, r, db, w) \<and> Insert c esc real_esc db r w = Inr (False, db, w)"
proof -
  have "\<not> no_key r" using BuildCondition_None [of r] assms(4) by simp
  then have op: "BuildOperation esc (real_esc (GetHandler conn)) r = Inr (Some [])"
    using assms(2) by (simp add: BuildOperation_eq [OF assms(1)])
  then show ?thesis
    using assms(3-5)
    by (simp add: Update_def Insert_def Database_BuildUpdateSql_def Database_BuildInsertSql_def BuildUpdateSql_def BuildInsertSql_def)
qed

text \<open>A destroyed database is closed and stays marked as stopping, and using it is a fault: an asynchronous query divides by the connection count 0, and a synchronous one dereferences the released connection.\<close>

theorem destroyed_database_faults:
  assumes "db_stoping db" "db_asyncThreadId db = Some self" "Destroy_finish c db w = Inr (db', w')"
  shows "closed_db db' \<and> db_stoping db' \<and> QueryAsync_sql db' self key sql cb = Inl ArithUndefined \<and>
    Database_Query_sql c db' self sql w' = Inl NullDeref \<and> Database_MakeDefRecord c db' name w' = Inl NullDeref"
  using assms
  by (auto simp: Destroy_finish_def rbind_eq_Inr closed_db_def QueryAsync_sql_def AddAsyncTask_def check_async_thread_def
      Database_Query_sql_def sync_query_def Database_MakeDefRecord_def)

text \<open>\<open>OnUpdate\<close> runs the callbacks of all finished tasks, each once and in the order they finished, and empties the list.\<close>

theorem OnUpdate_runs_all_callbacks:
  assumes "OnUpdate db self = Inr (es, db')"
  shows "map Inr es = map Invoke (db_finishTasks db) \<and> db' = db\<lparr>db_finishTasks := []\<rparr>"
proof -
  have inv: "invoke_all ts = Inr es \<Longrightarrow> map Inr es = map Invoke ts" for ts es
    by (induction ts arbitrary: es) (auto simp: rbind_eq_Inr)
  have "db\<lparr>db_finishTasks := []\<rparr> = db" if "db_finishTasks db = []" using that by (cases db) simp
  then show ?thesis
    using assms inv by (auto simp: OnUpdate_def take_finished_def rbind_eq_Inr split: if_splits)
qed

subsection \<open>A sample database\<close>

definition sample_db :: MysqlDB where
  "sample_db = new_MysqlDB\<lparr>db_inited := True, db_asyncThreadId := Some 1, db_asyncConnNum := 1, db_name := ''main'',
     db_syncConn := Some sample_conn, db_asyncConns := [sample_conn], db_asyncThreads := [AtPop],
     db_taskQueues := [new_AsyncTaskQueue], db_flushFlag := [False]\<rparr>"

lemma sample_Init: "Init (sample_client True cols rows) new_MysqlDB 1 sample_cfg ([], k) = Inr (True, sample_db, ([], k))"
  by (simp add: Init_def new_MysqlDB_def release_conn_def sample_client_def Connect_def sample_cfg_def new_MysqlConnect_def
      async_conn_num_def sample_db_def sample_conn_def)

lemma sample_db_wf [simp]: "wf_db sample_db" "db_asyncThreadId sample_db = Some 1" "db_asyncConnNum sample_db = 1"
  "db_syncConn sample_db = Some sample_conn"
  by (simp_all add: wf_db_def sample_db_def new_MysqlDB_def)

theorem Init_makes_database_ready_witness:
  "wf_db sample_db \<and> Database_GetName sample_db = ''main'' \<and> db_asyncConnNum sample_db = 1"
  using Init_makes_database_ready [OF closed_new sample_Init [of "[]" "[]" 0]] by (simp add: sample_cfg_def)

theorem QueryAsync_appends_to_one_queue_witness:
  "\<exists>db' task. QueryAsync_sql sample_db 1 7 ''delete from t'' (Some 3) = Inr db' \<and>
     aq_tasks (db_taskQueues db' ! 0) = [task] \<and> at_sql task = ''delete from t''"
  using QueryAsync_appends_to_one_queue [OF sample_db_wf(1,2), of 7 "''delete from t''" "Some 3"]
  by (fastforce simp: sample_db_def new_AsyncTaskQueue_def cstr_def)

theorem calls_from_other_threads_fail_witness:
  "OnUpdate sample_db 2 = Inl AssertFail \<and> QueryAsync_sql new_MysqlDB 1 7 ''select 1'' None = Inl AssertFail"
proof -
  have "OnUpdate sample_db 2 = Inl AssertFail"
    using calls_from_other_threads_fail [where db = sample_db and self = 2 and c = "sample_client True [] []"] by simp
  moreover have "QueryAsync_sql new_MysqlDB 1 7 ''select 1'' None = Inl AssertFail"
    using calls_from_other_threads_fail [where db = new_MysqlDB and self = 1 and c = "sample_client True [] []"]
    by (simp add: new_MysqlDB_def)
  ultimately show ?thesis by blast
qed

lemma sample_update:
  "Update (sample_client True [] []) sample_escape (\<lambda>_. sample_escape) sample_db (row_of [text_col]) ([], 0) =
     Inr (True, row_of [TagChanged False text_col], sample_db, ([], 0))"
proof -
  have "\<exists>sql. BuildUpdateSql sample_escape sample_escape (row_of [text_col]) [] = Inr (True, sql) \<and> sql \<noteq> []"
    by (simp add: BuildUpdateSql_def text_col_condition text_col_operation text_col_text snprintf_def Let_def)
  then obtain sql where b: "BuildUpdateSql sample_escape sample_escape (row_of [text_col]) [] = Inr (True, sql)" "sql \<noteq> []"
    by blast
  have q: "sync_query (sample_client True [] []) sample_db sql ([], 0) = Inr (True, sample_db, ([], 0))"
    by (simp add: sync_query_def Query_sql_def Query_result_def sample_client_def sample_conn_def IsConnect_def
        sample_db_def)
  have cls: "ClsEditFlag (row_of [text_col]) = Inr (row_of [TagChanged False text_col])"
    by (simp add: ClsEditFlag_def row_of_def)
  show ?thesis
    by (simp add: Update_def Database_BuildUpdateSql_def b q cls) (simp add: row_of_def GetMode_def)
qed

theorem Update_outcomes_witness:
  "changed_fields (row_of [TagChanged False text_col]) = [] \<and> wf_record (row_of [TagChanged False text_col])"
proof -
  have wf: "wf_record (row_of [text_col])" by (rule row_of_wf) simp_all
  have "row_of [TagChanged False text_col] \<noteq> row_of [text_col]"
    by (simp add: row_of_def TagChanged_def column_def)
  with Update_outcomes [OF wf sample_update] show ?thesis by blast
qed

theorem unchanged_record_needs_no_query_witness:
  "Update (sample_client True [] []) sample_escape (\<lambda>_. sample_escape) sample_db (row_of [TagChanged False text_col]) ([], 0) =
     Inr (True, row_of [TagChanged False text_col], sample_db, ([], 0))"
proof -
  let ?r = "row_of [TagChanged False text_col]"
  have wf: "wf_record ?r" by (rule row_of_wf) (simp_all add: wf_field_TagChanged)
  have cond: "BuildCondition ?r = Inr (Some (name_eq ''n'' @ quoted [CHR ''a'', CHR 0x27]))"
    by (simp add: BuildCondition_cases GetStr_def IS_FIELD_NUM_def name_eq_def quoted_def cstr_def
        TagChanged_def column_def GetType_def GetName_def)
  have none: "changed_fields ?r = []" by (simp add: TagChanged_def IsChanged_def)
  have mode: "GetMode ?r = MODE_EDIT" by (simp add: row_of_def GetMode_def)
  show ?thesis by (rule unchanged_record_needs_no_query [OF wf none mode cond sample_db_wf(4), THEN conjunct1])
qed

theorem destroyed_database_faults_witness:
  "\<exists>db' w'. Destroy_finish (sample_client True [] []) (sample_db\<lparr>db_stoping := True\<rparr>) ([], 0) = Inr (db', w') \<and>
     QueryAsync_sql db' 1 7 ''select 1'' None = Inl ArithUndefined"
proof -
  let ?db = "sample_db\<lparr>db_stoping := True\<rparr>"
  obtain db' w' where d: "Destroy_finish (sample_client True [] []) ?db ([], 0) = Inr (db', w')"
    by (simp add: Destroy_finish_def release_conn_def Disconnect_def sample_client_def sample_db_def sample_conn_def)
  have "QueryAsync_sql db' 1 7 ''select 1'' None = Inl ArithUndefined"
    using destroyed_database_faults [OF _ _ d, of 1 7 "''select 1''" None] by simp
  with d show ?thesis by blast
qed

theorem OnUpdate_runs_all_callbacks_witness:
  "\<exists>db'. OnUpdate (sample_db\<lparr>db_finishTasks := [\<lparr>at_sql = [], at_taskType = AsyncTask_ExecuteSql, at_task = TaskQuerySql True (Some 3)\<rparr>]\<rparr>) 1 =
     Inr ([SqlCB 3 True], db') \<and> db_finishTasks db' = []"
proof -
  let ?db = "sample_db\<lparr>db_finishTasks := [\<lparr>at_sql = [], at_taskType = AsyncTask_ExecuteSql, at_task = TaskQuerySql True (Some 3)\<rparr>]\<rparr>"
  obtain es db' where o': "OnUpdate ?db 1 = Inr (es, db')"
    by (simp add: OnUpdate_def take_finished_def check_async_thread_def Invoke_def)
  have "map Inr es = map Invoke (db_finishTasks ?db) \<and> db' = ?db\<lparr>db_finishTasks := []\<rparr>"
    by (rule OnUpdate_runs_all_callbacks [OF o'])
  then have "es = [SqlCB 3 True]" "db_finishTasks db' = []"
    by (auto simp: Invoke_def)
  with o' show ?thesis by blast
qed

end
