(* ===== verification/Db_Async.thy ===== *)
theory Db_Async
  imports Db_Database
begin

text \<open>
  The threads of a database: the worker loop \<open>AsyncWorkFunc\<close>, and the main thread's \<open>OnUpdate\<close>,
  \<open>Flush\<close> and \<open>Destroy\<close>, as steps on one shared state. A step is one access to shared state (an
  atomic variable, a locked queue or list); a query with the push of its finished task is one step,
  since queries of different connections share only the locked column cache. A loop that sleeps
  until a condition holds has no step while the condition is false. The operations that do not
  wait are the functions of \<open>Db_Database\<close>.
\<close>

subsection \<open>State\<close>

text \<open>
  Where the main thread is: in no call, in the callback loop of \<open>OnUpdate\<close>, at a flag of one of the
  two loops of \<open>Flush\<close> (the boolean says that \<open>Destroy\<close> called it), at one of the following lines of
  \<open>Destroy\<close>, or after it.
\<close>

datatype main_pc =
    MIdle
  | MCallbacks "AsyncTask list"
  | MFlushReset nat bool
  | MFlushWait nat bool
  | MStopSet
  | MStopReset
  | MStopWait
  | MJoin
  | MEnd

text \<open>
  The last five members record what happened, for the properties: the tasks pushed to each queue,
  the finished tasks with their worker, the tasks whose callback was called and what it was called
  with, and per queue how many tasks had been popped when the last \<open>Flush\<close> was called.
\<close>

record 'w system =
  sy_db :: MysqlDB
  sy_world :: 'w
  sy_main :: main_pc
  sy_pushed :: "nat \<Rightarrow> AsyncTask list"
  sy_done :: "(nat \<times> AsyncTask) list"
  sy_invoked :: "AsyncTask list"
  sy_events :: "callback_event list"
  sy_mark :: "nat \<Rightarrow> nat"

definition sys_init :: "MysqlDB \<Rightarrow> 'w \<Rightarrow> 'w system" where
  "sys_init db w = \<lparr>sy_db = db, sy_world = w, sy_main = MIdle, sy_pushed = (\<lambda>_. []), sy_done = [],
     sy_invoked = [], sy_events = [], sy_mark = (\<lambda>_. 0)\<rparr>"

definition thread_pc :: "'w system \<Rightarrow> nat \<Rightarrow> worker_pc" where
  "thread_pc s i = db_asyncThreads (sy_db s) ! i"

definition queue_of :: "'w system \<Rightarrow> nat \<Rightarrow> AsyncTask list" where
  "queue_of s i = aq_tasks (db_taskQueues (sy_db s) ! i)"

fun in_hand :: "worker_pc \<Rightarrow> AsyncTask list" where
  "in_hand (Working ts) = ts"
| "in_hand _ = []"

definition done_by :: "'w system \<Rightarrow> nat \<Rightarrow> AsyncTask list" where
  "done_by s i = map snd (filter (\<lambda>p. fst p = i) (sy_done s))"

definition popped_by :: "'w system \<Rightarrow> nat \<Rightarrow> nat" where
  "popped_by s i = length (done_by s i) + length (in_hand (thread_pc s i))"

subsection \<open>The worker loop\<close>

definition set_thread :: "nat \<Rightarrow> worker_pc \<Rightarrow> MysqlDB \<Rightarrow> MysqlDB" where
  "set_thread i pc db = db\<lparr>db_asyncThreads := (db_asyncThreads db)[i := pc]\<rparr>"

text \<open>\<open>None\<close> when the thread has stopped.\<close>

definition AsyncWorkFunc :: "'w mysql_client \<Rightarrow> nat \<Rightarrow> 'w system \<Rightarrow> 'w system option res" where
  "AsyncWorkFunc c i s =
     (let db = sy_db s in
      rbind (vec_at (db_asyncThreads db) i) (\<lambda>pc.
        case pc of
          AtPop \<Rightarrow>
            rbind (vec_at (db_taskQueues db) i) (\<lambda>q.
              let (tasks, q') = TimePopAll q [] in
              Inr (Some (s\<lparr>sy_db := set_thread i (Working tasks) (db\<lparr>db_taskQueues := (db_taskQueues db)[i := q']\<rparr>)\<rparr>)))
        | Working [] \<Rightarrow>
            rbind (vec_at (db_taskQueues db) i) (\<lambda>q.
              Inr (Some (s\<lparr>sy_db := set_thread i (if db_flushing db \<and> Empty q then AtSetFlag else AtStopCheck) db\<rparr>)))
        | Working (t # ts) \<Rightarrow>
            rbind (AsyncDoWork c db i t (sy_world s)) (\<lambda>(db', w').
              Inr (Some (s\<lparr>sy_db := set_thread i (Working ts) db', sy_world := w',
                           sy_done := sy_done s @ [(i, last (db_finishTasks db'))]\<rparr>)))
        | AtSetFlag \<Rightarrow>
            rbind (vec_at (db_flushFlag db) i) (\<lambda>_.
              Inr (Some (s\<lparr>sy_db := set_thread i AtPop (db\<lparr>db_flushFlag := (db_flushFlag db)[i := True]\<rparr>)\<rparr>)))
        | AtStopCheck \<Rightarrow> Inr (Some (s\<lparr>sy_db := set_thread i (if db_stoping db then AtExit else AtPop) db\<rparr>))
        | AtExit \<Rightarrow> Inr (Some (s\<lparr>sy_db := set_thread i Stopped (db\<lparr>db_stopedNum := db_stopedNum db + 1\<rparr>)\<rparr>))
        | Stopped \<Rightarrow> Inr None))"

subsection \<open>The main thread\<close>

text \<open>A step inside \<open>OnUpdate\<close>, \<open>Flush\<close> or \<open>Destroy\<close>; \<open>None\<close> while it sleeps or when it is in no call.\<close>

definition main_continue :: "'w mysql_client \<Rightarrow> 'w system \<Rightarrow> 'w system option res" where
  "main_continue c s =
     (let db = sy_db s; n = unat (db_asyncConnNum db) in
      case sy_main s of
        MIdle \<Rightarrow> Inr None
      | MEnd \<Rightarrow> Inr None
      | MCallbacks [] \<Rightarrow> Inr (Some (s\<lparr>sy_main := MIdle\<rparr>))
      | MCallbacks (t # ts) \<Rightarrow>
          rbind (Invoke t) (\<lambda>e.
            Inr (Some (s\<lparr>sy_main := MCallbacks ts, sy_invoked := sy_invoked s @ [t], sy_events := sy_events s @ [e]\<rparr>)))
      | MFlushReset i d \<Rightarrow>
          if i < n then
            rbind (vec_at (db_flushFlag db) i) (\<lambda>_.
              Inr (Some (s\<lparr>sy_db := db\<lparr>db_flushFlag := (db_flushFlag db)[i := False]\<rparr>, sy_main := MFlushReset (Suc i) d\<rparr>)))
          else Inr (Some (s\<lparr>sy_db := db\<lparr>db_flushing := True\<rparr>, sy_main := MFlushWait 0 d\<rparr>))
      | MFlushWait i d \<Rightarrow>
          if i < n then
            rbind (vec_at (db_flushFlag db) i) (\<lambda>flag.
              Inr (if flag then Some (s\<lparr>sy_main := MFlushWait (Suc i) d\<rparr>) else None))
          else Inr (Some (s\<lparr>sy_db := db\<lparr>db_flushing := False\<rparr>, sy_main := (if d then MStopSet else MIdle)\<rparr>))
      | MStopSet \<Rightarrow> Inr (Some (s\<lparr>sy_db := db\<lparr>db_stoping := True\<rparr>, sy_main := MStopReset\<rparr>))
      | MStopReset \<Rightarrow> Inr (Some (s\<lparr>sy_db := db\<lparr>db_stopedNum := 0\<rparr>, sy_main := MStopWait\<rparr>))
      | MStopWait \<Rightarrow>
          Inr (if db_stopedNum db = db_asyncConnNum db then Some (s\<lparr>sy_main := MJoin\<rparr>) else None)
      | MJoin \<Rightarrow>
          if \<forall>pc\<in>set (db_asyncThreads db). pc = Stopped then
            rbind (Destroy_finish c db (sy_world s)) (\<lambda>(db', w').
              Inr (Some (s\<lparr>sy_db := db', sy_world := w', sy_main := MEnd\<rparr>)))
          else Inr None)"

text \<open>The calls a client makes on the main thread; a callback may start a query.\<close>

datatype main_call =
    CallQueryAsync_records uint64 bytes MODE "nat option"
  | CallQueryAsync_sql uint64 bytes "nat option"
  | CallQuery_records bytes MODE
  | CallQuery_sql bytes
  | CallOnUpdate
  | CallFlush
  | CallDestroy

definition queue_index :: "MysqlDB \<Rightarrow> uint64 \<Rightarrow> nat" where
  "queue_index db key = unat key mod unat (db_asyncConnNum db)"

text \<open>The push recorded for the properties.\<close>

definition record_push :: "'w system \<Rightarrow> uint64 \<Rightarrow> MysqlDB \<Rightarrow> 'w system" where
  "record_push s key db' =
     (let i = queue_index (sy_db s) key
      in s\<lparr>sy_db := db', sy_pushed := (sy_pushed s)(i := sy_pushed s i @ [last (aq_tasks (db_taskQueues db' ! i))])\<rparr>)"

definition begin_flush :: "'w system \<Rightarrow> bool \<Rightarrow> 'w system" where
  "begin_flush s d =
     (if \<not> db_inited (sy_db s) \<or> db_flushing (sy_db s) then s\<lparr>sy_main := (if d then MStopSet else MIdle)\<rparr>
      else s\<lparr>sy_main := MFlushReset 0 d, sy_mark := popped_by s\<rparr>)"

fun start_call :: "'w mysql_client \<Rightarrow> nat \<Rightarrow> main_call \<Rightarrow> 'w system \<Rightarrow> 'w system res" where
  "start_call c self (CallQueryAsync_records key sql mode cb) s =
     rbind (QueryAsync_records (sy_db s) self key sql mode cb) (\<lambda>db'. Inr (record_push s key db'))"
| "start_call c self (CallQueryAsync_sql key sql cb) s =
     rbind (QueryAsync_sql (sy_db s) self key sql cb) (\<lambda>db'. Inr (record_push s key db'))"
| "start_call c self (CallQuery_records sql mode) s =
     rbind (Database_Query_records c (sy_db s) self sql mode (sy_world s)) (\<lambda>(_, db', w').
       Inr (s\<lparr>sy_db := db', sy_world := w'\<rparr>))"
| "start_call c self (CallQuery_sql sql) s =
     rbind (Database_Query_sql c (sy_db s) self sql (sy_world s)) (\<lambda>(_, db', w').
       Inr (s\<lparr>sy_db := db', sy_world := w'\<rparr>))"
| "start_call c self CallOnUpdate s =
     rbind (take_finished (sy_db s) self) (\<lambda>(tasks, db'). Inr (s\<lparr>sy_db := db', sy_main := MCallbacks tasks\<rparr>))"
| "start_call c self CallFlush s =
     rbind (check_async_thread (sy_db s) self) (\<lambda>_. Inr (begin_flush s False))"
| "start_call c self CallDestroy s =
     rbind (check_async_thread (sy_db s) self) (\<lambda>_.
       if \<not> db_inited (sy_db s) \<or> db_stoping (sy_db s) then Inr s
       else Inr (begin_flush s True))"

fun is_query :: "main_call \<Rightarrow> bool" where
  "is_query CallOnUpdate = False"
| "is_query CallFlush = False"
| "is_query CallDestroy = False"
| "is_query _ = True"

definition may_call :: "'w system \<Rightarrow> main_call \<Rightarrow> bool" where
  "may_call s k \<longleftrightarrow> sy_main s = MIdle \<or> (\<exists>ts. sy_main s = MCallbacks ts) \<and> is_query k"

subsection \<open>Runs\<close>

inductive sys_step :: "'w mysql_client \<Rightarrow> nat \<Rightarrow> 'w system \<Rightarrow> 'w system \<Rightarrow> bool"
  for c :: "'w mysql_client" and self :: nat
  where
    worker: "AsyncWorkFunc c i s = Inr (Some s') \<Longrightarrow> sys_step c self s s'"
  | main: "main_continue c s = Inr (Some s') \<Longrightarrow> sys_step c self s s'"
  | call: "may_call s k \<Longrightarrow> start_call c self k s = Inr s' \<Longrightarrow> sys_step c self s s'"

inductive sys_reach :: "'w mysql_client \<Rightarrow> nat \<Rightarrow> 'w system \<Rightarrow> 'w system \<Rightarrow> bool"
  for c :: "'w mysql_client" and self :: nat and s0 :: "'w system"
  where
    start: "sys_reach c self s0 s0"
  | step: "sys_reach c self s0 s \<Longrightarrow> sys_step c self s s' \<Longrightarrow> sys_reach c self s0 s'"

inductive_cases sys_stepE: "sys_step c self s s'"

text \<open>A database right after its first \<open>Init\<close>.\<close>

definition started :: "nat \<Rightarrow> MysqlDB \<Rightarrow> bool" where
  "started self db \<longleftrightarrow> wf_db db \<and> db_inited db \<and> db_asyncThreadId db = Some self \<and>
     (\<forall>q\<in>set (db_taskQueues db). aq_tasks q = []) \<and> (\<forall>t\<in>set (db_asyncThreads db). t = AtPop) \<and>
     db_finishTasks db = [] \<and> \<not> db_flushing db \<and> \<not> db_stoping db"

text \<open>Scheduled runs, for examples: a step of a worker, of the main thread, or a call.\<close>

datatype label = W nat | M | C main_call

definition label_step :: "'w mysql_client \<Rightarrow> nat \<Rightarrow> label \<Rightarrow> 'w system \<Rightarrow> 'w system option" where
  "label_step c self l s =
     (case l of
        W i \<Rightarrow> (case AsyncWorkFunc c i s of Inr r \<Rightarrow> r | Inl _ \<Rightarrow> None)
      | M \<Rightarrow> (case main_continue c s of Inr r \<Rightarrow> r | Inl _ \<Rightarrow> None)
      | C k \<Rightarrow>
          (if (case sy_main s of MIdle \<Rightarrow> True | MCallbacks _ \<Rightarrow> is_query k | _ \<Rightarrow> False)
           then (case start_call c self k s of Inr s' \<Rightarrow> Some s' | Inl _ \<Rightarrow> None) else None))"

fun label_run :: "'w mysql_client \<Rightarrow> nat \<Rightarrow> label list \<Rightarrow> 'w system \<Rightarrow> 'w system option" where
  "label_run c self [] s = Some s"
| "label_run c self (l # ls) s = (case label_step c self l s of None \<Rightarrow> None | Some s' \<Rightarrow> label_run c self ls s')"

lemma label_step_sound: "label_step c self l s = Some s' \<Longrightarrow> sys_step c self s s'"
  by (auto simp: label_step_def may_call_def intro: sys_step.intros split: label.splits sum.splits main_pc.splits if_splits)

lemma label_run_sound:
  assumes "label_run c self ls s = Some s'" "sys_reach c self s0 s"
  shows "sys_reach c self s0 s'"
  using assms
proof (induction ls arbitrary: s)
  case (Cons l ls)
  then obtain s1 where "label_step c self l s = Some s1" "label_run c self ls s1 = Some s'"
    by (auto split: option.splits)
  with Cons show ?case using sys_reach.step label_step_sound by blast
qed simp

subsection \<open>Invariants\<close>

text \<open>A task without its result.\<close>

definition erase :: "AsyncTask \<Rightarrow> AsyncTask" where
  "erase t = t\<lparr>at_task := (case at_task t of
     TaskQueryRecordset mode _ cb \<Rightarrow> TaskQueryRecordset mode None cb
   | TaskQuerySql _ cb \<Rightarrow> TaskQuerySql False cb)\<rparr>"

fun callbacks_left :: "main_pc \<Rightarrow> AsyncTask list" where
  "callbacks_left (MCallbacks ts) = ts"
| "callbacks_left _ = []"

fun flush_phase :: "main_pc \<Rightarrow> bool" where
  "flush_phase (MFlushReset _ _) = True"
| "flush_phase (MFlushWait _ _) = True"
| "flush_phase _ = False"

fun stop_phase :: "main_pc \<Rightarrow> bool" where
  "stop_phase MStopSet = True"
| "stop_phase MStopReset = True"
| "stop_phase MStopWait = True"
| "stop_phase MJoin = True"
| "stop_phase _ = False"

text \<open>Worker \<open>i\<close> has taken, or is about to take, all there is in its queue.\<close>

definition settled :: "'w system \<Rightarrow> nat \<Rightarrow> bool" where
  "settled s i \<longleftrightarrow> thread_pc s i = AtPop \<or> queue_of s i = []"

definition workers :: "'w system \<Rightarrow> nat" where
  "workers s = unat (db_asyncConnNum (sy_db s))"

text \<open>No task is lost, duplicated or reordered on its way through a queue and a worker.\<close>

definition conserved :: "'w system \<Rightarrow> bool" where
  "conserved s \<longleftrightarrow>
     (\<forall>i<workers s. map erase (sy_pushed s i) = map erase (done_by s i @ in_hand (thread_pc s i) @ queue_of s i)) \<and>
     (\<forall>i\<ge>workers s. sy_pushed s i = [] \<and> done_by s i = [])"

text \<open>Callbacks come in the order the tasks finished.\<close>

definition callbacks_in_order :: "'w system \<Rightarrow> bool" where
  "callbacks_in_order s \<longleftrightarrow>
     map snd (sy_done s) = sy_invoked s @ callbacks_left (sy_main s) @ db_finishTasks (sy_db s)"

text \<open>A flush flag is only true after a worker finished what it had popped before the flush.\<close>

definition flush_marks :: "'w system \<Rightarrow> bool" where
  "flush_marks s \<longleftrightarrow>
     (flush_phase (sy_main s) \<longrightarrow> (\<forall>i<workers s. sy_mark s i \<le> popped_by s i)) \<and>
     (\<forall>k d. sy_main s = MFlushReset k d \<longrightarrow>
        (\<forall>i<workers s. i < k \<and> db_flushFlag (sy_db s) ! i \<longrightarrow> sy_mark s i \<le> length (done_by s i))) \<and>
     (\<forall>k d. sy_main s = MFlushWait k d \<longrightarrow>
        (\<forall>i<workers s. db_flushFlag (sy_db s) ! i \<longrightarrow> sy_mark s i \<le> length (done_by s i)) \<and>
        (\<forall>i<workers s. i < k \<longrightarrow> db_flushFlag (sy_db s) ! i))"

text \<open>In \<open>Destroy\<close> every worker takes the rest of its queue before it can stop.\<close>

definition stop_order :: "'w system \<Rightarrow> bool" where
  "stop_order s \<longleftrightarrow>
     (\<forall>k d. sy_main s = MFlushReset k d \<longrightarrow>
        (\<forall>i<workers s. i < k \<and> db_flushFlag (sy_db s) ! i \<longrightarrow> settled s i)) \<and>
     (\<forall>k d. sy_main s = MFlushWait k d \<longrightarrow>
        (\<forall>i<workers s. db_flushFlag (sy_db s) ! i \<longrightarrow> settled s i) \<and>
        (\<forall>i<workers s. i < k \<longrightarrow> db_flushFlag (sy_db s) ! i)) \<and>
     (stop_phase (sy_main s) \<longrightarrow> (\<forall>i<workers s. settled s i)) \<and>
     (db_stoping (sy_db s) \<longrightarrow> stop_phase (sy_main s) \<and> sy_main s \<noteq> MStopSet) \<and>
     (\<not> db_stoping (sy_db s) \<longrightarrow> (\<forall>i<workers s. thread_pc s i \<notin> {AtExit, Stopped})) \<and>
     (db_flushing (sy_db s) \<longrightarrow> (\<exists>k d. sy_main s = MFlushWait k d)) \<and>
     (sy_main s \<noteq> MEnd \<longrightarrow> db_inited (sy_db s))"

text \<open>All of it, until \<open>Destroy\<close> has returned.\<close>

definition sys_inv :: "'w system \<Rightarrow> bool" where
  "sys_inv s \<longleftrightarrow>
     (if sy_main s = MEnd then
        (\<forall>i. map erase (sy_pushed s i) = map erase (done_by s i)) \<and> (\<exists>dropped. map snd (sy_done s) = sy_invoked s @ dropped)
        \<and> closed_db (sy_db s)
      else wf_db (sy_db s) \<and> conserved s \<and> callbacks_in_order s \<and> flush_marks s \<and> stop_order s)"

lemma started_inv:
  assumes "started self db"
  shows "sys_inv (sys_init db w)"
proof -
  have len: "length (db_asyncThreads db) = unat (db_asyncConnNum db)" "length (db_taskQueues db) = unat (db_asyncConnNum db)"
    using assms by (simp_all add: started_def wf_db_def)
  have pcs: "i < unat (db_asyncConnNum db) \<Longrightarrow> db_asyncThreads db ! i = AtPop"
    and qs: "i < unat (db_asyncConnNum db) \<Longrightarrow> aq_tasks (db_taskQueues db ! i) = []" for i
    using assms len by (simp_all add: started_def)
  have rest: "wf_db db" "db_inited db" "db_finishTasks db = []" "\<not> db_flushing db" "\<not> db_stoping db"
    using assms by (simp_all add: started_def)
  show ?thesis
    using rest by (auto simp: sys_init_def sys_inv_def conserved_def callbacks_in_order_def flush_marks_def stop_order_def
        workers_def done_by_def thread_pc_def queue_of_def pcs qs)
qed

lemma erase_run_task: "run_task c conn t m w = Inr (t', conn', m', w') \<Longrightarrow> erase t' = erase t"
  by (auto simp: run_task_def erase_def rbind_eq_Inr split: AsyncTaskType.splits task_info.splits)

lemma run_task_cache: "run_task c conn t m w = Inr (t', conn', m', w') \<Longrightarrow> map_ok m \<Longrightarrow> cache_extends m m'"
  by (auto simp: run_task_def rbind_eq_Inr cache_extends_refl split: AsyncTaskType.splits task_info.splits
      dest: Query_records_cache)

text \<open>The six steps of a worker.\<close>

lemma worker_cases:
  assumes "AsyncWorkFunc c i s = Inr (Some s')" "wf_db (sy_db s)"
  obtains (pop) "i < workers s" "thread_pc s i = AtPop"
      "s' = s\<lparr>sy_db := set_thread i (Working (queue_of s i)) ((sy_db s)\<lparr>db_taskQueues :=
        (db_taskQueues (sy_db s))[i := (db_taskQueues (sy_db s) ! i)\<lparr>aq_tasks := []\<rparr>]\<rparr>)\<rparr>"
    | (work) t ts t' conn' m' w' where "i < workers s" "thread_pc s i = Working (t # ts)" "erase t' = erase t"
      "s' = s\<lparr>sy_db := set_thread i (Working ts) ((sy_db s)\<lparr>db_asyncConns := (db_asyncConns (sy_db s))[i := conn'],
          db_fieldInfos := m', db_finishTasks := db_finishTasks (sy_db s) @ [t']\<rparr>), sy_world := w',
        sy_done := sy_done s @ [(i, t')]\<rparr>"
      "map_ok m'"
    | (check) pc where "i < workers s" "thread_pc s i = Working []" "pc = AtSetFlag \<or> pc = AtStopCheck"
      "s' = s\<lparr>sy_db := set_thread i pc (sy_db s)\<rparr>"
    | (set_flag) "i < workers s" "thread_pc s i = AtSetFlag"
      "s' = s\<lparr>sy_db := set_thread i AtPop ((sy_db s)\<lparr>db_flushFlag := (db_flushFlag (sy_db s))[i := True]\<rparr>)\<rparr>"
    | (stop_check) "i < workers s" "thread_pc s i = AtStopCheck"
      "s' = s\<lparr>sy_db := set_thread i (if db_stoping (sy_db s) then AtExit else AtPop) (sy_db s)\<rparr>"
    | (exit) "i < workers s" "thread_pc s i = AtExit"
      "s' = s\<lparr>sy_db := set_thread i Stopped ((sy_db s)\<lparr>db_stopedNum := db_stopedNum (sy_db s) + 1\<rparr>)\<rparr>"
proof -
  have i: "i < workers s" "vec_at (db_asyncThreads (sy_db s)) i = Inr (thread_pc s i)"
    using assms by (auto simp: AsyncWorkFunc_def Let_def rbind_eq_Inr vec_at_eq_Inr wf_db_def workers_def thread_pc_def)
  have q: "vec_at (db_taskQueues (sy_db s)) i = Inr (db_taskQueues (sy_db s) ! i)"
    "vec_at (db_flushFlag (sy_db s)) i = Inr (db_flushFlag (sy_db s) ! i)"
    using i(1) assms(2) by (simp_all add: vec_at_eq_Inr wf_db_def workers_def)
  note step = assms(1) [unfolded AsyncWorkFunc_def Let_def i(2) q rbind_simps]
  show thesis
  proof (cases "thread_pc s i")
    case AtPop
    then show thesis using step pop [OF i(1)] by (auto simp: TimePopAll_eq queue_of_def q)
  next
    case (Working tasks)
    show thesis
    proof (cases tasks)
      case Nil
      then show thesis using step check [OF i(1)] Working by (auto simp: q split: if_splits)
    next
      case (Cons t ts)
      obtain db' w' where d: "AsyncDoWork c (sy_db s) i t (sy_world s) = Inr (db', w')"
        "s' = s\<lparr>sy_db := set_thread i (Working ts) db', sy_world := w', sy_done := sy_done s @ [(i, last (db_finishTasks db'))]\<rparr>"
        using step Working Cons by (auto simp: rbind_eq_Inr)
      then obtain conn t' conn' m' where r: "run_task c conn t (db_fieldInfos (sy_db s)) (sy_world s) = Inr (t', conn', m', w')"
        "db' = (sy_db s)\<lparr>db_asyncConns := (db_asyncConns (sy_db s))[i := conn'], db_fieldInfos := m',
                 db_finishTasks := db_finishTasks (sy_db s) @ [t']\<rparr>"
        by (auto simp: AsyncDoWork_def rbind_eq_Inr)
      have "map_ok m'" using assms(2) run_task_cache [OF r(1)] by (simp add: wf_db_def cache_extends_def)
      with work [OF i(1)] d r erase_run_task [OF r(1)] Working Cons show thesis by simp
    qed
  next
    case AtSetFlag
    then show thesis using step set_flag [OF i(1)] by (auto simp: q)
  next
    case AtStopCheck
    then show thesis using step stop_check [OF i(1)] by auto
  next
    case AtExit
    then show thesis using step exit [OF i(1)] by auto
  next
    case Stopped
    then show thesis using step by auto
  qed
qed

lemmas system_views = thread_pc_def queue_of_def done_by_def workers_def set_thread_def popped_by_def settled_def

lemma live_inv:
  "sys_inv s \<Longrightarrow> sy_main s \<noteq> MEnd \<Longrightarrow>
     wf_db (sy_db s) \<and> conserved s \<and> callbacks_in_order s \<and> flush_marks s \<and> stop_order s"
  by (simp add: sys_inv_def)

lemma worker_conserved:
  assumes "AsyncWorkFunc c i s = Inr (Some s')" "wf_db (sy_db s)" "conserved s"
  shows "conserved s'"
proof -
  have len: "length (db_asyncThreads (sy_db s)) = workers s" "length (db_taskQueues (sy_db s)) = workers s"
    using assms(2) by (simp_all add: wf_db_def workers_def)
  have other: "j < workers s \<Longrightarrow> map erase (sy_pushed s j) = map erase (done_by s j @ in_hand (thread_pc s j) @ queue_of s j)"
    and out: "workers s \<le> j \<Longrightarrow> sy_pushed s j = [] \<and> done_by s j = []" for j
    using assms(3) by (simp_all add: conserved_def)
  show ?thesis
    using assms(1,2)
  proof (cases rule: worker_cases)
    case pop
    then show ?thesis using other out len
      by (auto simp: conserved_def system_views nth_list_update)
  next
    case (work t ts t' conn' m' w')
    then show ?thesis using other out len
      by (auto simp: conserved_def system_views nth_list_update)
  next
    case (check pc)
    then show ?thesis using other out len
      by (auto simp: conserved_def system_views nth_list_update)
  next
    case set_flag
    then show ?thesis using other out len
      by (auto simp: conserved_def system_views nth_list_update)
  next
    case stop_check
    then show ?thesis using other out len
      by (auto simp: conserved_def system_views nth_list_update)
  next
    case exit
    then show ?thesis using other out len
      by (auto simp: conserved_def system_views nth_list_update)
  qed
qed

lemma worker_wf:
  assumes "AsyncWorkFunc c i s = Inr (Some s')" "wf_db (sy_db s)"
  shows "wf_db (sy_db s')"
  using assms by (cases rule: worker_cases) (use assms(2) in \<open>auto simp: wf_db_def set_thread_def\<close>)

lemma worker_callbacks:
  assumes "AsyncWorkFunc c i s = Inr (Some s')" "wf_db (sy_db s)" "callbacks_in_order s"
  shows "callbacks_in_order s'"
  using assms(1,2) by (cases rule: worker_cases) (use assms(3) in \<open>auto simp: callbacks_in_order_def set_thread_def\<close>)

text \<open>What a worker step does to the parts the flush and stop invariants speak of.\<close>

lemma worker_frame:
  assumes "AsyncWorkFunc c i s = Inr (Some s')" "wf_db (sy_db s)"
  shows "sy_main s' = sy_main s" "workers s' = workers s" "db_stoping (sy_db s') = db_stoping (sy_db s)"
    "db_flushing (sy_db s') = db_flushing (sy_db s)" "db_inited (sy_db s') = db_inited (sy_db s)" "sy_mark s' = sy_mark s"
  using assms by (cases rule: worker_cases, auto simp: set_thread_def workers_def)+

lemma worker_progress:
  assumes "AsyncWorkFunc c i s = Inr (Some s')" "wf_db (sy_db s)" "j < workers s"
  shows "popped_by s j \<le> popped_by s' j" "length (done_by s j) \<le> length (done_by s' j)"
    "settled s j \<Longrightarrow> settled s' j"
    "db_flushFlag (sy_db s) ! j \<Longrightarrow> db_flushFlag (sy_db s') ! j"
    "db_flushFlag (sy_db s') ! j \<Longrightarrow> db_flushFlag (sy_db s) ! j \<or> length (done_by s' j) = popped_by s' j \<and> settled s' j"
    "thread_pc s' j = AtExit \<or> thread_pc s' j = Stopped \<Longrightarrow>
       thread_pc s j = AtExit \<or> thread_pc s j = Stopped \<or> db_stoping (sy_db s)"
proof -
  have len: "length (db_asyncThreads (sy_db s)) = workers s" "length (db_flushFlag (sy_db s)) = workers s"
    "length (db_taskQueues (sy_db s)) = workers s"
    using assms(2) by (simp_all add: wf_db_def workers_def)
  show "popped_by s j \<le> popped_by s' j" "length (done_by s j) \<le> length (done_by s' j)"
    "settled s j \<Longrightarrow> settled s' j"
    "db_flushFlag (sy_db s) ! j \<Longrightarrow> db_flushFlag (sy_db s') ! j"
    "db_flushFlag (sy_db s') ! j \<Longrightarrow> db_flushFlag (sy_db s) ! j \<or> length (done_by s' j) = popped_by s' j \<and> settled s' j"
    "thread_pc s' j = AtExit \<or> thread_pc s' j = Stopped \<Longrightarrow>
       thread_pc s j = AtExit \<or> thread_pc s j = Stopped \<or> db_stoping (sy_db s)"
    by (use assms(1,2) in \<open>cases rule: worker_cases\<close>;
        use assms(3) len in \<open>auto simp: system_views nth_list_update split: if_splits\<close>)+
qed

lemma worker_flush_marks:
  assumes "AsyncWorkFunc c i s = Inr (Some s')" "wf_db (sy_db s)" "flush_marks s"
  shows "flush_marks s'"
proof -
  note fr = worker_frame [OF assms(1,2)] and pr = worker_progress [OF assms(1,2)]
  have phase: "sy_main s = MFlushReset k d \<or> sy_main s = MFlushWait k d \<Longrightarrow> flush_phase (sy_main s)" for k d
    by auto
  have mark: "flush_phase (sy_main s) \<Longrightarrow> j < workers s \<Longrightarrow> sy_mark s j \<le> popped_by s' j" for j
    using assms(3) pr(1) [of j] by (auto simp: flush_marks_def intro: order.trans)
  have reset: "sy_mark s j \<le> length (done_by s' j)"
    if "sy_main s = MFlushReset k d" "j < workers s" "j < k" "db_flushFlag (sy_db s') ! j" for j k d
    using pr(5) [OF that(2,4)]
  proof
    assume "db_flushFlag (sy_db s) ! j"
    then have "sy_mark s j \<le> length (done_by s j)" using assms(3) that by (auto simp: flush_marks_def)
    with pr(2) [OF that(2)] show ?thesis by simp
  qed (use mark [OF _ that(2)] phase that(1) in auto)
  have wait: "sy_mark s j \<le> length (done_by s' j)"
    if "sy_main s = MFlushWait k d" "j < workers s" "db_flushFlag (sy_db s') ! j" for j k d
    using pr(5) [OF that(2,3)]
  proof
    assume "db_flushFlag (sy_db s) ! j"
    then have "sy_mark s j \<le> length (done_by s j)" using assms(3) that by (auto simp: flush_marks_def)
    with pr(2) [OF that(2)] show ?thesis by simp
  qed (use mark [OF _ that(2)] phase that(1) in auto)
  have waited: "db_flushFlag (sy_db s') ! j"
    if "sy_main s = MFlushWait k d" "j < workers s" "j < k" for j k d
    using assms(3) that pr(4) [OF that(2)] by (auto simp: flush_marks_def)
  show ?thesis
    unfolding flush_marks_def fr using mark reset wait waited by blast
qed

lemma worker_stop_order:
  assumes "AsyncWorkFunc c i s = Inr (Some s')" "wf_db (sy_db s)" "stop_order s"
  shows "stop_order s'"
proof -
  note fr = worker_frame [OF assms(1,2)] and pr = worker_progress [OF assms(1,2)]
  have reset: "settled s' j"
    if "sy_main s = MFlushReset k d" "j < workers s" "j < k" "db_flushFlag (sy_db s') ! j" for j k d
    using pr(5) [OF that(2,4)] pr(3) [OF that(2)] assms(3) that by (auto simp: stop_order_def)
  have wait: "settled s' j"
    if "sy_main s = MFlushWait k d" "j < workers s" "db_flushFlag (sy_db s') ! j" for j k d
    using pr(5) [OF that(2,3)] pr(3) [OF that(2)] assms(3) that by (auto simp: stop_order_def)
  have waited: "db_flushFlag (sy_db s') ! j"
    if "sy_main s = MFlushWait k d" "j < workers s" "j < k" for j k d
    using assms(3) that pr(4) [OF that(2)] by (auto simp: stop_order_def)
  have stop: "settled s' j" if "stop_phase (sy_main s)" "j < workers s" for j
    using assms(3) that pr(3) [OF that(2)] by (auto simp: stop_order_def)
  have alive: "thread_pc s' j \<notin> {AtExit, Stopped}" if "\<not> db_stoping (sy_db s)" "j < workers s" for j
    using assms(3) that pr(6) [OF that(2)] by (auto simp: stop_order_def)
  have rest: "db_stoping (sy_db s) \<longrightarrow> stop_phase (sy_main s) \<and> sy_main s \<noteq> MStopSet"
    "db_flushing (sy_db s) \<longrightarrow> (\<exists>k d. sy_main s = MFlushWait k d)" "sy_main s \<noteq> MEnd \<longrightarrow> db_inited (sy_db s)"
    using assms(3) by (simp_all add: stop_order_def)
  show ?thesis
    unfolding stop_order_def fr using reset wait waited stop alive rest by blast
qed

lemma worker_inv:
  assumes "AsyncWorkFunc c i s = Inr (Some s')" "sys_inv s"
  shows "sys_inv s'"
proof (cases "sy_main s = MEnd")
  case True
  then have "db_asyncThreads (sy_db s) = []" using assms(2) by (simp add: sys_inv_def closed_db_def)
  then show ?thesis using assms(1) by (simp add: AsyncWorkFunc_def vec_at_def)
next
  case False
  note inv = live_inv [OF assms(2) False]
  then have "sy_main s' \<noteq> MEnd" using worker_frame(1) [OF assms(1)] False by simp
  with inv show ?thesis
    using worker_wf [OF assms(1)] worker_conserved [OF assms(1)] worker_callbacks [OF assms(1)]
      worker_flush_marks [OF assms(1)] worker_stop_order [OF assms(1)]
    by (simp add: sys_inv_def)
qed

text \<open>Updates that leave the tasks where they are.\<close>

lemma main_update_views [simp]:
  "thread_pc (s\<lparr>sy_main := m\<rparr>) = thread_pc s" "queue_of (s\<lparr>sy_main := m\<rparr>) = queue_of s"
  "done_by (s\<lparr>sy_main := m\<rparr>) = done_by s" "workers (s\<lparr>sy_main := m\<rparr>) = workers s"
  "popped_by (s\<lparr>sy_main := m\<rparr>) = popped_by s" "settled (s\<lparr>sy_main := m\<rparr>) = settled s"
  "conserved (s\<lparr>sy_main := m\<rparr>) = conserved s"
  by (auto simp: conserved_def system_views fun_eq_iff)

lemma mark_update_views [simp]:
  "thread_pc (s\<lparr>sy_mark := m\<rparr>) = thread_pc s" "queue_of (s\<lparr>sy_mark := m\<rparr>) = queue_of s"
  "done_by (s\<lparr>sy_mark := m\<rparr>) = done_by s" "workers (s\<lparr>sy_mark := m\<rparr>) = workers s"
  "popped_by (s\<lparr>sy_mark := m\<rparr>) = popped_by s" "settled (s\<lparr>sy_mark := m\<rparr>) = settled s"
  "conserved (s\<lparr>sy_mark := m\<rparr>) = conserved s"
  by (auto simp: conserved_def system_views fun_eq_iff)

lemma event_update_views [simp]:
  "thread_pc (s\<lparr>sy_invoked := ts, sy_events := es\<rparr>) = thread_pc s" "workers (s\<lparr>sy_invoked := ts, sy_events := es\<rparr>) = workers s"
  "conserved (s\<lparr>sy_invoked := ts, sy_events := es\<rparr>) = conserved s"
  by (auto simp: conserved_def system_views fun_eq_iff)

definition same_tasks :: "MysqlDB \<Rightarrow> MysqlDB \<Rightarrow> bool" where
  "same_tasks db db' \<longleftrightarrow> db_asyncThreads db' = db_asyncThreads db \<and> db_taskQueues db' = db_taskQueues db \<and>
     db_asyncConnNum db' = db_asyncConnNum db"

lemma same_tasks_views:
  assumes "same_tasks (sy_db s) db'"
  shows "thread_pc (s\<lparr>sy_db := db'\<rparr>) = thread_pc s" "queue_of (s\<lparr>sy_db := db'\<rparr>) = queue_of s"
    "done_by (s\<lparr>sy_db := db'\<rparr>) = done_by s" "workers (s\<lparr>sy_db := db'\<rparr>) = workers s"
    "popped_by (s\<lparr>sy_db := db'\<rparr>) = popped_by s" "settled (s\<lparr>sy_db := db'\<rparr>) = settled s"
    "conserved (s\<lparr>sy_db := db'\<rparr>) = conserved s"
  using assms by (auto simp: same_tasks_def conserved_def system_views fun_eq_iff)

lemma flag_update_views [simp]:
  "same_tasks db (db\<lparr>db_flushFlag := fs\<rparr>)" "same_tasks db (db\<lparr>db_flushing := b\<rparr>)"
  "same_tasks db (db\<lparr>db_stoping := b\<rparr>)" "same_tasks db (db\<lparr>db_stopedNum := k\<rparr>)"
  "same_tasks db (db\<lparr>db_finishTasks := ts\<rparr>)" "same_tasks db (db\<lparr>db_syncConn := conn\<rparr>)"
  "same_tasks db (db\<lparr>db_syncConn := conn, db_fieldInfos := m\<rparr>)"
  by (simp_all add: same_tasks_def)

lemmas inv_defs = sys_inv_def callbacks_in_order_def flush_marks_def stop_order_def wf_db_def

text \<open>The steps of the main thread inside a call.\<close>

lemma live_parts:
  assumes "sys_inv s" "sy_main s \<noteq> MEnd"
  shows "wf_db (sy_db s)" "conserved s" "callbacks_in_order s" "flush_marks s" "stop_order s"
    "length (db_flushFlag (sy_db s)) = workers s"
  using live_inv [OF assms] by (simp_all add: wf_db_def workers_def)

lemma callbacks_inv:
  assumes "sy_main s = MCallbacks ts" "main_continue c s = Inr (Some s')" "sys_inv s"
  shows "sys_inv s'"
proof (cases ts)
  case Nil
  then have "s' = s\<lparr>sy_main := MIdle\<rparr>" using assms(1,2) by (simp add: main_continue_def Let_def)
  then show ?thesis using live_parts [OF assms(3)] assms(1) Nil by (simp add: inv_defs)
next
  case (Cons t ts')
  then obtain e where "s' = s\<lparr>sy_main := MCallbacks ts', sy_invoked := sy_invoked s @ [t], sy_events := sy_events s @ [e]\<rparr>"
    using assms(1,2) by (auto simp: main_continue_def Let_def rbind_eq_Inr)
  then have s': "s' = s\<lparr>sy_invoked := sy_invoked s @ [t], sy_events := sy_events s @ [e]\<rparr>\<lparr>sy_main := MCallbacks ts'\<rparr>" by simp
  show ?thesis unfolding s' using live_parts [OF assms(3)] assms(1) Cons by (simp add: inv_defs)
qed

lemma flush_reset_inv:
  assumes "sy_main s = MFlushReset k d" "main_continue c s = Inr (Some s')" "sys_inv s"
  shows "sys_inv s'"
proof (cases "k < workers s")
  case True
  then have "s' = s\<lparr>sy_db := (sy_db s)\<lparr>db_flushFlag := (db_flushFlag (sy_db s))[k := False]\<rparr>\<rparr>\<lparr>sy_main := MFlushReset (Suc k) d\<rparr>"
    using assms(1,2) by (auto simp: main_continue_def Let_def rbind_eq_Inr workers_def)
  then show ?thesis
    using live_parts [OF assms(3)] assms(1) True by (auto simp: inv_defs same_tasks_views nth_list_update less_Suc_eq)
next
  case False
  then have "s' = s\<lparr>sy_db := (sy_db s)\<lparr>db_flushing := True\<rparr>\<rparr>\<lparr>sy_main := MFlushWait 0 d\<rparr>"
    using assms(1,2) by (simp add: main_continue_def Let_def workers_def)
  then show ?thesis using live_parts [OF assms(3)] assms(1) False by (simp add: inv_defs same_tasks_views)
qed

lemma flush_wait_inv:
  assumes "sy_main s = MFlushWait k d" "main_continue c s = Inr (Some s')" "sys_inv s"
  shows "sys_inv s'"
proof (cases "k < workers s")
  case True
  then have "db_flushFlag (sy_db s) ! k" "s' = s\<lparr>sy_main := MFlushWait (Suc k) d\<rparr>"
    using assms(1,2) by (auto simp: main_continue_def Let_def rbind_eq_Inr vec_at_eq_Inr workers_def split: if_splits)
  then show ?thesis using live_parts [OF assms(3)] assms(1) by (simp add: inv_defs less_Suc_eq)
next
  case False
  then have "s' = s\<lparr>sy_db := (sy_db s)\<lparr>db_flushing := False\<rparr>\<rparr>\<lparr>sy_main := (if d then MStopSet else MIdle)\<rparr>"
    using assms(1,2) by (simp add: main_continue_def Let_def workers_def)
  then show ?thesis
    using live_parts [OF assms(3)] assms(1) False by (cases d) (auto simp: inv_defs same_tasks_views)
qed

lemma stop_inv:
  assumes "sy_main s = MStopSet \<or> sy_main s = MStopReset \<or> sy_main s = MStopWait"
    "main_continue c s = Inr (Some s')" "sys_inv s"
  shows "sys_inv s'"
  using assms(1)
proof (elim disjE)
  assume m: "sy_main s = MStopSet"
  then have "s' = s\<lparr>sy_db := (sy_db s)\<lparr>db_stoping := True\<rparr>\<rparr>\<lparr>sy_main := MStopReset\<rparr>"
    using assms(2) by (simp add: main_continue_def Let_def)
  then show ?thesis using live_parts [OF assms(3)] m by (simp add: inv_defs same_tasks_views)
next
  assume m: "sy_main s = MStopReset"
  then have "s' = s\<lparr>sy_db := (sy_db s)\<lparr>db_stopedNum := 0\<rparr>\<rparr>\<lparr>sy_main := MStopWait\<rparr>"
    using assms(2) by (simp add: main_continue_def Let_def)
  then show ?thesis using live_parts [OF assms(3)] m by (simp add: inv_defs same_tasks_views)
next
  assume m: "sy_main s = MStopWait"
  then have "s' = s\<lparr>sy_main := MJoin\<rparr>"
    using assms(2) by (simp add: main_continue_def Let_def split: if_splits)
  then show ?thesis using live_parts [OF assms(3)] m by (simp add: inv_defs)
qed

lemma join_inv:
  assumes "sy_main s = MJoin" "main_continue c s = Inr (Some s')" "sys_inv s"
  shows "sys_inv s'"
proof -
  note inv = live_inv [OF assms(3)] and MJoin = assms(1)
  have stopped: "\<forall>pc\<in>set (db_asyncThreads (sy_db s)). pc = Stopped"
    using assms(1,2) by (auto simp: main_continue_def Let_def split: if_splits)
  obtain db' w' where d: "Destroy_finish c (sy_db s) (sy_world s) = Inr (db', w')"
    "s' = s\<lparr>sy_db := db', sy_world := w', sy_main := MEnd\<rparr>"
    using assms(1,2) stopped by (auto simp: main_continue_def Let_def rbind_eq_Inr)
  have "map erase (sy_pushed s i) = map erase (done_by s i)" for i
  proof (cases "i < workers s")
    case True
    then have pc: "thread_pc s i = Stopped" using stopped inv MJoin by (simp add: thread_pc_def wf_db_def workers_def)
    moreover have "settled s i" using inv MJoin True by (simp add: stop_order_def)
    ultimately have "queue_of s i = []" by (simp add: settled_def)
    with pc True inv MJoin show ?thesis by (simp add: conserved_def)
  qed (use inv MJoin in \<open>simp add: conserved_def\<close>)
  moreover have "closed_db db'" using d(1) by (auto simp: Destroy_finish_def rbind_eq_Inr closed_db_def)
  moreover have "map snd (sy_done s) = sy_invoked s @ db_finishTasks (sy_db s)"
    using inv MJoin by (simp add: callbacks_in_order_def)
  ultimately show ?thesis using d(2) by (simp add: sys_inv_def done_by_def)
qed

lemma main_inv:
  assumes "main_continue c s = Inr (Some s')" "sys_inv s"
  shows "sys_inv s'"
proof (cases "sy_main s")
  case MIdle
  then show ?thesis using assms(1) by (simp add: main_continue_def Let_def)
next
  case MEnd
  then show ?thesis using assms(1) by (simp add: main_continue_def Let_def)
qed (use assms callbacks_inv flush_reset_inv flush_wait_inv stop_inv join_inv in \<open>blast+\<close>)

text \<open>The calls.\<close>

lemma push_inv:
  assumes "sys_inv s" "sy_main s = MIdle \<or> (\<exists>ts. sy_main s = MCallbacks ts)"
    and "AddAsyncTask (sy_db s) self key t = Inr db'"
  shows "sys_inv (record_push s key db')"
proof -
  have live: "sy_main s \<noteq> MEnd" using assms(2) by auto
  note parts = live_parts [OF assms(1) live]
  let ?i = "queue_index (sy_db s) key"
  have "db_asyncThreadId (sy_db s) = Some self"
    using assms(3) by (simp add: AddAsyncTask_def check_async_thread_def split: if_splits)
  then have i: "?i < workers s" and db': "db' = (sy_db s)\<lparr>db_taskQueues :=
      (db_taskQueues (sy_db s))[?i := Push (db_taskQueues (sy_db s) ! ?i) t]\<rparr>"
    using AddAsyncTask_ok [OF parts(1), of self key t] assms(3) parts(1)
    by (auto simp: queue_index_def wf_db_def workers_def)
  have lenq: "length (db_taskQueues (sy_db s)) = workers s" using parts(1) by (simp add: wf_db_def workers_def)
  let ?s = "record_push s key db'"
  have s: "?s = s\<lparr>sy_db := db', sy_pushed := (sy_pushed s)(?i := sy_pushed s ?i @ [t])\<rparr>"
    using i lenq by (simp add: record_push_def Let_def db' Push_def)
  have q: "queue_of ?s j = (if j = ?i then queue_of s j @ [t] else queue_of s j)" for j
    using i lenq unfolding s by (simp add: queue_of_def db' Push_def)
  have same: "thread_pc ?s = thread_pc s" "done_by ?s = done_by s" "workers ?s = workers s"
    unfolding s by (auto simp: system_views db' fun_eq_iff)
  have "conserved ?s"
    unfolding conserved_def same q using parts(2) i by (auto simp: conserved_def s)
  moreover have "wf_db db'" using parts(1) by (simp add: db' wf_db_def)
  moreover have "callbacks_in_order ?s" unfolding s using parts(3) by (simp add: callbacks_in_order_def db')
  moreover have "flush_marks ?s" using assms(2) by (auto simp: flush_marks_def s)
  moreover have "stop_order ?s"
    unfolding stop_order_def same unfolding s using assms(2) parts(5) by (auto simp: db' stop_order_def)
  moreover have "sy_main ?s = sy_main s" "sy_db ?s = db'" by (simp_all add: s)
  ultimately show ?thesis using live by (simp add: sys_inv_def)
qed

lemma sync_inv:
  assumes "sys_inv s" "sy_main s = MIdle \<or> (\<exists>ts. sy_main s = MCallbacks ts)"
    and "db' = (sy_db s)\<lparr>db_syncConn := Some conn, db_fieldInfos := m\<rparr>" "map_ok m"
  shows "sys_inv (s\<lparr>sy_db := db', sy_world := w'\<rparr>)"
proof -
  have live: "sy_main s \<noteq> MEnd" using assms(2) by auto
  note parts = live_parts [OF assms(1) live]
  let ?s = "s\<lparr>sy_db := db', sy_world := w'\<rparr>"
  have same: "thread_pc ?s = thread_pc s" "workers ?s = workers s" "conserved ?s = conserved s"
    by (auto simp: conserved_def system_views assms(3) fun_eq_iff)
  have "flush_marks ?s" using assms(2) by (auto simp: flush_marks_def)
  moreover have "stop_order ?s"
    unfolding stop_order_def same using assms(2) parts(5) by (auto simp: assms(3) stop_order_def)
  ultimately show ?thesis
    using parts live assms(3,4) same by (simp add: sys_inv_def callbacks_in_order_def wf_db_def)
qed

lemma begin_flush_inv:
  assumes "sys_inv s" "sy_main s = MIdle"
  shows "sys_inv (begin_flush s d)"
proof -
  have "sy_main s \<noteq> MEnd" using assms(2) by simp
  note parts = live_parts [OF assms(1) this]
  have "begin_flush s d = s\<lparr>sy_mark := popped_by s\<rparr>\<lparr>sy_main := MFlushReset 0 d\<rparr>"
    using parts(5) assms(2) by (auto simp: begin_flush_def stop_order_def)
  then show ?thesis using parts assms(2) by (simp add: inv_defs)
qed

lemma take_finished_inv:
  assumes "sys_inv s" "sy_main s = MIdle" "take_finished (sy_db s) self = Inr (ts, db')"
  shows "sys_inv (s\<lparr>sy_db := db', sy_main := MCallbacks ts\<rparr>)"
proof -
  have "sy_main s \<noteq> MEnd" using assms(2) by simp
  note parts = live_parts [OF assms(1) this]
  have d: "ts = db_finishTasks (sy_db s)" "db' = (sy_db s)\<lparr>db_finishTasks := []\<rparr>"
    using assms(3) by (auto simp: take_finished_def rbind_eq_Inr split: if_splits)
  have "s\<lparr>sy_db := db', sy_main := MCallbacks ts\<rparr> = s\<lparr>sy_db := db'\<rparr>\<lparr>sy_main := MCallbacks ts\<rparr>" by simp
  then show ?thesis
    using parts assms(2) d(1) unfolding d(2) by (simp add: inv_defs same_tasks_views)
qed

lemma call_inv:
  assumes "may_call s k" "start_call c self k s = Inr s'" "sys_inv s"
  shows "sys_inv s'"
proof -
  have pc: "sy_main s = MIdle \<or> (\<exists>ts. sy_main s = MCallbacks ts)" and idle: "\<not> is_query k \<Longrightarrow> sy_main s = MIdle"
    using assms(1) by (auto simp: may_call_def)
  have "sy_main s \<noteq> MEnd" using pc by auto
  then have ok: "map_ok (db_fieldInfos (sy_db s))" using live_parts(1) [OF assms(3)] by (simp add: wf_db_def)
  show ?thesis
  proof (cases k)
    case (CallQueryAsync_records key sql mode cb)
    then show ?thesis using assms(2) push_inv [OF assms(3) pc] by (auto simp: QueryAsync_records_def rbind_eq_Inr)
  next
    case (CallQueryAsync_sql key sql cb)
    then show ?thesis using assms(2) push_inv [OF assms(3) pc] by (auto simp: QueryAsync_sql_def rbind_eq_Inr)
  next
    case (CallQuery_records sql mode)
    then obtain conn result conn' m' w' where
      q: "Query_records c conn sql mode (db_fieldInfos (sy_db s)) (sy_world s) = Inr (result, conn', m', w')"
      and s': "s' = s\<lparr>sy_db := (sy_db s)\<lparr>db_syncConn := Some conn', db_fieldInfos := m'\<rparr>, sy_world := w'\<rparr>"
      using assms(2) by (auto simp: Database_Query_records_def rbind_eq_Inr)
    have "map_ok m'" using Query_records_cache [OF q ok] by (simp add: cache_extends_def)
    then show ?thesis unfolding s' by (rule sync_inv [OF assms(3) pc refl])
  next
    case (CallQuery_sql sql)
    then obtain conn where "s' = s\<lparr>sy_db := (sy_db s)\<lparr>db_syncConn := Some conn, db_fieldInfos := db_fieldInfos (sy_db s)\<rparr>, sy_world := sy_world s'\<rparr>"
      using assms(2) by (auto simp: Database_Query_sql_def sync_query_def rbind_eq_Inr)
    then show ?thesis using sync_inv [OF assms(3) pc refl ok] by metis
  next
    case CallOnUpdate
    then show ?thesis using assms(2) take_finished_inv [OF assms(3) idle] by (auto simp: rbind_eq_Inr)
  next
    case CallFlush
    then show ?thesis using assms(2) begin_flush_inv [OF assms(3) idle] by (auto simp: rbind_eq_Inr)
  next
    case CallDestroy
    then show ?thesis using assms(2,3) begin_flush_inv [OF assms(3) idle] by (auto simp: rbind_eq_Inr split: if_splits)
  qed
qed

lemma step_inv: "sys_step c self s s' \<Longrightarrow> sys_inv s \<Longrightarrow> sys_inv s'"
  by (erule sys_stepE) (blast intro: worker_inv main_inv call_inv)+

lemma reach_inv:
  assumes "sys_reach c self (sys_init db w) s" "started self db"
  shows "sys_inv s"
  using assms(1) by induction (auto intro: started_inv [OF assms(2)] step_inv)

subsection \<open>Properties of every run\<close>

text \<open>C1: Whatever the interleaving of the main thread and the workers, no asynchronous task is lost, duplicated or reordered: the tasks pushed to a queue are, in order, those its worker has finished, those it holds, and those still queued; and the callbacks run so far are a prefix of the finished tasks in the order they finished.\<close>

theorem async_tasks_stay_in_order:
  assumes "started self db" "sys_reach c self (sys_init db w) s" "sy_main s \<noteq> MEnd" "i < workers s"
  shows "map erase (sy_pushed s i) = map erase (done_by s i @ in_hand (thread_pc s i) @ queue_of s i) \<and>
    map snd (sy_done s) = sy_invoked s @ callbacks_left (sy_main s) @ db_finishTasks (sy_db s)"
  using live_inv [OF reach_inv [OF assms(2,1)] assms(3)] assms(4) by (simp add: conserved_def callbacks_in_order_def)

text \<open>C8: When \<open>Flush\<close> returns, every worker has finished all the tasks it had already taken from its queue when \<open>Flush\<close> was called.\<close>

theorem flush_waits_for_popped_tasks:
  assumes "started self db" "sys_reach c self (sys_init db w) s" "sy_main s = MFlushWait (workers s) d" "i < workers s"
  shows "sy_mark s i \<le> length (done_by s i)"
proof -
  have "sy_main s \<noteq> MEnd" using assms(3) by simp
  with live_inv [OF reach_inv [OF assms(2,1)]] have "flush_marks s" by blast
  with assms(3,4) show ?thesis by (simp add: flush_marks_def)
qed

text \<open>C2: When \<open>Destroy\<close> returns, every task that was ever pushed has been executed, in the order of its queue; the callbacks that ran are a prefix of the finished tasks; and the database is closed.\<close>

theorem destroy_executes_every_task:
  assumes "started self db" "sys_reach c self (sys_init db w) s" "sy_main s = MEnd"
  shows "map erase (sy_pushed s i) = map erase (done_by s i) \<and> (\<exists>dropped. map snd (sy_done s) = sy_invoked s @ dropped) \<and>
    closed_db (sy_db s)"
  using reach_inv [OF assms(2,1)] assms(3) by (simp add: sys_inv_def)

subsection \<open>Runs that go wrong\<close>

definition sample_start :: "(nat list \<times> nat) system" where
  "sample_start = sys_init sample_db ([], 0)"

lemma sample_started: "started 1 sample_db"
  by (auto simp: started_def) (simp_all add: sample_db_def new_MysqlDB_def new_AsyncTaskQueue_def)

abbreviation (input) "sample_c \<equiv> sample_client True [] []"

lemma label_run_reach: "label_run c self ls s0 = Some s \<Longrightarrow> sys_reach c self s0 s"
  by (rule label_run_sound [OF _ sys_reach.start])

definition flush_run :: "label list" where
  "flush_run = [C (CallQueryAsync_sql 0 ''a'' (Some 1)), W 0, C (CallQueryAsync_sql 0 ''b'' (Some 2)), C CallFlush,
     M, M, W 0, W 0, W 0, M]"

lemma flush_run_end:
  "case label_run sample_c 1 flush_run sample_start of None \<Rightarrow> False
   | Some s \<Rightarrow> sy_main s = MFlushWait 1 False \<and> workers s = 1 \<and> map at_sql (queue_of s 0) = [''b''] \<and> map at_sql (done_by s 0) = [''a'']"
  by code_simp

text \<open>C11: \<open>Flush\<close> returns while a task pushed before the call is still queued and not executed, because the worker asks the queue whether it is empty and the queue always says yes.\<close>

theorem flush_returns_with_queued_tasks:
  "\<exists>s s'. sys_reach sample_c 1 sample_start s \<and> sy_main s = MFlushWait (workers s) False \<and>
     main_continue sample_c s = Inr (Some s') \<and> sy_main s' = MIdle \<and> map at_sql (queue_of s' 0) = [''b'']"
proof -
  obtain s where s: "label_run sample_c 1 flush_run sample_start = Some s" "sy_main s = MFlushWait 1 False" "workers s = 1"
    "map at_sql (queue_of s 0) = [''b'']"
    using flush_run_end by (auto split: option.splits)
  let ?s = "s\<lparr>sy_db := (sy_db s)\<lparr>db_flushing := False\<rparr>, sy_main := MIdle\<rparr>"
  have "main_continue sample_c s = Inr (Some ?s)"
    using s(2,3) by (simp add: main_continue_def Let_def workers_def)
  moreover have "queue_of ?s 0 = queue_of s 0" by (simp add: queue_of_def)
  ultimately show ?thesis using label_run_reach [OF s(1)] s(2-4) by (intro exI [of _ s] exI [of _ ?s]) simp
qed

definition hang_run :: "label list" where
  "hang_run = [C CallDestroy, M, M, W 0, W 0, W 0, M, M, M, W 0, W 0, W 0, W 0, M]"

lemma hang_run_end:
  "case label_run sample_c 1 hang_run sample_start of None \<Rightarrow> False
   | Some s \<Rightarrow> sy_main s = MStopWait \<and> db_stopedNum (sy_db s) = 0 \<and> db_asyncConnNum (sy_db s) = 1 \<and> db_asyncThreads (sy_db s) = [Stopped]"
  by code_simp

lemma stuck_in_stop_wait:
  assumes "sy_main s = MStopWait" "db_stopedNum (sy_db s) \<noteq> db_asyncConnNum (sy_db s)"
    "\<forall>pc\<in>set (db_asyncThreads (sy_db s)). pc = Stopped"
  shows "\<not> sys_step c self s s'"
proof
  assume "sys_step c self s s'"
  then show False
  proof (cases rule: sys_step.cases)
    case (worker i)
    then have "db_asyncThreads (sy_db s) ! i = Stopped" "vec_at (db_asyncThreads (sy_db s)) i = Inr Stopped"
      using assms(3) by (auto simp: AsyncWorkFunc_def Let_def rbind_eq_Inr vec_at_eq_Inr)
    with worker show False by (simp add: AsyncWorkFunc_def Let_def)
  next
    case main
    then show False using assms(1,2) by (simp add: main_continue_def Let_def)
  next
    case (call k)
    then show False using assms(1) by (simp add: may_call_def)
  qed
qed

text \<open>C12: \<open>Destroy\<close> can wait forever: it sets the stop flag before it resets the counter of stopped workers, so a worker that stops in between is not counted and, all workers having stopped, no further step is possible.\<close>

theorem destroy_can_hang:
  "\<exists>s. sys_reach sample_c 1 sample_start s \<and> sy_main s = MStopWait \<and> (\<forall>s'. \<not> sys_step sample_c 1 s s')"
proof -
  obtain s where s: "label_run sample_c 1 hang_run sample_start = Some s" "sy_main s = MStopWait"
    "db_stopedNum (sy_db s) = 0" "db_asyncConnNum (sy_db s) = 1" "db_asyncThreads (sy_db s) = [Stopped]"
    using hang_run_end by (auto split: option.splits)
  then have "\<not> sys_step sample_c 1 s s'" for s' by (intro stuck_in_stop_wait) simp_all
  with label_run_reach [OF s(1)] s(2) show ?thesis by blast
qed

definition destroy_run :: "label list" where
  "destroy_run = [C (CallQueryAsync_sql 0 ''a'' (Some 1)), W 0, C CallDestroy, M, M, W 0, W 0, W 0, M, M, M, M,
     W 0, W 0, W 0, W 0, M]"

lemma destroy_run_end:
  "case label_run sample_c 1 destroy_run sample_start of None \<Rightarrow> False
   | Some s \<Rightarrow> sy_main s = MJoin \<and> map at_sql (done_by s 0) = [''a''] \<and> sy_invoked s = [] \<and> db_asyncThreads (sy_db s) = [Stopped] \<and>
      db_syncConn (sy_db s) = Some sample_conn \<and> db_asyncConns (sy_db s) = [sample_conn]"
  by code_simp

lemma sample_destroy_reach: "\<exists>s. sys_reach sample_c 1 sample_start s \<and> sy_main s = MEnd \<and> map at_sql (done_by s 0) = [''a''] \<and> sy_invoked s = []"
proof -
  obtain s where s: "label_run sample_c 1 destroy_run sample_start = Some s"
    "sy_main s = MJoin" "map at_sql (done_by s 0) = [''a'']" "db_asyncThreads (sy_db s) = [Stopped]"
    "db_syncConn (sy_db s) = Some sample_conn" "db_asyncConns (sy_db s) = [sample_conn]" "sy_invoked s = []"
    using destroy_run_end by (auto split: option.splits)
  obtain db' w' where d: "Destroy_finish sample_c (sy_db s) (sy_world s) = Inr (db', w')"
    using s(5,6) by (simp add: Destroy_finish_def release_conn_def Disconnect_def sample_conn_def sample_client_def)
  let ?s = "s\<lparr>sy_db := db', sy_world := w', sy_main := MEnd\<rparr>"
  have "main_continue sample_c s = Inr (Some ?s)" using s(2,4) d by (simp add: main_continue_def Let_def)
  then have "sys_reach sample_c 1 sample_start ?s"
    using label_run_reach [OF s(1)] by (blast intro: sys_reach.step sys_step.main)
  moreover have "done_by ?s 0 = done_by s 0" by (simp add: done_by_def)
  ultimately show ?thesis using s(3,7) by (intro exI [of _ ?s]) simp
qed

text \<open>The callback of a task that finishes after the last \<open>OnUpdate\<close> is never called: \<open>Destroy\<close> executes the task and deletes it.\<close>

theorem destroy_drops_callbacks:
  "\<exists>s. sys_reach sample_c 1 sample_start s \<and> sy_main s = MEnd \<and> map at_sql (done_by s 0) = [''a''] \<and> sy_invoked s = []"
  by (rule sample_destroy_reach)

subsection \<open>A database that was destroyed before\<close>

text \<open>Worker \<open>i\<close> has stopped, with \<open>ts\<close> at the head of its queue, while the stop flag is still set.\<close>

definition stranded :: "nat \<Rightarrow> AsyncTask list \<Rightarrow> AsyncTask list \<Rightarrow> 'w system \<Rightarrow> bool" where
  "stranded i ts finished s \<longleftrightarrow>
     wf_db (sy_db s) \<and> db_stoping (sy_db s) \<and> i < workers s \<and> thread_pc s i = Stopped \<and>
     \<not> stop_phase (sy_main s) \<and> sy_main s \<noteq> MEnd \<and>
     (\<forall>k. sy_main s \<noteq> MFlushReset k True \<and> sy_main s \<noteq> MFlushWait k True) \<and>
     done_by s i = finished \<and> (\<exists>more. queue_of s i = ts @ more)"

lemma stranded_worker:
  assumes "stranded i ts finished s" "AsyncWorkFunc c j s = Inr (Some s')"
  shows "stranded i ts finished s'"
proof -
  have wf: "wf_db (sy_db s)" and pc: "thread_pc s i = Stopped" and i: "i < workers s"
    using assms(1) by (simp_all add: stranded_def)
  have len: "length (db_asyncThreads (sy_db s)) = workers s" "length (db_taskQueues (sy_db s)) = workers s"
    using wf by (simp_all add: wf_db_def workers_def)
  have "thread_pc s' i = Stopped \<and> queue_of s' i = queue_of s i \<and> done_by s' i = done_by s i"
    using assms(2) wf
    by (cases rule: worker_cases) (use pc i len in \<open>auto simp: system_views nth_list_update\<close>)
  then show ?thesis
    using assms(1) worker_wf [OF assms(2) wf] worker_frame [OF assms(2) wf] by (simp add: stranded_def)
qed

lemma stranded_main:
  assumes "stranded i ts finished s" "main_continue c s = Inr (Some s')"
  shows "stranded i ts finished s'"
proof -
  have keep: "stranded i ts finished (u\<lparr>sy_main := m\<rparr>)"
    if "stranded i ts finished u" "\<not> stop_phase m" "m \<noteq> MEnd" "\<forall>k. m \<noteq> MFlushReset k True \<and> m \<noteq> MFlushWait k True"
    for u :: "'a system" and m
    using that by (simp add: stranded_def)
  have flag: "stranded i ts finished (s\<lparr>sy_db := db'\<rparr>)"
    if "same_tasks (sy_db s) db'" "wf_db db'" "db_stoping db'" for db'
    using that assms(1) by (simp add: stranded_def same_tasks_views)
  have wf: "wf_db (sy_db s)" "db_stoping (sy_db s)" using assms(1) by (simp_all add: stranded_def)
  show ?thesis
  proof (cases "sy_main s")
    case (MCallbacks us)
    show ?thesis
    proof (cases us)
      case Nil
      then show ?thesis using assms MCallbacks keep by (auto simp: main_continue_def)
    next
      case (Cons u us')
      then obtain e where "s' = s\<lparr>sy_main := MCallbacks us', sy_invoked := sy_invoked s @ [u], sy_events := sy_events s @ [e]\<rparr>"
        using assms(2) MCallbacks by (auto simp: main_continue_def Let_def rbind_eq_Inr)
      then have "s' = s\<lparr>sy_invoked := sy_invoked s @ [u], sy_events := sy_events s @ [e]\<rparr>\<lparr>sy_main := MCallbacks us'\<rparr>" by simp
      moreover have "stranded i ts finished (s\<lparr>sy_invoked := sy_invoked s @ [u], sy_events := sy_events s @ [e]\<rparr>)"
        using assms(1) by (simp add: stranded_def system_views)
      ultimately show ?thesis using keep by simp
    qed
  next
    case (MFlushReset k d)
    then have "\<not> d" using assms(1) by (cases d) (auto simp: stranded_def)
    then consider "s' = s\<lparr>sy_db := (sy_db s)\<lparr>db_flushFlag := (db_flushFlag (sy_db s))[k := False]\<rparr>\<rparr>\<lparr>sy_main := MFlushReset (Suc k) False\<rparr>"
      | "s' = s\<lparr>sy_db := (sy_db s)\<lparr>db_flushing := True\<rparr>\<rparr>\<lparr>sy_main := MFlushWait 0 False\<rparr>"
      using assms(2) MFlushReset by (auto simp: main_continue_def Let_def rbind_eq_Inr split: if_splits)
    then show ?thesis by cases (use keep flag wf in \<open>simp_all add: wf_db_def\<close>)
  next
    case (MFlushWait k d)
    then have "\<not> d" using assms(1) by (cases d) (auto simp: stranded_def)
    then consider "s' = s\<lparr>sy_main := MFlushWait (Suc k) False\<rparr>"
      | "s' = s\<lparr>sy_db := (sy_db s)\<lparr>db_flushing := False\<rparr>\<rparr>\<lparr>sy_main := MIdle\<rparr>"
      using assms(2) MFlushWait by (auto simp: main_continue_def Let_def rbind_eq_Inr split: if_splits)
    then show ?thesis by cases (use keep flag wf assms(1) in \<open>simp_all add: wf_db_def\<close>)
  qed (use assms in \<open>auto simp: stranded_def main_continue_def\<close>)
qed

lemma stranded_push:
  assumes "stranded i ts finished s" "AddAsyncTask (sy_db s) self key t = Inr db'"
  shows "stranded i ts finished (record_push s key db')"
proof -
  let ?j = "queue_index (sy_db s) key"
  have wf: "wf_db (sy_db s)" using assms(1) by (simp add: stranded_def)
  have "db_asyncThreadId (sy_db s) = Some self"
    using assms(2) by (simp add: AddAsyncTask_def check_async_thread_def split: if_splits)
  then have j: "?j < length (db_taskQueues (sy_db s))" and db': "db' = (sy_db s)\<lparr>db_taskQueues :=
      (db_taskQueues (sy_db s))[?j := Push (db_taskQueues (sy_db s) ! ?j) t]\<rparr>"
    using AddAsyncTask_ok [OF wf, of self key t] assms(2) by (auto simp: queue_index_def)
  let ?s = "record_push s key db'"
  have "sy_db ?s = db'" "sy_main ?s = sy_main s" "sy_done ?s = sy_done s"
    by (simp_all add: record_push_def Let_def)
  note s = this
  have "queue_of ?s i = (if i = ?j then queue_of s i @ [t] else queue_of s i)"
    using j unfolding queue_of_def s(1) by (simp add: db' Push_def)
  moreover have "thread_pc ?s = thread_pc s" "workers ?s = workers s" "done_by ?s = done_by s"
    unfolding fun_eq_iff system_views s by (simp_all add: db')
  moreover have "wf_db db'" "db_stoping db' = db_stoping (sy_db s)" using wf by (simp_all add: db' wf_db_def)
  ultimately show ?thesis using assms(1) by (auto simp: stranded_def s)
qed

lemma stranded_call:
  assumes "stranded i ts finished s" "may_call s k" "start_call c self k s = Inr s'"
  shows "stranded i ts finished s'"
proof -
  have wf: "wf_db (sy_db s)" "db_stoping (sy_db s)" using assms(1) by (simp_all add: stranded_def)
  have sync: "stranded i ts finished (s\<lparr>sy_db := (sy_db s)\<lparr>db_syncConn := Some conn, db_fieldInfos := m\<rparr>, sy_world := w'\<rparr>)"
    if "map_ok m" for conn m w'
    using assms(1) that by (simp add: stranded_def system_views wf_db_def)
  have ok: "map_ok (db_fieldInfos (sy_db s))" using wf by (simp add: wf_db_def)
  show ?thesis
  proof (cases k)
    case (CallQuery_records sql mode)
    then obtain conn result conn' m' w' where
      q: "Query_records c conn sql mode (db_fieldInfos (sy_db s)) (sy_world s) = Inr (result, conn', m', w')"
      and s': "s' = s\<lparr>sy_db := (sy_db s)\<lparr>db_syncConn := Some conn', db_fieldInfos := m'\<rparr>, sy_world := w'\<rparr>"
      using assms(3) by (auto simp: Database_Query_records_def rbind_eq_Inr)
    show ?thesis unfolding s' using Query_records_cache [OF q ok] by (intro sync) (simp add: cache_extends_def)
  next
    case (CallQuery_sql sql)
    then obtain conn where "s' = s\<lparr>sy_db := (sy_db s)\<lparr>db_syncConn := Some conn, db_fieldInfos := db_fieldInfos (sy_db s)\<rparr>, sy_world := sy_world s'\<rparr>"
      using assms(3) by (auto simp: Database_Query_sql_def sync_query_def rbind_eq_Inr)
    then show ?thesis using sync [OF ok] by metis
  next
    case CallOnUpdate
    then obtain us db' where t: "take_finished (sy_db s) self = Inr (us, db')" and "s' = s\<lparr>sy_db := db', sy_main := MCallbacks us\<rparr>"
      using assms(3) by (auto simp: rbind_eq_Inr)
    moreover have "db' = (sy_db s)\<lparr>db_finishTasks := []\<rparr> \<or> db' = sy_db s"
      using t by (auto simp: take_finished_def rbind_eq_Inr split: if_splits)
    ultimately show ?thesis using assms(1) by (auto simp: stranded_def system_views wf_db_def)
  next
    case CallFlush
    then have "s' = begin_flush s False" using assms(3) by (auto simp: rbind_eq_Inr)
    then show ?thesis using assms(1) by (auto simp: begin_flush_def stranded_def)
  next
    case CallDestroy
    then show ?thesis using assms wf by (auto simp: rbind_eq_Inr split: if_splits)
  qed (use assms stranded_push in \<open>auto simp: QueryAsync_records_def QueryAsync_sql_def rbind_eq_Inr\<close>)
qed


definition restarted :: "(nat list \<times> nat) system" where
  "restarted = sys_init (sample_db\<lparr>db_stoping := True\<rparr>) ([], 0)"

definition restart_run :: "label list" where
  "restart_run = [W 0, W 0, W 0, W 0, C (CallQueryAsync_sql 0 ''a'' None)]"

lemma restart_run_end:
  "case label_run sample_c 1 restart_run restarted of None \<Rightarrow> False
   | Some s \<Rightarrow> sy_main s = MIdle \<and> workers s = 1 \<and> thread_pc s 0 = Stopped \<and> map at_sql (queue_of s 0) = [''a''] \<and>
      sy_done s = [] \<and> db_stoping (sy_db s) \<and> length (db_asyncConns (sy_db s)) = 1 \<and> length (db_asyncThreads (sy_db s)) = 1 \<and>
      length (db_taskQueues (sy_db s)) = 1 \<and> length (db_flushFlag (sy_db s)) = 1 \<and> db_fieldInfos (sy_db s) = [] \<and>
      db_syncConn (sy_db s) \<noteq> None \<and> db_asyncThreadId (sy_db s) \<noteq> None"
  by code_simp


subsection \<open>Progress\<close>

text \<open>A worker that can still answer a \<open>Flush\<close>, and a task whose query returns.\<close>

definition flush_ready :: "nat \<Rightarrow> 'w system \<Rightarrow> bool" where
  "flush_ready i s \<longleftrightarrow> wf_db (sy_db s) \<and> db_flushing (sy_db s) \<and> \<not> db_stoping (sy_db s) \<and> i < workers s \<and>
     Empty (db_taskQueues (sy_db s) ! i)"

definition query_returns :: "'w mysql_client \<Rightarrow> AsyncTask \<Rightarrow> bool" where
  "query_returns c t \<longleftrightarrow> (\<forall>conn m w. \<exists>r. run_task c conn t m w = Inr r)"

lemma worker_enabled:
  assumes "flush_ready i s" "thread_pc s i \<noteq> Stopped" "\<forall>t\<in>set (in_hand (thread_pc s i)). query_returns c t"
  shows "\<exists>s'. AsyncWorkFunc c i s = Inr (Some s')"
proof -
  have v: "vec_at (db_asyncThreads (sy_db s)) i = Inr (thread_pc s i)" "vec_at (db_taskQueues (sy_db s)) i = Inr (db_taskQueues (sy_db s) ! i)"
    "vec_at (db_flushFlag (sy_db s)) i = Inr (db_flushFlag (sy_db s) ! i)" "vec_at (db_asyncConns (sy_db s)) i = Inr (db_asyncConns (sy_db s) ! i)"
    using assms(1) by (simp_all add: flush_ready_def wf_db_def workers_def vec_at_eq_Inr thread_pc_def)
  show ?thesis
  proof (cases "thread_pc s i")
    case (Working ts)
    show ?thesis
    proof (cases ts)
      case (Cons t ts')
      then have "query_returns c t" using assms(3) Working by simp
      then obtain t' conn' m' w' where "run_task c (db_asyncConns (sy_db s) ! i) t (db_fieldInfos (sy_db s)) (sy_world s) = Inr (t', conn', m', w')"
        unfolding query_returns_def by (metis prod_cases4)
      then show ?thesis using v Working Cons by (simp add: AsyncWorkFunc_def AsyncDoWork_def Let_def)
    qed (use v Working in \<open>simp add: AsyncWorkFunc_def Let_def\<close>)
  qed (use v assms(2) in \<open>simp_all add: AsyncWorkFunc_def Let_def TimePopAll_eq\<close>)
qed

definition flush_rank :: "nat \<Rightarrow> 'w system \<Rightarrow> nat" where
  "flush_rank i s = (case thread_pc s i of
     Working ts \<Rightarrow> Suc (length ts) | AtPop \<Rightarrow> 2 + length (queue_of s i) | AtStopCheck \<Rightarrow> 3 + length (queue_of s i) | _ \<Rightarrow> 0)"

definition running :: "worker_pc \<Rightarrow> bool" where
  "running pc \<longleftrightarrow> pc \<noteq> AtExit \<and> pc \<noteq> Stopped"

text \<open>Each step of such a worker brings it closer to the flag, or sets it.\<close>

lemma flush_ready_step:
  assumes "flush_ready i s" "running (thread_pc s i)" "AsyncWorkFunc c i s = Inr (Some s')"
  shows "sy_main s' = sy_main s \<and>
    (db_flushFlag (sy_db s') ! i \<or>
     flush_ready i s' \<and> running (thread_pc s' i) \<and> flush_rank i s' < flush_rank i s \<and>
     set (in_hand (thread_pc s' i) @ queue_of s' i) \<subseteq> set (in_hand (thread_pc s i) @ queue_of s i))"
proof -
  have wf: "wf_db (sy_db s)" and flushing: "db_flushing (sy_db s)" "\<not> db_stoping (sy_db s)"
    and i: "i < workers s" and empty: "Empty (db_taskQueues (sy_db s) ! i)"
    using assms(1) by (simp_all add: flush_ready_def)
  have len: "length (db_asyncThreads (sy_db s)) = workers s" "length (db_flushFlag (sy_db s)) = workers s"
    "length (db_taskQueues (sy_db s)) = workers s"
    using wf by (simp_all add: wf_db_def workers_def)
  have to_flag: "thread_pc s i = Working [] \<Longrightarrow> s' = s\<lparr>sy_db := set_thread i AtSetFlag (sy_db s)\<rparr>"
    using assms(3) flushing empty i len
    by (auto simp: AsyncWorkFunc_def Let_def rbind_eq_Inr vec_at_eq_Inr thread_pc_def)
  note views = system_views flush_rank_def running_def nth_list_update
  have ready: "flush_ready i s'"
    using worker_wf [OF assms(3) wf] worker_frame [OF assms(3) wf] flushing i
    by (simp add: flush_ready_def) (use assms(3) wf in \<open>cases rule: worker_cases; use empty len i in \<open>auto simp: views Empty_def\<close>\<close>)
  have "db_flushFlag (sy_db s') ! i \<or> running (thread_pc s' i) \<and> flush_rank i s' < flush_rank i s \<and>
     set (in_hand (thread_pc s' i) @ queue_of s' i) \<subseteq> set (in_hand (thread_pc s i) @ queue_of s i)"
    using assms(3) wf
  proof (cases rule: worker_cases)
    case (check pc)
    have s': "s' = s\<lparr>sy_db := set_thread i AtSetFlag (sy_db s)\<rparr>" by (rule to_flag [OF check(2)])
    show ?thesis unfolding s' using check(2) i len by (auto simp: views)
  qed (use flushing(2) assms(2) i len in \<open>auto simp: views\<close>)
  with ready worker_frame(1) [OF assms(3) wf] show ?thesis by blast
qed

inductive worker_run :: "'w mysql_client \<Rightarrow> nat \<Rightarrow> 'w system \<Rightarrow> 'w system \<Rightarrow> bool" for c i where
  refl: "worker_run c i s s"
| step: "AsyncWorkFunc c i s = Inr (Some s') \<Longrightarrow> worker_run c i s' s'' \<Longrightarrow> worker_run c i s s''"



lemma sample_flush_reach:
  "\<exists>s. sys_reach sample_c 1 sample_start s \<and> sy_main s = MFlushWait 1 False \<and> workers s = 1 \<and>
     map at_sql (queue_of s 0) = [''b''] \<and> map at_sql (done_by s 0) = [''a'']"
proof -
  obtain s where "label_run sample_c 1 flush_run sample_start = Some s" "sy_main s = MFlushWait 1 False" "workers s = 1"
    "map at_sql (queue_of s 0) = [''b'']" "map at_sql (done_by s 0) = [''a'']"
    using flush_run_end by (auto split: option.splits)
  then show ?thesis using label_run_reach by (intro exI [of _ s]) simp
qed

theorem async_tasks_stay_in_order_witness:
  "\<exists>s. sy_main s = MFlushWait 1 False \<and>
     map erase (sy_pushed s 0) = map erase (done_by s 0 @ in_hand (thread_pc s 0) @ queue_of s 0) \<and>
     map at_sql (queue_of s 0) = [''b''] \<and> map at_sql (done_by s 0) = [''a''] \<and> sys_reach sample_c 1 sample_start s"
proof -
  obtain s where s: "sys_reach sample_c 1 sample_start s" "sy_main s = MFlushWait 1 False" "workers s = 1"
     "map at_sql (queue_of s 0) = [''b'']" "map at_sql (done_by s 0) = [''a'']"
    using sample_flush_reach by (elim exE conjE) (rule that)
  have "map erase (sy_pushed s 0) = map erase (done_by s 0 @ in_hand (thread_pc s 0) @ queue_of s 0) \<and>
      map snd (sy_done s) = sy_invoked s @ callbacks_left (sy_main s) @ db_finishTasks (sy_db s)"
    by (rule async_tasks_stay_in_order [OF sample_started s(1) [unfolded sample_start_def]]) (simp_all add: s(2,3))
  with s show ?thesis by (intro exI [of _ s]) simp
qed

theorem flush_waits_for_popped_tasks_witness:
  "\<exists>s. sys_reach sample_c 1 sample_start s \<and> sy_main s = MFlushWait 1 False \<and> sy_mark s 0 \<le> length (done_by s 0)"
proof -
  obtain s where s: "sys_reach sample_c 1 sample_start s" "sy_main s = MFlushWait 1 False" "workers s = 1"
    using sample_flush_reach by (elim exE conjE) (rule that)
  have "sy_mark s 0 \<le> length (done_by s 0)"
    by (rule flush_waits_for_popped_tasks [OF sample_started s(1) [unfolded sample_start_def], of False]) (simp_all add: s(2,3))
  with s show ?thesis by (intro exI [of _ s]) simp
qed

theorem destroy_executes_every_task_witness:
  "\<exists>s. sys_reach sample_c 1 sample_start s \<and> map at_sql (done_by s 0) = [''a''] \<and>
     map erase (sy_pushed s 0) = map erase (done_by s 0) \<and> closed_db (sy_db s)"
proof -
  obtain s where s: "sys_reach sample_c 1 sample_start s" "sy_main s = MEnd" "map at_sql (done_by s 0) = [''a'']"
    using sample_destroy_reach by (elim exE conjE) (rule that)
  from destroy_executes_every_task [OF sample_started s(1) [unfolded sample_start_def] s(2), of 0] s show ?thesis by (intro exI [of _ s]) simp
qed

end
