(* ===== verification/Db_Mgr.thy ===== *)
theory Db_Mgr
  imports Db_Async
begin

text \<open>
  The component the application sees: \<open>DBMgr\<close> (\<open>IDBMgr.h\<close>, \<open>DBMgr.h\<close>, \<open>DBMgr.cpp\<close>), its factory
  (\<open>DBMgrFactory.cpp\<close>) and the functions of \<open>RecordManipulator.cpp\<close>. Databases are objects with an
  identity, so that a pointer can dangle; the map of databases owns them. The ini configuration is
  read through the application framework and is a parameter. \<open>Destroy\<close> and \<open>Flush\<close> of a database
  wait for its workers: their outcomes are those of the runs of \<open>Db_Async\<close>.
\<close>

subsection \<open>Configuration\<close>

text \<open>The values \<open>OnInitialize\<close> reads from one section.\<close>

record db_section =
  ds_name :: bytes
  ds_ip :: bytes
  ds_port :: uint32
  ds_user :: bytes
  ds_passwd :: bytes
  ds_db :: bytes
  ds_connect :: uint32
  ds_default :: uint32

definition section_param :: "db_section \<Rightarrow> DatabaseParam" where
  "section_param sec =
     \<lparr>dp_name = ds_name sec, dp_ip = ds_ip sec, dp_port = ds_port sec, dp_user = ds_user sec,
      dp_passwd = ds_passwd sec, dp_dbName = ds_db sec, dp_asyncConnNum = ds_connect sec\<rparr>"

subsection \<open>State\<close>

text \<open>
  The default database is a plain pointer, the map owns its databases. The last two members are the
  objects that are alive and the identity of the next one.
\<close>

record DBMgr =
  mgr_defaultDB :: "nat option"
  mgr_databases :: "(bytes, nat) std_map"
  mgr_alive :: "(nat, MysqlDB) std_map"
  mgr_next :: nat

definition new_DBMgr :: DBMgr where
  "new_DBMgr = \<lparr>mgr_defaultDB = None, mgr_databases = [], mgr_alive = [], mgr_next = 0\<rparr>"

definition DBMgrFactory_Create :: DBMgr where
  "DBMgrFactory_Create = new_DBMgr"

subsection \<open>Creating databases\<close>

text \<open>A database that could not be initialised is deleted, which releases its connections.\<close>

definition CreateMysqlDB :: "'w mysql_client \<Rightarrow> nat \<Rightarrow> DBMgr \<Rightarrow> DatabaseParam \<Rightarrow> 'w \<Rightarrow> (nat option \<times> DBMgr \<times> 'w) res" where
  "CreateMysqlDB c self mgr cfg w =
     (let k = mgr_next mgr; mgr1 = mgr\<lparr>mgr_next := Suc k\<rparr> in
      rbind (Init c new_MysqlDB self cfg w) (\<lambda>(ok, db, w1).
        if \<not> ok then
          rbind (release_all c (db_asyncConns db) w1) (\<lambda>w2.
            rbind (release_conn c (db_syncConn db) w2) (\<lambda>w3. Inr (None, mgr1, w3)))
        else Inr (Some k, mgr1\<lparr>mgr_alive := map_put (mgr_alive mgr1) k db\<rparr>, w1)))"

definition GetDatabase :: "DBMgr \<Rightarrow> bytes \<Rightarrow> nat option" where
  "GetDatabase mgr name = map_find (mgr_databases mgr) name"

definition GetDefaultDatabase :: "DBMgr \<Rightarrow> nat option" where
  "GetDefaultDatabase mgr = mgr_defaultDB mgr"

definition CreateDatabase :: "'w mysql_client \<Rightarrow> nat \<Rightarrow> DBMgr \<Rightarrow> DatabaseParam \<Rightarrow> 'w \<Rightarrow> (nat option \<times> DBMgr \<times> 'w) res" where
  "CreateDatabase c self mgr cfg w =
     (if map_find (mgr_databases mgr) (dp_name cfg) \<noteq> None then Inr (None, mgr, w)
      else rbind (CreateMysqlDB c self mgr cfg w) (\<lambda>(newDB, mgr', w').
        case newDB of
          None \<Rightarrow> Inr (None, mgr', w')
        | Some k \<Rightarrow> Inr (Some k, mgr'\<lparr>mgr_databases := map_put (mgr_databases mgr') (dp_name cfg) k\<rparr>, w')))"

text \<open>
  \<open>OnInitialize\<close>: the section names are \<open>Database1\<close>, \<open>Database2\<close>, and so on; the loop counter is the
  list of numbers up to \<open>num\<close>, for \<open>num\<close> below \<open>2^32 - 1\<close>.
\<close>

definition section_name :: "nat \<Rightarrow> bytes" where
  "section_name i = ''Database'' @ print_signed (word_of_nat i :: sint32)"

fun load_sections :: "'w mysql_client \<Rightarrow> nat \<Rightarrow> (bytes \<Rightarrow> db_section option) \<Rightarrow> nat list \<Rightarrow> DBMgr \<Rightarrow> 'w \<Rightarrow>
    (bool \<times> DBMgr \<times> 'w) res" where
  "load_sections c self ini [] mgr w = Inr (True, mgr, w)"
| "load_sections c self ini (i # is) mgr w =
     (case ini (section_name i) of
        None \<Rightarrow> Inr (False, mgr, w)
      | Some sec \<Rightarrow>
          if map_find (mgr_databases mgr) (ds_name sec) \<noteq> None then Inr (False, mgr, w)
          else
            rbind (CreateMysqlDB c self mgr (section_param sec) w) (\<lambda>(newDB, mgr1, w1).
              case newDB of
                None \<Rightarrow> Inr (False, mgr1, w1)
              | Some k \<Rightarrow>
                  if ds_default sec > 0 \<and> mgr_defaultDB mgr1 \<noteq> None then Inr (False, mgr1, w1)
                  else
                    let mgr2 = (if ds_default sec > 0 then mgr1\<lparr>mgr_defaultDB := Some k\<rparr> else mgr1)
                    in load_sections c self ini is (mgr2\<lparr>mgr_databases := map_put (mgr_databases mgr2) (ds_name sec) k\<rparr>) w1))"

definition OnInitialize :: "'w mysql_client \<Rightarrow> nat \<Rightarrow> uint32 \<Rightarrow> (bytes \<Rightarrow> db_section option) \<Rightarrow> DBMgr \<Rightarrow> 'w \<Rightarrow>
    (bool \<times> DBMgr \<times> 'w) res" where
  "OnInitialize c self dbNum ini mgr w =
     (if dbNum = 0 then Inr (True, mgr, w)
      else rbind (load_sections c self ini [1..<Suc (unat dbNum)] mgr w) (\<lambda>(ok, mgr', w').
        Inr (ok \<and> mgr_defaultDB mgr' \<noteq> None, mgr', w')))"

definition OnStart :: "DBMgr \<Rightarrow> bool" where
  "OnStart mgr = True"

definition OnStop :: "DBMgr \<Rightarrow> DBMgr" where
  "OnStop mgr = mgr"

subsection \<open>All databases\<close>

text \<open>The visits of a range-for over the map, in the order of the names; a deleted object is a fault.\<close>

definition alive :: "DBMgr \<Rightarrow> nat \<Rightarrow> MysqlDB res" where
  "alive mgr k = (case map_find (mgr_alive mgr) k of None \<Rightarrow> Inl UseAfterFree | Some db \<Rightarrow> Inr db)"

fun update_databases :: "nat \<Rightarrow> (bytes \<times> nat) list \<Rightarrow> DBMgr \<Rightarrow> (callback_event list \<times> DBMgr) res" where
  "update_databases self [] mgr = Inr ([], mgr)"
| "update_databases self (p # ps) mgr =
     rbind (alive mgr (snd p)) (\<lambda>db.
     rbind (OnUpdate db self) (\<lambda>(es, db').
     rbind (update_databases self ps (mgr\<lparr>mgr_alive := map_put (mgr_alive mgr) (snd p) db'\<rparr>)) (\<lambda>(fs, mgr').
       Inr (es @ fs, mgr'))))"

definition DBMgr_OnUpdate :: "nat \<Rightarrow> DBMgr \<Rightarrow> (callback_event list \<times> DBMgr) res" where
  "DBMgr_OnUpdate self mgr = update_databases self (mgr_databases mgr) mgr"

text \<open>The states in which a call of \<open>Flush\<close> or \<open>Destroy\<close> on one database returns.\<close>

definition flush_returns :: "'w mysql_client \<Rightarrow> nat \<Rightarrow> MysqlDB \<times> 'w \<Rightarrow> MysqlDB \<times> 'w \<Rightarrow> bool" where
  "flush_returns c self x y \<longleftrightarrow>
     (\<exists>s0 s. start_call c self CallFlush (sys_init (fst x) (snd x)) = Inr s0 \<and> sys_reach c self s0 s \<and>
        sy_main s = MIdle \<and> y = (sy_db s, sy_world s))"

definition destroy_returns :: "'w mysql_client \<Rightarrow> nat \<Rightarrow> MysqlDB \<times> 'w \<Rightarrow> MysqlDB \<times> 'w \<Rightarrow> bool" where
  "destroy_returns c self x y \<longleftrightarrow>
     (\<exists>s0 s. start_call c self CallDestroy (sys_init (fst x) (snd x)) = Inr s0 \<and> y = (sy_db s, sy_world s) \<and>
        (if sy_main s0 = MIdle then s = s0 else sys_reach c self s0 s \<and> sy_main s = MEnd))"

inductive flush_databases :: "'w mysql_client \<Rightarrow> nat \<Rightarrow> (bytes \<times> nat) list \<Rightarrow> DBMgr \<Rightarrow> 'w \<Rightarrow> DBMgr \<Rightarrow> 'w \<Rightarrow> bool"
  for c :: "'w mysql_client" and self :: nat
  where
    flush_none: "flush_databases c self [] mgr w mgr w"
  | flush_next: "alive mgr k = Inr db \<Longrightarrow> flush_returns c self (db, w) (db', w1) \<Longrightarrow>
      flush_databases c self ps (mgr\<lparr>mgr_alive := map_put (mgr_alive mgr) k db'\<rparr>) w1 mgr' w2 \<Longrightarrow>
      flush_databases c self ((name, k) # ps) mgr w mgr' w2"

inductive destroy_databases :: "'w mysql_client \<Rightarrow> nat \<Rightarrow> (bytes \<times> nat) list \<Rightarrow> DBMgr \<Rightarrow> 'w \<Rightarrow> DBMgr \<Rightarrow> 'w \<Rightarrow> bool"
  for c :: "'w mysql_client" and self :: nat
  where
    destroy_none: "destroy_databases c self [] mgr w mgr w"
  | destroy_next: "alive mgr k = Inr db \<Longrightarrow> destroy_returns c self (db, w) (db', w1) \<Longrightarrow>
      destroy_databases c self ps (mgr\<lparr>mgr_alive := map_put (mgr_alive mgr) k db'\<rparr>) w1 mgr' w2 \<Longrightarrow>
      destroy_databases c self ((name, k) # ps) mgr w mgr' w2"

inductive_cases flush_databases_nextE: "flush_databases c self (p # ps) mgr w mgr' w'"
inductive_cases destroy_databases_nextE: "destroy_databases c self (p # ps) mgr w mgr' w'"

definition DBMgr_Flush :: "'w mysql_client \<Rightarrow> nat \<Rightarrow> DBMgr \<Rightarrow> 'w \<Rightarrow> DBMgr \<Rightarrow> 'w \<Rightarrow> bool" where
  "DBMgr_Flush c self mgr w mgr' w' \<longleftrightarrow> flush_databases c self (mgr_databases mgr) mgr w mgr' w'"

text \<open>\<open>OnDestroy\<close>: \<open>_databases.clear()\<close> deletes the databases; the default pointer is not reset.\<close>

definition DBMgr_OnDestroy :: "'w mysql_client \<Rightarrow> nat \<Rightarrow> DBMgr \<Rightarrow> 'w \<Rightarrow> DBMgr \<Rightarrow> 'w \<Rightarrow> bool" where
  "DBMgr_OnDestroy c self mgr w mgr' w' \<longleftrightarrow>
     (\<exists>mgr1. destroy_databases c self (mgr_databases mgr) mgr w mgr1 w' \<and>
        mgr' = mgr1\<lparr>mgr_databases := [],
          mgr_alive := foldr (\<lambda>p m. map_erase m (snd p)) (mgr_databases mgr1) (mgr_alive mgr1)\<rparr>)"

text \<open>
  \<open>DestroyDatabase\<close>: the test is the wrong way round. The result is the new state, or a fault; a
  name that is found returns at once, and for one that is not the iterator is \<open>end()\<close>.
\<close>

definition DestroyDatabase :: "DBMgr \<Rightarrow> bytes \<Rightarrow> DBMgr res" where
  "DestroyDatabase mgr name =
     (if map_find (mgr_databases mgr) name \<noteq> None then Inr mgr
      else Inl EndIteratorDeref)"

subsection \<open>\<open>RecordManipulator\<close>\<close>

text \<open>Each function forwards to the database it is given.\<close>

definition RecordManipulator_MakeDefRecord where
  "RecordManipulator_MakeDefRecord c db tableName w = Database_MakeDefRecord c db tableName w"

definition RecordManipulator_Insert where
  "RecordManipulator_Insert c esc real_esc db record w = Insert c esc real_esc db record w"

definition RecordManipulator_Update where
  "RecordManipulator_Update c esc real_esc db record w = Update c esc real_esc db record w"

definition RecordManipulator_Delete where
  "RecordManipulator_Delete c db record w = Delete c db record w"

definition RecordManipulator_BuildUpdateSql where
  "RecordManipulator_BuildUpdateSql esc real_esc db record sql = Database_BuildUpdateSql esc real_esc db record sql"

definition RecordManipulator_BuildDelSql where
  "RecordManipulator_BuildDelSql db record sql = Database_BuildDelSql db record sql"

definition RecordManipulator_BuildInsertSql where
  "RecordManipulator_BuildInsertSql esc real_esc db record sql = Database_BuildInsertSql esc real_esc db record sql"

subsection \<open>Invariant\<close>

text \<open>Every database of the map is alive, no two names share one, and the default database is alive.\<close>

definition wf_mgr :: "DBMgr \<Rightarrow> bool" where
  "wf_mgr mgr \<longleftrightarrow>
     map_ok (mgr_databases mgr) \<and> map_ok (mgr_alive mgr) \<and>
     (\<forall>k db. map_find (mgr_alive mgr) k = Some db \<longrightarrow> k < mgr_next mgr) \<and>
     (\<forall>name k. map_find (mgr_databases mgr) name = Some k \<longrightarrow> map_find (mgr_alive mgr) k \<noteq> None) \<and>
     (\<forall>name name' k. map_find (mgr_databases mgr) name = Some k \<longrightarrow> map_find (mgr_databases mgr) name' = Some k \<longrightarrow> name = name') \<and>
     (\<forall>k. mgr_defaultDB mgr = Some k \<longrightarrow> map_find (mgr_alive mgr) k \<noteq> None)"

lemma wf_new_DBMgr: "wf_mgr new_DBMgr"
  by (simp add: wf_mgr_def new_DBMgr_def)

lemma Init_new_ok:
  assumes "Init c new_MysqlDB self cfg w = Inr (True, db, w')"
  shows "started self db \<and> db_name db = dp_name cfg"
  using assms
proof (rule Init_cases)
  fix conn conns n
  assume "n = async_conn_num cfg"
    and "\<exists>new. conns = db_asyncConns new_MysqlDB @ new \<and> length new = unat n \<and> (\<forall>k\<in>set new. IsConnect k)"
    and "db = new_MysqlDB\<lparr>db_syncConn := Some conn, db_asyncConnNum := n, db_asyncConns := conns,
       db_flushFlag := db_flushFlag new_MysqlDB @ replicate (unat n) False,
       db_taskQueues := db_taskQueues new_MysqlDB @ replicate (unat n) new_AsyncTaskQueue,
       db_asyncThreads := db_asyncThreads new_MysqlDB @ replicate (unat n) AtPop,
       db_asyncThreadId := Some self, db_name := dp_name cfg, db_inited := True\<rparr>"
  then show ?thesis
    using async_conn_num_pos [of cfg] by (auto simp: started_def wf_db_def new_MysqlDB_def new_AsyncTaskQueue_def)
qed

lemma CreateMysqlDB_cases:
  assumes "CreateMysqlDB c self mgr cfg w = Inr (newDB, mgr', w')"
  shows "(newDB = None \<and> mgr' = mgr\<lparr>mgr_next := Suc (mgr_next mgr)\<rparr>) \<or>
    (\<exists>db. newDB = Some (mgr_next mgr) \<and> started self db \<and> db_name db = dp_name cfg \<and>
       mgr' = mgr\<lparr>mgr_next := Suc (mgr_next mgr), mgr_alive := map_put (mgr_alive mgr) (mgr_next mgr) db\<rparr>)"
  using assms Init_new_ok
  by (fastforce simp: CreateMysqlDB_def Let_def rbind_eq_Inr split: if_splits)

lemma wf_mgr_create:
  assumes "wf_mgr mgr"
  shows "wf_mgr (mgr\<lparr>mgr_next := Suc (mgr_next mgr)\<rparr>)"
    and "wf_mgr (mgr\<lparr>mgr_next := Suc (mgr_next mgr), mgr_alive := map_put (mgr_alive mgr) (mgr_next mgr) db\<rparr>)"
  using assms by (auto simp: wf_mgr_def smap.find_put smap.ok_put less_Suc_eq)

text \<open>A new database enters the map under a new name.\<close>

lemma wf_mgr_register:
  assumes "wf_mgr mgr" "map_find (mgr_databases mgr) name = None"
  shows "wf_mgr (mgr\<lparr>mgr_next := Suc (mgr_next mgr), mgr_alive := map_put (mgr_alive mgr) (mgr_next mgr) db,
    mgr_databases := map_put (mgr_databases mgr) name (mgr_next mgr)\<rparr>)"
proof -
  have ok: "map_ok (mgr_databases mgr)" "map_ok (mgr_alive mgr)" using assms(1) by (simp_all add: wf_mgr_def)
  have "map_find (mgr_alive mgr) (mgr_next mgr) = None"
    using assms(1) by (cases "map_find (mgr_alive mgr) (mgr_next mgr)") (auto simp: wf_mgr_def)
  then have "map_find (mgr_databases mgr) n \<noteq> Some (mgr_next mgr)" for n
    using assms(1) by (fastforce simp: wf_mgr_def)
  with assms(1) ok show ?thesis
    by (auto simp: wf_mgr_def smap.find_put smap.ok_put less_Suc_eq split: if_splits)
qed

text \<open>A database created under a new name is found by that name, is initialised and named, and every other name finds what it found before; a name in use is refused without touching anything.\<close>

theorem CreateDatabase_then_GetDatabase:
  assumes "wf_mgr mgr" "CreateDatabase c self mgr cfg w = Inr (newDB, mgr', w')"
  shows "wf_mgr mgr' \<and>
    (case newDB of
       Some k \<Rightarrow> GetDatabase mgr (dp_name cfg) = None \<and> GetDatabase mgr' (dp_name cfg) = Some k \<and>
         (\<exists>db. alive mgr' k = Inr db \<and> started self db \<and> Database_GetName db = dp_name cfg) \<and>
         (\<forall>name. name \<noteq> dp_name cfg \<longrightarrow> GetDatabase mgr' name = GetDatabase mgr name)
     | None \<Rightarrow> GetDatabase mgr' = GetDatabase mgr \<and> (GetDatabase mgr (dp_name cfg) \<noteq> None \<longrightarrow> mgr' = mgr \<and> w' = w))"
proof (cases "map_find (mgr_databases mgr) (dp_name cfg)")
  case (Some k)
  then show ?thesis using assms by (simp add: CreateDatabase_def GetDatabase_def)
next
  case None
  have ok: "map_ok (mgr_databases mgr)" "map_ok (mgr_alive mgr)" using assms(1) by (simp_all add: wf_mgr_def)
  obtain new mgr1 w1 where cr: "CreateMysqlDB c self mgr cfg w = Inr (new, mgr1, w1)"
    using assms(2) None by (auto simp: CreateDatabase_def rbind_eq_Inr)
  from CreateMysqlDB_cases [OF cr] show ?thesis
  proof (elim disjE exE conjE)
    assume "new = None" "mgr1 = mgr\<lparr>mgr_next := Suc (mgr_next mgr)\<rparr>"
    then show ?thesis
      using assms None cr wf_mgr_create(1) by (auto simp: CreateDatabase_def GetDatabase_def fun_eq_iff)
  next
    fix db assume new: "new = Some (mgr_next mgr)" "started self db" "db_name db = dp_name cfg"
      "mgr1 = mgr\<lparr>mgr_next := Suc (mgr_next mgr), mgr_alive := map_put (mgr_alive mgr) (mgr_next mgr) db\<rparr>"
    then have "newDB = Some (mgr_next mgr)" "mgr' = mgr\<lparr>mgr_next := Suc (mgr_next mgr),
        mgr_alive := map_put (mgr_alive mgr) (mgr_next mgr) db, mgr_databases := map_put (mgr_databases mgr) (dp_name cfg) (mgr_next mgr)\<rparr>"
      using assms(2) None cr by (auto simp: CreateDatabase_def)
    then show ?thesis
      using wf_mgr_register [OF assms(1) None] new None ok
      by (auto simp: GetDatabase_def alive_def smap.find_put Database_GetName_def)
  qed
qed

text \<open>C10: \<open>DestroyDatabase\<close> has its test the wrong way round: the database just created survives it, running and under its name, so the name cannot be used again; and a name that does not exist makes it dereference the end iterator.\<close>

theorem DestroyDatabase_never_destroys:
  assumes "wf_mgr mgr" "CreateDatabase c self mgr cfg w = Inr (Some k, mgr1, w1)"
  shows "DestroyDatabase mgr1 (dp_name cfg) = Inr mgr1 \<and> GetDatabase mgr1 (dp_name cfg) = Some k \<and>
    CreateDatabase c self mgr1 cfg w1 = Inr (None, mgr1, w1) \<and>
    (\<forall>name. name \<noteq> dp_name cfg \<and> GetDatabase mgr name = None \<longrightarrow> DestroyDatabase mgr1 name = Inl EndIteratorDeref)"
proof -
  have ok: "map_ok (mgr_databases mgr)" using assms(1) by (simp add: wf_mgr_def)
  obtain mgr2 where cr: "CreateMysqlDB c self mgr cfg w = Inr (Some k, mgr2, w1)"
    "mgr1 = mgr2\<lparr>mgr_databases := map_put (mgr_databases mgr2) (dp_name cfg) k\<rparr>"
    using assms(2) by (auto simp: CreateDatabase_def rbind_eq_Inr split: if_splits option.splits)
  have "mgr_databases mgr2 = mgr_databases mgr" using CreateMysqlDB_cases [OF cr(1)] by auto
  with cr(2) ok show ?thesis
    by (simp add: DestroyDatabase_def GetDatabase_def CreateDatabase_def smap.find_put)
qed

lemma load_sections_wf:
  assumes "load_sections c self ini is mgr w = Inr (ok, mgr', w')" "wf_mgr mgr"
  shows "wf_mgr mgr' \<and> (\<forall>name k. GetDatabase mgr name = Some k \<longrightarrow> GetDatabase mgr' name = Some k) \<and>
    (ok \<longrightarrow> (\<forall>i\<in>set is. \<exists>sec k. ini (section_name i) = Some sec \<and> GetDatabase mgr' (ds_name sec) = Some k)) \<and>
    (mgr_defaultDB mgr' \<noteq> mgr_defaultDB mgr \<longrightarrow> mgr_defaultDB mgr' \<noteq> None)"
  using assms
proof (induction "is" arbitrary: mgr w)
  case (Cons i "is")
  show ?case
  proof (cases "ini (section_name i)")
    case None
    then show ?thesis using Cons.prems by auto
  next
    case (Some sec)
    note sec = this
    show ?thesis
    proof (cases "map_find (mgr_databases mgr) (ds_name sec)")
      case (Some k)
      then show ?thesis using Cons.prems sec by auto
    next
      case None
      obtain new mgr1 w1 where cr: "CreateMysqlDB c self mgr (section_param sec) w = Inr (new, mgr1, w1)"
        using Cons.prems(1) sec None by (auto simp: rbind_eq_Inr)
      show ?thesis
        using CreateMysqlDB_cases [OF cr]
      proof (elim disjE exE conjE)
        assume "new = None" "mgr1 = mgr\<lparr>mgr_next := Suc (mgr_next mgr)\<rparr>"
        then show ?thesis using Cons.prems sec None cr wf_mgr_create(1) [OF Cons.prems(2)] by (auto simp: GetDatabase_def)
      next
        fix db assume new: "new = Some (mgr_next mgr)" "mgr1 = mgr\<lparr>mgr_next := Suc (mgr_next mgr),
          mgr_alive := map_put (mgr_alive mgr) (mgr_next mgr) db\<rparr>"
        show ?thesis
        proof (cases "ds_default sec > 0 \<and> mgr_defaultDB mgr \<noteq> None")
          case True
          then show ?thesis
            using Cons.prems sec None cr new wf_mgr_create(2) [OF Cons.prems(2)] by (auto simp: GetDatabase_def)
        next
          case False
          let ?d = "if ds_default sec > 0 then Some (mgr_next mgr) else mgr_defaultDB mgr"
          let ?mgr = "mgr1\<lparr>mgr_databases := map_put (mgr_databases mgr1) (ds_name sec) (mgr_next mgr)\<rparr>"
          have ok: "map_ok (mgr_databases mgr)" "map_ok (mgr_alive mgr)" using Cons.prems(2) by (simp_all add: wf_mgr_def)
          have wf: "wf_mgr (?mgr\<lparr>mgr_defaultDB := ?d\<rparr>)"
            using wf_mgr_register [OF Cons.prems(2) None, of db] new(2) ok(2)
            by (simp add: wf_mgr_def smap.find_put)
          have eq: "?mgr\<lparr>mgr_defaultDB := ?d\<rparr> = (let mgr2 = (if ds_default sec > 0 then mgr1\<lparr>mgr_defaultDB := Some (mgr_next mgr)\<rparr> else mgr1)
              in mgr2\<lparr>mgr_databases := map_put (mgr_databases mgr2) (ds_name sec) (mgr_next mgr)\<rparr>)"
            unfolding new(2) Let_def by (cases mgr) simp
          have "load_sections c self ini is (?mgr\<lparr>mgr_defaultDB := ?d\<rparr>) w1 = Inr (ok, mgr', w')"
            unfolding eq using Cons.prems(1) sec None cr new(1) False new(2) by (simp add: Let_def split: if_splits)
          from Cons.IH [OF this wf] have IH: "wf_mgr mgr'"
            "\<And>name k. GetDatabase (?mgr\<lparr>mgr_defaultDB := ?d\<rparr>) name = Some k \<Longrightarrow> GetDatabase mgr' name = Some k"
            "ok \<Longrightarrow> \<forall>i\<in>set is. \<exists>sec k. ini (section_name i) = Some sec \<and> GetDatabase mgr' (ds_name sec) = Some k"
            "mgr_defaultDB mgr' \<noteq> ?d \<longrightarrow> mgr_defaultDB mgr' \<noteq> None" by auto
          have find: "GetDatabase (?mgr\<lparr>mgr_defaultDB := ?d\<rparr>) name =
              (if name = ds_name sec then Some (mgr_next mgr) else GetDatabase mgr name)" for name
            using ok(1) new(2) by (simp add: GetDatabase_def smap.find_put)
          have "GetDatabase mgr' (ds_name sec) = Some (mgr_next mgr)" using IH(2) find by simp
          moreover have "GetDatabase mgr name = Some k \<Longrightarrow> GetDatabase mgr' name = Some k" for name k
            using IH(2) [of name k] find [of name] None by (cases "name = ds_name sec") (auto simp: GetDatabase_def)
          moreover have "mgr_defaultDB mgr' \<noteq> mgr_defaultDB mgr \<longrightarrow> mgr_defaultDB mgr' \<noteq> None"
            using IH(4) by (auto split: if_splits)
          ultimately show ?thesis using IH(1,3) sec by auto
        qed
      qed
    qed
  qed
qed auto


text \<open>A second section marked as default makes \<open>OnInitialize\<close> fail after its database was created: the database stays alive with its worker threads, but it is in no map, so nothing can reach or destroy it.\<close>

theorem repeated_default_leaks_a_database:
  assumes "wf_mgr mgr" "ini (section_name i) = Some sec" "GetDatabase mgr (ds_name sec) = None"
    and "ds_default sec > 0" "GetDefaultDatabase mgr = Some d"
    and "CreateMysqlDB c self mgr (section_param sec) w = Inr (Some k, mgr1, w1)"
  shows "load_sections c self ini (i # is) mgr w = Inr (False, mgr1, w1) \<and> k \<noteq> d \<and>
    (\<exists>db. alive mgr1 k = Inr db \<and> started self db) \<and> (\<forall>name. GetDatabase mgr1 name \<noteq> Some k)"
proof -
  obtain db where db: "k = mgr_next mgr" "started self db"
    "mgr1 = mgr\<lparr>mgr_next := Suc (mgr_next mgr), mgr_alive := map_put (mgr_alive mgr) (mgr_next mgr) db\<rparr>"
    using CreateMysqlDB_cases [OF assms(6)] by auto
  have ok: "map_ok (mgr_alive mgr)" using assms(1) by (simp add: wf_mgr_def)
  have "map_find (mgr_alive mgr) (mgr_next mgr) = None"
    using assms(1) by (cases "map_find (mgr_alive mgr) (mgr_next mgr)") (auto simp: wf_mgr_def)
  then have "d \<noteq> k" "\<forall>name. map_find (mgr_databases mgr) name \<noteq> Some k"
    using assms(1,5) db(1) by (fastforce simp: wf_mgr_def GetDefaultDatabase_def)+
  with assms db ok show ?thesis
    by (auto simp: GetDatabase_def GetDefaultDatabase_def alive_def smap.find_put)
qed

lemma destroy_databases_frame:
  "destroy_databases c self ps mgr w mgr' w' \<Longrightarrow>
     mgr_databases mgr' = mgr_databases mgr \<and> mgr_defaultDB mgr' = mgr_defaultDB mgr"
  by (induction rule: destroy_databases.induct) simp_all

lemma find_erase_all: "k \<in> snd ` set ps \<Longrightarrow> map_find (foldr (\<lambda>p m. map_erase m (snd p)) ps m) k = None"
  by (induction ps) (auto simp: map_find_erase)

text \<open>After \<open>OnDestroy\<close> no database is found by name, but \<open>GetDefaultDatabase\<close> still returns the old default database, which has been deleted.\<close>

theorem default_database_dangles:
  assumes "wf_mgr mgr" "GetDatabase mgr name = Some k" "GetDefaultDatabase mgr = Some k"
    and "DBMgr_OnDestroy c self mgr w mgr' w'"
  shows "GetDatabase mgr' n = None \<and> GetDefaultDatabase mgr' = Some k \<and> alive mgr' k = Inl UseAfterFree"
proof -
  obtain mgr1 where d: "destroy_databases c self (mgr_databases mgr) mgr w mgr1 w'"
    "mgr' = mgr1\<lparr>mgr_databases := [], mgr_alive := foldr (\<lambda>p m. map_erase m (snd p)) (mgr_databases mgr1) (mgr_alive mgr1)\<rparr>"
    using assms(4) by (auto simp: DBMgr_OnDestroy_def)
  have "(name, k) \<in> set (mgr_databases mgr)"
    using assms(1,2) by (simp add: GetDatabase_def wf_mgr_def smap.entries_find)
  then have "k \<in> snd ` set (mgr_databases mgr)" by force
  then show ?thesis
    using destroy_databases_frame [OF d(1)] d(2) assms(3)
    by (simp add: GetDatabase_def GetDefaultDatabase_def alive_def find_erase_all)
qed

lemma update_databases_spec:
  assumes "update_databases self ps mgr = Inr (es, mgr')" "map_ok (mgr_alive mgr)"
  shows "map_ok (mgr_alive mgr') \<and> mgr_databases mgr' = mgr_databases mgr \<and> mgr_defaultDB mgr' = mgr_defaultDB mgr \<and>
    (\<forall>k db. map_find (mgr_alive mgr) k = Some db \<longrightarrow>
       map_find (mgr_alive mgr') k = Some (if k \<in> snd ` set ps then db\<lparr>db_finishTasks := []\<rparr> else db))"
  using assms
proof (induction ps arbitrary: mgr es)
  case (Cons p ps)
  obtain db where db: "map_find (mgr_alive mgr) (snd p) = Some db"
    using Cons.prems(1) by (auto simp: rbind_eq_Inr alive_def split: option.splits)
  obtain es1 db1 es2 where u: "OnUpdate db self = Inr (es1, db1)"
    "update_databases self ps (mgr\<lparr>mgr_alive := map_put (mgr_alive mgr) (snd p) db1\<rparr>) = Inr (es2, mgr')"
    using Cons.prems(1) db by (auto simp: rbind_eq_Inr alive_def)
  have "db1 = db \<and> db_finishTasks db = [] \<or> db1 = db\<lparr>db_finishTasks := []\<rparr>"
    using u(1) by (auto simp: OnUpdate_def take_finished_def rbind_eq_Inr split: if_splits)
  then have db1: "db1 = db\<lparr>db_finishTasks := []\<rparr>" by (cases db) auto
  have ok: "map_ok (map_put (mgr_alive mgr) (snd p) db1)" using Cons.prems(2) by (rule smap.ok_put)
  have "map_find (mgr_alive mgr') k = Some (if k \<in> snd ` set (p # ps) then db'\<lparr>db_finishTasks := []\<rparr> else db')"
    if "map_find (mgr_alive mgr) k = Some db'" for k db'
    using Cons.IH [OF u(2)] ok db db1 Cons.prems(2) that by (cases "k = snd p") (simp_all add: smap.find_put)
  moreover have "map_ok (mgr_alive mgr') \<and> mgr_databases mgr' = mgr_databases mgr \<and> mgr_defaultDB mgr' = mgr_defaultDB mgr"
    using Cons.IH [OF u(2)] ok by simp
  ultimately show ?case by blast
qed simp

text \<open>One \<open>OnUpdate\<close> of the manager empties the list of finished tasks of every database and changes nothing else.\<close>

theorem OnUpdate_serves_every_database:
  assumes "wf_mgr mgr" "DBMgr_OnUpdate self mgr = Inr (es, mgr')" "GetDatabase mgr name = Some k" "alive mgr k = Inr db"
  shows "GetDatabase mgr' name = Some k \<and> alive mgr' k = Inr (db\<lparr>db_finishTasks := []\<rparr>)"
proof -
  have ok: "map_ok (mgr_databases mgr)" "map_ok (mgr_alive mgr)" using assms(1) by (simp_all add: wf_mgr_def)
  have "(name, k) \<in> set (mgr_databases mgr)" using assms(3) ok(1) by (simp add: GetDatabase_def smap.entries_find)
  then have "k \<in> snd ` set (mgr_databases mgr)" by force
  with update_databases_spec [OF assms(2) [unfolded DBMgr_OnUpdate_def] ok(2)] assms(3,4) show ?thesis
    by (auto simp: GetDatabase_def alive_def split: option.splits)
qed

subsection \<open>A sample manager\<close>

definition sample_section :: "bytes \<Rightarrow> db_section" where
  "sample_section name = \<lparr>ds_name = name, ds_ip = ''127.0.0.1'', ds_port = 3306, ds_user = ''u'', ds_passwd = ''p'', ds_db = ''db'',
     ds_connect = 1, ds_default = 1\<rparr>"

definition sample_ini :: "bytes \<Rightarrow> db_section option" where
  "sample_ini sec = (if sec = ''Database1'' then Some (sample_section ''main'')
     else if sec = ''Database2'' then Some (sample_section ''other'') else None)"

definition sample_mgr :: DBMgr where
  "sample_mgr = \<lparr>mgr_defaultDB = Some 0, mgr_databases = [(''main'', 0)], mgr_alive = [(0, sample_db)], mgr_next = 1\<rparr>"

lemma section_names: "section_name 1 = ''Database1''" "section_name 2 = ''Database2''"
  by code_simp+

lemma sample_param: "section_param (sample_section ''main'') = sample_cfg"
  by (simp add: section_param_def sample_section_def sample_cfg_def)

lemma sample_CreateMysqlDB: "CreateMysqlDB sample_c 1 new_DBMgr sample_cfg ([], 0) =
    Inr (Some 0, new_DBMgr\<lparr>mgr_next := 1, mgr_alive := [(0, sample_db)]\<rparr>, ([], 0))"
  using sample_Init by (simp add: CreateMysqlDB_def Let_def new_DBMgr_def)

lemma sample_OnInitialize: "OnInitialize sample_c 1 1 sample_ini new_DBMgr ([], 0) = Inr (True, sample_mgr, ([], 0))"
proof -
  have "load_sections sample_c 1 sample_ini [1] new_DBMgr ([], 0) = Inr (True, sample_mgr, ([], 0))"
    using sample_CreateMysqlDB section_names(1)
    by (simp add: sample_ini_def sample_param) (simp add: sample_section_def new_DBMgr_def sample_mgr_def Let_def)
  then show ?thesis by (simp add: OnInitialize_def) (simp add: sample_mgr_def)
qed

lemma sample_mgr_wf: "wf_mgr sample_mgr"
  by (auto simp: wf_mgr_def sample_mgr_def split: if_splits)


theorem CreateDatabase_then_GetDatabase_witness:
  "\<exists>mgr'. CreateDatabase sample_c 1 new_DBMgr sample_cfg ([], 0) = Inr (Some 0, mgr', ([], 0)) \<and> GetDatabase mgr' ''main'' = Some 0"
proof -
  obtain mgr' where c: "CreateDatabase sample_c 1 new_DBMgr sample_cfg ([], 0) = Inr (Some 0, mgr', ([], 0))"
    using sample_CreateMysqlDB by (simp add: CreateDatabase_def) (simp add: new_DBMgr_def)
  from CreateDatabase_then_GetDatabase [OF wf_new_DBMgr c] c show ?thesis by (simp add: sample_cfg_def)
qed

theorem DestroyDatabase_never_destroys_witness:
  "\<exists>mgr1. CreateDatabase sample_c 1 new_DBMgr sample_cfg ([], 0) = Inr (Some 0, mgr1, ([], 0)) \<and>
     DestroyDatabase mgr1 ''main'' = Inr mgr1 \<and> DestroyDatabase mgr1 ''x'' = Inl EndIteratorDeref"
proof -
  obtain mgr1 where c: "CreateDatabase sample_c 1 new_DBMgr sample_cfg ([], 0) = Inr (Some 0, mgr1, ([], 0))"
    using sample_CreateMysqlDB by (simp add: CreateDatabase_def) (simp add: new_DBMgr_def)
  note d = DestroyDatabase_never_destroys [OF wf_new_DBMgr c]
  have "DestroyDatabase mgr1 ''main'' = Inr mgr1" using d by (simp add: sample_cfg_def)
  moreover have "DestroyDatabase mgr1 ''x'' = Inl EndIteratorDeref"
    using d by (simp add: sample_cfg_def GetDatabase_def new_DBMgr_def)
  ultimately show ?thesis using c by blast
qed

theorem repeated_default_leaks_a_database_witness:
  "\<exists>mgr1. load_sections sample_c 1 sample_ini [2] sample_mgr ([], 0) = Inr (False, mgr1, ([], 0)) \<and>
     (\<exists>db. alive mgr1 1 = Inr db) \<and> (\<forall>name. GetDatabase mgr1 name \<noteq> Some 1)"
proof -
  have i: "Init sample_c new_MysqlDB 1 (section_param (sample_section ''other'')) ([], 0) =
      Inr (True, sample_db\<lparr>db_name := ''other'', db_syncConn := Some (sample_conn\<lparr>mc_cfg := section_param (sample_section ''other'')\<rparr>),
        db_asyncConns := [sample_conn\<lparr>mc_cfg := section_param (sample_section ''other'')\<rparr>]\<rparr>, ([], 0))"
    by (simp add: Init_def new_MysqlDB_def release_conn_def sample_client_def Connect_def new_MysqlConnect_def
      async_conn_num_def sample_db_def sample_conn_def section_param_def sample_section_def)
  obtain mgr1 where c: "CreateMysqlDB sample_c 1 sample_mgr (section_param (sample_section ''other'')) ([], 0) = Inr (Some 1, mgr1, ([], 0))"
    using i by (simp add: CreateMysqlDB_def Let_def sample_mgr_def)
  have "load_sections sample_c 1 sample_ini [2] sample_mgr ([], 0) = Inr (False, mgr1, ([], 0)) \<and> 1 \<noteq> (0::nat) \<and>
    (\<exists>db. alive mgr1 1 = Inr db \<and> started 1 db) \<and> (\<forall>name. GetDatabase mgr1 name \<noteq> Some 1)"
    by (rule repeated_default_leaks_a_database [OF sample_mgr_wf _ _ _ _ c])
      (simp_all add: section_names sample_ini_def, simp_all add: sample_section_def sample_mgr_def GetDatabase_def GetDefaultDatabase_def)
  then show ?thesis by blast
qed

definition sample_destroy_run :: "label list" where
  "sample_destroy_run = [M, M, W 0, W 0, W 0, M, M, M, M, W 0, W 0, W 0, W 0, M]"

lemma sample_destroy_run_end:
  "case label_run sample_c 1 sample_destroy_run (begin_flush sample_start True) of None \<Rightarrow> False
   | Some s \<Rightarrow> sy_main s = MJoin \<and> db_asyncThreads (sy_db s) = [Stopped] \<and>
       db_syncConn (sy_db s) = Some sample_conn \<and> db_asyncConns (sy_db s) = [sample_conn]"
  by code_simp

lemma sample_destroy_returns: "\<exists>db' w'. destroy_returns sample_c 1 (sample_db, ([], 0)) (db', w')"
proof -
  let ?init = "begin_flush sample_start True"
  have s0: "start_call sample_c 1 CallDestroy (sys_init sample_db ([], 0)) = Inr ?init" "sy_main ?init \<noteq> MIdle"
    by (simp_all add: check_async_thread_def sys_init_def sample_start_def sample_db_def new_MysqlDB_def begin_flush_def)
  obtain s where s: "label_run sample_c 1 sample_destroy_run ?init = Some s" "sy_main s = MJoin"
    "db_asyncThreads (sy_db s) = [Stopped]" "db_syncConn (sy_db s) = Some sample_conn" "db_asyncConns (sy_db s) = [sample_conn]"
    using sample_destroy_run_end by (auto split: option.splits)
  obtain db' w' where d: "Destroy_finish sample_c (sy_db s) (sy_world s) = Inr (db', w')"
    using s(4,5) by (simp add: Destroy_finish_def release_conn_def Disconnect_def sample_conn_def sample_client_def)
  let ?s = "s\<lparr>sy_db := db', sy_world := w', sy_main := MEnd\<rparr>"
  have "main_continue sample_c s = Inr (Some ?s)" using s(2,3) d by (simp add: main_continue_def Let_def)
  then have "sys_reach sample_c 1 ?init ?s"
    using label_run_reach [OF s(1)] by (blast intro: sys_reach.step sys_step.main)
  then have "destroy_returns sample_c 1 (sample_db, ([], 0)) (db', w')"
    unfolding destroy_returns_def using s0 by (intro exI [of _ ?init] exI [of _ ?s]) simp
  then show ?thesis by (intro exI)
qed

lemma sample_mgr_OnDestroy: "\<exists>mgr' w'. DBMgr_OnDestroy sample_c 1 sample_mgr ([], 0) mgr' w'"
proof -
  obtain db' w' where d: "destroy_returns sample_c 1 (sample_db, ([], 0)) (db', w')"
    using sample_destroy_returns by (elim exE)
  have "alive sample_mgr 0 = Inr sample_db" by (simp add: alive_def sample_mgr_def)
  then have "\<exists>mgr1. destroy_databases sample_c 1 (mgr_databases sample_mgr) sample_mgr ([], 0) mgr1 w'"
    using destroy_next [OF _ d destroy_none, of sample_mgr 0 "''main''"] by (simp add: sample_mgr_def) (rule exI)
  then show ?thesis unfolding DBMgr_OnDestroy_def by blast
qed

theorem default_database_dangles_witness:
  "\<exists>mgr' w'. DBMgr_OnDestroy sample_c 1 sample_mgr ([], 0) mgr' w' \<and>
     GetDefaultDatabase mgr' = Some 0 \<and> alive mgr' 0 = Inl UseAfterFree"
proof -
  obtain mgr' w' where d: "DBMgr_OnDestroy sample_c 1 sample_mgr ([], 0) mgr' w'"
    using sample_mgr_OnDestroy by (elim exE)
  have "GetDatabase sample_mgr ''main'' = Some 0" "GetDefaultDatabase sample_mgr = Some 0"
    by (simp_all add: GetDatabase_def GetDefaultDatabase_def sample_mgr_def)
  from default_database_dangles [OF sample_mgr_wf this d] have "GetDefaultDatabase mgr' = Some 0 \<and> alive mgr' 0 = Inl UseAfterFree"
    by simp
  with d show ?thesis by blast
qed

theorem OnUpdate_serves_every_database_witness:
  "\<exists>es mgr'. DBMgr_OnUpdate 1 sample_mgr = Inr (es, mgr') \<and> GetDatabase mgr' ''main'' = Some 0 \<and>
     alive mgr' 0 = Inr sample_db"
proof -
  have u: "DBMgr_OnUpdate 1 sample_mgr = Inr ([], sample_mgr)"
    by (simp add: DBMgr_OnUpdate_def sample_mgr_def alive_def OnUpdate_def take_finished_def check_async_thread_def
      sample_db_def new_MysqlDB_def)
  have g: "GetDatabase sample_mgr ''main'' = Some 0" "alive sample_mgr 0 = Inr sample_db"
    by (simp_all add: GetDatabase_def alive_def sample_mgr_def)
  have "sample_db\<lparr>db_finishTasks := []\<rparr> = sample_db" by (simp add: sample_db_def new_MysqlDB_def)
  with OnUpdate_serves_every_database [OF sample_mgr_wf u g] u show ?thesis by auto
qed

end
