(* ===== verification/App_Logic.thy ===== *)
theory App_Logic
  imports Db_Mgr
begin

text \<open>
  The component \<open>LogicComp\<close> of the game application (\<open>LogicComp.h\<close>, \<open>LogicComp.cpp\<close>,
  \<open>LogicCompFactory.cpp\<close>): the only client of the database component in the repository. Its
  \<open>DatabaseTest\<close> makes a table, inserts rows, reads one back, updates it and leaves two asynchronous
  queries. \<open>ASSERT\<close> is active, as in the debug build of the framework. The padding of the structure it
  stores as a blob is not initialised and an argument; printed lines are results.
\<close>

named_theorems scenario_defs \<open>definitions of the test scenario\<close>

subsection \<open>The values of the test\<close>

definition ASSERT :: "bool \<Rightarrow> unit res" where
  "ASSERT b = (if b then Inr () else Inl AssertFail)"

lemma ASSERT_simps [simp]: "ASSERT True = Inr ()" "ASSERT False = Inl AssertFail"
  by (simp_all add: ASSERT_def)

definition createTableSql :: bytes where
  "createTableSql =
     ''create table `llbc` ('' @
     ''`id` bigint(20) UNSIGNED NOT NULL AUTO_INCREMENT COMMENT '' @ quoted ''Id'' @ '','' @
     ''`varstr_type` varchar(255) CHARACTER SET utf8mb4 NOT NULL DEFAULT '' @ quoted [] @ '','' @
     ''`str_type` char(32) CHARACTER SET utf8mb4 NOT NULL DEFAULT '' @ quoted [] @ '','' @
     ''`tiny_type` tinyint(2) NOT NULL DEFAULT 0,'' @
     ''`blob_type` blob NOT NULL,'' @
     ''`int_type` int(20) NOT NULL DEFAULT 0,'' @
     ''`float_type` float NOT NULL DEFAULT 0,'' @
     ''`double_type` double NOT NULL DEFAULT 0,'' @
     ''`datetime_type` datetime DEFAULT CURRENT_TIMESTAMP,'' @
     ''PRIMARY KEY(`id`)'' @
     '') ENGINE = InnoDB;''"

text \<open>
  \<open>DBBlobData\<close>: an \<open>int\<close>, an \<open>int64_t\<close> at offset 8, an \<open>int\<close> and a \<open>char\<close>, 24 bytes with four bytes of padding
  after the first and three after the last member.
\<close>

definition blob_bytes :: "bytes \<Rightarrow> bytes" where
  "blob_bytes pad =
     [CHR 0x01, CHR 0x00, CHR 0x00, CHR 0x00] @ take 4 pad @
     [CHR 0x02, CHR 0x00, CHR 0x00, CHR 0x00, CHR 0x00, CHR 0x00, CHR 0x00, CHR 0x00] @
     [CHR 0x03, CHR 0x00, CHR 0x00, CHR 0x00] @ [CHR ''*''] @ drop 4 pad"

fun le_nat :: "bytes \<Rightarrow> nat" where
  "le_nat [] = 0"
| "le_nat (c # cs) = of_char c + 256 * le_nat cs"

definition blob_b :: "bytes \<Rightarrow> sint64 res" where
  "blob_b mem = rbind (read_n (drop 8 mem) 8) (\<lambda>bs. Inr (word_of_nat (le_nat bs)))"

text \<open>A literal is a C string in memory, with its NUL; \<open>3.14\<close> is rounded to \<open>float\<close>.\<close>

definition c_literal :: "bytes \<Rightarrow> bytes" where
  "c_literal s = s @ [CHR 0x00]"

definition varstr :: bytes where "varstr = ''this is varstr_type!!!''"
definition str_value :: bytes where "str_value = ''this is str_type!!!''"
definition ft :: double where "ft = Fin False 13170115 (- 22)"
definition dt :: double where "dt = round_frac False 31415926 10000000"
definition tolerance :: double where "tolerance = round_frac False 1 10000"
definition datet :: bytes where "datet = ''2020-01-01 12:00:00''"

subsection \<open>The scenario\<close>

definition fill_llbc :: "bytes \<Rightarrow> sint64 \<Rightarrow> Record \<Rightarrow> Record res" where
  "fill_llbc pad i rec =
     rbind (Record_SetStr_name rec ''varstr_type'' (c_literal varstr)) (\<lambda>rec.
     rbind (Record_SetStr_name rec ''str_type'' (c_literal str_value)) (\<lambda>rec.
     rbind (Record_SetInt_name rec ''tiny_type'' 1) (\<lambda>rec.
     rbind (Record_SetBlob_name rec ''blob_type'' (c_literal (blob_bytes pad)) (word_of_nat (length (blob_bytes pad)))) (\<lambda>rec.
     rbind (Record_SetDouble_name rec ''float_type'' ft) (\<lambda>rec.
     rbind (Record_SetDouble_name rec ''double_type'' dt) (\<lambda>rec.
     rbind (Record_SetInt_name rec ''int_type'' i) (\<lambda>rec.
     Record_SetStr_name rec ''datetime_type'' (c_literal datet))))))))"

definition insert_round :: "'w mysql_client \<Rightarrow> (bytes \<Rightarrow> bytes) \<Rightarrow> (nat option \<Rightarrow> bytes \<Rightarrow> bytes) \<Rightarrow> bytes \<Rightarrow> nat \<Rightarrow> MysqlDB \<Rightarrow> 'w \<Rightarrow>
    (MysqlDB \<times> 'w) res" where
  "insert_round c esc real_esc pad i db w =
     rbind (RecordManipulator_MakeDefRecord c db (c_literal ''llbc'') w) (\<lambda>(llbcRec, db, w).
     rbind (ASSERT (llbcRec \<noteq> None)) (\<lambda>_.
     rbind (deref llbcRec) (\<lambda>rec.
     rbind (fill_llbc pad (word_of_nat i) rec) (\<lambda>rec.
     rbind (RecordManipulator_Insert c esc real_esc db rec w) (\<lambda>(ok, db, w).
     rbind (ASSERT ok) (\<lambda>_. Inr (db, w)))))))"

fun insert_rounds :: "'w mysql_client \<Rightarrow> (bytes \<Rightarrow> bytes) \<Rightarrow> (nat option \<Rightarrow> bytes \<Rightarrow> bytes) \<Rightarrow> bytes \<Rightarrow> nat list \<Rightarrow> MysqlDB \<Rightarrow> 'w \<Rightarrow>
    (MysqlDB \<times> 'w) res" where
  "insert_rounds c esc real_esc pad [] db w = Inr (db, w)"
| "insert_rounds c esc real_esc pad (i # is) db w =
     rbind (insert_round c esc real_esc pad i db w) (\<lambda>(db, w). insert_rounds c esc real_esc pad is db w)"

definition check_llbc :: "Record \<Rightarrow> unit res" where
  "check_llbc rec =
     rbind (Record_GetStr_name rec ''varstr_type'') (\<lambda>varstrType.
     rbind (Record_GetStr_name rec ''str_type'') (\<lambda>strType.
     rbind (Record_GetInt_name rec ''tiny_type'') (\<lambda>tinyType.
     rbind (Record_GetStr_name rec ''blob_type'') (\<lambda>blobType.
     rbind (Record_GetDouble_name rec ''float_type'') (\<lambda>floatType.
     rbind (Record_GetDouble_name rec ''double_type'') (\<lambda>doubleType.
     rbind (Record_GetInt_name rec ''int_type'') (\<lambda>intType.
     rbind (Record_GetStr_name rec ''datetime_type'') (\<lambda>datetimeType.
     rbind (ASSERT (varstrType = varstr)) (\<lambda>_.
     rbind (ASSERT (strType = str_value)) (\<lambda>_.
     rbind (ASSERT (tinyType = 1)) (\<lambda>_.
     rbind (blob_b (c_literal blobType)) (\<lambda>b.
     rbind (ASSERT (b = 2)) (\<lambda>_.
     rbind (ASSERT (double_less (double_sub floatType ft) tolerance)) (\<lambda>_.
     rbind (ASSERT (double_less (double_sub doubleType dt) tolerance)) (\<lambda>_.
     ASSERT (datetimeType = datet))))))))))))))))"

definition change_llbc :: "bytes \<Rightarrow> Record \<Rightarrow> Record res" where
  "change_llbc pad rec =
     rbind (Record_SetStr_name rec ''varstr_type'' (c_literal ''new this is varstr_type!!!'')) (\<lambda>rec.
     rbind (Record_SetStr_name rec ''str_type'' (c_literal ''new this is str_type!!!'')) (\<lambda>rec.
     rbind (Record_SetInt_name rec ''tiny_type'' 2) (\<lambda>rec.
     rbind (Record_SetBlob_name rec ''blob_type'' (c_literal (blob_bytes pad)) (word_of_nat (length (blob_bytes pad)))) (\<lambda>rec.
     rbind (Record_SetDouble_name rec ''float_type'' ft) (\<lambda>rec.
     rbind (Record_SetDouble_name rec ''double_type'' dt) (\<lambda>rec.
     Record_SetStr_name rec ''datetime_type'' (c_literal datet)))))))"

text \<open>The two callbacks are known by their order: 0 prints the result of the deletion, 1 the ids of the rows.\<close>

definition delete_sql :: bytes where "delete_sql = ''delete from llbc where id > 30''"
definition select_sql :: bytes where "select_sql = ''select * from llbc''"

definition scenario_on :: "'w mysql_client \<Rightarrow> (bytes \<Rightarrow> bytes) \<Rightarrow> (nat option \<Rightarrow> bytes \<Rightarrow> bytes) \<Rightarrow> bytes \<Rightarrow> nat \<Rightarrow> MysqlDB \<Rightarrow> 'w \<Rightarrow>
    (MysqlDB \<times> 'w) res" where
  "scenario_on c esc real_esc pad self defDB w =
     rbind (Database_Query_sql c defDB self ''drop table if exists `llbc`'' w) (\<lambda>(ok, db, w).
     rbind (ASSERT ok) (\<lambda>_.
     rbind (Database_Query_sql c db self createTableSql w) (\<lambda>(ok, db, w).
     rbind (ASSERT ok) (\<lambda>_.
     rbind (insert_rounds c esc real_esc pad [0..<101] db w) (\<lambda>(db, w).
     rbind (Database_Query_records c db self ''select * from llbc limit 1'' MODE_EDIT w) (\<lambda>(llbcRecSet, db, w).
     rbind (deref llbcRecSet) (\<lambda>set.
     rbind (Recordset_index set 0) (\<lambda>rec.
     rbind (check_llbc rec) (\<lambda>_.
     rbind (change_llbc pad rec) (\<lambda>rec.
     rbind (RecordManipulator_Update c esc real_esc db rec w) (\<lambda>(ok, rec, db, w).
     rbind (ASSERT ok) (\<lambda>_.
     rbind (QueryAsync_sql db self 1 delete_sql (Some 0)) (\<lambda>db.
     rbind (QueryAsync_records db self 2 select_sql MODE_READ (Some 1)) (\<lambda>db. Inr (db, w)))))))))))))))"

definition DatabaseTest :: "'w mysql_client \<Rightarrow> (bytes \<Rightarrow> bytes) \<Rightarrow> (nat option \<Rightarrow> bytes \<Rightarrow> bytes) \<Rightarrow> bytes \<Rightarrow> nat \<Rightarrow> DBMgr option \<Rightarrow> 'w \<Rightarrow>
    (DBMgr \<times> 'w) res" where
  "DatabaseTest c esc real_esc pad self dbMgr w =
     rbind (deref dbMgr) (\<lambda>mgr.
       case GetDefaultDatabase mgr of
         None \<Rightarrow> Inr (mgr, w)
       | Some k \<Rightarrow>
           rbind (alive mgr k) (\<lambda>db.
           rbind (scenario_on c esc real_esc pad self db w) (\<lambda>(db', w').
             Inr (mgr\<lparr>mgr_alive := map_put (mgr_alive mgr) k db'\<rparr>, w'))))"

text \<open>The callbacks.\<close>

definition delete_line :: "bool \<Rightarrow> bytes" where
  "delete_line ret = ''delete result '' @ print_signed (if ret then 1 else 0 :: sint32)"

fun read_lines :: "Recordset \<Rightarrow> nat list \<Rightarrow> bytes list res" where
  "read_lines recSet [] = Inr []"
| "read_lines recSet (i # is) =
     rbind (Recordset_index recSet (word_of_nat i)) (\<lambda>rec.
     rbind (Record_GetInt_name rec ''id'') (\<lambda>id.
     rbind (read_lines recSet is) (\<lambda>ls.
       Inr ((''mysql acync read id: '' @ print_signed id) # ls))))"

definition read_callback :: "Recordset option \<Rightarrow> bytes list res" where
  "read_callback recSet =
     rbind (ASSERT (recSet \<noteq> None)) (\<lambda>_.
     rbind (deref recSet) (\<lambda>set. read_lines set [0..<unat (GetSize set)]))"

text \<open>What a callback of the scenario prints.\<close>

definition run_callback :: "callback_event \<Rightarrow> bytes list res" where
  "run_callback e =
     (case e of
        SqlCB k ret \<Rightarrow> Inr [delete_line ret]
      | QueryCB k recSet \<Rightarrow> read_callback recSet)"

text \<open>The events of the component.\<close>

definition LogicComp_OnInitialize :: bool where "LogicComp_OnInitialize = True"

definition LogicComp_OnStart where
  "LogicComp_OnStart c esc real_esc pad self dbMgr w =
     rbind (DatabaseTest c esc real_esc pad self dbMgr w) (\<lambda>(mgr, w'). Inr (True, mgr, w'))"

text \<open>The table as the server describes it: the columns with the lengths of their longest values.\<close>

definition llbc_column :: "bytes \<Rightarrow> enum_field_types \<Rightarrow> uint32 \<Rightarrow> uint64 \<Rightarrow> uint64 \<Rightarrow> MYSQL_FIELD" where
  "llbc_column name t flags len maxlen =
     \<lparr>org_name = Some name, org_table = Some ''llbc'', mf_def = None, mf_length = len, mf_max_length = maxlen,
      mf_flags = flags, mf_type = t\<rparr>"

definition llbc_columns :: "uint64 list \<Rightarrow> MYSQL_FIELD list" where
  "llbc_columns maxlens =
     map2 (\<lambda>col maxlen. col maxlen)
       [llbc_column ''id'' MYSQL_TYPE_LONGLONG 0x223 20,
        llbc_column ''varstr_type'' MYSQL_TYPE_VAR_STRING 1 1020,
        llbc_column ''str_type'' MYSQL_TYPE_STRING 1 128,
        llbc_column ''tiny_type'' MYSQL_TYPE_TINY 1 2,
        llbc_column ''blob_type'' MYSQL_TYPE_BLOB 0x91 65535,
        llbc_column ''int_type'' MYSQL_TYPE_LONG 1 20,
        llbc_column ''float_type'' MYSQL_TYPE_FLOAT 1 12,
        llbc_column ''double_type'' MYSQL_TYPE_DOUBLE 1 22,
        llbc_column ''datetime_type'' MYSQL_TYPE_DATETIME 0x80 19] maxlens"


text \<open>What the cache has for them, and a record with given changes and values.\<close>

definition llbc_info :: "DBFieldInfo list" where
  "llbc_info =
     [\<lparr>fi_name = ''id'', fi_type = FIELD_TYPE_LONGLONG, fi_attr = 0x223, fi_len = 20\<rparr>,
      \<lparr>fi_name = ''varstr_type'', fi_type = FIELD_TYPE_VAR_STRING, fi_attr = 1, fi_len = 1020\<rparr>,
      \<lparr>fi_name = ''str_type'', fi_type = FIELD_TYPE_STRING, fi_attr = 1, fi_len = 128\<rparr>,
      \<lparr>fi_name = ''tiny_type'', fi_type = FIELD_TYPE_TINY, fi_attr = 1, fi_len = 2\<rparr>,
      \<lparr>fi_name = ''blob_type'', fi_type = FIELD_TYPE_BLOB, fi_attr = 0x91, fi_len = 65535\<rparr>,
      \<lparr>fi_name = ''int_type'', fi_type = FIELD_TYPE_LONG, fi_attr = 1, fi_len = 20\<rparr>,
      \<lparr>fi_name = ''float_type'', fi_type = FIELD_TYPE_FLOAT, fi_attr = 1, fi_len = 12\<rparr>,
      \<lparr>fi_name = ''double_type'', fi_type = FIELD_TYPE_DOUBLE, fi_attr = 1, fi_len = 22\<rparr>,
      \<lparr>fi_name = ''datetime_type'', fi_type = FIELD_TYPE_DATETIME, fi_attr = 0x80, fi_len = 19\<rparr>]"

definition by_name :: "'a list \<Rightarrow> (bytes \<times> 'a) list" where
  "by_name xs =
     [(''blob_type'', xs ! 4), (''datetime_type'', xs ! 8), (''double_type'', xs ! 7), (''float_type'', xs ! 6),
      (''id'', xs ! 0), (''int_type'', xs ! 5), (''str_type'', xs ! 2), (''tiny_type'', xs ! 3), (''varstr_type'', xs ! 1)]"

definition llbc_cache :: field_cache where
  "llbc_cache = map (\<lambda>(name, info). (''llbc.'' @ name, info)) (by_name llbc_info)"

definition llbc_names :: "(bytes, sint32) std_map" where
  "llbc_names = by_name [0, 1, 2, 3, 4, 5, 6, 7, 8]"

definition llbc_field :: "nat \<Rightarrow> bool \<times> field_val \<Rightarrow> BaseField" where
  "llbc_field i v = \<lparr>bf_info = llbc_info ! i, bf_changed = fst v, bf_val = snd v\<rparr>"

definition llbc_fields :: "(bool \<times> field_val) list \<Rightarrow> BaseField list" where
  "llbc_fields vs = map (\<lambda>i. llbc_field i (vs ! i)) [0..<9]"

definition llbc_record :: "(bool \<times> field_val) list \<Rightarrow> Record" where
  "llbc_record vs =
     \<lparr>rc_mode = MODE_EDIT, rc_fieldNum = 9, rc_tableName = ''llbc'', rc_fields = map Some (llbc_fields vs),
      rc_name2idx = llbc_names, rc_keyIdx = 0, rc_autoIncIdx = 0\<rparr>"

definition llbc_default :: "field_val list" where
  "llbc_default = [VUInt64 0, VString [], VString [], VInt8 0, VString [], VInt32 0, VDouble (Fin False 0 0),
     VDouble (Fin False 0 0), VString []]"

lemma default_first: "CreateRecord [] None (llbc_columns (replicate 9 0)) None 9 MODE_EDIT =
    Inr (Some (llbc_record (map (Pair False) llbc_default)), llbc_cache)"
  by code_simp

lemma default_again: "CreateRecord llbc_cache None (llbc_columns (replicate 9 0)) None 9 MODE_EDIT =
    Inr (Some (llbc_record (map (Pair False) llbc_default)), llbc_cache)"
  by code_simp

text \<open>Setting a column by its name.\<close>

lemma length_llbc_fields [simp]: "length (llbc_fields vs) = 9"
  by (simp add: llbc_fields_def)

lemma nth_llbc_fields [simp]: "i < 9 \<Longrightarrow> llbc_fields vs ! i = llbc_field i (vs ! i)"
  by (simp add: llbc_fields_def)

lemma llbc_update:
  assumes "unat i < 9" "length vs = 9" "op (llbc_field (unat i) (vs ! unat i)) = Inr (llbc_field (unat i) v)"
  shows "update_field (llbc_record vs) i op = Inr (llbc_record (vs[unat i := v]))"
proof -
  have "(map Some (llbc_fields vs))[unat i := Some (llbc_field (unat i) v)] = map Some (llbc_fields (vs[unat i := v]))"
    using assms(1,2) by (auto simp: list_eq_iff_nth_eq nth_list_update)
  then show ?thesis using assms by (simp add: update_field_eq_Inr field_at_eq_Inr llbc_record_def)
qed

lemma llbc_index:
  "GetFieldIdx (llbc_record vs) ''id'' = Inr 0" "GetFieldIdx (llbc_record vs) ''varstr_type'' = Inr 1"
  "GetFieldIdx (llbc_record vs) ''str_type'' = Inr 2" "GetFieldIdx (llbc_record vs) ''tiny_type'' = Inr 3"
  "GetFieldIdx (llbc_record vs) ''blob_type'' = Inr 4" "GetFieldIdx (llbc_record vs) ''int_type'' = Inr 5"
  "GetFieldIdx (llbc_record vs) ''float_type'' = Inr 6" "GetFieldIdx (llbc_record vs) ''double_type'' = Inr 7"
  "GetFieldIdx (llbc_record vs) ''datetime_type'' = Inr 8"
  by (simp_all add: GetFieldIdx_def llbc_record_def llbc_names_def by_name_def map_find_def)

lemma llbc_setters:
  assumes "GetFieldIdx (llbc_record vs) name = Inr i" "unat i < 9"
  shows "length vs = 9 \<Longrightarrow> kind_of (snd (vs ! unat i)) = StringField \<Longrightarrow> no_nul s \<Longrightarrow>
      Record_SetStr_name (llbc_record vs) name (c_literal s) = Inr (llbc_record (vs[unat i := (True, VString s)]))"
    and "length vs = 9 \<Longrightarrow> kind_of (snd (vs ! unat i)) = StringField \<Longrightarrow> unat n = length t \<Longrightarrow>
      Record_SetBlob_name (llbc_record vs) name (c_literal t) n = Inr (llbc_record (vs[unat i := (True, VString t)]))"
    and "length vs = 9 \<Longrightarrow>
      Record_SetInt_name (llbc_record vs) name v =
        rbind (cast_int (snd (vs ! unat i)) v) (\<lambda>u. Inr (llbc_record (vs[unat i := (True, u)])))"
    and "length vs = 9 \<Longrightarrow> kind_of (snd (vs ! unat i)) = DoubleField \<Longrightarrow>
      Record_SetDouble_name (llbc_record vs) name x = Inr (llbc_record (vs[unat i := (True, VDouble x)]))"
proof -
  note named = Record_SetStr_name_def Record_SetStr_def Record_SetBlob_name_def Record_SetBlob_def Record_SetInt_name_def
      Record_SetInt_def Record_SetDouble_name_def Record_SetDouble_def c_literal_def read_cstr_terminated read_n_def
      llbc_field_def SetStr_def SetBlob_def SetInt_def SetDouble_def TagChanged_def
  show "Record_SetStr_name (llbc_record vs) name (c_literal s) = Inr (llbc_record (vs[unat i := (True, VString s)]))"
    if "length vs = 9" "kind_of (snd (vs ! unat i)) = StringField" "no_nul s"
    using assms that by (cases "snd (vs ! unat i)") (auto simp: named intro!: llbc_update)
  show "Record_SetBlob_name (llbc_record vs) name (c_literal t) n = Inr (llbc_record (vs[unat i := (True, VString t)]))"
    if "length vs = 9" "kind_of (snd (vs ! unat i)) = StringField" "unat n = length t"
    using assms that by (cases "snd (vs ! unat i)") (auto simp: named intro!: llbc_update)
  show "Record_SetDouble_name (llbc_record vs) name x = Inr (llbc_record (vs[unat i := (True, VDouble x)]))"
    if "length vs = 9" "kind_of (snd (vs ! unat i)) = DoubleField"
    using assms that by (cases "snd (vs ! unat i)") (auto simp: named intro!: llbc_update)
  show "Record_SetInt_name (llbc_record vs) name v =
        rbind (cast_int (snd (vs ! unat i)) v) (\<lambda>u. Inr (llbc_record (vs[unat i := (True, u)])))"
    if "length vs = 9"
  proof (cases "cast_int (snd (vs ! unat i)) v")
    case (Inl e)
    with assms that show ?thesis by (simp add: named update_field_def llbc_record_def slot_update_def slot_peek_def vec_at_def)
  next
    case (Inr u)
    with assms that show ?thesis by (auto simp: named intro!: llbc_update)
  qed
qed

lemmas llbc_set =
  llbc_setters(1) [OF llbc_index(2)] llbc_setters(1) [OF llbc_index(3)] llbc_setters(1) [OF llbc_index(9)]
  llbc_setters(2) [OF llbc_index(5)] llbc_setters(3) [OF llbc_index(4)] llbc_setters(3) [OF llbc_index(6)]
  llbc_setters(4) [OF llbc_index(7)] llbc_setters(4) [OF llbc_index(8)]

definition inserted :: "bytes \<Rightarrow> sint64 \<Rightarrow> (bool \<times> field_val) list" where
  "inserted pad i =
     [(False, VUInt64 0), (True, VString varstr), (True, VString str_value), (True, VInt8 1),
      (True, VString (blob_bytes pad)), (True, VInt32 (ucast i)), (True, VDouble ft), (True, VDouble dt), (True, VString datet)]"

lemma length_blob_bytes: "length pad = 7 \<Longrightarrow> length (blob_bytes pad) = 24"
  by (simp add: blob_bytes_def)

lemma value_texts [simp]: "no_nul varstr" "no_nul str_value" "no_nul datet"
  by (simp_all add: varstr_def str_value_def datet_def)

lemma fill_default:
  assumes "length pad = 7"
  shows "fill_llbc pad i (llbc_record (map (Pair False) llbc_default)) = Inr (llbc_record (inserted pad i))"
  using length_blob_bytes [OF assms]
  by (simp add: fill_llbc_def llbc_default_def llbc_set inserted_def cong del: rbind_cong)

text \<open>Such a record is complete, has a key, and its changed columns are known.\<close>

definition llbc_typed :: "(bool \<times> field_val) list \<Rightarrow> bool" where
  "llbc_typed vs \<longleftrightarrow> map (kind_of \<circ> snd) vs = map kind_of llbc_default"

lemma length_llbc_default [simp]: "length llbc_default = 9"
  by (simp add: llbc_default_def)

lemma llbc_typed_nth:
  assumes "llbc_typed vs"
  shows "length vs = 9" "i < 9 \<Longrightarrow> kind_of (snd (vs ! i)) = kind_of (llbc_default ! i)"
proof -
  show len: "length vs = 9" using arg_cong [OF assms [unfolded llbc_typed_def], of length] by simp
  show "kind_of (snd (vs ! i)) = kind_of (llbc_default ! i)" if "i < 9"
    using arg_cong [OF assms [unfolded llbc_typed_def], of "\<lambda>ks. ks ! i"] len that by simp
qed

lemma llbc_created: "i < 9 \<Longrightarrow> CreateField (llbc_info ! i) = Some (new_field (llbc_info ! i) (llbc_default ! i))"
proof -
  have "\<forall>i\<in>set [0..<9]. CreateField (llbc_info ! i) = Some (new_field (llbc_info ! i) (llbc_default ! i))" by code_simp
  then show "i < 9 \<Longrightarrow> CreateField (llbc_info ! i) = Some (new_field (llbc_info ! i) (llbc_default ! i))" by simp
qed

lemma llbc_field_wf: "llbc_typed vs \<Longrightarrow> i < 9 \<Longrightarrow> wf_field (llbc_field i (vs ! i))"
  by (simp add: wf_field_def llbc_field_def llbc_created new_field_def llbc_typed_nth)

lemma llbc_wf: "llbc_typed vs \<Longrightarrow> wf_record (llbc_record vs)"
proof -
  assume t: "llbc_typed vs"
  have names: "map_ok llbc_names" by code_simp
  have idx: "\<exists>f. slot_peek (map Some (llbc_fields vs)) (unat i) = Inr (Some f) \<and> GetName f = name"
    if "map_find llbc_names name = Some i" for name i
    using that
    by (auto simp: llbc_names_def by_name_def map_find_def slot_peek_def vec_at_def llbc_field_def llbc_info_def GetName_def
        cstr_def split: if_splits)
  show ?thesis
    using names idx llbc_field_wf [OF t]
    by (auto simp: wf_record_def llbc_record_def valid_idx_def in_set_conv_nth)
qed

lemma llbc_keys: "\<not> no_key (llbc_record vs)" "key_index (llbc_record vs) = 0" "GetTableName (llbc_record vs) = ''llbc''"
    "GetMode (llbc_record vs) = MODE_EDIT"
  by (simp_all add: no_key_def key_index_def GetKeyIdx_def GetAutoIncIdx_def llbc_record_def GetTableName_def GetMode_def)

lemma changed_llbc: "changed_fields (llbc_record vs) = filter IsChanged (llbc_fields vs)"
  by (simp add: changed_fields_def llbc_record_def)

text \<open>The literals.\<close>

lemma dt_val: "dt = Fin False 7074237631354954 (- 51)"
proof -
  have "bit_length 31415926 = 25" "bit_length 10000000 = 24" by (simp_all add: bit_length.simps)
  then show ?thesis by (simp add: dt_def round_frac_def Let_def round_half_even_def)
qed

lemma print_values: "print_f ft = ''3.140000''" "print_f dt = ''3.141593''"
proof -
  have "scale_nat 2 (13170115 * 1000000) (- 22) = (13170115000000, 4194304)"
    "scale_nat 2 (7074237631354954 * 1000000) (- 51) = (7074237631354954000000, 2251799813685248)"
    by (simp_all add: scale_nat_def)
  moreover have "round_half_even 13170115000000 4194304 = 3140000"
    "round_half_even 7074237631354954000000 2251799813685248 = 3141593"
    by (simp_all add: round_half_even_def)
  ultimately show "print_f ft = ''3.140000''" "print_f dt = ''3.141593''"
    by (simp_all add: ft_def dt_val print_f_frac nat_digits.simps pad_left_def)
qed

lemma llbc_assignment:
  assumes "i < 9"
  shows "assignment esc real_esc (llbc_field i (b, VString s)) =
      name_eq (fi_name (llbc_info ! i)) @ quoted (if i = 4 then real_esc s else esc s)"
    and "int_kind v \<Longrightarrow> assignment esc real_esc (llbc_field i (b, v)) = name_eq (fi_name (llbc_info ! i)) @ int_digits (field_int v)"
    and "assignment esc real_esc (llbc_field i (b, VDouble x)) = name_eq (fi_name (llbc_info ! i)) @ print_f x"
proof -
  have "\<forall>i\<in>set [0..<9]. cstr (fi_name (llbc_info ! i)) = fi_name (llbc_info ! i) \<and> (blob_type (fi_type (llbc_info ! i)) \<longleftrightarrow> i = 4)"
    by code_simp
  then have *: "cstr (fi_name (llbc_info ! i)) = fi_name (llbc_info ! i)" "blob_type (fi_type (llbc_info ! i)) \<longleftrightarrow> i = 4"
    using assms by simp_all
  show "assignment esc real_esc (llbc_field i (b, VString s)) =
      name_eq (fi_name (llbc_info ! i)) @ quoted (if i = 4 then real_esc s else esc s)"
    "assignment esc real_esc (llbc_field i (b, VDouble x)) = name_eq (fi_name (llbc_info ! i)) @ print_f x"
    using * by (simp_all add: assignment_def literal_def llbc_field_def GetName_def GetType_def)
  show "assignment esc real_esc (llbc_field i (b, v)) = name_eq (fi_name (llbc_info ! i)) @ int_digits (field_int v)"
    if "int_kind v"
    using that * by (cases v) (simp_all add: assignment_def literal_def llbc_field_def GetName_def GetType_def)
qed

text \<open>The statement of the \<open>i\<close>-th insert.\<close>

definition insert_text :: "(bytes \<Rightarrow> bytes) \<Rightarrow> (bytes \<Rightarrow> bytes) \<Rightarrow> bytes \<Rightarrow> nat \<Rightarrow> bytes" where
  "insert_text esc real_esc pad i =
     ''insert into `llbc` set `varstr_type`='' @ quoted (esc varstr) @ '',`str_type`='' @ quoted (esc str_value) @
     '',`tiny_type`=1,`blob_type`='' @ quoted (real_esc (blob_bytes pad)) @ '',`int_type`='' @ nat_digits i @
     '',`float_type`=3.140000,`double_type`=3.141593,`datetime_type`='' @ quoted (esc datet)"

lemma upt9: "[0..<9] = [0, 1, 2, 3, 4, 5, 6, 7, 8 :: nat]"
  by (simp add: upt_rec)

lemma digits_small: "i < 10 \<Longrightarrow> length (nat_digits i) \<le> 1" "i < 1000 \<Longrightarrow> length (nat_digits i) \<le> 3"
  by (auto simp: nat_digits.simps)

text \<open>Escaping that leaves text without special characters alone, as documented.\<close>

definition plain :: "bytes \<Rightarrow> bool" where
  "plain s \<longleftrightarrow> (\<forall>c\<in>set s. c \<notin> {CHR 0x00, CHR 0x0a, CHR 0x0d, CHR 0x1a, CHR 0x22, CHR 0x27, CHR 0x5c})"

definition escapes :: "(bytes \<Rightarrow> bytes) \<Rightarrow> bool" where
  "escapes e \<longleftrightarrow> escape_law e \<and> (\<forall>s. plain s \<longrightarrow> e s = s)"

lemma plain_values: "plain varstr" "plain str_value" "plain datet"
  by (simp_all add: plain_def varstr_def str_value_def datet_def)

lemma scan_size: "buffer_size (foldl next_len 0 (filter IsChanged (llbc_fields (inserted pad i)))) = Inr 131198"
  by (simp add: llbc_fields_def upt9 inserted_def llbc_field_def IsChanged_def next_len_def IS_FIELD_NUM_def GetType_def GetLen_def
      llbc_info_def buffer_size_def Let_def)

lemma inserted_typed: "llbc_typed (inserted pad i)"
  by (simp add: llbc_typed_def inserted_def llbc_default_def)

lemma llbc_operation:
  assumes "llbc_typed vs" "escape_law esc" "escape_law real_esc"
    and "buffer_size (foldl next_len 0 (filter IsChanged (llbc_fields vs))) = Inr n"
    and "map (assignment esc real_esc) (filter IsChanged (llbc_fields vs)) = ts" "ts \<noteq> []"
    and "\<forall>t\<in>set (map (assignment esc real_esc) (filter IsChanged (llbc_fields vs))). length t < n"
    and "\<forall>f\<in>set (filter IsChanged (llbc_fields vs)). writable_type (GetType f) \<and> escapes_fit esc f"
  shows "BuildOperation esc real_esc (llbc_record vs) = Inr (Some (join ts))"
  unfolding assms(5) [symmetric] changed_llbc [symmetric]
proof (rule BuildOperation_join [OF llbc_wf [OF assms(1)] llbc_keys(1)])
  show "changed_fields (llbc_record vs) \<noteq> []" using assms(5,6) by (auto simp: changed_llbc)
  show "buffer_size (foldl next_len 0 (changed_fields (llbc_record vs))) = Inr n" using assms(4) by (simp add: changed_llbc)
  show "BuildFormatSql esc real_esc f n = Inr (assignment esc real_esc f)" if "f \<in> set (changed_fields (llbc_record vs))" for f
    using that assms(2,3,7,8) changed_fields_wf [OF llbc_wf [OF assms(1)] that]
    by (auto simp: changed_llbc intro!: BuildFormatSql_fits)
qed

lemma insert_built:
  assumes "length pad = 7" "i < 1000" "escapes esc" "escapes real_esc"
  shows "BuildInsertSql esc real_esc (llbc_record (inserted pad (word_of_nat i))) sql = Inr (True, insert_text esc real_esc pad i)"
proof -
  let ?vs = "inserted pad (word_of_nat i)"
  let ?a = "assignment esc real_esc"
  have law: "escape_law esc" "escape_law real_esc" and keep: "esc varstr = varstr" "esc str_value = str_value" "esc datet = datet"
    using assms(3,4) plain_values by (simp_all add: escapes_def)
  have "sint (word_of_nat i :: 64 word) = int i" using sint64_of_int [of "int i"] assms(2) by simp
  then have "sint (ucast (word_of_nat i :: 64 word) :: 32 word) = int i"
    using assms(2) by (simp add: sint_narrow signed_take_bit_int_eq_self)
  then have digits: "int_digits (sint (ucast (word_of_nat i :: 64 word) :: 32 word)) = nat_digits i"
    by (simp add: int_digits_def)
  have ch: "filter IsChanged (llbc_fields ?vs) = map (\<lambda>k. llbc_field k (?vs ! k)) [1, 2, 3, 4, 5, 6, 7, 8]"
    by (simp add: llbc_fields_def upt9 inserted_def llbc_field_def IsChanged_def)
  have asg: "map ?a (filter IsChanged (llbc_fields ?vs)) =
      [''`varstr_type`='' @ quoted varstr, ''`str_type`='' @ quoted str_value, ''`tiny_type`=1'',
       ''`blob_type`='' @ quoted (real_esc (blob_bytes pad)), ''`int_type`='' @ nat_digits i, ''`float_type`=3.140000'',
       ''`double_type`=3.141593'', ''`datetime_type`='' @ quoted datet]"
    unfolding ch
    by (simp add: inserted_def llbc_assignment keep digits print_values)
      (simp add: llbc_info_def name_eq_def int_digits_def nat_digits.simps [of "Suc 0"])
  have "length (real_esc (blob_bytes pad)) \<le> 48" "length (nat_digits i) \<le> 3"
    using escape_lawD(2) [OF law(2), of "blob_bytes pad"] length_blob_bytes [OF assms(1)] digits_small(2) [OF assms(2)] by simp_all
  then have len: "\<forall>x\<in>set (map ?a (filter IsChanged (llbc_fields ?vs))). length x < 131198"
    unfolding asg by (simp add: quoted_def varstr_def str_value_def datet_def)
  have types: "\<forall>f\<in>set (filter IsChanged (llbc_fields ?vs)). writable_type (GetType f) \<and> escapes_fit esc f"
    unfolding ch
    by (simp add: inserted_def llbc_field_def GetType_def llbc_info_def writable_type_def escapes_fit_def text_type_def keep)
  have op: "BuildOperation esc real_esc (llbc_record ?vs) = Inr (Some (join (map ?a (filter IsChanged (llbc_fields ?vs)))))"
    unfolding asg by (rule llbc_operation [OF inserted_typed law scan_size asg _ len types]) simp
  show ?thesis
    using insert_statement_complete [OF op] unfolding asg
    by (simp add: llbc_keys insert_text_def cstr_def keep)
qed

subsection \<open>A server\<close>

text \<open>
  The columns a result describes, and the one row it holds. The texts of the row are those of the
  values that were inserted first.
\<close>

definition describes :: "'w mysql_client \<Rightarrow> nat \<Rightarrow> 'w \<Rightarrow> uint64 list \<Rightarrow> bool" where
  "describes c r w maxlens \<longleftrightarrow>
     mysql_fetch_fields c r w = Some (llbc_columns maxlens) \<and> mysql_fetch_lengths c r w = None \<and> mysql_num_fields c r w = 9"

definition first_texts :: "bytes \<Rightarrow> bytes list" where
  "first_texts pad = [''1'', varstr, str_value, ''1'', blob_bytes pad, ''0'', ''3.14'', ''3.1415926'', datet]"

definition holds_first :: "'w mysql_client \<Rightarrow> bytes \<Rightarrow> nat \<Rightarrow> 'w \<Rightarrow> bool" where
  "holds_first c pad r w \<longleftrightarrow>
     describes c r w (map (word_of_nat \<circ> length) (first_texts pad)) \<and> mysql_num_rows c r w = 1 \<and>
     (\<exists>w1 w2. mysql_fetch_row c r w = (Some (map (Some \<circ> c_literal) (first_texts pad)), w1) \<and> mysql_fetch_row c r w1 = (None, w2))"

text \<open>
  A server that accepts and records every statement, knows the table, and returns the first row
  after the rows were inserted; \<open>log\<close> is what it has been sent.
\<close>

definition llbc_server :: "'w mysql_client \<Rightarrow> ('w \<Rightarrow> bytes list) \<Rightarrow> nat \<Rightarrow> bytes \<Rightarrow> bool" where
  "llbc_server c log h pad \<longleftrightarrow>
     (\<forall>sql len w. \<exists>w'. mysql_real_query c h sql len w = Inr (0, w') \<and> log w' = log w @ [sql]) \<and>
     (\<forall>sqls w. \<exists>r w'. mysql_store_result c h w = Inr (Some r, w') \<and> log w' = log w \<and>
        (log w = sqls @ [''select * from llbc limit 0''] \<longrightarrow> describes c r w' (replicate 9 0)) \<and>
        (log w = sqls @ [''select * from llbc limit 1''] \<longrightarrow> holds_first c pad r (mysql_data_seek c r 0 w'))) \<and>
     (\<forall>r pos w. log (mysql_data_seek c r pos w) = log w) \<and>
     (\<forall>r w. log (snd (mysql_fetch_row c r w)) = log w) \<and>
     (\<forall>r w. log (mysql_free_result c r w) = log w)"

lemma server_query:
  "llbc_server c log h pad \<Longrightarrow> \<exists>w'. mysql_real_query c h sql len w = Inr (0, w') \<and> log w' = log w @ [sql]"
  unfolding llbc_server_def by blast

lemma server_result:
  assumes "llbc_server c log h pad"
  shows "log w = sqls @ [''select * from llbc limit 0''] \<Longrightarrow>
      \<exists>r w'. mysql_store_result c h w = Inr (Some r, w') \<and> log w' = log w \<and> describes c r w' (replicate 9 0)"
    and "log w = sqls @ [''select * from llbc limit 1''] \<Longrightarrow>
      \<exists>r w'. mysql_store_result c h w = Inr (Some r, w') \<and> log w' = log w \<and> holds_first c pad r (mysql_data_seek c r 0 w')"
proof -
  have "\<exists>r w'. mysql_store_result c h w = Inr (Some r, w') \<and> log w' = log w \<and>
        (log w = sqls @ [''select * from llbc limit 0''] \<longrightarrow> describes c r w' (replicate 9 0)) \<and>
        (log w = sqls @ [''select * from llbc limit 1''] \<longrightarrow> holds_first c pad r (mysql_data_seek c r 0 w'))" for sqls
    using assms unfolding llbc_server_def by blast
  from this [of sqls]
  show "log w = sqls @ [''select * from llbc limit 0''] \<Longrightarrow>
      \<exists>r w'. mysql_store_result c h w = Inr (Some r, w') \<and> log w' = log w \<and> describes c r w' (replicate 9 0)"
    and "log w = sqls @ [''select * from llbc limit 1''] \<Longrightarrow>
      \<exists>r w'. mysql_store_result c h w = Inr (Some r, w') \<and> log w' = log w \<and> holds_first c pad r (mysql_data_seek c r 0 w')"
    by blast+
qed

text \<open>Statements on the synchronous connection.\<close>

definition connected :: "MysqlDB \<Rightarrow> nat \<Rightarrow> bool" where
  "connected db h \<longleftrightarrow> (\<exists>conn. db_syncConn db = Some conn \<and> IsConnect conn \<and> GetHandler conn = Some h)"

lemma connectedD: "connected db h \<Longrightarrow> \<exists>conn. db_syncConn db = Some conn \<and> IsConnect conn \<and> mc_dbHandler conn = Some h"
  by (auto simp: connected_def GetHandler_def)

lemma sync_query_sent:
  assumes "llbc_server c log h pad" "connected db h"
  obtains w' where "sync_query c db sql w = Inr (True, db, w')" "log w' = log w @ [cstr sql]"
proof -
  obtain conn where conn: "db_syncConn db = Some conn" "IsConnect conn" "mc_dbHandler conn = Some h"
    using connectedD [OF assms(2)] by blast
  let ?len = "scast (word_of_nat (length (cstr sql)) :: sint32)"
  obtain w' where w': "mysql_real_query c h (cstr sql) ?len w = Inr (0, w')" "log w' = log w @ [cstr sql]"
    using server_query [OF assms(1)] by blast
  have "db\<lparr>db_syncConn := Some conn\<rparr> = db" using conn(1) by simp
  with conn w'(1) have "sync_query c db sql w = Inr (True, db, w')"
    by (simp add: sync_query_def Query_sql_def Query_result_def)
  then show thesis using that w'(2) by blast
qed

lemma MakeDefRecord_sent:
  assumes "llbc_server c log h pad" "connected db h" "db_fieldInfos db = [] \<or> db_fieldInfos db = llbc_cache"
  obtains w' where "Database_MakeDefRecord c db (c_literal ''llbc'') w =
      Inr (Some (llbc_record (map (Pair False) llbc_default)), db\<lparr>db_fieldInfos := llbc_cache\<rparr>, w')"
    "log w' = log w @ [''select * from llbc limit 0'']"
proof -
  obtain conn where conn: "db_syncConn db = Some conn" "IsConnect conn" "mc_dbHandler conn = Some h"
    using connectedD [OF assms(2)] by blast
  let ?sql = "''select * from llbc limit 0''"
  have sql: "snprintf 255 (''select * from '' @ cstr (c_literal ''llbc'') @ '' limit 0'') = ?sql" "cstr ?sql = ?sql"
    by (simp_all add: c_literal_def cstr_def)
  obtain w1 where w1: "mysql_real_query c h ?sql (scast (word_of_nat (length ?sql) :: sint32)) w = Inr (0, w1)" "log w1 = log w @ [?sql]"
    using server_query [OF assms(1)] by blast
  obtain r w2 where w2: "mysql_store_result c h w1 = Inr (Some r, w2)" "log w2 = log w @ [?sql]" "describes c r w2 (replicate 9 0)"
    using server_result(1) [OF assms(1) w1(2)] w1(2) by auto
  have cr: "CreateRecord (db_fieldInfos db) None (llbc_columns (replicate 9 0)) None 9 MODE_EDIT =
      Inr (Some (llbc_record (map (Pair False) llbc_default)), llbc_cache)"
    using assms(3) default_first default_again by metis
  have "log (mysql_free_result c r w2) = log w @ [?sql]" using assms(1) w2(2) by (simp add: llbc_server_def)
  moreover have "MakeDefRecord c conn (c_literal ''llbc'') (db_fieldInfos db) w =
      Inr (Some (llbc_record (map (Pair False) llbc_default)), conn, llbc_cache, mysql_free_result c r w2)"
    using conn w1(1) w2(1,3) cr
    by (simp only: MakeDefRecord_def sql Let_def Query_result_def deref_simps rbind_simps prod.case option.case if_True
        simp_thms if_False describes_def)
  then have "Database_MakeDefRecord c db (c_literal ''llbc'') w =
      Inr (Some (llbc_record (map (Pair False) llbc_default)), db\<lparr>db_fieldInfos := llbc_cache\<rparr>, mysql_free_result c r w2)"
    using conn(1) by (simp add: Database_MakeDefRecord_def)
  ultimately show thesis using that by blast
qed

lemma insert_round_sent:
  assumes "llbc_server c log h pad" "connected db h" "db_fieldInfos db = [] \<or> db_fieldInfos db = llbc_cache"
    and "length pad = 7" "i < 1000" "escapes esc" "escapes (real_esc (Some h))"
  obtains w' where "insert_round c esc real_esc pad i db w = Inr (db\<lparr>db_fieldInfos := llbc_cache\<rparr>, w')"
    "log w' = log w @ [''select * from llbc limit 0'', insert_text esc (real_esc (Some h)) pad i]"
proof -
  let ?db = "db\<lparr>db_fieldInfos := llbc_cache\<rparr>"
  let ?r = "llbc_record (inserted pad (word_of_nat i))"
  obtain w1 where w1: "Database_MakeDefRecord c db (c_literal ''llbc'') w =
      Inr (Some (llbc_record (map (Pair False) llbc_default)), ?db, w1)" "log w1 = log w @ [''select * from llbc limit 0'']"
    using MakeDefRecord_sent [OF assms(1-3)] by blast
  have con: "connected ?db h" using assms(2) by (simp add: connected_def)
  then obtain conn where conn: "db_syncConn ?db = Some conn" "GetHandler conn = Some h" by (auto simp: connected_def)
  have built: "Database_BuildInsertSql esc real_esc ?db ?r [] = Inr (True, insert_text esc (real_esc (Some h)) pad i)"
    using conn insert_built [OF assms(4-7)] by (simp add: Database_BuildInsertSql_def)
  obtain w2 where w2: "sync_query c ?db (insert_text esc (real_esc (Some h)) pad i) w1 = Inr (True, ?db, w2)"
    "log w2 = log w1 @ [cstr (insert_text esc (real_esc (Some h)) pad i)]"
    using sync_query_sent [OF assms(1) con] by blast
  have "no_nul (insert_text esc (real_esc (Some h)) pad i)"
    using assms(6,7) by (simp add: insert_text_def escapes_def escape_law_def)
  then have "log w2 = log w @ [''select * from llbc limit 0'', insert_text esc (real_esc (Some h)) pad i]"
    using w2(2) w1(2) by simp
  moreover have "insert_round c esc real_esc pad i db w = Inr (?db, w2)"
    using w1(1) built w2(1) fill_default [OF assms(4)]
    by (simp add: insert_round_def RecordManipulator_MakeDefRecord_def RecordManipulator_Insert_def Insert_def)
  ultimately show thesis using that by blast
qed

lemma insert_rounds_sent:
  assumes "llbc_server c log h pad" "length pad = 7" "escapes esc" "escapes (real_esc (Some h))"
  shows "connected db h \<Longrightarrow> db_fieldInfos db = [] \<or> db_fieldInfos db = llbc_cache \<Longrightarrow> \<forall>i\<in>set is. i < 1000 \<Longrightarrow>
    \<exists>w'. insert_rounds c esc real_esc pad is db w = Inr (if is = [] then db else db\<lparr>db_fieldInfos := llbc_cache\<rparr>, w') \<and>
      log w' = log w @ concat (map (\<lambda>i. [''select * from llbc limit 0'', insert_text esc (real_esc (Some h)) pad i]) is)"
proof (induction "is" arbitrary: db w)
  case (Cons i "is")
  let ?db = "db\<lparr>db_fieldInfos := llbc_cache\<rparr>"
  from Cons.prems have "i < 1000" by simp
  from insert_round_sent [where real_esc = real_esc and w = w, OF assms(1) Cons.prems(1,2) assms(2) this assms(3,4)] obtain w1 where
    w1: "insert_round c esc real_esc pad i db w = Inr (?db, w1)"
      "log w1 = log w @ [''select * from llbc limit 0'', insert_text esc (real_esc (Some h)) pad i]" by blast
  have "connected ?db h" "db_fieldInfos ?db = [] \<or> db_fieldInfos ?db = llbc_cache" "\<forall>i\<in>set is. i < 1000"
    using Cons.prems by (simp_all add: connected_def)
  from Cons.IH [OF this, of w1] w1 show ?case by auto
qed simp

definition fetched :: "bytes \<Rightarrow> field_val list" where
  "fetched pad = [VUInt64 1, VString varstr, VString str_value, VInt8 1, VString (blob_bytes pad), VInt32 0,
     VDouble (atof ''3.14''), VDouble (atof ''3.1415926''), VString datet]"

declare atof_def [code del]

lemma first_fetched_aux: "CreateRecord llbc_cache (Some (map (Some \<circ> c_literal) (first_texts [p0, p1, p2, p3, p4, p5, p6])))
    (llbc_columns (map (word_of_nat \<circ> length) (first_texts [p0, p1, p2, p3, p4, p5, p6]))) None 9 MODE_EDIT =
    Inr (Some (llbc_record (map (Pair False) (fetched [p0, p1, p2, p3, p4, p5, p6]))), llbc_cache)"
  by code_simp

declare atof_def [code]

lemma first_fetched:
  assumes "length pad = 7"
  shows "CreateRecord llbc_cache (Some (map (Some \<circ> c_literal) (first_texts pad)))
    (llbc_columns (map (word_of_nat \<circ> length) (first_texts pad))) None 9 MODE_EDIT =
    Inr (Some (llbc_record (map (Pair False) (fetched pad))), llbc_cache)"
  using assms first_fetched_aux by (auto simp: numeral_eq_Suc length_Suc_conv)

text \<open>Reading it back.\<close>

declare base_value_def [code del]

lemma mantissas:
  "parse_mantissa 10 ''3.14'' = Some (base_value 10 ''314'', 2, [])"
  "parse_mantissa 10 ''3.1415926'' = Some (base_value 10 ''31415926'', 7, [])"
  by code_simp+

declare base_value_def [code]

lemma hex_digits: "hex_val CHR ''1'' = Some 1" "hex_val CHR ''2'' = Some 2" "hex_val CHR ''3'' = Some 3" "hex_val CHR ''4'' = Some 4"
    "hex_val CHR ''5'' = Some 5" "hex_val CHR ''6'' = Some 6" "hex_val CHR ''9'' = Some 9"
  by code_simp+

lemma atof_texts: "atof ''3.14'' = round_frac False 314 100" "atof ''3.1415926'' = dt"
proof -
  have "\<not> is_space CHR ''3''" "map tolower ''3.14'' = ''3.14''" "map tolower ''3.1415926'' = ''3.1415926''" by code_simp+
  then show "atof ''3.14'' = round_frac False 314 100" "atof ''3.1415926'' = dt"
    by (simp_all add: atof_def parse_unsigned_double_def parse_dec_def mantissas base_value_def hex_digits parse_exponent_def
        scale_nat_def dt_def del: list.map)
qed

lemma bit_lengths: "bit_length 314 = 9" "bit_length 100 = 7" "bit_length 1 = 1" "bit_length 10000 = 14"
  by (simp_all add: bit_length.simps)

lemma limit_val: "tolerance = Fin False 7378697629483821 (- 66)"
  by (simp add: tolerance_def round_frac_def Let_def round_half_even_def bit_lengths bit_lengths(3) [unfolded One_nat_def])

lemma pi_text_val: "round_frac False 314 100 = Fin False 7070651414971679 (- 51)"
  by (simp add: round_frac_def Let_def round_half_even_def bit_lengths)

fun signed :: "bool \<Rightarrow> double \<Rightarrow> bool" where
  "signed s (Fin t m e) = (s = t)"
| "signed s (Infinite t) = (s = t)"
| "signed s (NaN t) = False"

lemma signed_if: "signed s x \<Longrightarrow> signed s y \<Longrightarrow> signed s (if b then x else y)"
  by simp

lemma round_frac_sign: "signed s (round_frac s n d)"
  unfolding round_frac_def Let_def by (intro signed_if) (simp_all only: signed.simps)

lemma negative_is_less:
  assumes "0 < k"
  shows "double_less (round_frac True n d) (Fin False k f)"
proof -
  have "scaled True m e lo < scaled False k f lo" for m e lo
  proof -
    have "scaled True m e lo \<le> 0" by (simp add: scaled_def)
    also have "0 < scaled False k f lo" using assms by (simp add: scaled_def)
    finally show ?thesis .
  qed
  moreover have "(\<exists>m e. round_frac True n d = Fin True m e) \<or> round_frac True n d = Infinite True"
    using round_frac_sign [of True n d] by (cases "round_frac True n d") auto
  ultimately show ?thesis by (auto simp: double_less_def)
qed

lemma close_enough:
  "double_less (double_sub (atof ''3.14'') ft) tolerance"
  "double_less (double_sub (atof ''3.1415926'') dt) tolerance"
proof -
  have "double_sub (atof ''3.14'') ft = round_frac True 236223201 2251799813685248"
    by (simp add: atof_texts pi_text_val ft_def double_sub_def scaled_def Let_def scale_nat_def)
  then show "double_less (double_sub (atof ''3.14'') ft) tolerance"
    by (simp add: limit_val negative_is_less)
  show "double_less (double_sub (atof ''3.1415926'') dt) tolerance"
    by (simp add: atof_texts dt_val limit_val double_sub_def scaled_def double_less_def)
qed

lemma llbc_getters:
  assumes "GetFieldIdx (llbc_record vs) name = Inr i" "unat i < 9"
  shows "Record_GetInt_name (llbc_record vs) name = val_int (snd (vs ! unat i))"
    "Record_GetDouble_name (llbc_record vs) name = val_double (snd (vs ! unat i))"
    "Record_GetStr_name (llbc_record vs) name = (case snd (vs ! unat i) of VString s \<Rightarrow> Inr s | _ \<Rightarrow> Inl AssertFail)"
proof -
  have "field_at (llbc_record vs) i = Inr (llbc_field (unat i) (vs ! unat i))"
    using assms(2) by (simp add: field_at_eq_Inr llbc_record_def)
  then show "Record_GetInt_name (llbc_record vs) name = val_int (snd (vs ! unat i))"
    "Record_GetDouble_name (llbc_record vs) name = val_double (snd (vs ! unat i))"
    "Record_GetStr_name (llbc_record vs) name = (case snd (vs ! unat i) of VString s \<Rightarrow> Inr s | _ \<Rightarrow> Inl AssertFail)"
    using assms(1)
    by (simp_all add: Record_GetInt_name_def Record_GetInt_def Record_GetDouble_name_def Record_GetDouble_def
        Record_GetStr_name_def Record_GetStr_def GetInt_def GetDouble_def GetStr_def llbc_field_def)
qed

lemmas llbc_get = llbc_index [THEN llbc_getters(1)] llbc_index [THEN llbc_getters(2)] llbc_index [THEN llbc_getters(3)]

lemma blob_read:
  assumes "length pad = 7"
  shows "blob_b (c_literal (blob_bytes pad)) = Inr 2"
proof -
  have "take 8 (drop 8 (c_literal (blob_bytes pad))) =
      [CHR 0x02, CHR 0x00, CHR 0x00, CHR 0x00, CHR 0x00, CHR 0x00, CHR 0x00, CHR 0x00]"
    using assms by (simp add: blob_bytes_def c_literal_def)
  moreover have "8 \<le> length (drop 8 (c_literal (blob_bytes pad)))"
    using length_blob_bytes [OF assms] by (simp add: c_literal_def)
  ultimately show ?thesis by (simp add: blob_b_def read_n_def)
qed

lemma check_first:
  assumes "length pad = 7"
  shows "check_llbc (llbc_record (map (Pair False) (fetched pad))) = Inr ()"
  using close_enough blob_read [OF assms] by (simp add: check_llbc_def llbc_get fetched_def cong del: rbind_cong)

definition changed :: "bytes \<Rightarrow> (bool \<times> field_val) list" where
  "changed pad =
     [(False, VUInt64 1), (True, VString ''new this is varstr_type!!!''), (True, VString ''new this is str_type!!!''),
      (True, VInt8 2), (True, VString (blob_bytes pad)), (False, VInt32 0), (True, VDouble ft), (True, VDouble dt),
      (True, VString datet)]"

lemma change_first:
  assumes "length pad = 7"
  shows "change_llbc pad (llbc_record (map (Pair False) (fetched pad))) = Inr (llbc_record (changed pad))"
  using length_blob_bytes [OF assms] by (simp add: change_llbc_def fetched_def llbc_set changed_def cong del: rbind_cong)

definition update_statement :: "(bytes \<Rightarrow> bytes) \<Rightarrow> (bytes \<Rightarrow> bytes) \<Rightarrow> bytes \<Rightarrow> bytes" where
  "update_statement esc real_esc pad =
     ''update `llbc` set `varstr_type`='' @ quoted (esc ''new this is varstr_type!!!'') @
     '',`str_type`='' @ quoted (esc ''new this is str_type!!!'') @ '',`tiny_type`=2,`blob_type`='' @ quoted (real_esc (blob_bytes pad)) @
     '',`float_type`=3.140000,`double_type`=3.141593,`datetime_type`='' @ quoted (esc datet) @ '' where `id`=1 limit 1''"

lemma changed_typed: "llbc_typed (changed pad)"
  by (simp add: llbc_typed_def changed_def llbc_default_def)

lemma key_condition: "BuildCondition (llbc_record (changed pad)) = Inr (Some ''`id`=1'')"
proof -
  have f: "GetField (llbc_record (changed pad)) (key_index (llbc_record (changed pad))) = Inr (Some (llbc_field 0 (changed pad ! 0)))"
    unfolding llbc_keys by (simp add: GetField_def slot_peek_def vec_at_def llbc_record_def)
  have "BuildCondition (llbc_record (changed pad)) = Inr (Some (name_eq (GetName (llbc_field 0 (changed pad ! 0))) @
      int_digits (as_signed64 (field_int (bf_val (llbc_field 0 (changed pad ! 0)))))))"
    by (rule condition_integer_key [OF llbc_keys(1) f llbc_field_wf [OF changed_typed]])
      (simp_all add: changed_def llbc_field_def GetType_def GetName_def llbc_info_def cstr_def)
  then show ?thesis
    by (simp add: changed_def llbc_field_def GetName_def llbc_info_def cstr_def name_eq_def as_signed64_def int_digits_def
        nat_digits.simps [of "Suc 0"])
qed

lemma update_built:
  assumes "length pad = 7" "escapes esc" "escapes real_esc"
  shows "BuildUpdateSql esc real_esc (llbc_record (changed pad)) sql = Inr (True, update_statement esc real_esc pad)"
proof -
  let ?vs = "changed pad"
  let ?a = "assignment esc real_esc"
  have law: "escape_law esc" "escape_law real_esc" using assms(2,3) by (simp_all add: escapes_def)
  have "plain ''new this is varstr_type!!!''" "plain ''new this is str_type!!!''" by (simp_all add: plain_def)
  then have keep: "esc ''new this is varstr_type!!!'' = ''new this is varstr_type!!!''"
      "esc ''new this is str_type!!!'' = ''new this is str_type!!!''" "esc datet = datet"
    using assms(2) plain_values by (simp_all add: escapes_def)
  have ch: "filter IsChanged (llbc_fields ?vs) = map (\<lambda>k. llbc_field k (?vs ! k)) [1, 2, 3, 4, 6, 7, 8]"
    by (simp add: llbc_fields_def upt9 changed_def llbc_field_def IsChanged_def)
  have asg: "map ?a (filter IsChanged (llbc_fields ?vs)) =
      [''`varstr_type`='' @ quoted ''new this is varstr_type!!!'', ''`str_type`='' @ quoted ''new this is str_type!!!'',
       ''`tiny_type`=2'', ''`blob_type`='' @ quoted (real_esc (blob_bytes pad)), ''`float_type`=3.140000'',
       ''`double_type`=3.141593'', ''`datetime_type`='' @ quoted datet]"
    unfolding ch
    by (simp add: changed_def llbc_assignment keep print_values)
      (simp add: llbc_info_def name_eq_def int_digits_def nat_digits.simps [of 2])
  have size: "buffer_size (foldl next_len 0 (filter IsChanged (llbc_fields ?vs))) = Inr 131198"
    unfolding ch
    by (simp add: changed_def llbc_field_def next_len_def IS_FIELD_NUM_def GetType_def GetLen_def
      llbc_info_def buffer_size_def Let_def)
  have "length (real_esc (blob_bytes pad)) \<le> 48"
    using escape_lawD(2) [OF law(2), of "blob_bytes pad"] length_blob_bytes [OF assms(1)] by simp
  then have len: "\<forall>x\<in>set (map ?a (filter IsChanged (llbc_fields ?vs))). length x < 131198"
    unfolding asg by (simp add: quoted_def datet_def)
  have types: "\<forall>f\<in>set (filter IsChanged (llbc_fields ?vs)). writable_type (GetType f) \<and> escapes_fit esc f"
    unfolding ch
    by (simp add: changed_def llbc_field_def GetType_def llbc_info_def writable_type_def escapes_fit_def text_type_def keep)
  have op: "BuildOperation esc real_esc (llbc_record ?vs) = Inr (Some (join (map ?a (filter IsChanged (llbc_fields ?vs)))))"
    unfolding asg by (rule llbc_operation [OF changed_typed law size asg _ len types]) simp
  show ?thesis
    using BuildOperation_no_nul [OF op] unfolding BuildUpdateSql_def op key_condition asg
    by (simp add: llbc_keys update_statement_def cstr_def [of "''llbc''"] cstr_def [of "''`id`=1''"] keep Let_def)
qed

lemma first_row_sent:
  assumes "llbc_server c log h pad" "connected db h" "db_fieldInfos db = llbc_cache" "length pad = 7"
    and "db_asyncThreadId db = Some self"
  obtains w' where "Database_Query_records c db self ''select * from llbc limit 1'' MODE_EDIT w =
      Inr (Some \<lparr>rs_recordNum = 1, rs_records = [Some (llbc_record (map (Pair False) (fetched pad)))]\<rparr>, db, w')"
    "log w' = log w @ [''select * from llbc limit 1'']"
proof -
  obtain conn where conn: "db_syncConn db = Some conn" "IsConnect conn" "mc_dbHandler conn = Some h"
    using connectedD [OF assms(2)] by blast
  let ?sql = "''select * from llbc limit 1''"
  let ?lens = "map (word_of_nat \<circ> length) (first_texts pad)"
  let ?rec = "llbc_record (map (Pair False) (fetched pad))"
  have sql: "cstr ?sql = ?sql" by (simp add: cstr_def)
  obtain w1 where w1: "mysql_real_query c h ?sql (scast (word_of_nat (length ?sql) :: sint32)) w = Inr (0, w1)" "log w1 = log w @ [?sql]"
    using server_query [OF assms(1)] by blast
  obtain r w2 where w2: "mysql_store_result c h w1 = Inr (Some r, w2)" "log w2 = log w @ [?sql]"
    "holds_first c pad r (mysql_data_seek c r 0 w2)"
    using server_result(2) [OF assms(1) w1(2)] w1(2) by auto
  then obtain w3 w4 where row: "mysql_fetch_row c r (mysql_data_seek c r 0 w2) = (Some (map (Some \<circ> c_literal) (first_texts pad)), w3)"
      "mysql_fetch_row c r w3 = (None, w4)" and num: "mysql_num_rows c r (mysql_data_seek c r 0 w2) = 1"
      and desc: "describes c r (mysql_data_seek c r 0 w2) ?lens"
    by (auto simp: holds_first_def)
  have "log (mysql_free_result c r w4) = log w @ [?sql]"
    using assms(1) row w2(2) unfolding llbc_server_def by (metis snd_conv)
  moreover have "Query_records c conn ?sql MODE_EDIT llbc_cache w =
      Inr (Some \<lparr>rs_recordNum = 1, rs_records = [Some ?rec]\<rparr>, conn, llbc_cache, mysql_free_result c r w4)"
    using conn w1(1) w2(1) row num desc first_fetched [OF assms(4)]
    by (simp add: Query_records_def Query_result_def sql describes_def new_Recordset_def GetSize_def WriteRecord_def
        slot_store_def vec_at_def Let_def)
  then have "Database_Query_records c db self ?sql MODE_EDIT w =
      Inr (Some \<lparr>rs_recordNum = 1, rs_records = [Some ?rec]\<rparr>, db, mysql_free_result c r w4)"
    using conn(1) assms(3,5) by (simp add: Database_Query_records_def check_async_thread_def)
  ultimately show thesis using that by blast
qed

lemma update_sent:
  assumes "llbc_server c log h pad" "connected db h" "length pad = 7" "escapes esc" "escapes (real_esc (Some h))"
  obtains r' w' where "RecordManipulator_Update c esc real_esc db (llbc_record (changed pad)) w = Inr (True, r', db, w')"
    "log w' = log w @ [update_statement esc (real_esc (Some h)) pad]"
proof -
  let ?r = "llbc_record (changed pad)"
  let ?sql = "update_statement esc (real_esc (Some h)) pad"
  obtain conn where conn: "db_syncConn db = Some conn" "GetHandler conn = Some h" using assms(2) by (auto simp: connected_def)
  then have built: "Database_BuildUpdateSql esc real_esc db ?r [] = Inr (True, ?sql)"
    using update_built [OF assms(3-5)] by (simp add: Database_BuildUpdateSql_def)
  obtain w' where w': "sync_query c db ?sql w = Inr (True, db, w')" "log w' = log w @ [cstr ?sql]"
    using sync_query_sent [OF assms(1,2)] by blast
  have "no_nul ?sql" using assms(4,5) by (simp add: update_statement_def escapes_def escape_law_def)
  moreover have "?sql \<noteq> []" by (simp add: update_statement_def)
  moreover obtain r' where "ClsEditFlag ?r = Inr r'"
    using ClsEditFlag_eq [OF llbc_wf [OF changed_typed]] by blast
  ultimately show thesis
    using that built w' by (simp add: RecordManipulator_Update_def Update_def llbc_keys)
qed

definition delete_task :: AsyncTask where
  "delete_task = \<lparr>at_sql = delete_sql, at_taskType = AsyncTask_ExecuteSql, at_task = TaskQuerySql False (Some 0)\<rparr>"

definition select_task :: AsyncTask where
  "select_task = \<lparr>at_sql = select_sql, at_taskType = AsyncTask_Query, at_task = TaskQueryRecordset MODE_READ None (Some 1)\<rparr>"

text \<open>What the test sends before the two asynchronous queries, and what it then leaves in queue \<open>j\<close> of \<open>n\<close>.\<close>

definition scenario_statements :: "(bytes \<Rightarrow> bytes) \<Rightarrow> (bytes \<Rightarrow> bytes) \<Rightarrow> bytes \<Rightarrow> bytes list" where
  "scenario_statements esc real_esc pad =
     [''drop table if exists `llbc`'', createTableSql] @
     concat (map (\<lambda>i. [''select * from llbc limit 0'', insert_text esc real_esc pad i]) [0..<101]) @
     [''select * from llbc limit 1'', update_statement esc real_esc pad]"

definition scenario_tasks :: "nat \<Rightarrow> nat \<Rightarrow> AsyncTask list" where
  "scenario_tasks n j = (if j = 1 mod n then [delete_task] else []) @ (if j = 2 mod n then [select_task] else [])"

lemma tasks_left:
  assumes "wf_db db" "db_asyncThreadId db = Some self"
  obtains db1 db2 where "QueryAsync_sql db self 1 delete_sql (Some 0) = Inr db1"
    "QueryAsync_records db1 self 2 select_sql MODE_READ (Some 1) = Inr db2"
    "db2 = db\<lparr>db_taskQueues := db_taskQueues db2\<rparr>"
    "\<forall>j<length (db_taskQueues db). aq_tasks (db_taskQueues db2 ! j) =
       aq_tasks (db_taskQueues db ! j) @ scenario_tasks (unat (db_asyncConnNum db)) j"
proof -
  let ?n = "unat (db_asyncConnNum db)"
  let ?push = "\<lambda>db i t. db\<lparr>db_taskQueues := (db_taskQueues db)[i := Push (db_taskQueues db ! i) t]\<rparr>"
  let ?db1 = "?push db (1 mod ?n) delete_task"
  let ?db2 = "?push ?db1 (2 mod ?n) select_task"
  have one: "AddAsyncTask db self 1 delete_task = Inr ?db1" "1 mod ?n < length (db_taskQueues db)"
    using AddAsyncTask_ok [OF assms, of 1 delete_task] by auto
  have "wf_db ?db1" using assms(1) by (simp add: wf_db_def)
  then have two: "AddAsyncTask ?db1 self 2 select_task = Inr ?db2" "2 mod ?n < length (db_taskQueues db)"
    using AddAsyncTask_ok [of ?db1 self 2 select_task] assms(2) by auto
  have "QueryAsync_sql db self 1 delete_sql (Some 0) = Inr ?db1"
    using one by (simp add: QueryAsync_sql_def delete_task_def delete_sql_def cstr_def)
  moreover have "QueryAsync_records ?db1 self 2 select_sql MODE_READ (Some 1) = Inr ?db2"
    using two by (simp add: QueryAsync_records_def select_task_def select_sql_def cstr_def)
  moreover have "?db2 = db\<lparr>db_taskQueues := db_taskQueues ?db2\<rparr>" by simp
  moreover have "\<forall>j<length (db_taskQueues db). aq_tasks (db_taskQueues ?db2 ! j) =
       aq_tasks (db_taskQueues db ! j) @ scenario_tasks ?n j"
    using one(2) two(2) by (auto simp: scenario_tasks_def Push_def nth_list_update)
  ultimately show thesis by (rule that)
qed

lemma cstr_sent: "cstr createTableSql = createTableSql" "cstr ''drop table if exists `llbc`'' = ''drop table if exists `llbc`''"
  by code_simp+

lemma cache_ok: "map_ok llbc_cache"
  by code_simp

lemma scenario_runs:
  assumes "llbc_server c log h pad" "length pad = 7" "escapes esc" "escapes (real_esc (Some h))"
    and "wf_db db" "db_asyncThreadId db = Some self" "connected db h" "db_fieldInfos db = []"
  shows "\<exists>db' w'. scenario_on c esc real_esc pad self db w = Inr (db', w') \<and>
      log w' = log w @ scenario_statements esc (real_esc (Some h)) pad \<and>
      db' = db\<lparr>db_fieldInfos := llbc_cache, db_taskQueues := db_taskQueues db'\<rparr> \<and>
      (\<forall>j<length (db_taskQueues db). aq_tasks (db_taskQueues db' ! j) =
         aq_tasks (db_taskQueues db ! j) @ scenario_tasks (unat (db_asyncConnNum db)) j)"
proof -
  let ?db = "db\<lparr>db_fieldInfos := llbc_cache\<rparr>"
  have same: "wf_db ?db" "db_asyncThreadId ?db = Some self" "connected ?db h" "db_fieldInfos ?db = llbc_cache"
    using assms(5-7) cache_ok by (simp_all add: wf_db_def connected_def)
  have thread: "Database_Query_sql c d self sql w = sync_query c d sql w" if "db_asyncThreadId d = Some self" for d sql w
    using that by (simp add: Database_Query_sql_def check_async_thread_def)
  obtain w1 where w1: "sync_query c db ''drop table if exists `llbc`'' w = Inr (True, db, w1)"
    "log w1 = log w @ [cstr ''drop table if exists `llbc`'']"
    using sync_query_sent [OF assms(1,7)] by blast
  obtain w2 where w2: "sync_query c db createTableSql w1 = Inr (True, db, w2)" "log w2 = log w1 @ [cstr createTableSql]"
    using sync_query_sent [OF assms(1,7)] by blast
  obtain w3 where w3: "insert_rounds c esc real_esc pad [0..<101] db w2 = Inr (?db, w3)"
    "log w3 = log w2 @ concat (map (\<lambda>i. [''select * from llbc limit 0'', insert_text esc (real_esc (Some h)) pad i]) [0..<101])"
    using insert_rounds_sent [where real_esc = real_esc, OF assms(1-4,7), of "[0..<101]" w2] assms(8) by auto
  obtain w4 where w4: "Database_Query_records c ?db self ''select * from llbc limit 1'' MODE_EDIT w3 =
      Inr (Some \<lparr>rs_recordNum = 1, rs_records = [Some (llbc_record (map (Pair False) (fetched pad)))]\<rparr>, ?db, w4)"
    "log w4 = log w3 @ [''select * from llbc limit 1'']"
    using first_row_sent [OF assms(1) same(3,4) assms(2) same(2)] by blast
  obtain r' w5 where w5: "RecordManipulator_Update c esc real_esc ?db (llbc_record (changed pad)) w4 = Inr (True, r', ?db, w5)"
    "log w5 = log w4 @ [update_statement esc (real_esc (Some h)) pad]"
    using update_sent [where real_esc = real_esc and w = w4, OF assms(1) same(3) assms(2-4)] by blast
  obtain db1 db2 where db2: "QueryAsync_sql ?db self 1 delete_sql (Some 0) = Inr db1"
    "QueryAsync_records db1 self 2 select_sql MODE_READ (Some 1) = Inr db2"
    "db2 = ?db\<lparr>db_taskQueues := db_taskQueues db2\<rparr>"
    "\<forall>j<length (db_taskQueues ?db). aq_tasks (db_taskQueues db2 ! j) =
       aq_tasks (db_taskQueues ?db ! j) @ scenario_tasks (unat (db_asyncConnNum ?db)) j"
    using tasks_left [OF same(1,2)] by blast
  have "Recordset_index \<lparr>rs_recordNum = 1, rs_records = [Some (llbc_record (map (Pair False) (fetched pad)))]\<rparr> 0 =
      Inr (llbc_record (map (Pair False) (fetched pad)))"
    by (simp add: Recordset_index_def slot_peek_def vec_at_def)
  then have "scenario_on c esc real_esc pad self db w = Inr (db2, w5)"
    using w1(1) w2(1) w3(1) w4(1) w5(1) db2(1,2) check_first [OF assms(2)] change_first [OF assms(2)]
    by (simp add: scenario_on_def thread [OF assms(6)] cong del: rbind_cong)
  moreover have "log w5 = log w @ scenario_statements esc (real_esc (Some h)) pad"
    using w1(2) w2(2) w3(2) w4(2) w5(2) by (simp add: scenario_statements_def cstr_sent del: upt_rec_numeral)
  ultimately show ?thesis using db2(3,4) by auto
qed


text \<open>The two queries share a queue, and so an order, only on a database with one asynchronous connection.\<close>

lemma scenario_tasks_apart:
  assumes "1 < n"
  shows "scenario_tasks n j \<in> {[], [delete_task], [select_task]}"
    and "1 mod n < n \<and> delete_task \<in> set (scenario_tasks n (1 mod n))"
proof -
  have "1 mod n \<noteq> 2 mod n" using assms by (cases "n = 2") auto
  then show "scenario_tasks n j \<in> {[], [delete_task], [select_task]}" by (auto simp: scenario_tasks_def)
  show "1 mod n < n \<and> delete_task \<in> set (scenario_tasks n (1 mod n))" using assms by (simp add: scenario_tasks_def)
qed

lemma scenario_tasks_together: "scenario_tasks 1 0 = [delete_task, select_task]"
  by (simp add: scenario_tasks_def)

text \<open>Without a manager the component faults, without a default database it does nothing.\<close>

lemma DatabaseTest_none:
  "LogicComp_OnStart c esc real_esc pad self None w = Inl NullDeref"
  "GetDefaultDatabase mgr = None \<Longrightarrow> LogicComp_OnStart c esc real_esc pad self (Some mgr) w = Inr (True, mgr, w)"
  by (simp_all add: LogicComp_OnStart_def DatabaseTest_def)

text \<open>The callback of the last query prints the ids of all rows in their order, and fails on a null result.\<close>

lemma read_lines_ids:
  "\<forall>i\<in>set is. \<exists>rec. Recordset_index recSet (word_of_nat i) = Inr rec \<and> Record_GetInt_name rec ''id'' = Inr (ids i) \<Longrightarrow>
    read_lines recSet is = Inr (map (\<lambda>i. ''mysql acync read id: '' @ print_signed (ids i)) is)"
  by (induction "is") auto

lemma read_callback_ids:
  assumes "\<forall>i<unat (GetSize recSet). \<exists>rec. Recordset_index recSet (word_of_nat i) = Inr rec \<and> Record_GetInt_name rec ''id'' = Inr (ids i)"
  shows "run_callback (QueryCB k (Some recSet)) = Inr (map (\<lambda>i. ''mysql acync read id: '' @ print_signed (ids i)) [0..<unat (GetSize recSet)])"
    and "run_callback (QueryCB k None) = Inl AssertFail"
  using assms read_lines_ids [of "[0..<unat (GetSize recSet)]" recSet ids] by (simp_all add: run_callback_def read_callback_def)

text \<open>Such a server: it keeps the statements it is sent and whether the row of the current result was fetched.\<close>

definition sample_server :: "bytes \<Rightarrow> (bytes list \<times> bool) mysql_client" where
  "sample_server pad = (let first = (\<lambda>w. fst w \<noteq> [] \<and> last (fst w) = ''select * from llbc limit 1'') in
     \<lparr>mysql_init = (\<lambda>w. (Some 1, w)), mysql_real_connect = (\<lambda>h cfg w. (True, w)),
      mysql_options = (\<lambda>h opt v w. w), mysql_close = (\<lambda>h w. Inr w), mysql_ping = (\<lambda>h w. Inr (0, w)),
      mysql_errno = (\<lambda>h w. Inr 0), mysql_error = (\<lambda>h w. Inr []),
      mysql_real_query = (\<lambda>h sql len w. Inr (0, fst w @ [sql], False)),
      mysql_store_result = (\<lambda>h w. Inr (Some 0, fst w, False)), mysql_data_seek = (\<lambda>r pos w. (fst w, False)),
      mysql_fetch_fields = (\<lambda>r w. Some (llbc_columns
        (if first w then map (word_of_nat \<circ> length) (first_texts pad) else replicate 9 0))),
      mysql_fetch_lengths = (\<lambda>r w. if snd w then Some (map (word_of_nat \<circ> length) (first_texts pad)) else None),
      mysql_num_fields = (\<lambda>r w. 9), mysql_num_rows = (\<lambda>r w. if first w then 1 else 0),
      mysql_fetch_row = (\<lambda>r w. if first w \<and> \<not> snd w then (Some (map (Some \<circ> c_literal) (first_texts pad)), fst w, True)
        else (None, w)),
      mysql_free_result = (\<lambda>r w. w)\<rparr>)"

lemma sample_server_ok: "llbc_server (sample_server pad) fst h pad"
  by (simp add: llbc_server_def sample_server_def describes_def holds_first_def Let_def) blast

lemma sample_escapes: "escapes sample_escape"
proof -
  have "sample_escape s = s" if "plain s" for s
    using that by (induction s) (simp_all add: sample_escape_def plain_def)
  then show ?thesis using sample_escape_law by (simp add: escapes_def)
qed


end
