(* ===== verification/My_ByteOrder.thy ===== *)
theory My_ByteOrder
  imports LLBC_Prelude
begin

text \<open>
  The byte order functions of the MySQL client headers: \<open>my_byteorder.h\<close>, the two versions of the
  integer functions (\<open>byte_order_generic.h\<close>, \<open>byte_order_generic_x86.h\<close>) and the two versions of the
  functions for machine format and floating point (\<open>little_endian.h\<close>, \<open>big_endian.h\<close>). A memory maps
  addresses to bytes; an output parameter is a result. A \<open>float\<close> or \<open>double\<close> is its object
  representation, a word. The prefixes \<open>gen_\<close>, \<open>x86_\<close>, \<open>le_\<close> and \<open>be_\<close> name the header a function is from.
\<close>

unbundle bit_operations_syntax

named_theorems byte_defs \<open>definitions of the byte order functions\<close>

type_synonym uchar = uint8
type_synonym memory = "nat \<Rightarrow> uchar"

subsection \<open>Objects in memory\<close>

text \<open>What \<open>*(uintN_t *) p\<close> reads, and what an assignment to it writes, on a little-endian machine.\<close>

fun le_value :: "uchar list \<Rightarrow> nat" where
  "le_value [] = 0"
| "le_value (b # bs) = unat b + 256 * le_value bs"

definition bytes_at :: "memory \<Rightarrow> nat \<Rightarrow> nat \<Rightarrow> uchar list" where
  "bytes_at m p n = map (\<lambda>i. m (p + i)) [0..<n]"

fun put_bytes :: "memory \<Rightarrow> nat \<Rightarrow> uchar list \<Rightarrow> memory" where
  "put_bytes m p [] = m"
| "put_bytes m p (b # bs) = put_bytes (m(p := b)) (Suc p) bs"

text \<open>The object representation of a word: its bytes, on a little-endian and on a big-endian machine.\<close>

definition le_bytes :: "'a::len word \<Rightarrow> uchar list" where
  "le_bytes w = map (\<lambda>i. ucast (drop_bit (8 * i) w)) [0..<LENGTH('a) div 8]"

definition be_bytes :: "'a::len word \<Rightarrow> uchar list" where
  "be_bytes w = rev (le_bytes w)"

definition le_load :: "memory \<Rightarrow> nat \<Rightarrow> 'a::len word" where
  "le_load m p = of_nat (le_value (bytes_at m p (LENGTH('a) div 8)))"

definition le_store :: "memory \<Rightarrow> nat \<Rightarrow> 'a::len word \<Rightarrow> memory" where
  "le_store m p w = put_bytes m p (le_bytes w)"

definition be_load :: "memory \<Rightarrow> nat \<Rightarrow> 'a::len word" where
  "be_load m p = of_nat (le_value (rev (bytes_at m p (LENGTH('a) div 8))))"

definition be_store :: "memory \<Rightarrow> nat \<Rightarrow> 'a::len word \<Rightarrow> memory" where
  "be_store m p w = put_bytes m p (be_bytes w)"

text \<open>An object on a big-endian machine that is filled byte by byte.\<close>

definition be_object :: "uchar list \<Rightarrow> 'a::len word" where
  "be_object bs = of_nat (le_value (rev bs))"

definition le_object :: "uchar list \<Rightarrow> 'a::len word" where
  "le_object bs = of_nat (le_value bs)"

subsection \<open>\<open>byte_order_generic.h\<close>\<close>

definition gen_sint2korr :: "memory \<Rightarrow> nat \<Rightarrow> sint16" where
  [byte_defs]: "gen_sint2korr m p = ucast ((ucast (m p) :: sint32) + push_bit 8 (ucast (m (p + 1))))"

definition gen_sint4korr :: "memory \<Rightarrow> nat \<Rightarrow> sint32" where
  [byte_defs]: "gen_sint4korr m p =
     ucast (m p) + push_bit 8 (ucast (m (p + 1))) + push_bit 16 (ucast (m (p + 2))) + push_bit 24 (ucast (m (p + 3)))"

definition gen_uint2korr :: "memory \<Rightarrow> nat \<Rightarrow> uint16" where
  [byte_defs]: "gen_uint2korr m p = ucast ((ucast (m p) :: sint32) + push_bit 8 (ucast (m (p + 1))))"

definition gen_uint4korr :: "memory \<Rightarrow> nat \<Rightarrow> uint32" where
  [byte_defs]: "gen_uint4korr m p =
     ucast (m p) + push_bit 8 (ucast (m (p + 1))) + push_bit 16 (ucast (m (p + 2))) + push_bit 24 (ucast (m (p + 3)))"

definition gen_uint8korr :: "memory \<Rightarrow> nat \<Rightarrow> uint64" where
  [byte_defs]: "gen_uint8korr m p =
     ucast ((ucast (m p) :: uint32) + push_bit 8 (ucast (m (p + 1))) + push_bit 16 (ucast (m (p + 2))) +
            push_bit 24 (ucast (m (p + 3)))) +
     push_bit 32 (ucast ((ucast (m (p + 4)) :: uint32) + push_bit 8 (ucast (m (p + 5))) + push_bit 16 (ucast (m (p + 6))) +
            push_bit 24 (ucast (m (p + 7)))))"

definition gen_sint8korr :: "memory \<Rightarrow> nat \<Rightarrow> sint64" where
  [byte_defs]: "gen_sint8korr m p = gen_uint8korr m p"

definition gen_int2store :: "memory \<Rightarrow> nat \<Rightarrow> uint16 \<Rightarrow> memory" where
  [byte_defs]: "gen_int2store m p a =
     (let def_temp = (ucast a :: uint32) in m(p := ucast def_temp, p + 1 := ucast (drop_bit 8 def_temp)))"

definition gen_int4store :: "memory \<Rightarrow> nat \<Rightarrow> uint32 \<Rightarrow> memory" where
  [byte_defs]: "gen_int4store m p a =
     m(p := ucast a, p + 1 := ucast (drop_bit 8 a), p + 2 := ucast (drop_bit 16 a), p + 3 := ucast (drop_bit 24 a))"

definition gen_int8store :: "memory \<Rightarrow> nat \<Rightarrow> uint64 \<Rightarrow> memory" where
  [byte_defs]: "gen_int8store m p a =
     (let def_temp = (ucast a :: uint32); def_temp2 = (ucast (drop_bit 32 a) :: uint32)
      in gen_int4store (gen_int4store m p def_temp) (p + 4) def_temp2)"

subsection \<open>\<open>byte_order_generic_x86.h\<close>\<close>

definition x86_sint2korr :: "memory \<Rightarrow> nat \<Rightarrow> sint16" where
  [byte_defs]: "x86_sint2korr m p = le_load m p"

definition x86_sint4korr :: "memory \<Rightarrow> nat \<Rightarrow> sint32" where
  [byte_defs]: "x86_sint4korr m p = le_load m p"

definition x86_uint2korr :: "memory \<Rightarrow> nat \<Rightarrow> uint16" where
  [byte_defs]: "x86_uint2korr m p = le_load m p"

definition x86_uint4korr :: "memory \<Rightarrow> nat \<Rightarrow> uint32" where
  [byte_defs]: "x86_uint4korr m p = le_load m p"

definition x86_uint8korr :: "memory \<Rightarrow> nat \<Rightarrow> uint64" where
  [byte_defs]: "x86_uint8korr m p = le_load m p"

definition x86_sint8korr :: "memory \<Rightarrow> nat \<Rightarrow> sint64" where
  [byte_defs]: "x86_sint8korr m p = le_load m p"

definition x86_int2store :: "memory \<Rightarrow> nat \<Rightarrow> uint16 \<Rightarrow> memory" where
  [byte_defs]: "x86_int2store m p a = le_store m p a"

definition x86_int4store :: "memory \<Rightarrow> nat \<Rightarrow> uint32 \<Rightarrow> memory" where
  [byte_defs]: "x86_int4store m p a = le_store m p a"

definition x86_int8store :: "memory \<Rightarrow> nat \<Rightarrow> uint64 \<Rightarrow> memory" where
  [byte_defs]: "x86_int8store m p a = le_store m p a"

subsection \<open>\<open>my_byteorder.h\<close>\<close>

definition sint3korr :: "memory \<Rightarrow> nat \<Rightarrow> sint32" where
  [byte_defs]: "sint3korr m p =
     (if (ucast (m (p + 2)) :: sint32) AND 128 \<noteq> 0 then
        push_bit 24 255 OR push_bit 16 (ucast (m (p + 2))) OR push_bit 8 (ucast (m (p + 1))) OR ucast (m p)
      else push_bit 16 (ucast (m (p + 2))) OR push_bit 8 (ucast (m (p + 1))) OR ucast (m p))"

definition uint3korr :: "memory \<Rightarrow> nat \<Rightarrow> uint32" where
  [byte_defs]: "uint3korr m p = ucast (m p) + push_bit 8 (ucast (m (p + 1))) + push_bit 16 (ucast (m (p + 2)))"

definition uint5korr :: "memory \<Rightarrow> nat \<Rightarrow> uint64" where
  [byte_defs]: "uint5korr m p =
     ucast ((ucast (m p) :: uint32) + push_bit 8 (ucast (m (p + 1))) + push_bit 16 (ucast (m (p + 2))) +
            push_bit 24 (ucast (m (p + 3)))) + push_bit 32 (ucast (m (p + 4)))"

definition uint6korr :: "memory \<Rightarrow> nat \<Rightarrow> uint64" where
  [byte_defs]: "uint6korr m p =
     ucast ((ucast (m p) :: uint32) + push_bit 8 (ucast (m (p + 1))) + push_bit 16 (ucast (m (p + 2))) +
            push_bit 24 (ucast (m (p + 3)))) + push_bit 32 (ucast (m (p + 4))) + push_bit 40 (ucast (m (p + 5)))"

definition int3store :: "memory \<Rightarrow> nat \<Rightarrow> uint32 \<Rightarrow> memory" where
  [byte_defs]: "int3store m p a = m(p := ucast a, p + 1 := ucast (drop_bit 8 a), p + 2 := ucast (drop_bit 16 a))"

definition int5store :: "memory \<Rightarrow> nat \<Rightarrow> uint64 \<Rightarrow> memory" where
  [byte_defs]: "int5store m p a =
     m(p := ucast a, p + 1 := ucast (drop_bit 8 a), p + 2 := ucast (drop_bit 16 a), p + 3 := ucast (drop_bit 24 a),
       p + 4 := ucast (drop_bit 32 a))"

definition int6store :: "memory \<Rightarrow> nat \<Rightarrow> uint64 \<Rightarrow> memory" where
  [byte_defs]: "int6store m p a =
     m(p := ucast a, p + 1 := ucast (drop_bit 8 a), p + 2 := ucast (drop_bit 16 a), p + 3 := ucast (drop_bit 24 a),
       p + 4 := ucast (drop_bit 32 a), p + 5 := ucast (drop_bit 40 a))"

subsection \<open>\<open>little_endian.h\<close>\<close>

definition le_float4get :: "memory \<Rightarrow> nat \<Rightarrow> 32 word" where
  [byte_defs]: "le_float4get m p = le_load m p"

definition le_float4store :: "memory \<Rightarrow> nat \<Rightarrow> 32 word \<Rightarrow> memory" where
  [byte_defs]: "le_float4store m p x = le_store m p x"

definition le_float8get :: "memory \<Rightarrow> nat \<Rightarrow> 64 word" where
  [byte_defs]: "le_float8get m p = le_load m p"

definition le_float8store :: "memory \<Rightarrow> nat \<Rightarrow> 64 word \<Rightarrow> memory" where
  [byte_defs]: "le_float8store m p x = le_store m p x"

definition le_floatget :: "memory \<Rightarrow> nat \<Rightarrow> 32 word" where
  [byte_defs]: "le_floatget m p = le_float4get m p"

definition le_floatstore :: "memory \<Rightarrow> nat \<Rightarrow> 32 word \<Rightarrow> memory" where
  [byte_defs]: "le_floatstore m p x = le_float4store m p x"

text \<open>
  The version for hardware whose integers are little-endian and whose doubles are word-swapped;
  the argument is the representation in memory of the double, byte 0 first.
\<close>

definition bi_doublestore :: "memory \<Rightarrow> nat \<Rightarrow> uchar list \<Rightarrow> memory" where
  [byte_defs]: "bi_doublestore m p v =
     m(p := v ! 4, p + 1 := v ! 5, p + 2 := v ! 6, p + 3 := v ! 7, p + 4 := v ! 0, p + 5 := v ! 1, p + 6 := v ! 2, p + 7 := v ! 3)"

definition bi_doubleget :: "memory \<Rightarrow> nat \<Rightarrow> uchar list" where
  [byte_defs]: "bi_doubleget m p = [m (p + 4), m (p + 5), m (p + 6), m (p + 7), m p, m (p + 1), m (p + 2), m (p + 3)]"

definition le_doublestore :: "memory \<Rightarrow> nat \<Rightarrow> 64 word \<Rightarrow> memory" where
  [byte_defs]: "le_doublestore m p x = le_store m p x"

definition le_doubleget :: "memory \<Rightarrow> nat \<Rightarrow> 64 word" where
  [byte_defs]: "le_doubleget m p = le_load m p"

definition le_ushortget :: "memory \<Rightarrow> nat \<Rightarrow> uint16" where
  [byte_defs]: "le_ushortget m p = x86_uint2korr m p"

definition le_shortget :: "memory \<Rightarrow> nat \<Rightarrow> sint16" where
  [byte_defs]: "le_shortget m p = x86_sint2korr m p"

definition le_longget :: "memory \<Rightarrow> nat \<Rightarrow> sint32" where
  [byte_defs]: "le_longget m p = x86_sint4korr m p"

definition le_ulongget :: "memory \<Rightarrow> nat \<Rightarrow> uint32" where
  [byte_defs]: "le_ulongget m p = x86_uint4korr m p"

definition le_shortstore :: "memory \<Rightarrow> nat \<Rightarrow> sint16 \<Rightarrow> memory" where
  [byte_defs]: "le_shortstore m p v = x86_int2store m p v"

definition le_longstore :: "memory \<Rightarrow> nat \<Rightarrow> sint32 \<Rightarrow> memory" where
  [byte_defs]: "le_longstore m p v = x86_int4store m p v"

definition le_longlongget :: "memory \<Rightarrow> nat \<Rightarrow> sint64" where
  [byte_defs]: "le_longlongget m p = le_load m p"

definition le_longlongstore :: "memory \<Rightarrow> nat \<Rightarrow> sint64 \<Rightarrow> memory" where
  [byte_defs]: "le_longlongstore m p v = le_store m p v"

subsection \<open>\<open>big_endian.h\<close>\<close>

definition be_float4store :: "memory \<Rightarrow> nat \<Rightarrow> 32 word \<Rightarrow> memory" where
  [byte_defs]: "be_float4store m p a =
     (let v = be_bytes a in m(p := v ! 3, p + 1 := v ! 2, p + 2 := v ! 1, p + 3 := v ! 0))"

definition be_float4get :: "memory \<Rightarrow> nat \<Rightarrow> 32 word" where
  [byte_defs]: "be_float4get m p = be_object [m (p + 3), m (p + 2), m (p + 1), m p]"

definition be_float8store :: "memory \<Rightarrow> nat \<Rightarrow> 64 word \<Rightarrow> memory" where
  [byte_defs]: "be_float8store m p a =
     (let v = be_bytes a
      in m(p := v ! 7, p + 1 := v ! 6, p + 2 := v ! 5, p + 3 := v ! 4, p + 4 := v ! 3, p + 5 := v ! 2, p + 6 := v ! 1, p + 7 := v ! 0))"

definition be_float8get :: "memory \<Rightarrow> nat \<Rightarrow> 64 word" where
  [byte_defs]: "be_float8get m p =
     be_object [m (p + 7), m (p + 6), m (p + 5), m (p + 4), m (p + 3), m (p + 2), m (p + 1), m p]"

definition be_ushortget :: "memory \<Rightarrow> nat \<Rightarrow> uint16" where
  [byte_defs]: "be_ushortget m p = ucast ((ucast (m (p + 1)) :: sint32) + push_bit 8 (ucast (m p)))"

definition be_shortget :: "memory \<Rightarrow> nat \<Rightarrow> sint16" where
  [byte_defs]: "be_shortget m p = ucast ((ucast (m (p + 1)) :: sint32) + push_bit 8 (ucast (m p)))"

definition be_longget :: "memory \<Rightarrow> nat \<Rightarrow> sint32" where
  [byte_defs]: "be_longget m p = be_object [m p, m (p + 1), m (p + 2), m (p + 3)]"

definition be_ulongget :: "memory \<Rightarrow> nat \<Rightarrow> uint32" where
  [byte_defs]: "be_ulongget m p = be_object [m p, m (p + 1), m (p + 2), m (p + 3)]"

definition be_shortstore :: "memory \<Rightarrow> nat \<Rightarrow> sint16 \<Rightarrow> memory" where
  [byte_defs]: "be_shortstore m p a =
     (let def_temp = (scast a :: uint32) in m(p + 1 := ucast def_temp, p := ucast (drop_bit 8 def_temp)))"

definition be_longstore :: "memory \<Rightarrow> nat \<Rightarrow> sint32 \<Rightarrow> memory" where
  [byte_defs]: "be_longstore m p a =
     m(p + 3 := ucast a, p + 2 := ucast (signed_drop_bit 8 a), p + 1 := ucast (signed_drop_bit 16 a), p := ucast (signed_drop_bit 24 a))"

definition be_floatget :: "memory \<Rightarrow> nat \<Rightarrow> 32 word" where
  [byte_defs]: "be_floatget m p = be_load m p"

definition be_floatstore :: "memory \<Rightarrow> nat \<Rightarrow> 32 word \<Rightarrow> memory" where
  [byte_defs]: "be_floatstore m p x = be_store m p x"

definition be_doubleget :: "memory \<Rightarrow> nat \<Rightarrow> 64 word" where
  [byte_defs]: "be_doubleget m p = be_load m p"

definition be_doublestore :: "memory \<Rightarrow> nat \<Rightarrow> 64 word \<Rightarrow> memory" where
  [byte_defs]: "be_doublestore m p x = be_store m p x"

definition be_longlongget :: "memory \<Rightarrow> nat \<Rightarrow> sint64" where
  [byte_defs]: "be_longlongget m p = be_load m p"

definition be_longlongstore :: "memory \<Rightarrow> nat \<Rightarrow> sint64 \<Rightarrow> memory" where
  [byte_defs]: "be_longlongstore m p x = be_store m p x"

subsection \<open>Bytes of a number\<close>

lemma le_value_less: "le_value bs < 256 ^ length bs"
proof (induction bs)
  case (Cons b bs)
  have "unat b < 256" using unsigned_less [of b] by simp
  with Cons show ?case by simp
qed simp

lemma le_value_append: "le_value (bs @ cs) = le_value bs + 256 ^ length bs * le_value cs"
  by (induction bs) (simp_all add: algebra_simps)

lemma unat_byte: "unat (ucast (drop_bit (8 * i) w) :: uchar) = unat w div 256 ^ i mod 256"
proof -
  have "(2::nat) ^ (8 * i) = 256 ^ i" by (simp add: power_mult)
  then show ?thesis
    by (simp only: unsigned_ucast_eq unsigned_drop_bit_eq) (simp add: take_bit_eq_mod drop_bit_eq_div)
qed

lemma le_value_bytes: "le_value (map (\<lambda>i. ucast (drop_bit (8 * i) w)) [0..<n]) = unat w mod 256 ^ n"
proof (induction n)
  case (Suc n)
  let ?f = "\<lambda>i. ucast (drop_bit (8 * i) w) :: uchar"
  have "le_value (map ?f [0..<Suc n]) = le_value (map ?f [0..<n]) + 256 ^ n * unat (?f n)"
    by (simp add: le_value_append)
  also have "\<dots> = 256 ^ n * (unat w div 256 ^ n mod 256) + unat w mod 256 ^ n"
    unfolding unat_byte Suc by simp
  also have "\<dots> = unat w mod 256 ^ Suc n"
    by (simp only: power_Suc mult.commute [of 256] mod_mult2_eq)
  finally show ?case .
qed simp

lemma push_byte: "push_bit n (ucast (b :: uchar) :: 'a::len word) = of_nat (2 ^ n * unat b)"
  by (simp add: push_bit_eq_mult)

lemma push_of_nat: "push_bit n (of_nat k :: 'a::len word) = of_nat (2 ^ n * k)"
  by (simp add: push_bit_eq_mult)

lemma byte_of_nat: "(ucast (b :: uchar) :: 'a::len word) = of_nat (unat b)"
  by simp

lemma ucast_sum: "n < 2 ^ LENGTH('b) \<Longrightarrow> (ucast (of_nat n :: 'b::len word) :: 'a::len word) = of_nat n"
  by (simp add: word_unat_eq_iff unsigned_ucast_eq unsigned_of_nat take_bit_nat_eq_self)

lemma sum2: "(ucast a :: 'a::len word) + push_bit 8 (ucast b) = of_nat (le_value [a, b])"
  unfolding push_byte unfolding byte_of_nat of_nat_add [symmetric] by (rule arg_cong [of _ _ of_nat]) simp

lemma sum_next:
  "(of_nat (le_value [a, b]) :: 'a::len word) + push_bit 16 (ucast c) = of_nat (le_value [a, b, c])"
  "(of_nat (le_value [a, b, c]) :: 'a::len word) + push_bit 24 (ucast d) = of_nat (le_value [a, b, c, d])"
  "(of_nat (le_value [a, b, c, d]) :: 'a::len word) + push_bit 32 (ucast e) = of_nat (le_value [a, b, c, d, e])"
  "(of_nat (le_value [a, b, c, d, e]) :: 'a::len word) + push_bit 40 (ucast f) = of_nat (le_value [a, b, c, d, e, f])"
  unfolding push_byte of_nat_add [symmetric] by (rule arg_cong [of _ _ of_nat], simp)+

lemma le_value_2: "le_value [a, b] < 2 ^ LENGTH(32)"
  and le_value_4: "le_value [a, b, c, d] < 2 ^ LENGTH(32)"
  using le_value_less [of "[a, b]"] le_value_less [of "[a, b, c, d]"] by simp_all

lemmas to_value = sum2 sum_next ucast_sum [OF le_value_4] ucast_sum [OF le_value_2] 

subsection \<open>Loads\<close>

lemma bytes_at_2: "bytes_at m p 2 = [m p, m (p + 1)]"
  and bytes_at_4: "bytes_at m p 4 = [m p, m (p + 1), m (p + 2), m (p + 3)]"
  and bytes_at_8: "bytes_at m p 8 = [m p, m (p + 1), m (p + 2), m (p + 3), m (p + 4), m (p + 5), m (p + 6), m (p + 7)]"
  by (simp_all add: bytes_at_def upt_rec eval_nat_numeral)

lemma le_load_16: "(le_load m p :: 16 word) = of_nat (le_value [m p, m (p + 1)])"
  and le_load_32: "(le_load m p :: 32 word) = of_nat (le_value [m p, m (p + 1), m (p + 2), m (p + 3)])"
  and le_load_64: "(le_load m p :: 64 word) =
    of_nat (le_value [m p, m (p + 1), m (p + 2), m (p + 3), m (p + 4), m (p + 5), m (p + 6), m (p + 7)])"
  by (simp_all add: le_load_def bytes_at_2 bytes_at_4 bytes_at_8)

lemma gen_korr_16: "gen_sint2korr m p = le_load m p" "gen_uint2korr m p = le_load m p"
  by (simp_all only: gen_sint2korr_def gen_uint2korr_def le_load_16 to_value)

lemma gen_korr_32: "gen_sint4korr m p = le_load m p" "gen_uint4korr m p = le_load m p"
  by (simp_all only: gen_sint4korr_def gen_uint4korr_def le_load_32 to_value)

lemma gen_korr_64: "gen_uint8korr m p = le_load m p" "gen_sint8korr m p = le_load m p"
  unfolding gen_sint8korr_def gen_uint8korr_def le_load_64 to_value push_of_nat of_nat_add [symmetric]
  by (rule arg_cong [of _ _ of_nat], simp)+

subsection \<open>Stores\<close>

lemma put_bytes_2: "put_bytes m p [a, b] = m(p := a, p + 1 := b)"
  and put_bytes_4: "put_bytes m p [a, b, c, d] = m(p := a, p + 1 := b, p + 2 := c, p + 3 := d)"
  and put_bytes_8: "put_bytes m p [a, b, c, d, e, f, g, h] =
    m(p := a, p + 1 := b, p + 2 := c, p + 3 := d, p + 4 := e, p + 5 := f, p + 6 := g, p + 7 := h)"
  by (simp_all add: eval_nat_numeral)

lemma le_bytes_16: "le_bytes (w :: 16 word) = [ucast w, ucast (drop_bit 8 w)]"
  and le_bytes_32: "le_bytes (v :: 32 word) = [ucast v, ucast (drop_bit 8 v), ucast (drop_bit 16 v), ucast (drop_bit 24 v)]"
  and le_bytes_64: "le_bytes (u :: 64 word) =
    [ucast u, ucast (drop_bit 8 u), ucast (drop_bit 16 u), ucast (drop_bit 24 u),
     ucast (drop_bit 32 u), ucast (drop_bit 40 u), ucast (drop_bit 48 u), ucast (drop_bit 56 u)]"
  by (simp_all add: le_bytes_def upt_rec)

lemmas le_store_16 = le_store_def [where 'a = 16, unfolded le_bytes_16 put_bytes_2]
lemmas le_store_32 = le_store_def [where 'a = 32, unfolded le_bytes_32 put_bytes_4]
lemmas le_store_64 = le_store_def [where 'a = 64, unfolded le_bytes_64 put_bytes_8]

lemma byte_of_ucast:
  "n + 8 \<le> LENGTH('b) \<Longrightarrow> (ucast (drop_bit n (ucast (w :: 'a::len word) :: 'b::len word)) :: uchar) = ucast (drop_bit n w)"
  by (rule bit_word_eqI) (auto simp: bit_simps)

lemma gen_store_16: "gen_int2store m p a = le_store m p a"
  using byte_of_ucast [of 0 a, where 'b = 32] byte_of_ucast [of 8 a, where 'b = 32] by (simp add: gen_int2store_def le_store_16)

lemma gen_store_32: "gen_int4store m p a = le_store m p a"
  by (simp add: gen_int4store_def le_store_32)

lemma gen_store_64: "gen_int8store m p a = le_store m p a"
proof -
  have hi: "(ucast (drop_bit n (ucast (drop_bit 32 a) :: uint32)) :: uchar) = ucast (drop_bit (32 + n) a)" if "n + 8 \<le> 32" for n
    using that by (intro bit_word_eqI) (auto simp: bit_simps ac_simps)
  show ?thesis
    using byte_of_ucast [of 0 a, where 'b = 32] byte_of_ucast [of 8 a, where 'b = 32] byte_of_ucast [of 16 a, where 'b = 32]
      byte_of_ucast [of 24 a, where 'b = 32] hi [of 0] hi [of 8] hi [of 16] hi [of 24]
    by (simp add: gen_int8store_def gen_int4store_def le_store_64 Let_def add.commute [of _ p])
qed

text \<open>C24: The optimised x86 functions and the portable ones read and write the same: the choice made in \<open>my_byteorder.h\<close> does not change the format.\<close>

theorem x86_equals_generic:
  "x86_sint2korr m p = gen_sint2korr m p \<and> x86_uint2korr m p = gen_uint2korr m p \<and>
   x86_sint4korr m p = gen_sint4korr m p \<and> x86_uint4korr m p = gen_uint4korr m p \<and>
   x86_sint8korr m p = gen_sint8korr m p \<and> x86_uint8korr m p = gen_uint8korr m p \<and>
   x86_int2store m p a = gen_int2store m p a \<and> x86_int4store m p b = gen_int4store m p b \<and>
   x86_int8store m p c = gen_int8store m p c"
  by (simp only: x86_sint2korr_def x86_uint2korr_def x86_sint4korr_def x86_uint4korr_def x86_sint8korr_def x86_uint8korr_def
    x86_int2store_def x86_int4store_def x86_int8store_def gen_korr_16 gen_korr_32 gen_korr_64
    gen_store_16 gen_store_32 gen_store_64)

text \<open>C26: On a big-endian machine the floating point functions swap the bytes, so they write and read the format of a little-endian machine.\<close>

theorem float_format_is_machine_independent:
  "be_float4store m p x = le_float4store m p x \<and> be_float8store m p y = le_float8store m p y \<and>
   be_float4get m p = le_float4get m p \<and> be_float8get m p = le_float8get m p"
  by (simp add: be_float4store_def be_float8store_def be_float4get_def be_float8get_def le_float4store_def le_float8store_def
    le_float4get_def le_float8get_def be_bytes_def be_object_def le_bytes_32 le_bytes_64 le_store_32 le_store_64
    le_load_32 le_load_64)

subsection \<open>Round trips\<close>

lemma le_value_3: "le_value [ucast a, ucast (drop_bit 8 a), ucast (drop_bit 16 a)] = unat (a :: uint32) mod 2 ^ 24"
  using le_value_bytes [of a 3] by (simp add: upt_rec)

lemma le_value_5: "le_value [ucast a, ucast (drop_bit 8 a), ucast (drop_bit 16 a), ucast (drop_bit 24 a),
    ucast (drop_bit 32 a)] = unat (a :: uint64) mod 2 ^ 40"
  using le_value_bytes [of a 5] by (simp add: upt_rec)

lemma le_value_6: "le_value [ucast a, ucast (drop_bit 8 a), ucast (drop_bit 16 a), ucast (drop_bit 24 a),
    ucast (drop_bit 32 a), ucast (drop_bit 40 a)] = unat (a :: uint64) mod 2 ^ 48"
  using le_value_bytes [of a 6] by (simp add: upt_rec)

lemma unat_small:
  assumes "k \<le> LENGTH('a)"
  shows "unat (of_nat (n mod 2 ^ k) :: 'a::len word) = n mod 2 ^ k"
proof -
  have "(2::nat) ^ k \<le> 2 ^ LENGTH('a)" using assms by (rule power_increasing) simp
  then have "n mod 2 ^ k < 2 ^ LENGTH('a)" by (rule less_le_trans [rotated]) simp
  then show ?thesis by (simp add: unsigned_of_nat take_bit_nat_eq_self)
qed

lemma korr_values:
  "uint3korr m p = of_nat (le_value [m p, m (p + 1), m (p + 2)])"
  "uint5korr m p = of_nat (le_value [m p, m (p + 1), m (p + 2), m (p + 3), m (p + 4)])"
  "uint6korr m p = of_nat (le_value [m p, m (p + 1), m (p + 2), m (p + 3), m (p + 4), m (p + 5)])"
  by (simp_all only: uint3korr_def uint5korr_def uint6korr_def to_value)

lemma le_load_store: "le_load (le_store m p (w :: 16 word)) p = w" "le_load (le_store m p (v :: 32 word)) p = v"
  "le_load (le_store m p (u :: 64 word)) p = u"
proof -
  have "unat w < 2 ^ 16" "unat v < 2 ^ 32" "unat u < 2 ^ 64"
    using unsigned_less [of w] unsigned_less [of v] unsigned_less [of u] by simp_all
  with le_value_bytes [of w 2] le_value_bytes [of v 4] le_value_bytes [of u 8]
  show "le_load (le_store m p (w :: 16 word)) p = w" "le_load (le_store m p (v :: 32 word)) p = v"
    "le_load (le_store m p (u :: 64 word)) p = u"
    by (simp_all add: le_load_16 le_load_32 le_load_64 le_store_16 le_store_32 le_store_64 upt_rec del: le_value.simps)
qed

text \<open>C25: Every \<open>korr\<close> function reads back the low bytes of the number that the \<open>store\<close> function of its width wrote.\<close>

theorem integer_store_round_trip:
  "gen_uint2korr (gen_int2store m p a2) p = a2 \<and> gen_uint4korr (gen_int4store m p a4) p = a4 \<and>
   gen_uint8korr (gen_int8store m p a8) p = a8 \<and>
   unat (uint3korr (int3store m p a4) p) = unat a4 mod 2 ^ 24 \<and>
   unat (uint5korr (int5store m p a8) p) = unat a8 mod 2 ^ 40 \<and>
   unat (uint6korr (int6store m p a8) p) = unat a8 mod 2 ^ 48"
proof -
  have "gen_uint2korr (gen_int2store m p a2) p = a2" "gen_uint4korr (gen_int4store m p a4) p = a4"
    "gen_uint8korr (gen_int8store m p a8) p = a8"
    by (simp_all only: gen_korr_16 gen_korr_32 gen_korr_64 gen_store_16 gen_store_32 gen_store_64 le_load_store)
  moreover have "unat (uint3korr (int3store m p a4) p) = unat a4 mod 2 ^ 24"
    using unat_small [of 24 "unat a4", where 'a = 32] by (simp add: korr_values int3store_def le_value_3 del: le_value.simps)
  moreover have "unat (uint5korr (int5store m p a8) p) = unat a8 mod 2 ^ 40"
    using unat_small [of 40 "unat a8", where 'a = 64] by (simp add: korr_values int5store_def le_value_5 del: le_value.simps)
  moreover have "unat (uint6korr (int6store m p a8) p) = unat a8 mod 2 ^ 48"
    using unat_small [of 48 "unat a8", where 'a = 64] by (simp add: korr_values int6store_def le_value_6 del: le_value.simps)
  ultimately show ?thesis by blast
qed

lemma sint3korr_store: "sint3korr (int3store m p a) p = signed_take_bit 23 a"
proof -
  have "(ucast (ucast (drop_bit 16 a) :: uchar) :: sint32) AND 2 ^ 7 \<noteq> 0 \<longleftrightarrow> bit (ucast (ucast (drop_bit 16 a) :: uchar) :: sint32) 7"
    by (simp only: and_exp_eq_0_iff_not_bit not_not)
  then have sign: "(ucast (ucast (drop_bit 16 a) :: uchar) :: sint32) AND 128 \<noteq> 0 \<longleftrightarrow> bit a 23"
    by (simp add: bit_simps)
  have ones: "(255 :: sint32) = mask 8" by (simp add: mask_eq_exp_minus_1)
  show ?thesis
  proof (rule bit_word_eqI)
    fix n assume "n < LENGTH(32)"
    then show "bit (sint3korr (int3store m p a) p) n = bit (signed_take_bit 23 a) n"
      unfolding sint3korr_def int3store_def using sign by (cases "n = 23"; cases "n < 8"; cases "n < 16"; cases "n < 23") (auto simp: ones bit_simps min_def)
  qed
qed

text \<open>A signed number of 24 bits survives: \<open>sint3korr\<close> extends the sign of what \<open>int3store\<close> wrote.\<close>

theorem sint3_round_trip:
  assumes "- (2 ^ 23) \<le> sint a" "sint a < 2 ^ 23"
  shows "sint3korr (int3store m p a) p = a"
proof -
  have "signed_take_bit 23 (sint a) = sint a"
    using assms by (intro signed_take_bit_int_eq_self) simp_all
  moreover have "sint (signed_take_bit 23 a) = signed_take_bit 23 (sint a)"
    by (rule bit_eqI) (auto simp: bit_simps min_def)
  ultimately have "sint (signed_take_bit 23 a) = sint a" by simp
  then show ?thesis unfolding sint3korr_store by (rule signed_word_eqI)
qed

text \<open>A store changes only the bytes of the number.\<close>

theorem stores_stay_in_bounds:
  "(q \<notin> {p..<p + 2} \<longrightarrow> gen_int2store m p a2 q = m q) \<and> (q \<notin> {p..<p + 3} \<longrightarrow> int3store m p a4 q = m q) \<and>
   (q \<notin> {p..<p + 4} \<longrightarrow> gen_int4store m p a4 q = m q) \<and> (q \<notin> {p..<p + 5} \<longrightarrow> int5store m p a8 q = m q) \<and>
   (q \<notin> {p..<p + 6} \<longrightarrow> int6store m p a8 q = m q) \<and> (q \<notin> {p..<p + 8} \<longrightarrow> gen_int8store m p a8 q = m q)"
  by (auto simp: gen_int2store_def gen_int4store_def gen_int8store_def int3store_def int5store_def int6store_def Let_def)

theorem sint3_round_trip_witness: "sint3korr (int3store (\<lambda>_. 0) 5 (- 2)) 5 = (- 2 :: sint32)"
  by (rule sint3_round_trip) simp_all

theorem stores_stay_in_bounds_witness:
  "gen_int2store (\<lambda>_. 7) 1 515 0 = 7 \<and> int3store (\<lambda>_. 7) 1 515 4 = 7 \<and> gen_int8store (\<lambda>_. 7) 1 515 9 = 7"
  using stores_stay_in_bounds [of 0 1 "\<lambda>_. 7" 515 515 515] stores_stay_in_bounds [of 4 1 "\<lambda>_. 7" 515 515 515]
    stores_stay_in_bounds [of 9 1 "\<lambda>_. 7" 515 515 515] by simp

subsection \<open>The format of the machine\<close>

lemma be_bytes_16: "be_bytes (w :: 16 word) = [ucast (drop_bit 8 w), ucast w]"
  and be_bytes_32: "be_bytes (v :: 32 word) = [ucast (drop_bit 24 v), ucast (drop_bit 16 v), ucast (drop_bit 8 v), ucast v]"
  and be_bytes_64: "be_bytes (u :: 64 word) =
    [ucast (drop_bit 56 u), ucast (drop_bit 48 u), ucast (drop_bit 40 u), ucast (drop_bit 32 u),
     ucast (drop_bit 24 u), ucast (drop_bit 16 u), ucast (drop_bit 8 u), ucast u]"
  by (simp_all add: be_bytes_def le_bytes_16 le_bytes_32 le_bytes_64)

lemmas be_store_16 = be_store_def [where 'a = 16, unfolded be_bytes_16 put_bytes_2]
lemmas be_store_32 = be_store_def [where 'a = 32, unfolded be_bytes_32 put_bytes_4]
lemmas be_store_64 = be_store_def [where 'a = 64, unfolded be_bytes_64 put_bytes_8]

lemma be_load_16: "(be_load m p :: 16 word) = of_nat (le_value [m (p + 1), m p])"
  and be_load_32: "(be_load m p :: 32 word) = of_nat (le_value [m (p + 3), m (p + 2), m (p + 1), m p])"
  and be_load_64: "(be_load m p :: 64 word) =
    of_nat (le_value [m (p + 7), m (p + 6), m (p + 5), m (p + 4), m (p + 3), m (p + 2), m (p + 1), m p])"
  by (simp_all add: be_load_def bytes_at_2 bytes_at_4 bytes_at_8)

lemma be_load_store: "be_load (be_store m p (w :: 16 word)) p = w" "be_load (be_store m p (v :: 32 word)) p = v"
  "be_load (be_store m p (u :: 64 word)) p = u"
proof -
  have "unat w < 2 ^ 16" "unat v < 2 ^ 32" "unat u < 2 ^ 64"
    using unsigned_less [of w] unsigned_less [of v] unsigned_less [of u] by simp_all
  with le_value_bytes [of w 2] le_value_bytes [of v 4] le_value_bytes [of u 8]
  show "be_load (be_store m p (w :: 16 word)) p = w" "be_load (be_store m p (v :: 32 word)) p = v"
    "be_load (be_store m p (u :: 64 word)) p = u"
    by (simp_all add: be_load_16 be_load_32 be_load_64 be_store_16 be_store_32 be_store_64 upt_rec del: le_value.simps)
qed

lemma be_get_short: "be_shortget m p = be_load m p" "be_ushortget m p = be_load m p"
  by (simp_all only: be_shortget_def be_ushortget_def be_load_16 to_value)

lemma be_get_long: "be_longget m p = be_load m p" "be_ulongget m p = be_load m p"
  by (simp_all add: be_longget_def be_ulongget_def be_object_def be_load_32)

lemma be_put_short: "be_shortstore m p a = be_store m p a"
proof -
  have "(ucast (scast a :: uint32) :: uchar) = ucast a" "(ucast (drop_bit 8 (scast a :: uint32)) :: uchar) = ucast (drop_bit 8 a)"
    by (rule bit_word_eqI, auto simp: bit_simps)+
  then show ?thesis by (simp add: be_shortstore_def be_store_16 Let_def fun_upd_twist)
qed

lemma be_put_long: "be_longstore m p a = be_store m p a"
proof -
  have "(ucast (signed_drop_bit n a) :: uchar) = ucast (drop_bit n a)" if "n + 8 \<le> 32" for n
    using that by (intro bit_word_eqI) (auto simp: bit_simps)
  from this [of 8] this [of 16] this [of 24] show ?thesis
    by (simp add: be_longstore_def be_store_32 fun_upd_twist)
qed

text \<open>On both kinds of machine what a store function for the format of the machine writes is what the get function reads, and the bytes are the object representation.\<close>

theorem machine_format_round_trip:
  "le_shortget (le_shortstore m p s) p = s \<and> be_shortget (be_shortstore m p s) p = s \<and>
   le_longget (le_longstore m p i) p = i \<and> be_longget (be_longstore m p i) p = i \<and>
   le_longlongget (le_longlongstore m p l) p = l \<and> be_longlongget (be_longlongstore m p l) p = l \<and>
   le_doubleget (le_doublestore m p d) p = d \<and> be_doubleget (be_doublestore m p d) p = d \<and>
   be_shortstore m p s = be_store m p s \<and> be_longstore m p i = be_store m p i"
  by (simp only: le_shortget_def le_shortstore_def le_longget_def le_longstore_def le_longlongget_def le_longlongstore_def
    le_doubleget_def le_doublestore_def be_longlongget_def be_longlongstore_def be_doubleget_def be_doublestore_def
    x86_sint2korr_def x86_sint4korr_def x86_int2store_def x86_int4store_def be_get_short be_get_long be_put_short be_put_long
    le_load_store be_load_store)

lemma bi_double_round_trip: "length v = 8 \<Longrightarrow> bi_doubleget (bi_doublestore m p v) p = v"
  by (simp add: bi_doubleget_def bi_doublestore_def list_eq_iff_nth_eq nth_Cons split: nat.splits)
    (auto simp: eval_nat_numeral less_Suc_eq)

end
