(* ===== verification/Psi_Base.thy ===== *)
theory Psi_Base
  imports LLBC_Prelude
begin

text \<open>
  What the instrumented wrappers of the MySQL headers share (\<open>mysql_file.h\<close>, \<open>mysql_thread.h\<close>,
  \<open>mysql_socket.h\<close>). A wrapper calls the operating system and the performance schema, both external.
  The state has the state of the operating system and a log of what was called; the performance
  schema is the function \<open>psi\<close> that gives the value (a locker or a hook, possibly null) it returns
  for a call after a given log. The operations of \<open>psi.h\<close> are the enumerations below. An interface
  states what makes a family of wrappers transparent.
\<close>

named_theorems psi_defs \<open>definitions of the instrumented wrappers\<close>

subsection \<open>Calls and their log\<close>

type_synonym src_loc = "bytes \<times> uint32"

datatype 'e log_entry = PsiCall 'e "nat option" | RealCall

type_synonym 'e psi = "'e log_entry list \<Rightarrow> 'e \<Rightarrow> nat option"

record ('e, 'w) psi_env =
  os_state :: 'w
  psi_log :: "'e log_entry list"

definition psi_note :: "'e \<Rightarrow> ('e, 'w, 'z) psi_env_scheme \<Rightarrow> ('e, 'w, 'z) psi_env_scheme" where
  "psi_note e s = s\<lparr>psi_log := psi_log s @ [PsiCall e None]\<rparr>"

definition psi_ask :: "'e psi \<Rightarrow> 'e \<Rightarrow> ('e, 'w, 'z) psi_env_scheme \<Rightarrow> nat option \<times> ('e, 'w, 'z) psi_env_scheme" where
  "psi_ask psi e s = (let r = psi (psi_log s) e in (r, s\<lparr>psi_log := psi_log s @ [PsiCall e r]\<rparr>))"

definition real_call :: "('w \<Rightarrow> 'a \<times> 'w) \<Rightarrow> ('e, 'w, 'z) psi_env_scheme \<Rightarrow> 'a \<times> ('e, 'w, 'z) psi_env_scheme" where
  "real_call f s = (let (r, w) = f (os_state s) in (r, s\<lparr>os_state := w, psi_log := psi_log s @ [RealCall]\<rparr>))"

text \<open>
  The shape the file wrappers share: ask for a locker; with one, start the wait, call, end the wait
  with a value computed from the result, and otherwise only call.
\<close>

definition with_locker ::
  "'e psi \<Rightarrow> 'e \<Rightarrow> (nat \<Rightarrow> 'e) \<Rightarrow> ('w \<Rightarrow> 'a \<times> 'w) \<Rightarrow> (nat \<Rightarrow> 'a \<Rightarrow> 'e) \<Rightarrow> ('e, 'w, 'z) psi_env_scheme \<Rightarrow>
   'a \<times> ('e, 'w, 'z) psi_env_scheme" where
  "with_locker psi get start f finish s =
     (let (locker, s1) = psi_ask psi get s in
      case locker of
        Some l \<Rightarrow> (let (r, s2) = real_call f (psi_note (start l) s1) in (r, psi_note (finish l r) s2))
      | None \<Rightarrow> real_call f s1)"

text \<open>
  The shape of the lock, condition and socket wrappers: without a hook only call; with one, start the
  wait, call, run \<open>inside\<close> if the call gave \<open>r\<close>, and end the wait if there is a locker.
\<close>

definition with_hook ::
  "'e psi \<Rightarrow> nat option \<Rightarrow> (nat \<Rightarrow> 'e) \<Rightarrow> ('w \<Rightarrow> 'a \<times> 'w) \<Rightarrow> (nat \<Rightarrow> 'a \<Rightarrow> 'e list) \<Rightarrow> (nat \<Rightarrow> 'a \<Rightarrow> 'e) \<Rightarrow>
   ('e, 'w, 'z) psi_env_scheme \<Rightarrow> 'a \<times> ('e, 'w, 'z) psi_env_scheme" where
  "with_hook psi hook start f inside finish s =
     (case hook of
        Some h \<Rightarrow>
          (let (locker, s1) = psi_ask psi (start h) s;
               (r, s2) = real_call f s1;
               s3 = fold psi_note (inside h r) s2
           in (r, case locker of Some l \<Rightarrow> psi_note (finish l r) s3 | None \<Rightarrow> s3))
      | None \<Rightarrow> real_call f s)"

subsection \<open>The protocol of a log\<close>

datatype wait_kind = Starts nat | Ends nat | Neither

text \<open>
  The state inside a wait is its locker and whether the real call has been made. A wait holds one real
  call, is ended with its own locker, and does not contain another.
\<close>

fun protocol :: "('e \<Rightarrow> nat option \<Rightarrow> wait_kind) \<Rightarrow> (nat \<times> bool) option \<Rightarrow> 'e log_entry list \<Rightarrow> (nat \<times> bool) option option" where
  "protocol k c [] = Some c"
| "protocol k c (RealCall # es) =
     (case c of None \<Rightarrow> protocol k c es | Some (l, called) \<Rightarrow> if called then None else protocol k (Some (l, True)) es)"
| "protocol k c (PsiCall e r # es) =
     (case k e r of
        Starts l \<Rightarrow> if c = None then protocol k (Some (l, False)) es else None
      | Ends l \<Rightarrow> if c = Some (l, True) then protocol k None es else None
      | Neither \<Rightarrow> protocol k c es)"

lemma protocol_append: "protocol k c (es @ fs) = (case protocol k c es of None \<Rightarrow> None | Some d \<Rightarrow> protocol k d fs)"
  by (induction k c es rule: protocol.induct) (auto split: wait_kind.splits option.splits)

definition real_calls :: "'e log_entry list \<Rightarrow> nat" where
  "real_calls es = length (filter (\<lambda>e. e = RealCall) es)"

lemma real_calls_append [simp]: "real_calls (es @ fs) = real_calls es + real_calls fs"
  by (simp add: real_calls_def)

subsection \<open>Facts on the shapes\<close>

lemma psi_note_simps [simp]:
  "os_state (psi_note e s) = os_state s"
  "psi_log (psi_note e s) = psi_log s @ [PsiCall e None]"
  "psi_env.more (psi_note e s) = psi_env.more s"
  by (simp_all add: psi_note_def)

lemma fold_note_simps [simp]:
  "os_state (fold psi_note es s) = os_state s"
  "psi_log (fold psi_note es s) = psi_log s @ map (\<lambda>e. PsiCall e None) es"
  "psi_env.more (fold psi_note es s) = psi_env.more s"
  by (induction es arbitrary: s) simp_all

lemma with_locker_result:
  "fst (with_locker psi get start f finish s) = fst (f (os_state s))"
  "os_state (snd (with_locker psi get start f finish s)) = snd (f (os_state s))"
  "psi_env.more (snd (with_locker psi get start f finish s)) = psi_env.more s"
  by (simp_all add: with_locker_def psi_ask_def real_call_def Let_def split: option.split prod.split)

lemma with_hook_result:
  "fst (with_hook psi hook start f inside finish s) = fst (f (os_state s))"
  "os_state (snd (with_hook psi hook start f inside finish s)) = snd (f (os_state s))"
  "psi_env.more (snd (with_hook psi hook start f inside finish s)) = psi_env.more s"
  by (simp_all add: with_hook_def psi_ask_def real_call_def Let_def split: option.split prod.split)

lemma with_locker_log:
  "psi_log (snd (with_locker psi get start f finish s)) = psi_log s @
     (case psi (psi_log s) get of
        None \<Rightarrow> [PsiCall get None, RealCall]
      | Some l \<Rightarrow> [PsiCall get (Some l), PsiCall (start l) None, RealCall, PsiCall (finish l (fst (f (os_state s)))) None])"
  by (simp add: with_locker_def psi_ask_def real_call_def Let_def split: option.split prod.split)

lemma with_hook_log:
  "psi_log (snd (with_hook psi hook start f inside finish s)) = psi_log s @
     (case hook of
        None \<Rightarrow> [RealCall]
      | Some h \<Rightarrow>
          (let locker = psi (psi_log s) (start h); r = fst (f (os_state s)) in
           PsiCall (start h) locker # RealCall # map (\<lambda>e. PsiCall e None) (inside h r) @
           (case locker of None \<Rightarrow> [] | Some l \<Rightarrow> [PsiCall (finish l r) None])))"
  by (simp add: with_hook_def psi_ask_def real_call_def Let_def split: option.split prod.split)

subsection \<open>The interface of a family of wrappers\<close>

text \<open>Two outcomes of a call in states related by \<open>same\<close>.\<close>

fun matched :: "('s \<Rightarrow> 's \<Rightarrow> bool) \<Rightarrow> ('r \<times> 's) res \<Rightarrow> ('r \<times> 's) res \<Rightarrow> bool" where
  "matched same (Inl e) (Inl f) \<longleftrightarrow> e = f"
| "matched same (Inr (r, s)) (Inr (q, t)) \<longleftrightarrow> r = q \<and> same s t"
| "matched same _ _ \<longleftrightarrow> False"

text \<open>
  A call gives the same result and leads to related states whatever the performance schema answers,
  and what it adds to the log follows the protocol. A client picks its next call from the results so far.
\<close>

locale instrumented_api =
  fixes call :: "'e psi \<Rightarrow> 'c \<Rightarrow> 's \<Rightarrow> ('r \<times> 's) res"
    and same :: "'s \<Rightarrow> 's \<Rightarrow> bool"
    and log_of :: "'s \<Rightarrow> 'e log_entry list"
    and kind :: "'e \<Rightarrow> nat option \<Rightarrow> wait_kind"
  assumes transparent: "same s t \<Longrightarrow> matched same (call psi c s) (call psi' c t)"
    and bracketed: "call psi c s = Inr (r, s') \<Longrightarrow> \<exists>es. log_of s' = log_of s @ es \<and> protocol kind None es = Some None"
begin

fun run :: "'e psi \<Rightarrow> ('r list \<Rightarrow> 'c option) \<Rightarrow> nat \<Rightarrow> 'r list \<Rightarrow> 's \<Rightarrow> ('r list \<times> 's) res" where
  "run psi client 0 rs s = Inr (rs, s)"
| "run psi client (Suc n) rs s =
     (case client rs of
        None \<Rightarrow> Inr (rs, s)
      | Some c \<Rightarrow> rbind (call psi c s) (\<lambda>(r, s'). run psi client n (rs @ [r]) s'))"

lemma run_transparent: "same s t \<Longrightarrow> matched same (run psi client n rs s) (run psi' client n rs t)"
proof (induction n arbitrary: rs s t)
  case (Suc n)
  show ?case
  proof (cases "client rs")
    case (Some c)
    have m: "matched same (call psi c s) (call psi' c t)" by (rule transparent [OF Suc.prems])
    then show ?thesis
    proof (cases "call psi c s")
      case (Inr x)
      then obtain r s' where x: "call psi c s = Inr (r, s')" by (cases x) simp
      with m obtain t' where y: "call psi' c t = Inr (r, t')" "same s' t'"
        by (cases "(same, Inr (r, s') :: ('r \<times> 's) res, call psi' c t)" rule: matched.cases) auto
      from Suc.IH [OF y(2), of "rs @ [r]"] x y(1) Some show ?thesis by simp
    qed (use Some in \<open>cases "call psi' c t"; auto\<close>)
  qed (use Suc.prems in simp)
qed simp

lemma run_protocol:
  "run psi client n rs s = Inr (rs', s') \<Longrightarrow> \<exists>es. log_of s' = log_of s @ es \<and> protocol kind None es = Some None"
proof (induction n arbitrary: rs s)
  case (Suc n)
  show ?case
  proof (cases "client rs")
    case (Some c)
    with Suc.prems obtain r s1 where c: "call psi c s = Inr (r, s1)" "run psi client n (rs @ [r]) s1 = Inr (rs', s')"
      by (auto simp: rbind_eq_Inr)
    from bracketed [OF c(1)] Suc.IH [OF c(2)] show ?thesis by (auto simp: protocol_append)
  qed (use Suc.prems in \<open>simp add: exI [of _ "[]"]\<close>)
qed (simp add: exI [of _ "[]"])

end

subsection \<open>The operations of \<open>psi.h\<close>\<close>

datatype PSI_mutex_operation = PSI_MUTEX_LOCK | PSI_MUTEX_TRYLOCK

datatype (plugins only: code size) PSI_rwlock_operation =
    PSI_RWLOCK_READLOCK
  | PSI_RWLOCK_WRITELOCK
  | PSI_RWLOCK_TRYREADLOCK
  | PSI_RWLOCK_TRYWRITELOCK
  | PSI_RWLOCK_SHAREDLOCK
  | PSI_RWLOCK_SHAREDEXCLUSIVELOCK
  | PSI_RWLOCK_EXCLUSIVELOCK
  | PSI_RWLOCK_TRYSHAREDLOCK
  | PSI_RWLOCK_TRYSHAREDEXCLUSIVELOCK
  | PSI_RWLOCK_TRYEXCLUSIVELOCK

datatype PSI_cond_operation = PSI_COND_WAIT | PSI_COND_TIMEDWAIT

datatype (plugins only: code size) PSI_file_operation =
    PSI_FILE_CREATE
  | PSI_FILE_CREATE_TMP
  | PSI_FILE_OPEN
  | PSI_FILE_STREAM_OPEN
  | PSI_FILE_CLOSE
  | PSI_FILE_STREAM_CLOSE
  | PSI_FILE_READ
  | PSI_FILE_WRITE
  | PSI_FILE_SEEK
  | PSI_FILE_TELL
  | PSI_FILE_FLUSH
  | PSI_FILE_STAT
  | PSI_FILE_FSTAT
  | PSI_FILE_CHSIZE
  | PSI_FILE_DELETE
  | PSI_FILE_RENAME
  | PSI_FILE_SYNC

datatype PSI_socket_state = PSI_SOCKET_STATE_IDLE | PSI_SOCKET_STATE_ACTIVE

datatype (plugins only: code size) PSI_socket_operation =
    PSI_SOCKET_CREATE
  | PSI_SOCKET_CONNECT
  | PSI_SOCKET_BIND
  | PSI_SOCKET_CLOSE
  | PSI_SOCKET_SEND
  | PSI_SOCKET_RECV
  | PSI_SOCKET_SENDTO
  | PSI_SOCKET_RECVFROM
  | PSI_SOCKET_SENDMSG
  | PSI_SOCKET_RECVMSG
  | PSI_SOCKET_SEEK
  | PSI_SOCKET_OPT
  | PSI_SOCKET_STAT
  | PSI_SOCKET_SHUTDOWN
  | PSI_SOCKET_SELECT

end
