(* ===== verification/Psi_Thread.thy ===== *)
theory Psi_Thread
  imports Psi_Base
begin

text \<open>
  The instrumented mutexes, read-write locks, conditions and threads of \<open>mysql_thread.h\<close>. An object is
  known by its address; the hook \<open>m_psi\<close> of the object at an address is state of the model, the object
  itself belongs to the external functions of \<open>my_thread.h\<close>, \<open>thr_mutex.h\<close>, \<open>thr_rwlock.h\<close> and
  \<open>thr_cond.h\<close>. A call that blocks is seen when it returns. The register functions and the functions
  that name the thread only inform the performance schema; starting a thread is done by it.
\<close>

subsection \<open>State and external functions\<close>

record timespec =
  tv_sec :: sint64
  tv_nsec :: sint64

datatype (plugins only: code size) psi_sync_call =
    register_mutex bytes nat sint32
  | register_rwlock bytes nat sint32
  | register_cond bytes nat sint32
  | register_thread bytes nat sint32
  | init_mutex uint32 nat
  | destroy_mutex nat
  | start_mutex_wait nat PSI_mutex_operation src_loc
  | end_mutex_wait nat sint32
  | unlock_mutex nat
  | init_rwlock uint32 nat
  | destroy_rwlock nat
  | start_rwlock_rdwait nat PSI_rwlock_operation src_loc
  | end_rwlock_rdwait nat sint32
  | start_rwlock_wrwait nat PSI_rwlock_operation src_loc
  | end_rwlock_wrwait nat sint32
  | unlock_rwlock nat
  | init_cond uint32 nat
  | destroy_cond nat
  | start_cond_wait nat "nat option" PSI_cond_operation src_loc
  | end_cond_wait nat sint32
  | signal_cond nat
  | broadcast_cond nat
  | spawn_thread uint32
  | get_thread
  | set_thread_id "nat option" uint64
  | set_thread_THD "nat option" nat

definition locker_starts :: "nat option \<Rightarrow> wait_kind" where
  "locker_starts locker = (case locker of None \<Rightarrow> Neither | Some l \<Rightarrow> Starts l)"

fun sync_wait_kind :: "psi_sync_call \<Rightarrow> nat option \<Rightarrow> wait_kind" where
  "sync_wait_kind (start_mutex_wait _ _ _) r = locker_starts r"
| "sync_wait_kind (start_rwlock_rdwait _ _ _) r = locker_starts r"
| "sync_wait_kind (start_rwlock_wrwait _ _ _) r = locker_starts r"
| "sync_wait_kind (start_cond_wait _ _ _ _) r = locker_starts r"
| "sync_wait_kind (end_mutex_wait l _) _ = Ends l"
| "sync_wait_kind (end_rwlock_rdwait l _) _ = Ends l"
| "sync_wait_kind (end_rwlock_wrwait l _) _ = Ends l"
| "sync_wait_kind (end_cond_wait l _) _ = Ends l"
| "sync_wait_kind _ _ = Neither"

record 'w sync_env = "(psi_sync_call, 'w) psi_env" +
  te_hooks :: "nat \<Rightarrow> nat option"

definition set_hook :: "nat \<Rightarrow> nat option \<Rightarrow> 'w sync_env \<Rightarrow> 'w sync_env" where
  "set_hook p h s = s\<lparr>te_hooks := (te_hooks s)(p := h)\<rparr>"

record 'w sync_os =
  os_my_mutex_init :: "nat \<Rightarrow> nat \<Rightarrow> 'w \<Rightarrow> sint32 \<times> 'w"
  os_my_mutex_destroy :: "nat \<Rightarrow> 'w \<Rightarrow> sint32 \<times> 'w"
  os_my_mutex_lock :: "nat \<Rightarrow> 'w \<Rightarrow> sint32 \<times> 'w"
  os_my_mutex_trylock :: "nat \<Rightarrow> 'w \<Rightarrow> sint32 \<times> 'w"
  os_my_mutex_unlock :: "nat \<Rightarrow> 'w \<Rightarrow> sint32 \<times> 'w"
  os_native_rw_init :: "nat \<Rightarrow> 'w \<Rightarrow> sint32 \<times> 'w"
  os_rw_pr_init :: "nat \<Rightarrow> 'w \<Rightarrow> sint32 \<times> 'w"
  os_native_rw_destroy :: "nat \<Rightarrow> 'w \<Rightarrow> sint32 \<times> 'w"
  os_rw_pr_destroy :: "nat \<Rightarrow> 'w \<Rightarrow> sint32 \<times> 'w"
  os_native_rw_rdlock :: "nat \<Rightarrow> 'w \<Rightarrow> sint32 \<times> 'w"
  os_rw_pr_rdlock :: "nat \<Rightarrow> 'w \<Rightarrow> sint32 \<times> 'w"
  os_native_rw_wrlock :: "nat \<Rightarrow> 'w \<Rightarrow> sint32 \<times> 'w"
  os_rw_pr_wrlock :: "nat \<Rightarrow> 'w \<Rightarrow> sint32 \<times> 'w"
  os_native_rw_tryrdlock :: "nat \<Rightarrow> 'w \<Rightarrow> sint32 \<times> 'w"
  os_native_rw_trywrlock :: "nat \<Rightarrow> 'w \<Rightarrow> sint32 \<times> 'w"
  os_native_rw_unlock :: "nat \<Rightarrow> 'w \<Rightarrow> sint32 \<times> 'w"
  os_rw_pr_unlock :: "nat \<Rightarrow> 'w \<Rightarrow> sint32 \<times> 'w"
  os_native_cond_init :: "nat \<Rightarrow> 'w \<Rightarrow> sint32 \<times> 'w"
  os_native_cond_destroy :: "nat \<Rightarrow> 'w \<Rightarrow> sint32 \<times> 'w"
  os_my_cond_wait :: "nat \<Rightarrow> nat \<Rightarrow> 'w \<Rightarrow> sint32 \<times> 'w"
  os_my_cond_timedwait :: "nat \<Rightarrow> nat \<Rightarrow> timespec \<Rightarrow> 'w \<Rightarrow> sint32 \<times> 'w"
  os_native_cond_signal :: "nat \<Rightarrow> 'w \<Rightarrow> sint32 \<times> 'w"
  os_native_cond_broadcast :: "nat \<Rightarrow> 'w \<Rightarrow> sint32 \<times> 'w"
  os_spawn_thread :: "uint32 \<Rightarrow> nat \<Rightarrow> nat \<Rightarrow> nat \<Rightarrow> nat \<Rightarrow> 'w \<Rightarrow> sint32 \<times> 'w"

subsection \<open>The operations\<close>

definition inline_mysql_mutex_register where
  [psi_defs]: "inline_mysql_mutex_register psi os src category info cnt s =
     psi_note (register_mutex category info cnt) s"

definition inline_mysql_mutex_init where
  [psi_defs]: "inline_mysql_mutex_init psi os src key that attr s =
     (let (hook, s1) = psi_ask psi (init_mutex key that) s
      in real_call (os_my_mutex_init os that attr) (set_hook that hook s1))"

definition inline_mysql_mutex_destroy where
  [psi_defs]: "inline_mysql_mutex_destroy psi os src that s =
     real_call (os_my_mutex_destroy os that)
       (case te_hooks s that of Some h \<Rightarrow> set_hook that None (psi_note (destroy_mutex h) s) | None \<Rightarrow> s)"

definition inline_mysql_mutex_lock where
  [psi_defs]: "inline_mysql_mutex_lock psi os src that s =
     with_hook psi (te_hooks s that) (\<lambda>h. start_mutex_wait h PSI_MUTEX_LOCK src) (os_my_mutex_lock os that)
       (\<lambda>_ _. []) (\<lambda>l r. end_mutex_wait l r) s"

definition inline_mysql_mutex_trylock where
  [psi_defs]: "inline_mysql_mutex_trylock psi os src that s =
     with_hook psi (te_hooks s that) (\<lambda>h. start_mutex_wait h PSI_MUTEX_TRYLOCK src) (os_my_mutex_trylock os that)
       (\<lambda>_ _. []) (\<lambda>l r. end_mutex_wait l r) s"

definition inline_mysql_mutex_unlock where
  [psi_defs]: "inline_mysql_mutex_unlock psi os src that s =
     real_call (os_my_mutex_unlock os that) (case te_hooks s that of Some h \<Rightarrow> psi_note (unlock_mutex h) s | None \<Rightarrow> s)"

definition inline_mysql_rwlock_register where
  [psi_defs]: "inline_mysql_rwlock_register psi os src category info cnt s =
     psi_note (register_rwlock category info cnt) s"

definition inline_mysql_rwlock_init where
  [psi_defs]: "inline_mysql_rwlock_init psi os src key that s =
     (let (hook, s1) = psi_ask psi (init_rwlock key that) s
      in real_call (os_native_rw_init os that) (set_hook that hook s1))"

definition inline_mysql_prlock_init where
  [psi_defs]: "inline_mysql_prlock_init psi os src key that s =
     (let (hook, s1) = psi_ask psi (init_rwlock key that) s
      in real_call (os_rw_pr_init os that) (set_hook that hook s1))"

definition inline_mysql_rwlock_destroy where
  [psi_defs]: "inline_mysql_rwlock_destroy psi os src that s =
     real_call (os_native_rw_destroy os that)
       (case te_hooks s that of Some h \<Rightarrow> set_hook that None (psi_note (destroy_rwlock h) s) | None \<Rightarrow> s)"

definition inline_mysql_prlock_destroy where
  [psi_defs]: "inline_mysql_prlock_destroy psi os src that s =
     real_call (os_rw_pr_destroy os that)
       (case te_hooks s that of Some h \<Rightarrow> set_hook that None (psi_note (destroy_rwlock h) s) | None \<Rightarrow> s)"

definition inline_mysql_rwlock_rdlock where
  [psi_defs]: "inline_mysql_rwlock_rdlock psi os src that s =
     with_hook psi (te_hooks s that) (\<lambda>h. start_rwlock_rdwait h PSI_RWLOCK_READLOCK src) (os_native_rw_rdlock os that)
       (\<lambda>_ _. []) (\<lambda>l r. end_rwlock_rdwait l r) s"

definition inline_mysql_prlock_rdlock where
  [psi_defs]: "inline_mysql_prlock_rdlock psi os src that s =
     with_hook psi (te_hooks s that) (\<lambda>h. start_rwlock_rdwait h PSI_RWLOCK_READLOCK src) (os_rw_pr_rdlock os that)
       (\<lambda>_ _. []) (\<lambda>l r. end_rwlock_rdwait l r) s"

definition inline_mysql_rwlock_wrlock where
  [psi_defs]: "inline_mysql_rwlock_wrlock psi os src that s =
     with_hook psi (te_hooks s that) (\<lambda>h. start_rwlock_wrwait h PSI_RWLOCK_WRITELOCK src) (os_native_rw_wrlock os that)
       (\<lambda>_ _. []) (\<lambda>l r. end_rwlock_wrwait l r) s"

definition inline_mysql_prlock_wrlock where
  [psi_defs]: "inline_mysql_prlock_wrlock psi os src that s =
     with_hook psi (te_hooks s that) (\<lambda>h. start_rwlock_wrwait h PSI_RWLOCK_WRITELOCK src) (os_rw_pr_wrlock os that)
       (\<lambda>_ _. []) (\<lambda>l r. end_rwlock_wrwait l r) s"

definition inline_mysql_rwlock_tryrdlock where
  [psi_defs]: "inline_mysql_rwlock_tryrdlock psi os src that s =
     with_hook psi (te_hooks s that) (\<lambda>h. start_rwlock_rdwait h PSI_RWLOCK_TRYREADLOCK src) (os_native_rw_tryrdlock os that)
       (\<lambda>_ _. []) (\<lambda>l r. end_rwlock_rdwait l r) s"

definition inline_mysql_rwlock_trywrlock where
  [psi_defs]: "inline_mysql_rwlock_trywrlock psi os src that s =
     with_hook psi (te_hooks s that) (\<lambda>h. start_rwlock_wrwait h PSI_RWLOCK_TRYWRITELOCK src) (os_native_rw_trywrlock os that)
       (\<lambda>_ _. []) (\<lambda>l r. end_rwlock_wrwait l r) s"

definition inline_mysql_rwlock_unlock where
  [psi_defs]: "inline_mysql_rwlock_unlock psi os src that s =
     real_call (os_native_rw_unlock os that) (case te_hooks s that of Some h \<Rightarrow> psi_note (unlock_rwlock h) s | None \<Rightarrow> s)"

definition inline_mysql_prlock_unlock where
  [psi_defs]: "inline_mysql_prlock_unlock psi os src that s =
     real_call (os_rw_pr_unlock os that) (case te_hooks s that of Some h \<Rightarrow> psi_note (unlock_rwlock h) s | None \<Rightarrow> s)"

definition inline_mysql_cond_register where
  [psi_defs]: "inline_mysql_cond_register psi os src category info cnt s =
     psi_note (register_cond category info cnt) s"

definition inline_mysql_cond_init where
  [psi_defs]: "inline_mysql_cond_init psi os src key that s =
     (let (hook, s1) = psi_ask psi (init_cond key that) s
      in real_call (os_native_cond_init os that) (set_hook that hook s1))"

definition inline_mysql_cond_destroy where
  [psi_defs]: "inline_mysql_cond_destroy psi os src that s =
     real_call (os_native_cond_destroy os that)
       (case te_hooks s that of Some h \<Rightarrow> set_hook that None (psi_note (destroy_cond h) s) | None \<Rightarrow> s)"

definition inline_mysql_cond_wait where
  [psi_defs]: "inline_mysql_cond_wait psi os src that mutex s =
     with_hook psi (te_hooks s that) (\<lambda>h. start_cond_wait h (te_hooks s mutex) PSI_COND_WAIT src) (os_my_cond_wait os that mutex)
       (\<lambda>_ _. []) (\<lambda>l r. end_cond_wait l r) s"

definition inline_mysql_cond_timedwait where
  [psi_defs]: "inline_mysql_cond_timedwait psi os src that mutex abstime s =
     with_hook psi (te_hooks s that) (\<lambda>h. start_cond_wait h (te_hooks s mutex) PSI_COND_TIMEDWAIT src) (os_my_cond_timedwait os that mutex abstime)
       (\<lambda>_ _. []) (\<lambda>l r. end_cond_wait l r) s"

definition inline_mysql_cond_signal where
  [psi_defs]: "inline_mysql_cond_signal psi os src that s =
     real_call (os_native_cond_signal os that) (case te_hooks s that of Some h \<Rightarrow> psi_note (signal_cond h) s | None \<Rightarrow> s)"

definition inline_mysql_cond_broadcast where
  [psi_defs]: "inline_mysql_cond_broadcast psi os src that s =
     real_call (os_native_cond_broadcast os that) (case te_hooks s that of Some h \<Rightarrow> psi_note (broadcast_cond h) s | None \<Rightarrow> s)"

definition inline_mysql_thread_register where
  [psi_defs]: "inline_mysql_thread_register psi os src category info cnt s =
     psi_note (register_thread category info cnt) s"

definition inline_mysql_thread_create where
  [psi_defs]: "inline_mysql_thread_create psi os src key thread attr start_routine arg s =
     real_call (os_spawn_thread os key thread attr start_routine arg) (psi_note (spawn_thread key) s)"

definition inline_mysql_thread_set_psi_id where
  [psi_defs]: "inline_mysql_thread_set_psi_id psi os src tid s =
     (let (t, s1) = psi_ask psi get_thread s in psi_note (set_thread_id t tid) s1)"

definition inline_mysql_thread_set_psi_THD where
  [psi_defs]: "inline_mysql_thread_set_psi_THD psi os src thd s =
     (let (t, s1) = psi_ask psi get_thread s in psi_note (set_thread_THD t thd) s1)"

subsection \<open>Calls as data\<close>

datatype (plugins only: code size) sync_op =
    Call_mutex_register bytes nat sint32
  | Call_mutex_init uint32 nat nat
  | Call_mutex_destroy nat
  | Call_mutex_lock nat
  | Call_mutex_trylock nat
  | Call_mutex_unlock nat
  | Call_rwlock_register bytes nat sint32
  | Call_rwlock_init uint32 nat
  | Call_prlock_init uint32 nat
  | Call_rwlock_destroy nat
  | Call_prlock_destroy nat
  | Call_rwlock_rdlock nat
  | Call_prlock_rdlock nat
  | Call_rwlock_wrlock nat
  | Call_prlock_wrlock nat
  | Call_rwlock_tryrdlock nat
  | Call_rwlock_trywrlock nat
  | Call_rwlock_unlock nat
  | Call_prlock_unlock nat
  | Call_cond_register bytes nat sint32
  | Call_cond_init uint32 nat
  | Call_cond_destroy nat
  | Call_cond_wait nat nat
  | Call_cond_timedwait nat nat timespec
  | Call_cond_signal nat
  | Call_cond_broadcast nat
  | Call_thread_register bytes nat sint32
  | Call_thread_create uint32 nat nat nat nat
  | Call_thread_set_psi_id uint64
  | Call_thread_set_psi_THD nat

primrec perform_sync ::
  "psi_sync_call psi \<Rightarrow> 'w sync_os \<Rightarrow> src_loc \<Rightarrow> sync_op \<Rightarrow> 'w sync_env \<Rightarrow> (sint32 \<times> 'w sync_env) res" where
  "perform_sync psi os src (Call_mutex_register category info cnt) s =
     (let s' = inline_mysql_mutex_register psi os src category info cnt s in Inr (0, s'))"
| "perform_sync psi os src (Call_mutex_init key that attr) s =
     (let (r, s') = inline_mysql_mutex_init psi os src key that attr s in Inr (r, s'))"
| "perform_sync psi os src (Call_mutex_destroy that) s =
     (let (r, s') = inline_mysql_mutex_destroy psi os src that s in Inr (r, s'))"
| "perform_sync psi os src (Call_mutex_lock that) s =
     (let (r, s') = inline_mysql_mutex_lock psi os src that s in Inr (r, s'))"
| "perform_sync psi os src (Call_mutex_trylock that) s =
     (let (r, s') = inline_mysql_mutex_trylock psi os src that s in Inr (r, s'))"
| "perform_sync psi os src (Call_mutex_unlock that) s =
     (let (r, s') = inline_mysql_mutex_unlock psi os src that s in Inr (r, s'))"
| "perform_sync psi os src (Call_rwlock_register category info cnt) s =
     (let s' = inline_mysql_rwlock_register psi os src category info cnt s in Inr (0, s'))"
| "perform_sync psi os src (Call_rwlock_init key that) s =
     (let (r, s') = inline_mysql_rwlock_init psi os src key that s in Inr (r, s'))"
| "perform_sync psi os src (Call_prlock_init key that) s =
     (let (r, s') = inline_mysql_prlock_init psi os src key that s in Inr (r, s'))"
| "perform_sync psi os src (Call_rwlock_destroy that) s =
     (let (r, s') = inline_mysql_rwlock_destroy psi os src that s in Inr (r, s'))"
| "perform_sync psi os src (Call_prlock_destroy that) s =
     (let (r, s') = inline_mysql_prlock_destroy psi os src that s in Inr (r, s'))"
| "perform_sync psi os src (Call_rwlock_rdlock that) s =
     (let (r, s') = inline_mysql_rwlock_rdlock psi os src that s in Inr (r, s'))"
| "perform_sync psi os src (Call_prlock_rdlock that) s =
     (let (r, s') = inline_mysql_prlock_rdlock psi os src that s in Inr (r, s'))"
| "perform_sync psi os src (Call_rwlock_wrlock that) s =
     (let (r, s') = inline_mysql_rwlock_wrlock psi os src that s in Inr (r, s'))"
| "perform_sync psi os src (Call_prlock_wrlock that) s =
     (let (r, s') = inline_mysql_prlock_wrlock psi os src that s in Inr (r, s'))"
| "perform_sync psi os src (Call_rwlock_tryrdlock that) s =
     (let (r, s') = inline_mysql_rwlock_tryrdlock psi os src that s in Inr (r, s'))"
| "perform_sync psi os src (Call_rwlock_trywrlock that) s =
     (let (r, s') = inline_mysql_rwlock_trywrlock psi os src that s in Inr (r, s'))"
| "perform_sync psi os src (Call_rwlock_unlock that) s =
     (let (r, s') = inline_mysql_rwlock_unlock psi os src that s in Inr (r, s'))"
| "perform_sync psi os src (Call_prlock_unlock that) s =
     (let (r, s') = inline_mysql_prlock_unlock psi os src that s in Inr (r, s'))"
| "perform_sync psi os src (Call_cond_register category info cnt) s =
     (let s' = inline_mysql_cond_register psi os src category info cnt s in Inr (0, s'))"
| "perform_sync psi os src (Call_cond_init key that) s =
     (let (r, s') = inline_mysql_cond_init psi os src key that s in Inr (r, s'))"
| "perform_sync psi os src (Call_cond_destroy that) s =
     (let (r, s') = inline_mysql_cond_destroy psi os src that s in Inr (r, s'))"
| "perform_sync psi os src (Call_cond_wait that mutex) s =
     (let (r, s') = inline_mysql_cond_wait psi os src that mutex s in Inr (r, s'))"
| "perform_sync psi os src (Call_cond_timedwait that mutex abstime) s =
     (let (r, s') = inline_mysql_cond_timedwait psi os src that mutex abstime s in Inr (r, s'))"
| "perform_sync psi os src (Call_cond_signal that) s =
     (let (r, s') = inline_mysql_cond_signal psi os src that s in Inr (r, s'))"
| "perform_sync psi os src (Call_cond_broadcast that) s =
     (let (r, s') = inline_mysql_cond_broadcast psi os src that s in Inr (r, s'))"
| "perform_sync psi os src (Call_thread_register category info cnt) s =
     (let s' = inline_mysql_thread_register psi os src category info cnt s in Inr (0, s'))"
| "perform_sync psi os src (Call_thread_create key thread attr start_routine arg) s =
     (let (r, s') = inline_mysql_thread_create psi os src key thread attr start_routine arg s in Inr (r, s'))"
| "perform_sync psi os src (Call_thread_set_psi_id tid) s =
     (let s' = inline_mysql_thread_set_psi_id psi os src tid s in Inr (0, s'))"
| "perform_sync psi os src (Call_thread_set_psi_THD thd) s =
     (let s' = inline_mysql_thread_set_psi_THD psi os src thd s in Inr (0, s'))"

subsection \<open>Transparency and protocol\<close>

definition same_sync :: "'w sync_env \<Rightarrow> 'w sync_env \<Rightarrow> bool" where
  "same_sync s t \<longleftrightarrow> os_state s = os_state t"

lemma sync_same_hook:
  fixes s t :: "'w sync_env"
  assumes "same_sync s t"
  shows "fst (with_hook psi hook start f inside finish s) = fst (with_hook psi' hook' start' f inside' finish' t) \<and>
    same_sync (snd (with_hook psi hook start f inside finish s)) (snd (with_hook psi' hook' start' f inside' finish' t))"
  using assms by (simp add: same_sync_def with_hook_result)

lemma sync_same_real:
  fixes s t :: "'w sync_env"
  assumes "same_sync s t"
  shows "fst (real_call f s) = fst (real_call f t) \<and> same_sync (snd (real_call f s)) (snd (real_call f t))"
  using assms by (simp add: same_sync_def real_call_def split: prod.split)

lemma sync_same_notes:
  fixes s t :: "'w sync_env"
  assumes "same_sync s t"
  shows "same_sync (psi_note e s) t" "same_sync s (psi_note e t)" "same_sync (set_hook p h s) t" "same_sync s (set_hook p h t)"
    "same_sync (snd (psi_ask psi e s)) t" "same_sync s (snd (psi_ask psi e t))"
  using assms by (simp_all add: same_sync_def set_hook_def psi_ask_def Let_def)

lemma sync_matched_pair:
  assumes "fst x = fst y \<and> same_sync (snd x) (snd y)"
  shows "matched same_sync (let (r, s') = x in Inr (r, s')) (let (r, s') = y in Inr (r, s'))"
  using assms by (cases x; cases y) simp

lemma sync_matched_unit: "same_sync s t \<Longrightarrow> matched same_sync (let s' = s in Inr (0, s')) (let s' = t in Inr (0, s'))"
  by simp

lemma perform_sync_transparent:
  "same_sync s t \<Longrightarrow> matched same_sync (perform_sync psi os src c s) (perform_sync psi' os src c t)"
  by (cases c; simp only: perform_sync.simps psi_defs; rule sync_matched_pair sync_matched_unit;
     (rule sync_same_hook | simp add: Let_def case_prod_unfold sync_same_real sync_same_notes split: option.split))

definition sync_bracketed :: "'w sync_env \<Rightarrow> 'w sync_env \<Rightarrow> bool" where
  "sync_bracketed s s' \<longleftrightarrow> (\<exists>es. psi_log s' = psi_log s @ es \<and> protocol sync_wait_kind None es = Some None)"

lemma sync_bracketed_hook:
  fixes s :: "'w sync_env"
  assumes "\<And>h r. sync_wait_kind (start h) r = locker_starts r" "\<And>l q r. sync_wait_kind (finish l q) r = Ends l"
  shows "sync_bracketed s (snd (with_hook psi hook start f (\<lambda>_ _. []) finish s))"
  unfolding sync_bracketed_def with_hook_log using assms by (simp add: Let_def locker_starts_def split: option.split)

lemma sync_bracketed_pair: "(let (r, s') = x in Inr (r, s')) = Inr (q, s'') \<Longrightarrow> sync_bracketed s (snd x) \<Longrightarrow> sync_bracketed s s''"
  by (cases x) simp

lemma sync_bracketed_unit: "(let s' = x in Inr (0, s')) = Inr (q, s'') \<Longrightarrow> sync_bracketed s x \<Longrightarrow> sync_bracketed s s''"
  by simp

lemma sync_bracketed_real: "sync_bracketed s s' \<Longrightarrow> sync_bracketed s (snd (real_call f s'))"
  by (auto simp: sync_bracketed_def real_call_def protocol_append split: prod.split)

lemma sync_bracketed_note: "sync_wait_kind e None = Neither \<Longrightarrow> sync_bracketed s s' \<Longrightarrow> sync_bracketed s (psi_note e s')"
  by (auto simp: sync_bracketed_def protocol_append)

lemma sync_bracketed_ask: "(\<And>r. sync_wait_kind e r = Neither) \<Longrightarrow> sync_bracketed s s' \<Longrightarrow> sync_bracketed s (snd (psi_ask psi e s'))"
  by (auto simp: sync_bracketed_def psi_ask_def protocol_append Let_def)

lemma sync_bracketed_set: "sync_bracketed s s' \<Longrightarrow> sync_bracketed s (set_hook p h s')"
  by (simp add: sync_bracketed_def set_hook_def)

lemma sync_bracketed_refl: "sync_bracketed s s"
  by (simp add: sync_bracketed_def)

lemma perform_sync_bracketed: "perform_sync psi os src c s = Inr (r, s') \<Longrightarrow> sync_bracketed s s'"
  by (cases c; simp only: perform_sync.simps psi_defs; erule sync_bracketed_pair sync_bracketed_unit;
     ((rule sync_bracketed_hook; simp) | (simp add: Let_def case_prod_unfold sync_bracketed_real sync_bracketed_note sync_bracketed_ask sync_bracketed_set sync_bracketed_refl
        split: option.split)))

interpretation sync_api: instrumented_api "\<lambda>psi. perform_sync psi os src" same_sync psi_log sync_wait_kind
  for os :: "'w sync_os" and src
proof
  show "matched same_sync (perform_sync psi os src c s) (perform_sync psi' os src c t)" if "same_sync s t"
    for s t :: "'w sync_env" and psi psi' c
    using that by (rule perform_sync_transparent)
  show "\<exists>es. psi_log s' = psi_log s @ es \<and> protocol sync_wait_kind None es = Some None"
    if "perform_sync psi os src c s = Inr (r, s')" for psi c r and s s' :: "'w sync_env"
    using perform_sync_bracketed [OF that] by (simp add: sync_bracketed_def)
qed

definition run_sync ::
  "'w sync_os \<Rightarrow> src_loc \<Rightarrow> psi_sync_call psi \<Rightarrow> (sint32 list \<Rightarrow> sync_op option) \<Rightarrow> nat \<Rightarrow> 'w sync_env \<Rightarrow>
   (sint32 list \<times> 'w sync_env) res" where
  "run_sync os src psi client n s = instrumented_api.run (\<lambda>psi. perform_sync psi os src) psi client n [] s"


text \<open>After a mutex, read-write lock or condition is destroyed its hook is null, so no operation on it reaches the performance schema until it is initialised again.\<close>

theorem destroyed_objects_are_not_reported:
  "te_hooks (snd (inline_mysql_mutex_destroy psi os src p s)) p = None \<and>
   te_hooks (snd (inline_mysql_rwlock_destroy psi os src p s)) p = None \<and>
   te_hooks (snd (inline_mysql_prlock_destroy psi os src p s)) p = None \<and>
   te_hooks (snd (inline_mysql_cond_destroy psi os src p s)) p = None \<and>
   (te_hooks s p = None \<longrightarrow>
      psi_log (snd (inline_mysql_mutex_lock psi os src p s)) = psi_log s @ [RealCall] \<and>
      psi_log (snd (inline_mysql_mutex_unlock psi os src p s)) = psi_log s @ [RealCall] \<and>
      psi_log (snd (inline_mysql_rwlock_wrlock psi os src p s)) = psi_log s @ [RealCall] \<and>
      psi_log (snd (inline_mysql_cond_wait psi os src p q s)) = psi_log s @ [RealCall])"
  by (simp add: psi_defs real_call_def set_hook_def with_hook_log split: option.split prod.split)

subsection \<open>Witnesses\<close>

definition sample_sync_os :: "nat sync_os" where
  "sample_sync_os = \<lparr>os_my_mutex_init = \<lambda>_ _ w. (0, Suc w),
     os_my_mutex_destroy = \<lambda>_ w. (0, Suc w),
     os_my_mutex_lock = \<lambda>_ w. (0, Suc w),
     os_my_mutex_trylock = \<lambda>_ w. (0, Suc w),
     os_my_mutex_unlock = \<lambda>_ w. (0, Suc w),
     os_native_rw_init = \<lambda>_ w. (0, Suc w),
     os_rw_pr_init = \<lambda>_ w. (0, Suc w),
     os_native_rw_destroy = \<lambda>_ w. (0, Suc w),
     os_rw_pr_destroy = \<lambda>_ w. (0, Suc w),
     os_native_rw_rdlock = \<lambda>_ w. (0, Suc w),
     os_rw_pr_rdlock = \<lambda>_ w. (0, Suc w),
     os_native_rw_wrlock = \<lambda>_ w. (0, Suc w),
     os_rw_pr_wrlock = \<lambda>_ w. (0, Suc w),
     os_native_rw_tryrdlock = \<lambda>_ w. (0, Suc w),
     os_native_rw_trywrlock = \<lambda>_ w. (0, Suc w),
     os_native_rw_unlock = \<lambda>_ w. (0, Suc w),
     os_rw_pr_unlock = \<lambda>_ w. (0, Suc w),
     os_native_cond_init = \<lambda>_ w. (0, Suc w),
     os_native_cond_destroy = \<lambda>_ w. (0, Suc w),
     os_my_cond_wait = \<lambda>_ _ w. (0, Suc w),
     os_my_cond_timedwait = \<lambda>_ _ _ w. (0, Suc w),
     os_native_cond_signal = \<lambda>_ w. (0, Suc w),
     os_native_cond_broadcast = \<lambda>_ w. (0, Suc w),
     os_spawn_thread = \<lambda>_ _ _ _ _ w. (0, Suc w)\<rparr>"

definition sample_sync_env :: "nat option \<Rightarrow> nat sync_env" where
  "sample_sync_env hook = \<lparr>os_state = 0, psi_log = [], te_hooks = (\<lambda>_. hook)\<rparr>"


theorem destroyed_objects_are_not_reported_witness:
  "psi_log (snd (inline_mysql_mutex_lock (\<lambda>_ _. Some 5) sample_sync_os (''a.c'', 1) 3 (sample_sync_env None))) = [RealCall]"
  using destroyed_objects_are_not_reported [of "\<lambda>_ _. Some 5" sample_sync_os "(''a.c'', 1)" 3 "sample_sync_env None"]
  by (simp add: sample_sync_env_def)

end
