(* ===== verification/My_Runtime.thy ===== *)
theory My_Runtime
  imports My_ByteOrder Psi_Thread
begin

text \<open>
  The code of the MySQL run-time headers that runs in the client: \<open>skip_trailing_space\<close>
  (\<open>m_string.h\<close>) in both versions, the time functions and \<open>MY_ALIGN\<close> of \<open>my_global.h\<close>, the buffered
  file macros of \<open>my_sys.h\<close>, the character classes of \<open>m_ctype.h\<close> and the decimal macros of \<open>decimal.h\<close>.
  An address is a natural number; memory and the byte order functions are those of \<open>My_ByteOrder\<close>.
\<close>

unbundle bit_operations_syntax

section \<open>Trailing space\<close>

text \<open>The last loop of both versions: byte by byte.\<close>

function skip_bytes :: "memory \<Rightarrow> nat \<Rightarrow> nat \<Rightarrow> nat" where
  "skip_bytes m stop e = (if stop < e \<and> m (e - 1) = 0x20 then skip_bytes m stop (e - 1) else e)"
  by pat_completeness auto
termination by (relation "measure (\<lambda>(_, _, e). e)") auto

declare skip_bytes.simps [simp del]

text \<open>Eight bytes at a time, at any alignment.\<close>

function skip_eights :: "memory \<Rightarrow> nat \<Rightarrow> nat \<Rightarrow> nat" where
  "skip_eights m ptr e =
     (if ptr + 8 \<le> e then (if x86_uint8korr m (e - 8) \<noteq> 0x2020202020202020 then e else skip_eights m ptr (e - 8))
      else e)"
  by pat_completeness auto
termination by (relation "measure (\<lambda>(_, _, e). e)") auto

declare skip_eights.simps [simp del]

definition skip_trailing_space :: "memory \<Rightarrow> nat \<Rightarrow> nat \<Rightarrow> nat" where
  "skip_trailing_space m ptr len = skip_bytes m ptr (skip_eights m ptr (ptr + len))"

text \<open>
  The version for SPARC, a big-endian machine that reads an \<open>unsigned\<close> only at a multiple of four:
  \<open>None\<close> is a misaligned read or a failed assertion.
\<close>

definition unsigned_before :: "memory \<Rightarrow> nat \<Rightarrow> uint32 option" where
  "unsigned_before m e = (if e mod 4 = 0 \<and> 4 \<le> e then Some (be_load m (e - 4)) else None)"

function skip_words :: "memory \<Rightarrow> nat \<Rightarrow> nat \<Rightarrow> nat option" where
  "skip_words m stop e =
     (if stop < e then
        (case unsigned_before m e of
           None \<Rightarrow> None
         | Some w \<Rightarrow> if w = 0x20202020 then skip_words m stop (e - 4) else Some e)
      else Some e)"
  by pat_completeness auto
termination by (relation "measure (\<lambda>(_, _, e). e)") (auto simp: unsigned_before_def split: if_splits)

declare skip_words.simps [simp del]

definition sparc_skip_trailing_space :: "memory \<Rightarrow> nat \<Rightarrow> nat \<Rightarrow> nat option" where
  "sparc_skip_trailing_space m ptr len =
     (let e = ptr + len in
      if 20 < len then
        let end_words = e div 4 * 4; start_words = (ptr + 4 - 1) div 4 * 4 in
        if \<not> ptr < end_words then None
        else
          let e1 = skip_bytes m end_words e in
          case (if m (e1 - 1) = 0x20 \<and> start_words < end_words then skip_words m start_words e1 else Some e1) of
            None \<Rightarrow> None
          | Some e2 \<Rightarrow> Some (skip_bytes m ptr e2)
      else Some (skip_bytes m ptr e))"

text \<open>What both promise: the end of the string without its trailing spaces.\<close>

definition without_trailing_space :: "uchar list \<Rightarrow> uchar list" where
  "without_trailing_space bs = rev (dropWhile (\<lambda>b. b = 0x20) (rev bs))"

text \<open>\<open>e'\<close> is reached from \<open>e\<close> over spaces only.\<close>

definition spaces :: "memory \<Rightarrow> nat \<Rightarrow> nat \<Rightarrow> bool" where
  "spaces m e' e \<longleftrightarrow> (\<forall>a. e' \<le> a \<and> a < e \<longrightarrow> m a = 0x20)"

lemma spaces_trans: "spaces m a b \<Longrightarrow> spaces m b c \<Longrightarrow> spaces m a c"
  unfolding spaces_def by (meson leI)

lemma spaces_refl [simp]: "spaces m a a"
  by (auto simp: spaces_def)

lemma spaces_Suc: "m a = 0x20 \<Longrightarrow> spaces m (Suc a) e \<Longrightarrow> spaces m a e"
  unfolding spaces_def by (metis Suc_leI le_neq_implies_less)

lemma spaces_pred: "0 < e \<Longrightarrow> m (e - 1) = 0x20 \<Longrightarrow> spaces m (e - 1) e"
  unfolding spaces_def by (metis Suc_pred' le_less_Suc_eq)

lemma skip_bytes_spaces:
  "stop \<le> e \<Longrightarrow> stop \<le> skip_bytes m stop e \<and> skip_bytes m stop e \<le> e \<and> spaces m (skip_bytes m stop e) e \<and>
    (skip_bytes m stop e = stop \<or> m (skip_bytes m stop e - 1) \<noteq> 0x20)"
proof (induction m stop e rule: skip_bytes.induct)
  case (1 m stop e)
  show ?case
  proof (cases "stop < e \<and> m (e - 1) = 0x20")
    case True
    then have step: "skip_bytes m stop e = skip_bytes m stop (e - 1)" by (subst skip_bytes.simps) simp
    from True have "spaces m (e - 1) e" by (intro spaces_pred) auto
    moreover from True have "stop \<le> e - 1" by auto
    ultimately show ?thesis using 1(1) [OF True] unfolding step by (auto intro: spaces_trans)
  next
    case False
    then have "skip_bytes m stop e = e" by (subst skip_bytes.simps) auto
    with False 1(2) show ?thesis by auto
  qed
qed

text \<open>The result is the only address with these properties.\<close>

lemma without_trailing_space_snoc:
  "without_trailing_space (bs @ [b]) = (if b = 0x20 then without_trailing_space bs else bs @ [b])"
  by (simp add: without_trailing_space_def)

lemma bytes_at_Suc: "bytes_at m p (Suc n) = bytes_at m p n @ [m (p + n)]"
  by (simp add: bytes_at_def)

lemma trailing_length:
  assumes "k \<le> n" "spaces m (p + k) (p + n)" "k = 0 \<or> m (p + k - 1) \<noteq> 0x20"
  shows "length (without_trailing_space (bytes_at m p n)) = k"
  using assms
proof (induction n)
  case 0 then show ?case by (simp add: without_trailing_space_def bytes_at_def)
next
  case (Suc n)
  show ?case
  proof (cases "k = Suc n")
    case True
    with Suc(4) show ?thesis by (simp add: bytes_at_Suc without_trailing_space_snoc) (simp add: bytes_at_def)
  next
    case False
    with Suc(2,3) have "k \<le> n" "m (p + n) = 0x20" "spaces m (p + k) (p + n)" by (auto simp: spaces_def)
    with Suc show ?thesis by (simp add: bytes_at_Suc without_trailing_space_snoc)
  qed
qed

lemma skip_bytes_end:
  assumes "stop \<le> e" "spaces m e (stop + n)" "e \<le> stop + n"
  shows "skip_bytes m stop e = stop + length (without_trailing_space (bytes_at m stop n))"
proof -
  note k = skip_bytes_spaces [OF assms(1), of m]
  then obtain k where "skip_bytes m stop e = stop + k" by (metis le_iff_add)
  moreover from k this assms have "k \<le> n" "spaces m (stop + k) (stop + n)" "k = 0 \<or> m (stop + k - 1) \<noteq> 0x20"
    by (auto intro: spaces_trans)
  ultimately show ?thesis by (simp add: trailing_length)
qed

text \<open>A word of spaces is spaces.\<close>

lemma le_value_inj: "length bs = length cs \<Longrightarrow> le_value bs = le_value cs \<Longrightarrow> bs = cs"
proof (induction bs cs rule: list_induct2)
  case (Cons b bs c cs)
  then have "(unat b + 256 * le_value bs) mod 256 = (unat c + 256 * le_value cs) mod 256" by simp
  then have "b = c" using unsigned_less [of b, where ?'a = nat] unsigned_less [of c, where ?'a = nat] by (simp add: word_unat_eq_iff)
  with Cons show ?case by simp
qed simp

lemma bytes_at_spaces: "bytes_at m p n = replicate n 0x20 \<Longrightarrow> spaces m p (p + n)"
proof -
  assume eq: "bytes_at m p n = replicate n 0x20"
  have "m (p + i) = 0x20" if "i < n" for i
    using arg_cong [OF eq, of "\<lambda>bs. bs ! i"] that by (simp add: bytes_at_def)
  then show ?thesis unfolding spaces_def by (metis le_iff_add nat_add_left_cancel_less)
qed

lemma load_of_spaces:
  assumes "(word_of_nat (le_value bs) :: 'a::len word) = word_of_nat (le_value (replicate (length bs) 0x20))"
    and "8 * length bs = LENGTH('a)"
  shows "bs = replicate (length bs) 0x20"
proof -
  have less: "le_value cs < 2 ^ LENGTH('a)" if "length cs = length bs" for cs
    using le_value_less [of cs] that assms(2) [symmetric] by (simp add: power_mult)
  from assms(1) have "le_value bs = le_value (replicate (length bs) 0x20)"
    unfolding word_of_nat_eq_iff by (simp add: take_bit_nat_eq_self less)
  then show ?thesis by (intro le_value_inj) simp_all
qed

lemma le_value_spaces:
  "le_value (replicate 4 0x20) = 0x20202020" "le_value (replicate 8 0x20) = 0x2020202020202020"
proof -
  have "replicate 4 (0x20 :: uchar) = [0x20, 0x20, 0x20, 0x20]"
    and "replicate 8 (0x20 :: uchar) = [0x20, 0x20, 0x20, 0x20, 0x20, 0x20, 0x20, 0x20]"
    by (simp_all add: numeral_eq_Suc)
  then show "le_value (replicate 4 0x20) = 0x20202020" "le_value (replicate 8 0x20) = 0x2020202020202020"
    by simp_all
qed

lemma eight_spaces: "x86_uint8korr m p = 0x2020202020202020 \<Longrightarrow> spaces m p (p + 8)"
proof -
  assume "x86_uint8korr m p = 0x2020202020202020"
  moreover have len: "length (bytes_at m p 8) = 8" by (simp add: bytes_at_def)
  ultimately have "bytes_at m p 8 = replicate (length (bytes_at m p 8)) 0x20"
    by (intro load_of_spaces [where 'a = 64]) (simp_all add: x86_uint8korr_def le_load_def le_value_spaces)
  then show ?thesis unfolding len by (rule bytes_at_spaces)
qed

lemma word_spaces: "unsigned_before m e = Some 0x20202020 \<Longrightarrow> spaces m (e - 4) e"
proof -
  assume w: "unsigned_before m e = Some 0x20202020"
  have len: "length (rev (bytes_at m (e - 4) 4)) = 4" by (simp add: bytes_at_def)
  with w have "rev (bytes_at m (e - 4) 4) = replicate (length (rev (bytes_at m (e - 4) 4))) 0x20"
    by (intro load_of_spaces [where 'a = 32])
      (simp_all add: unsigned_before_def be_load_def le_value_spaces split: if_splits)
  then have "bytes_at m (e - 4) 4 = replicate 4 0x20" unfolding len by (metis rev_replicate rev_swap)
  with w show ?thesis using bytes_at_spaces [of m "e - 4" 4] by (simp add: unsigned_before_def split: if_splits)
qed

lemma skip_eights_spaces:
  "ptr \<le> e \<Longrightarrow> ptr \<le> skip_eights m ptr e \<and> skip_eights m ptr e \<le> e \<and> spaces m (skip_eights m ptr e) e"
proof (induction m ptr e rule: skip_eights.induct)
  case (1 m ptr e)
  show ?case
  proof (cases "ptr + 8 \<le> e \<and> x86_uint8korr m (e - 8) = 0x2020202020202020")
    case True
    then have step: "skip_eights m ptr e = skip_eights m ptr (e - 8)" by (subst skip_eights.simps) auto
    from True eight_spaces [of m "e - 8"] have "spaces m (e - 8) e" "ptr \<le> e - 8" by auto
    with True 1(1) show ?thesis unfolding step by (auto intro: spaces_trans)
  next
    case False
    then have "skip_eights m ptr e = e" by (subst skip_eights.simps) auto
    with 1(2) show ?thesis by simp
  qed
qed

text \<open>Every aligned word from an aligned start up to an aligned end can be read.\<close>

lemma skip_words_spaces:
  "stop \<le> e \<Longrightarrow> stop mod 4 = 0 \<Longrightarrow> e mod 4 = 0 \<Longrightarrow>
    \<exists>e'. skip_words m stop e = Some e' \<and> stop \<le> e' \<and> e' \<le> e \<and> spaces m e' e"
proof (induction m stop e rule: skip_words.induct)
  case (1 m stop e)
  show ?case
  proof (cases "stop < e")
    case True
    with 1(3,4) have e: "stop \<le> e - 4" "(e - 4) mod 4 = 0" "4 \<le> e" by presburger+
    with 1(4) obtain w where w: "unsigned_before m e = Some w" by (simp add: unsigned_before_def)
    show ?thesis
    proof (cases "w = 0x20202020")
      case True
      with w \<open>stop < e\<close> have step: "skip_words m stop e = skip_words m stop (e - 4)" by (subst skip_words.simps) simp
      from 1(1) [OF \<open>stop < e\<close> w True e(1) 1(3) e(2)] word_spaces [of m e] w True show ?thesis
        unfolding step by (auto intro: spaces_trans)
    next
      case False
      with w \<open>stop < e\<close> have "skip_words m stop e = Some e" by (subst skip_words.simps) simp
      with 1(2) show ?thesis by simp
    qed
  next
    case False
    then have "skip_words m stop e = Some e" by (subst skip_words.simps) simp
    with 1(2) show ?thesis by simp
  qed
qed

text \<open>C37: Skipping the trailing spaces of a string eight bytes at a time gives the address where the string ends once its trailing spaces are taken off one by one.\<close>

theorem skip_trailing_space_correct:
  "skip_trailing_space m ptr len = ptr + length (without_trailing_space (bytes_at m ptr len))"
  using skip_eights_spaces [of ptr "ptr + len" m] by (simp add: skip_trailing_space_def skip_bytes_end)

text \<open>The version for a processor that can only read aligned words never reads a misaligned word, never fails its assertion, and gives the same address as the version that reads eight bytes at any alignment.\<close>

theorem sparc_equals_unaligned:
  "sparc_skip_trailing_space m ptr len = Some (skip_trailing_space m ptr len)"
proof -
  have eq: "skip_bytes m ptr e = skip_trailing_space m ptr len"
    if "ptr \<le> e" "e \<le> ptr + len" "spaces m e (ptr + len)" for e
    unfolding skip_trailing_space_def
    using that skip_eights_spaces [of ptr "ptr + len" m] skip_bytes_end [of ptr "skip_eights m ptr (ptr + len)" m len]
      skip_bytes_end [of ptr e m len] by simp
  show ?thesis
  proof (cases "20 < len")
    case True
    define e where "e = ptr + len"
    define ew where "ew = e div 4 * 4"
    define sw where "sw = (ptr + 4 - 1) div 4 * 4"
    have ends: "ptr < ew" "ew \<le> e" "ptr \<le> sw" "ew mod 4 = 0" "sw mod 4 = 0"
      unfolding ew_def e_def sw_def using True by presburger+
    note e1 = skip_bytes_spaces [OF ends(2), of m]
    have sparc: "sparc_skip_trailing_space m ptr len =
        (case (if m (skip_bytes m ew e - 1) = 0x20 \<and> sw < ew then skip_words m sw (skip_bytes m ew e)
               else Some (skip_bytes m ew e)) of
           None \<Rightarrow> None | Some e2 \<Rightarrow> Some (skip_bytes m ptr e2))"
      using True ends(1) unfolding sparc_skip_trailing_space_def Let_def e_def ew_def sw_def by simp
    show ?thesis
    proof (cases "m (skip_bytes m ew e - 1) = 0x20 \<and> sw < ew")
      case True
      with e1 have "skip_bytes m ew e = ew" by auto
      with True skip_words_spaces [of sw ew m] ends obtain e' where e': "skip_words m sw ew = Some e'" "sw \<le> e'"
        "e' \<le> ew" "spaces m e' ew" by auto
      with e1 ends \<open>skip_bytes m ew e = ew\<close> have "ptr \<le> e'" "e' \<le> ptr + len" "spaces m e' (ptr + len)"
        by (auto simp: e_def intro: spaces_trans)
      with True e' \<open>skip_bytes m ew e = ew\<close> show ?thesis unfolding sparc by (simp add: eq)
    next
      case False
      moreover have "ptr \<le> skip_bytes m ew e" "skip_bytes m ew e \<le> ptr + len" "spaces m (skip_bytes m ew e) (ptr + len)"
        using e1 ends by (auto simp: e_def)
      ultimately show ?thesis unfolding sparc if_not_P [OF False] by (simp add: eq)
    qed
  next
    case False
    then show ?thesis by (simp add: sparc_skip_trailing_space_def eq)
  qed
qed

section \<open>Time\<close>

text \<open>
  \<open>my_getsystime\<close>, the clock in units of 100 ns, is in the binary library: its value is an argument.
  A \<open>time_t\<close> has 64 bits, as \<open>my_config.h\<close> says.
\<close>

definition set_timespec_nsec :: "uint64 \<Rightarrow> uint64 \<Rightarrow> timespec" where
  "set_timespec_nsec clock nsec =
     (let now = clock + nsec div 100
      in \<lparr>tv_sec = now div 10000000, tv_nsec = (now mod 10000000) * 100 + nsec mod 100\<rparr>)"

definition set_timespec :: "uint64 \<Rightarrow> uint64 \<Rightarrow> timespec" where
  "set_timespec clock sec = set_timespec_nsec clock (sec * 1000000000)"

definition cmp_timespec :: "timespec \<Rightarrow> timespec \<Rightarrow> sint32" where
  "cmp_timespec ts1 ts2 =
     (if tv_sec ts2 <s tv_sec ts1 \<or> (tv_sec ts1 = tv_sec ts2 \<and> tv_nsec ts2 <s tv_nsec ts1) then 1
      else if tv_sec ts1 <s tv_sec ts2 \<or> (tv_sec ts1 = tv_sec ts2 \<and> tv_nsec ts1 <s tv_nsec ts2) then - 1
      else 0)"

definition diff_timespec :: "timespec \<Rightarrow> timespec \<Rightarrow> uint64" where
  "diff_timespec ts1 ts2 = (tv_sec ts1 - tv_sec ts2) * 1000000000 + tv_nsec ts1 - tv_nsec ts2"

text \<open>The moment a \<open>timespec\<close> names, in nanoseconds.\<close>

definition nanoseconds :: "timespec \<Rightarrow> int" where
  "nanoseconds ts = sint (tv_sec ts) * 1000000000 + sint (tv_nsec ts)"

definition normalized :: "timespec \<Rightarrow> bool" where
  "normalized ts \<longleftrightarrow> 0 \<le> sint (tv_nsec ts) \<and> sint (tv_nsec ts) < 1000000000"

lemma uint_small: "unat (w :: 64 word) < 2 ^ 63 \<Longrightarrow> uint w < 2 ^ 63"
  by (metis of_nat_less_iff of_nat_numeral of_nat_power uint_nat)

lemma sint_small: "unat (w :: 64 word) < 2 ^ 63 \<Longrightarrow> sint w = int (unat w)"
proof -
  assume "unat w < 2 ^ 63"
  then have "uint w < 2 ^ 63" by (rule uint_small)
  moreover have "- (2 ^ 63) \<le> uint w" by (rule order.trans [OF _ uint_ge_0]) simp
  ultimately have "signed_take_bit 63 (uint w) = uint w" by (simp only: signed_take_bit_int_eq_self)
  then show ?thesis unfolding sint_uint by (simp only: len_num1 len_bit0 uint_nat) simp
qed

lemma below_one_second: "k mod 10000000 * 100 + n mod 100 < (1000000000 :: nat)"
proof -
  have "k mod 10000000 < 10000000" "n mod 100 < 100" by simp_all
  then show ?thesis by linarith
qed

lemma set_timespec_nsec_fields:
  "unat (tv_sec (set_timespec_nsec clock nsec)) = unat (clock + nsec div 100) div 10000000"
  "unat (tv_nsec (set_timespec_nsec clock nsec)) = unat (clock + nsec div 100) mod 10000000 * 100 + unat nsec mod 100"
proof -
  have small: "unat (clock + nsec div 100) mod 10000000 * 100 + unat nsec mod 100 < 2 ^ 64"
    by (rule less_trans [OF below_one_second]) simp
  then have "unat (clock + nsec div 100) mod 10000000 * 100 < 2 ^ 64" by simp
  with small show "unat (tv_nsec (set_timespec_nsec clock nsec)) = unat (clock + nsec div 100) mod 10000000 * 100 + unat nsec mod 100"
    by (simp add: set_timespec_nsec_def Let_def unat_mod_distrib unat_add_lem [THEN iffD1] unat_mult_lem [THEN iffD1])
qed (simp add: set_timespec_nsec_def Let_def unat_div_distrib)

lemma set_timespec_nsec_sints:
  "sint (tv_sec (set_timespec_nsec clock nsec)) = int (unat (clock + nsec div 100) div 10000000)"
  "sint (tv_nsec (set_timespec_nsec clock nsec)) = int (unat (clock + nsec div 100) mod 10000000 * 100 + unat nsec mod 100)"
proof -
  have "unat (clock + nsec div 100) div 10000000 < 2 ^ 63"
    using unsigned_less [of "clock + nsec div 100", where ?'a = nat] by simp
  moreover have "unat (clock + nsec div 100) mod 10000000 * 100 + unat nsec mod 100 < 2 ^ 63"
    by (rule less_trans [OF below_one_second]) simp
  ultimately show "sint (tv_sec (set_timespec_nsec clock nsec)) = int (unat (clock + nsec div 100) div 10000000)"
    "sint (tv_nsec (set_timespec_nsec clock nsec)) = int (unat (clock + nsec div 100) mod 10000000 * 100 + unat nsec mod 100)"
    by (simp_all only: set_timespec_nsec_fields sint_small)
qed

lemma set_timespec_nsec_normalized: "normalized (set_timespec_nsec clock nsec)"
  unfolding normalized_def set_timespec_nsec_sints
  using below_one_second [of "unat (clock + nsec div 100)" "unat nsec"] by linarith

lemma cmp_timespec_sgn:
  assumes "normalized ts1" "normalized ts2"
  shows "sint (cmp_timespec ts1 ts2) = sgn (nanoseconds ts1 - nanoseconds ts2)"
proof -
  have eq: "tv_sec ts1 = tv_sec ts2 \<longleftrightarrow> sint (tv_sec ts1) = sint (tv_sec ts2)" by (simp add: word_eq_iff_signed)
  have "x < y \<Longrightarrow> x * 1000000000 + n < y * 1000000000 + m"
    if "0 \<le> n" "n < 1000000000" "0 \<le> m" "m < 1000000000" for x y n m :: int
    using that by linarith
  with assms show ?thesis
    unfolding cmp_timespec_def nanoseconds_def normalized_def word_sless_alt eq by (auto simp: sgn_if)
qed

lemma diff_timespec_nanoseconds: "diff_timespec ts1 ts2 = word_of_int (nanoseconds ts1 - nanoseconds ts2)"
  by (simp add: diff_timespec_def nanoseconds_def wi_hom_syms algebra_simps)

lemma deadline_nanoseconds:
  assumes "unat clock + unat nsec div 100 < 2 ^ 64"
  shows "nanoseconds (set_timespec_nsec clock nsec) = 100 * int (unat clock) + int (unat nsec)"
proof -
  have "unat (clock + nsec div 100) = unat clock + unat nsec div 100"
    using assms by (simp add: unat_add_lem [THEN iffD1] unat_div_distrib)
  then show ?thesis
    unfolding nanoseconds_def set_timespec_nsec_sints by (simp add: zmod_int zdiv_int) presburger
qed

text \<open>C39: As long as the clock does not overflow, the deadline is the delay away from the clock to the nanosecond, with a nanosecond part below one second; deadlines are compared as the moments they name, and the difference to the present is the delay.\<close>

theorem deadline_correct:
  assumes "unat clock + unat nsec div 100 < 2 ^ 64"
  shows "normalized (set_timespec_nsec clock nsec) \<and>
    nanoseconds (set_timespec_nsec clock nsec) = 100 * int (unat clock) + int (unat nsec) \<and>
    (\<forall>ts. normalized ts \<longrightarrow>
       sint (cmp_timespec (set_timespec_nsec clock nsec) ts) =
       sgn (nanoseconds (set_timespec_nsec clock nsec) - nanoseconds ts)) \<and>
    diff_timespec (set_timespec_nsec clock nsec) (set_timespec_nsec clock 0) = nsec"
proof -
  have "unat clock + unat (0 :: uint64) div 100 < 2 ^ 64" using unsigned_less [of clock, where ?'a = nat] by simp
  then have "diff_timespec (set_timespec_nsec clock nsec) (set_timespec_nsec clock 0) = nsec"
    using assms by (simp add: diff_timespec_nanoseconds deadline_nanoseconds)
  with assms show ?thesis by (simp add: set_timespec_nsec_normalized cmp_timespec_sgn deadline_nanoseconds)
qed

theorem deadline_correct_witness:
  "nanoseconds (set_timespec_nsec 16094592000000000 1599) = 1609459200000001599 \<and>
   diff_timespec (set_timespec_nsec 16094592000000000 1599) (set_timespec_nsec 16094592000000000 0) = 1599"
  using deadline_correct [of 16094592000000000 1599] by simp

text \<open>The number of seconds is converted to nanoseconds modulo 64 bits: a delay of 18446744074 seconds or more is cut to its remainder, so the deadline may be less than a second away.\<close>

theorem long_delays_wrap:
  assumes "unat clock < 2 ^ 63"
  shows "nanoseconds (set_timespec clock sec) = 100 * int (unat clock) + int (unat sec) * 1000000000 mod 2 ^ 64 \<and>
    nanoseconds (set_timespec clock 18446744074) = 100 * int (unat clock) + 290448384"
proof -
  have wrap: "int (unat (sec * 1000000000)) = int (unat sec) * 1000000000 mod 2 ^ 64" for sec :: uint64
    by (simp add: uint_word_ariths(3) flip: uint_nat)
  have half: "unat x div 100 < 2 ^ 63" for x :: uint64
    using unsigned_less [of x, where ?'a = nat] by (simp add: div_less_iff_less_mult)
  have "unat clock + unat (sec * 1000000000 :: uint64) div 100 < 2 ^ 64" for sec
    using add_strict_mono [OF assms half [of "sec * 1000000000"]] by simp
  then have *: "nanoseconds (set_timespec clock sec) = 100 * int (unat clock) + int (unat sec) * 1000000000 mod 2 ^ 64" for sec
    unfolding set_timespec_def using wrap by (simp add: deadline_nanoseconds)
  show ?thesis using *[of sec] *[of 18446744074] by simp
qed

theorem long_delays_wrap_witness:
  "nanoseconds (set_timespec 16094592000000000 18446744074) = 1609459200000000000 + 290448384"
  using long_delays_wrap [of 16094592000000000 0] by simp

section \<open>Buffered files\<close>

text \<open>
  The members of \<open>IO_CACHE\<close> up to \<open>current_end\<close>, which are all that its macros use. \<open>current_pos\<close> and \<open>current_end\<close> point to the members of
  the reading or of the writing side. The functions that refill or empty the buffer are in the binary
  library and are arguments.
\<close>

datatype cache_side = ReadSide | WriteSide

record IO_CACHE =
  pos_in_file :: uint64
  end_of_file :: uint64
  read_pos :: nat
  read_end :: nat
  io_buffer :: nat
  request_pos :: nat
  write_buffer :: nat
  append_read_pos :: nat
  write_pos :: nat
  write_end :: nat
  current_pos :: cache_side
  current_end :: cache_side

type_synonym cache_function = "IO_CACHE \<Rightarrow> nat \<Rightarrow> nat \<Rightarrow> memory \<Rightarrow> sint32 \<times> IO_CACHE \<times> memory"

definition memcpy :: "memory \<Rightarrow> nat \<Rightarrow> nat \<Rightarrow> nat \<Rightarrow> memory" where
  "memcpy m dest src n = put_bytes m dest (bytes_at m src n)"

definition my_b_clear :: "IO_CACHE \<Rightarrow> IO_CACHE" where
  "my_b_clear info = info\<lparr>io_buffer := 0\<rparr>"

definition my_b_inited :: "IO_CACHE \<Rightarrow> bool" where
  "my_b_inited info \<longleftrightarrow> io_buffer info \<noteq> 0"

definition my_b_read :: "cache_function \<Rightarrow> IO_CACHE \<Rightarrow> nat \<Rightarrow> nat \<Rightarrow> memory \<Rightarrow> sint32 \<times> IO_CACHE \<times> memory" where
  "my_b_read read_function info buf count m =
     (if read_pos info + count \<le> read_end info
      then (0, info\<lparr>read_pos := read_pos info + count\<rparr>, memcpy m buf (read_pos info) count)
      else read_function info buf count m)"

definition my_b_write :: "cache_function \<Rightarrow> IO_CACHE \<Rightarrow> nat \<Rightarrow> nat \<Rightarrow> memory \<Rightarrow> sint32 \<times> IO_CACHE \<times> memory" where
  "my_b_write write_function info buf count m =
     (if write_pos info + count \<le> write_end info
      then (0, info\<lparr>write_pos := write_pos info + count\<rparr>, memcpy m (write_pos info) buf count)
      else write_function info buf count m)"

definition my_b_get :: "(IO_CACHE \<Rightarrow> sint32 \<times> IO_CACHE) \<Rightarrow> memory \<Rightarrow> IO_CACHE \<Rightarrow> sint32 \<times> IO_CACHE" where
  "my_b_get get_function m info =
     (if read_pos info \<noteq> read_end info then (ucast (m (read_pos info)), info\<lparr>read_pos := read_pos info + 1\<rparr>)
      else get_function info)"

definition cache_current_pos :: "IO_CACHE \<Rightarrow> nat" where
  "cache_current_pos info = (case current_pos info of ReadSide \<Rightarrow> read_pos info | WriteSide \<Rightarrow> write_pos info)"

definition cache_current_end :: "IO_CACHE \<Rightarrow> nat" where
  "cache_current_end info = (case current_end info of ReadSide \<Rightarrow> read_end info | WriteSide \<Rightarrow> write_end info)"

definition my_b_tell :: "IO_CACHE \<Rightarrow> uint64" where
  "my_b_tell info = pos_in_file info + (of_nat (cache_current_pos info) - of_nat (request_pos info))"

definition my_b_bytes_in_cache :: "IO_CACHE \<Rightarrow> uint64" where
  "my_b_bytes_in_cache info = of_nat (cache_current_end info) - of_nat (cache_current_pos info)"

definition my_b_get_buffer_start :: "IO_CACHE \<Rightarrow> nat" where
  "my_b_get_buffer_start info = request_pos info"

definition my_b_get_bytes_in_buffer :: "IO_CACHE \<Rightarrow> sint64" where
  "my_b_get_bytes_in_buffer info = of_nat (read_end info) - of_nat (my_b_get_buffer_start info)"

definition my_b_get_pos_in_file :: "IO_CACHE \<Rightarrow> uint64" where
  "my_b_get_pos_in_file info = pos_in_file info"

lemma tell_within_buffer:
  "current_pos info = ReadSide \<Longrightarrow> read_pos info = my_b_get_buffer_start info + k \<Longrightarrow>
    my_b_tell info = my_b_get_pos_in_file info + of_nat k"
  by (simp add: my_b_tell_def cache_current_pos_def my_b_get_pos_in_file_def my_b_get_buffer_start_def)

text \<open>A client that reads byte by byte.\<close>

fun get_bytes :: "(IO_CACHE \<Rightarrow> sint32 \<times> IO_CACHE) \<Rightarrow> memory \<Rightarrow> nat \<Rightarrow> IO_CACHE \<Rightarrow> sint32 list \<times> IO_CACHE" where
  "get_bytes get_function m 0 info = ([], info)"
| "get_bytes get_function m (Suc n) info =
     (let (b, info1) = my_b_get get_function m info; (bs, info2) = get_bytes get_function m n info1 in (b # bs, info2))"

lemma put_bytes_other: "a < p \<or> p + length bs \<le> a \<Longrightarrow> put_bytes m p bs a = m a"
  by (induction bs arbitrary: m p) auto

lemma put_bytes_same: "i < length bs \<Longrightarrow> put_bytes m p bs (p + i) = bs ! i"
proof (induction bs arbitrary: m p i)
  case (Cons b bs)
  show ?case
  proof (cases i)
    case 0 then show ?thesis by (simp add: put_bytes_other)
  next
    case (Suc j)
    with Cons show ?thesis using Cons.IH [of j "m(p := b)" "Suc p"] by (simp del: fun_upd_apply)
  qed
qed simp

lemma bytes_at_memcpy: "bytes_at (memcpy m dest src n) dest n = bytes_at m src n"
proof (rule nth_equalityI)
  fix i assume "i < length (bytes_at (memcpy m dest src n) dest n)"
  then have "i < n" by (simp add: bytes_at_def)
  then show "bytes_at (memcpy m dest src n) dest n ! i = bytes_at m src n ! i"
    using put_bytes_same [of i "bytes_at m src n" m dest] by (simp add: memcpy_def bytes_at_def)
qed (simp add: bytes_at_def)

lemma bytes_at_Cons: "bytes_at m p (Suc n) = m p # bytes_at m (Suc p) n"
  by (simp add: bytes_at_def upt_conv_Cons map_Suc_upt [symmetric] del: upt_Suc)

lemma get_bytes_buffered:
  "read_pos info + n \<le> read_end info \<Longrightarrow>
    get_bytes get_function m n info = (map ucast (bytes_at m (read_pos info) n), info\<lparr>read_pos := read_pos info + n\<rparr>)"
proof (induction n arbitrary: info)
  case 0 then show ?case by (simp add: bytes_at_def)
next
  case (Suc n)
  from Suc.prems show ?case
    by (simp add: my_b_get_def Suc.IH bytes_at_Cons)
qed

text \<open>C38: As long as the buffer holds them, n bytes read one by one are the n bytes a single read copies, and both leave the cache in the same state, n bytes further in the file and with n bytes less in the buffer.\<close>

theorem buffered_reads_agree:
  assumes "read_pos info + n \<le> read_end info" "current_pos info = ReadSide" "current_end info = ReadSide"
  shows "case my_b_read read_function info buf n m of (r, info', m') \<Rightarrow>
      r = 0 \<and> get_bytes get_function m n info = (map ucast (bytes_at m' buf n), info') \<and>
      my_b_tell info' = my_b_tell info + of_nat n \<and>
      my_b_bytes_in_cache info' = my_b_bytes_in_cache info - of_nat n \<and>
      (\<forall>a. a < buf \<or> buf + n \<le> a \<longrightarrow> m' a = m a)"
proof -
  have "\<forall>a. a < buf \<or> buf + n \<le> a \<longrightarrow> memcpy m buf (read_pos info) n a = m a"
    by (simp add: memcpy_def put_bytes_other bytes_at_def)
  with assms show ?thesis
    by (simp add: my_b_read_def get_bytes_buffered bytes_at_memcpy my_b_tell_def my_b_bytes_in_cache_def
        cache_current_pos_def cache_current_end_def)
qed

theorem buffered_reads_agree_witness:
  "get_bytes (\<lambda>info. (- 1, info)) (\<lambda>a. of_nat a) 3
     \<lparr>pos_in_file = 4096, end_of_file = 8192, read_pos = 20, read_end = 30, io_buffer = 10, request_pos = 10, write_buffer = 0, append_read_pos = 0, write_pos = 0, write_end = 0,
      current_pos = ReadSide, current_end = ReadSide\<rparr> =
   ([20, 21, 22],
     \<lparr>pos_in_file = 4096, end_of_file = 8192, read_pos = 23, read_end = 30, io_buffer = 10, request_pos = 10, write_buffer = 0, append_read_pos = 0, write_pos = 0, write_end = 0,
      current_pos = ReadSide, current_end = ReadSide\<rparr>)"
  using buffered_reads_agree [where n = 3 and buf = 100 and m = "\<lambda>a. of_nat a" and get_function = "\<lambda>info. (- 1, info)" and
      read_function = "\<lambda>i b n m. (1, i, m)" and info = "\<lparr>pos_in_file = 4096, end_of_file = 8192, read_pos = 20, read_end = 30,
        io_buffer = 10, request_pos = 10, write_buffer = 0, append_read_pos = 0, write_pos = 0, write_end = 0, current_pos = ReadSide, current_end = ReadSide\<rparr>"]
  by (simp add: my_b_read_def bytes_at_memcpy) (simp add: bytes_at_def upt_rec)

lemma buffered_write:
  "write_pos info + n \<le> write_end info \<Longrightarrow> my_b_write write_function info buf n m = (r, info', m') \<Longrightarrow>
    r = 0 \<and> bytes_at m' (write_pos info) n = bytes_at m buf n \<and> info' = info\<lparr>write_pos := write_pos info + n\<rparr>"
  by (auto simp: my_b_write_def bytes_at_memcpy)

section \<open>Alignment\<close>

text \<open>At any width of the arguments, with the conversion of C's integers already done.\<close>

definition MY_ALIGN :: "'a::len word \<Rightarrow> 'a word \<Rightarrow> 'a word" where
  "MY_ALIGN A L = (A + L - 1) AND NOT (L - 1)"

definition ALIGN_SIZE :: "uint64 \<Rightarrow> uint64" where
  "ALIGN_SIZE A = MY_ALIGN A 8"

lemma and_not_low: "a AND NOT (mask k :: 'a::len word) = push_bit k (drop_bit k a)"
  by (rule bit_word_eqI) (auto simp: bit_simps)

lemma unat_clear_low: "unat (push_bit k (drop_bit k a) :: 'a::len word) = unat a div 2 ^ k * 2 ^ k"
proof -
  have "unat a div 2 ^ k * 2 ^ k \<le> unat a" by simp
  then have "unat a div 2 ^ k * 2 ^ k < 2 ^ LENGTH('a)" using unsigned_less [of a, where ?'a = nat] by linarith
  then show ?thesis
    unfolding unsigned_push_bit_eq unsigned_drop_bit_eq unfolding push_bit_eq_mult drop_bit_eq_div
    by (simp add: take_bit_nat_eq_self)
qed

text \<open>Aligning to a power of two gives the least multiple that is not below the value, as long as that multiple is representable.\<close>

theorem MY_ALIGN_least_multiple:
  fixes A :: "'a::len word"
  assumes "k < LENGTH('a)" "unat A + 2 ^ k - 1 < 2 ^ LENGTH('a)"
  shows "2 ^ k dvd unat (MY_ALIGN A (2 ^ k)) \<and> unat A \<le> unat (MY_ALIGN A (2 ^ k)) \<and>
    (\<forall>b. 2 ^ k dvd b \<and> unat A \<le> b \<longrightarrow> unat (MY_ALIGN A (2 ^ k)) \<le> b)"
proof -
  define S where "S = unat A + 2 ^ k - 1"
  have S: "S < 2 ^ LENGTH('a)" using assms(2) by (simp add: S_def)
  have "A + 2 ^ k - 1 = word_of_nat S" by (simp add: S_def of_nat_diff Suc_le_eq)
  with S have "unat (A + 2 ^ k - 1) = S" by (simp add: unat_of_nat)
  moreover have "(2 ^ k - 1 :: 'a word) = mask k" by (simp add: mask_eq_exp_minus_1)
  ultimately have aligned: "unat (MY_ALIGN A (2 ^ k)) = S div 2 ^ k * 2 ^ k"
    by (simp add: MY_ALIGN_def and_not_low unat_clear_low)
  have "S div 2 ^ k * 2 ^ k \<le> b" if "2 ^ k dvd b" "unat A \<le> b" for b
  proof -
    from that obtain c where "b = c * 2 ^ k" by (auto elim: dvdE simp: mult.commute)
    with that have "S < Suc c * 2 ^ k" unfolding S_def by (simp add: Suc_le_eq less_diff_conv2 trans_le_add2)
    then have "S div 2 ^ k \<le> c" by (simp add: less_mult_imp_div_less less_Suc_eq_le [symmetric] del: mult_Suc)
    with \<open>b = c * 2 ^ k\<close> show ?thesis by simp
  qed
  moreover have "unat A \<le> S div 2 ^ k * 2 ^ k"
  proof -
    have "S mod 2 ^ k < 2 ^ k" by (rule mod_less_divisor) simp
    moreover have "S div 2 ^ k * 2 ^ k + S mod 2 ^ k = S" by (fact div_mult_mod_eq)
    ultimately show ?thesis unfolding S_def by linarith
  qed
  ultimately show ?thesis unfolding aligned by simp
qed

theorem MY_ALIGN_least_multiple_witness: "8 dvd unat (ALIGN_SIZE 13) \<and> 13 \<le> unat (ALIGN_SIZE 13) \<and> unat (ALIGN_SIZE 13) \<le> 16"
  using MY_ALIGN_least_multiple [of 3 "13 :: 64 word"] by (simp add: ALIGN_SIZE_def)

section \<open>Character classes\<close>

text \<open>
  A character set has its class table with an entry in front for the end of file, and two tables for
  the case. The argument of a class macro is converted to \<open>uchar\<close>, so it is one here.
\<close>

record CHARSET_INFO =
  cs_ctype :: "nat \<Rightarrow> uint8"
  cs_to_lower :: "uint8 \<Rightarrow> uint8"
  cs_to_upper :: "uint8 \<Rightarrow> uint8"

named_theorems ctype_defs \<open>definitions of the character classes\<close>

definition MY_U :: uint8 where [ctype_defs]: "MY_U = 0x01"
definition MY_L :: uint8 where [ctype_defs]: "MY_L = 0x02"
definition MY_NMR :: uint8 where [ctype_defs]: "MY_NMR = 0x04"
definition MY_SPC :: uint8 where [ctype_defs]: "MY_SPC = 0x08"
definition MY_PNT :: uint8 where [ctype_defs]: "MY_PNT = 0x10"
definition MY_CTR :: uint8 where [ctype_defs]: "MY_CTR = 0x20"
definition MY_B :: uint8 where [ctype_defs]: "MY_B = 0x40"
definition MY_X :: uint8 where [ctype_defs]: "MY_X = 0x80"

definition char_class :: "CHARSET_INFO \<Rightarrow> uint8 \<Rightarrow> uint8" where
  "char_class s c = cs_ctype s (1 + unat c)"

definition my_isascii :: "sint32 \<Rightarrow> bool" where "my_isascii c \<longleftrightarrow> c AND NOT 0x7F = 0"
definition my_toascii :: "sint32 \<Rightarrow> sint32" where "my_toascii c = c AND 0x7F"
definition my_tocntrl :: "sint32 \<Rightarrow> sint32" where "my_tocntrl c = c AND 31"
definition my_toprint :: "sint32 \<Rightarrow> sint32" where "my_toprint c = c OR 64"
definition my_toupper :: "CHARSET_INFO \<Rightarrow> uint8 \<Rightarrow> uint8" where "my_toupper s c = cs_to_upper s c"
definition my_tolower :: "CHARSET_INFO \<Rightarrow> uint8 \<Rightarrow> uint8" where "my_tolower s c = cs_to_lower s c"

definition my_isalpha :: "CHARSET_INFO \<Rightarrow> uint8 \<Rightarrow> uint8" where
  [ctype_defs]: "my_isalpha s c = char_class s c AND (MY_U OR MY_L)"
definition my_isupper :: "CHARSET_INFO \<Rightarrow> uint8 \<Rightarrow> uint8" where
  [ctype_defs]: "my_isupper s c = char_class s c AND MY_U"
definition my_islower :: "CHARSET_INFO \<Rightarrow> uint8 \<Rightarrow> uint8" where
  [ctype_defs]: "my_islower s c = char_class s c AND MY_L"
definition my_isdigit :: "CHARSET_INFO \<Rightarrow> uint8 \<Rightarrow> uint8" where
  [ctype_defs]: "my_isdigit s c = char_class s c AND MY_NMR"
definition my_isxdigit :: "CHARSET_INFO \<Rightarrow> uint8 \<Rightarrow> uint8" where
  [ctype_defs]: "my_isxdigit s c = char_class s c AND MY_X"
definition my_isalnum :: "CHARSET_INFO \<Rightarrow> uint8 \<Rightarrow> uint8" where
  [ctype_defs]: "my_isalnum s c = char_class s c AND (MY_U OR MY_L OR MY_NMR)"
definition my_isspace :: "CHARSET_INFO \<Rightarrow> uint8 \<Rightarrow> uint8" where
  [ctype_defs]: "my_isspace s c = char_class s c AND MY_SPC"
definition my_ispunct :: "CHARSET_INFO \<Rightarrow> uint8 \<Rightarrow> uint8" where
  [ctype_defs]: "my_ispunct s c = char_class s c AND MY_PNT"
definition my_isprint :: "CHARSET_INFO \<Rightarrow> uint8 \<Rightarrow> uint8" where
  [ctype_defs]: "my_isprint s c = char_class s c AND (MY_PNT OR MY_U OR MY_L OR MY_NMR OR MY_B)"
definition my_isgraph :: "CHARSET_INFO \<Rightarrow> uint8 \<Rightarrow> uint8" where
  [ctype_defs]: "my_isgraph s c = char_class s c AND (MY_PNT OR MY_U OR MY_L OR MY_NMR)"
definition my_iscntrl :: "CHARSET_INFO \<Rightarrow> uint8 \<Rightarrow> uint8" where
  [ctype_defs]: "my_iscntrl s c = char_class s c AND MY_CTR"

definition my_isvar :: "CHARSET_INFO \<Rightarrow> uint8 \<Rightarrow> bool" where
  "my_isvar s c \<longleftrightarrow> my_isalnum s c \<noteq> 0 \<or> c = 0x5F"
definition my_isvar_start :: "CHARSET_INFO \<Rightarrow> uint8 \<Rightarrow> bool" where
  "my_isvar_start s c \<longleftrightarrow> my_isalpha s c \<noteq> 0 \<or> c = 0x5F"

lemma and_union: "x AND (a OR b) = 0 \<longleftrightarrow> x AND a = 0 \<and> x AND b = (0 :: uint8)"
  by (auto simp: bit_eq_iff bit_simps)

text \<open>The classes nest: a character is alphanumeric when it is a letter or a digit, and so on.\<close>

lemma class_unions:
  "my_isalpha s c \<noteq> 0 \<longleftrightarrow> my_isupper s c \<noteq> 0 \<or> my_islower s c \<noteq> 0"
  "my_isalnum s c \<noteq> 0 \<longleftrightarrow> my_isalpha s c \<noteq> 0 \<or> my_isdigit s c \<noteq> 0"
  "my_isgraph s c \<noteq> 0 \<longleftrightarrow> my_ispunct s c \<noteq> 0 \<or> my_isalnum s c \<noteq> 0"
  "my_isprint s c \<noteq> 0 \<longleftrightarrow> my_isgraph s c \<noteq> 0 \<or> char_class s c AND MY_B \<noteq> 0"
  "my_isvar s c \<longleftrightarrow> my_isvar_start s c \<or> my_isdigit s c \<noteq> 0"
  unfolding my_isalpha_def my_isupper_def my_islower_def my_isdigit_def my_isalnum_def my_ispunct_def my_isprint_def
    my_isgraph_def my_isvar_def my_isvar_start_def and_union by blast+

section \<open>Memory roots and decimals\<close>

record MEM_ROOT =
  mr_free :: "nat option"
  mr_used :: "nat option"
  mr_pre_alloc :: "nat option"
  mr_min_malloc :: uint64
  mr_block_size :: uint64
  mr_block_num :: uint32
  mr_first_block_usage :: uint32
  mr_error_handler :: "nat option"
  mr_psi_key :: uint32

definition alloc_root_inited :: "MEM_ROOT \<Rightarrow> bool" where
  "alloc_root_inited r \<longleftrightarrow> mr_min_malloc r \<noteq> 0"

definition clear_alloc_root :: "MEM_ROOT \<Rightarrow> MEM_ROOT" where
  "clear_alloc_root r = r\<lparr>mr_free := None, mr_used := None, mr_pre_alloc := None, mr_min_malloc := 0\<rparr>"

lemma cleared_root_is_not_inited: "\<not> alloc_root_inited (clear_alloc_root r)"
  by (simp add: alloc_root_inited_def clear_alloc_root_def)

text \<open>A decimal: its digits are in an array of base 10^9 digits.\<close>

record decimal_t =
  dec_intg :: sint32
  dec_frac :: sint32
  dec_len :: sint32
  dec_sign :: bool
  dec_buf :: "sint32 list"

definition decimal_make_zero :: "decimal_t \<Rightarrow> decimal_t res" where
  "decimal_make_zero d =
     rbind (vec_at (dec_buf d) 0) (\<lambda>_. Inr (d\<lparr>dec_buf := (dec_buf d)[0 := 0], dec_intg := 1, dec_frac := 0, dec_sign := False\<rparr>))"

definition decimal_string_size :: "decimal_t \<Rightarrow> sint32" where
  "decimal_string_size d =
     (if dec_intg d \<noteq> 0 then dec_intg d else 1) + dec_frac d + (if 0 <s dec_frac d then 1 else 0) + 2"

lemma zero_needs_three_bytes: "decimal_make_zero d = Inr z \<Longrightarrow> decimal_string_size z = 3 \<and> dec_buf z ! 0 = 0"
  by (cases "dec_buf d") (auto simp: decimal_make_zero_def decimal_string_size_def vec_at_def split: if_splits)

end
