(* ===== verification/Psi_File.thy ===== *)
theory Psi_File
  imports Psi_Base
begin

text \<open>
  The instrumented file operations of \<open>mysql_file.h\<close>. \<open>MYSQL_FILE\<close> structures live on a heap and are
  reached through pointers; the functions of the C library and of \<open>my_sys.h\<close> are external and collected
  in a record. A function that fills a buffer returns its contents with the result.
\<close>

subsection \<open>State and external functions\<close>

type_synonym myf = sint32

datatype file_identity = LocalLocker | Stream nat

datatype (plugins only: code size) psi_file_call =
    register_file bytes nat sint32
  | get_thread_file_stream_locker "nat option" PSI_file_operation
  | get_thread_file_descriptor_locker sint32 PSI_file_operation
  | get_thread_file_name_locker uint32 PSI_file_operation "bytes option" file_identity
  | start_file_wait nat uint64 src_loc
  | end_file_wait nat uint64
  | start_file_open_wait nat src_loc
  | end_file_open_wait nat "nat option"
  | end_file_open_wait_and_bind_to_descriptor nat sint32
  | end_temp_file_open_wait_and_bind_to_descriptor nat sint32 bytes
  | start_file_close_wait nat src_loc
  | end_file_close_wait nat sint32

fun file_wait_kind :: "psi_file_call \<Rightarrow> nat option \<Rightarrow> wait_kind" where
  "file_wait_kind (start_file_wait l _ _) _ = Starts l"
| "file_wait_kind (start_file_open_wait l _) _ = Starts l"
| "file_wait_kind (start_file_close_wait l _) _ = Starts l"
| "file_wait_kind (end_file_wait l _) _ = Ends l"
| "file_wait_kind (end_file_open_wait l _) _ = Ends l"
| "file_wait_kind (end_file_open_wait_and_bind_to_descriptor l _) _ = Ends l"
| "file_wait_kind (end_temp_file_open_wait_and_bind_to_descriptor l _ _) _ = Ends l"
| "file_wait_kind (end_file_close_wait l _) _ = Ends l"
| "file_wait_kind _ _ = Neither"

text \<open>\<open>st_mysql_file\<close>: the \<open>FILE *\<close> and the hook.\<close>

record MYSQL_FILE =
  fl_file :: "nat option"
  fl_psi :: "nat option"

record 'w file_env = "(psi_file_call, 'w) psi_env" +
  fe_streams :: "nat \<Rightarrow> MYSQL_FILE option"

definition stream_at :: "'w file_env \<Rightarrow> nat option \<Rightarrow> MYSQL_FILE res" where
  "stream_at s file = rbind (deref file) (\<lambda>p. case fe_streams s p of None \<Rightarrow> Inl UseAfterFree | Some f \<Rightarrow> Inr f)"

record 'w file_os =
  os_fgets :: "nat option \<Rightarrow> sint32 \<Rightarrow> 'w \<Rightarrow> bytes option \<times> 'w"
  os_fgetc :: "nat option \<Rightarrow> 'w \<Rightarrow> sint32 \<times> 'w"
  os_fputs :: "nat option \<Rightarrow> bytes option \<Rightarrow> 'w \<Rightarrow> sint32 \<times> 'w"
  os_fputc :: "nat option \<Rightarrow> char \<Rightarrow> 'w \<Rightarrow> sint32 \<times> 'w"
  os_vfprintf :: "nat option \<Rightarrow> bytes \<Rightarrow> bytes list \<Rightarrow> 'w \<Rightarrow> sint32 \<times> 'w"
  os_fflush :: "nat option \<Rightarrow> 'w \<Rightarrow> sint32 \<times> 'w"
  os_my_fstat :: "sint32 \<Rightarrow> myf \<Rightarrow> 'w \<Rightarrow> (sint32 \<times> bytes) \<times> 'w"
  os_my_chsize :: "sint32 \<Rightarrow> uint64 \<Rightarrow> sint32 \<Rightarrow> myf \<Rightarrow> 'w \<Rightarrow> sint32 \<times> 'w"
  os_my_fread :: "nat option \<Rightarrow> uint64 \<Rightarrow> myf \<Rightarrow> 'w \<Rightarrow> (uint64 \<times> bytes) \<times> 'w"
  os_my_fwrite :: "nat option \<Rightarrow> bytes \<Rightarrow> uint64 \<Rightarrow> myf \<Rightarrow> 'w \<Rightarrow> uint64 \<times> 'w"
  os_my_fseek :: "nat option \<Rightarrow> uint64 \<Rightarrow> sint32 \<Rightarrow> myf \<Rightarrow> 'w \<Rightarrow> uint64 \<times> 'w"
  os_my_ftell :: "nat option \<Rightarrow> myf \<Rightarrow> 'w \<Rightarrow> uint64 \<times> 'w"
  os_my_close :: "sint32 \<Rightarrow> myf \<Rightarrow> 'w \<Rightarrow> sint32 \<times> 'w"
  os_my_read :: "sint32 \<Rightarrow> uint64 \<Rightarrow> myf \<Rightarrow> 'w \<Rightarrow> (uint64 \<times> bytes) \<times> 'w"
  os_my_write :: "sint32 \<Rightarrow> bytes \<Rightarrow> uint64 \<Rightarrow> myf \<Rightarrow> 'w \<Rightarrow> uint64 \<times> 'w"
  os_my_pread :: "sint32 \<Rightarrow> uint64 \<Rightarrow> uint64 \<Rightarrow> myf \<Rightarrow> 'w \<Rightarrow> (uint64 \<times> bytes) \<times> 'w"
  os_my_pwrite :: "sint32 \<Rightarrow> bytes \<Rightarrow> uint64 \<Rightarrow> uint64 \<Rightarrow> myf \<Rightarrow> 'w \<Rightarrow> uint64 \<times> 'w"
  os_my_seek :: "sint32 \<Rightarrow> uint64 \<Rightarrow> sint32 \<Rightarrow> myf \<Rightarrow> 'w \<Rightarrow> uint64 \<times> 'w"
  os_my_tell :: "sint32 \<Rightarrow> myf \<Rightarrow> 'w \<Rightarrow> uint64 \<times> 'w"
  os_my_sync :: "sint32 \<Rightarrow> myf \<Rightarrow> 'w \<Rightarrow> sint32 \<times> 'w"
  os_my_stat :: "bytes \<Rightarrow> myf \<Rightarrow> 'w \<Rightarrow> bytes option \<times> 'w"
  os_my_create :: "bytes \<Rightarrow> sint32 \<Rightarrow> sint32 \<Rightarrow> myf \<Rightarrow> 'w \<Rightarrow> sint32 \<times> 'w"
  os_create_temp_file :: "bytes option \<Rightarrow> bytes \<Rightarrow> sint32 \<Rightarrow> myf \<Rightarrow> 'w \<Rightarrow> (sint32 \<times> bytes) \<times> 'w"
  os_my_open :: "bytes \<Rightarrow> sint32 \<Rightarrow> myf \<Rightarrow> 'w \<Rightarrow> sint32 \<times> 'w"
  os_my_delete :: "bytes \<Rightarrow> myf \<Rightarrow> 'w \<Rightarrow> sint32 \<times> 'w"
  os_my_rename :: "bytes \<Rightarrow> bytes \<Rightarrow> myf \<Rightarrow> 'w \<Rightarrow> sint32 \<times> 'w"
  os_my_create_with_symlink :: "bytes \<Rightarrow> bytes \<Rightarrow> sint32 \<Rightarrow> sint32 \<Rightarrow> myf \<Rightarrow> 'w \<Rightarrow> sint32 \<times> 'w"
  os_my_delete_with_symlink :: "bytes \<Rightarrow> myf \<Rightarrow> 'w \<Rightarrow> sint32 \<times> 'w"
  os_my_rename_with_symlink :: "bytes \<Rightarrow> bytes \<Rightarrow> myf \<Rightarrow> 'w \<Rightarrow> sint32 \<times> 'w"
  os_feof :: "nat option \<Rightarrow> 'w \<Rightarrow> sint32 \<times> 'w"
  os_my_fopen :: "bytes \<Rightarrow> sint32 \<Rightarrow> myf \<Rightarrow> 'w \<Rightarrow> nat option \<times> 'w"
  os_my_fclose :: "nat option \<Rightarrow> myf \<Rightarrow> 'w \<Rightarrow> sint32 \<times> 'w"
  os_my_malloc :: "uint64 \<Rightarrow> myf \<Rightarrow> 'w \<Rightarrow> nat option \<times> 'w"
  os_my_free :: "nat \<Rightarrow> 'w \<Rightarrow> 'w"

definition MY_FNABP :: myf where "MY_FNABP = 2"
definition MY_NABP :: myf where "MY_NABP = 4"
definition MY_WME :: myf where "MY_WME = 16"
definition MY_FILE_ERROR :: uint64 where "MY_FILE_ERROR = - 1"

text \<open>The count a read or write reports, from the flags, the count asked for and the result.\<close>

definition bytes_moved :: "myf \<Rightarrow> uint64 \<Rightarrow> uint64 \<Rightarrow> uint64" where
  "bytes_moved flags count r =
     (if flags AND (MY_NABP OR MY_FNABP) \<noteq> 0 then (if r = 0 then count else 0)
      else if r \<noteq> MY_FILE_ERROR then r else 0)"

subsection \<open>Opening and closing a stream\<close>

definition inline_mysql_file_register :: "bytes \<Rightarrow> nat \<Rightarrow> sint32 \<Rightarrow> 'w file_env \<Rightarrow> 'w file_env" where
  "inline_mysql_file_register category info count s = psi_note (register_file category info count) s"

definition set_stream :: "nat \<Rightarrow> MYSQL_FILE option \<Rightarrow> 'w file_env \<Rightarrow> 'w file_env" where
  "set_stream p f s = s\<lparr>fe_streams := (fe_streams s)(p := f)\<rparr>"

definition free_stream :: "'w file_os \<Rightarrow> nat \<Rightarrow> 'w file_env \<Rightarrow> 'w file_env" where
  "free_stream os p s = set_stream p None (s\<lparr>os_state := os_my_free os p (os_state s)\<rparr>)"

definition inline_mysql_file_fopen ::
  "psi_file_call psi \<Rightarrow> 'w file_os \<Rightarrow> uint32 \<Rightarrow> src_loc \<Rightarrow> bytes \<Rightarrow> sint32 \<Rightarrow> myf \<Rightarrow> 'w file_env \<Rightarrow> nat option \<times> 'w file_env" where
  "inline_mysql_file_fopen psi os key src filename flags myFlags s =
     (let (that, w) = os_my_malloc os 16 MY_WME (os_state s); s0 = s\<lparr>os_state := w\<rparr> in
      case that of
        None \<Rightarrow> (None, s0)
      | Some p \<Rightarrow>
          (case psi_ask psi (get_thread_file_name_locker key PSI_FILE_STREAM_OPEN (Some filename) (Stream p)) s0 of
             (Some l, s1) \<Rightarrow>
               (let (file, s2) = real_call (os_my_fopen os filename flags myFlags) (psi_note (start_file_open_wait l src) s1);
                    (hook, s3) = psi_ask psi (end_file_open_wait l file) s2
                in if file = None then (None, free_stream os p s3)
                   else (Some p, set_stream p (Some \<lparr>fl_file = file, fl_psi = hook\<rparr>) s3))
           | (None, s1) \<Rightarrow>
               (let (file, s2) = real_call (os_my_fopen os filename flags myFlags) s1
                in if file = None then (None, free_stream os p s2)
                   else (Some p, set_stream p (Some \<lparr>fl_file = file, fl_psi = None\<rparr>) s2))))"

definition inline_mysql_file_fclose ::
  "psi_file_call psi \<Rightarrow> 'w file_os \<Rightarrow> src_loc \<Rightarrow> nat option \<Rightarrow> myf \<Rightarrow> 'w file_env \<Rightarrow> (sint32 \<times> 'w file_env) res" where
  "inline_mysql_file_fclose psi os src file flags s =
     (case file of
        None \<Rightarrow> Inr (0, s)
      | Some p \<Rightarrow>
          rbind (stream_at s file) (\<lambda>f.
            let (r, s1) = with_locker psi (get_thread_file_stream_locker (fl_psi f) PSI_FILE_STREAM_CLOSE)
                  (\<lambda>l. start_file_close_wait l src) (os_my_fclose os (fl_file f) flags)
                  (\<lambda>l r. end_file_close_wait l r) s
            in Inr (r, free_stream os p s1)))"

definition inline_mysql_file_feof :: "'w file_os \<Rightarrow> nat option \<Rightarrow> 'w file_env \<Rightarrow> (sint32 \<times> 'w file_env) res" where
  "inline_mysql_file_feof os file s =
     rbind (stream_at s file) (\<lambda>f. Inr (real_call (os_feof os (fl_file f)) s))"

subsection \<open>The other operations\<close>

definition inline_mysql_file_fgets where
  [psi_defs]: "inline_mysql_file_fgets psi os src len file s =
     rbind (stream_at s file) (\<lambda>f.
       Inr (with_locker psi (get_thread_file_stream_locker (fl_psi f) PSI_FILE_READ)
         (\<lambda>l. start_file_wait l (scast len) src) (os_fgets os (fl_file f) len)
         (\<lambda>l r. end_file_wait l (case r of None \<Rightarrow> 0 | Some t \<Rightarrow> of_nat (length (cstr t)))) s))"

definition inline_mysql_file_fgetc where
  [psi_defs]: "inline_mysql_file_fgetc psi os src file s =
     rbind (stream_at s file) (\<lambda>f.
       Inr (with_locker psi (get_thread_file_stream_locker (fl_psi f) PSI_FILE_READ)
         (\<lambda>l. start_file_wait l 1 src) (os_fgetc os (fl_file f))
         (\<lambda>l r. end_file_wait l 1) s))"

definition inline_mysql_file_fputs where
  [psi_defs]: "inline_mysql_file_fputs psi os src str file s =
     rbind (stream_at s file) (\<lambda>f.
       Inr (with_locker psi (get_thread_file_stream_locker (fl_psi f) PSI_FILE_WRITE)
         (\<lambda>l. start_file_wait l (case str of None \<Rightarrow> 0 | Some t \<Rightarrow> of_nat (length (cstr t))) src) (os_fputs os (fl_file f) str)
         (\<lambda>l r. end_file_wait l (case str of None \<Rightarrow> 0 | Some t \<Rightarrow> of_nat (length (cstr t)))) s))"

definition inline_mysql_file_fputc where
  [psi_defs]: "inline_mysql_file_fputc psi os src ch file s =
     rbind (stream_at s file) (\<lambda>f.
       Inr (with_locker psi (get_thread_file_stream_locker (fl_psi f) PSI_FILE_WRITE)
         (\<lambda>l. start_file_wait l 1 src) (os_fputc os (fl_file f) ch)
         (\<lambda>l r. end_file_wait l 1) s))"

definition inline_mysql_file_fprintf where
  [psi_defs]: "inline_mysql_file_fprintf psi os fmt args file s =
     rbind (stream_at s file) (\<lambda>f.
       Inr (with_locker psi (get_thread_file_stream_locker (fl_psi f) PSI_FILE_WRITE)
         (\<lambda>l. start_file_wait l 0 (''mysql_file.h'', 650)) (os_vfprintf os (fl_file f) fmt args)
         (\<lambda>l r. end_file_wait l (scast r)) s))"

definition inline_mysql_file_vfprintf where
  [psi_defs]: "inline_mysql_file_vfprintf psi os src fmt args file s =
     rbind (stream_at s file) (\<lambda>f.
       Inr (with_locker psi (get_thread_file_stream_locker (fl_psi f) PSI_FILE_WRITE)
         (\<lambda>l. start_file_wait l 0 src) (os_vfprintf os (fl_file f) fmt args)
         (\<lambda>l r. end_file_wait l (scast r)) s))"

definition inline_mysql_file_fflush where
  [psi_defs]: "inline_mysql_file_fflush psi os src file s =
     rbind (stream_at s file) (\<lambda>f.
       Inr (with_locker psi (get_thread_file_stream_locker (fl_psi f) PSI_FILE_FLUSH)
         (\<lambda>l. start_file_wait l 0 src) (os_fflush os (fl_file f))
         (\<lambda>l r. end_file_wait l 0) s))"

definition inline_mysql_file_fstat where
  [psi_defs]: "inline_mysql_file_fstat psi os src fd flags s =
     with_locker psi (get_thread_file_descriptor_locker fd PSI_FILE_FSTAT)
       (\<lambda>l. start_file_wait l 0 src) (os_my_fstat os fd flags) (\<lambda>l r. end_file_wait l 0) s"

definition inline_mysql_file_chsize where
  [psi_defs]: "inline_mysql_file_chsize psi os src fd newlength filler flags s =
     with_locker psi (get_thread_file_descriptor_locker fd PSI_FILE_CHSIZE)
       (\<lambda>l. start_file_wait l newlength src) (os_my_chsize os fd newlength filler flags) (\<lambda>l r. end_file_wait l newlength) s"

definition inline_mysql_file_fread where
  [psi_defs]: "inline_mysql_file_fread psi os src count flags file s =
     rbind (stream_at s file) (\<lambda>f.
       Inr (with_locker psi (get_thread_file_stream_locker (fl_psi f) PSI_FILE_READ)
         (\<lambda>l. start_file_wait l count src) (os_my_fread os (fl_file f) count flags)
         (\<lambda>l r. end_file_wait l (bytes_moved flags count (fst r))) s))"

definition inline_mysql_file_fwrite where
  [psi_defs]: "inline_mysql_file_fwrite psi os src buffer count flags file s =
     rbind (stream_at s file) (\<lambda>f.
       Inr (with_locker psi (get_thread_file_stream_locker (fl_psi f) PSI_FILE_WRITE)
         (\<lambda>l. start_file_wait l count src) (os_my_fwrite os (fl_file f) buffer count flags)
         (\<lambda>l r. end_file_wait l (bytes_moved flags count r)) s))"

definition inline_mysql_file_fseek where
  [psi_defs]: "inline_mysql_file_fseek psi os src pos whence flags file s =
     rbind (stream_at s file) (\<lambda>f.
       Inr (with_locker psi (get_thread_file_stream_locker (fl_psi f) PSI_FILE_SEEK)
         (\<lambda>l. start_file_wait l 0 src) (os_my_fseek os (fl_file f) pos whence flags)
         (\<lambda>l r. end_file_wait l 0) s))"

definition inline_mysql_file_ftell where
  [psi_defs]: "inline_mysql_file_ftell psi os src flags file s =
     rbind (stream_at s file) (\<lambda>f.
       Inr (with_locker psi (get_thread_file_stream_locker (fl_psi f) PSI_FILE_TELL)
         (\<lambda>l. start_file_wait l 0 src) (os_my_ftell os (fl_file f) flags)
         (\<lambda>l r. end_file_wait l 0) s))"

definition inline_mysql_file_close where
  [psi_defs]: "inline_mysql_file_close psi os src fd flags s =
     with_locker psi (get_thread_file_descriptor_locker fd PSI_FILE_CLOSE)
       (\<lambda>l. start_file_close_wait l src) (os_my_close os fd flags) (\<lambda>l r. end_file_close_wait l r) s"

definition inline_mysql_file_read where
  [psi_defs]: "inline_mysql_file_read psi os src fd count flags s =
     with_locker psi (get_thread_file_descriptor_locker fd PSI_FILE_READ)
       (\<lambda>l. start_file_wait l count src) (os_my_read os fd count flags) (\<lambda>l r. end_file_wait l (bytes_moved flags count (fst r))) s"

definition inline_mysql_file_write where
  [psi_defs]: "inline_mysql_file_write psi os src fd buffer count flags s =
     with_locker psi (get_thread_file_descriptor_locker fd PSI_FILE_WRITE)
       (\<lambda>l. start_file_wait l count src) (os_my_write os fd buffer count flags) (\<lambda>l r. end_file_wait l (bytes_moved flags count r)) s"

definition inline_mysql_file_pread where
  [psi_defs]: "inline_mysql_file_pread psi os src fd count offset flags s =
     with_locker psi (get_thread_file_descriptor_locker fd PSI_FILE_READ)
       (\<lambda>l. start_file_wait l count src) (os_my_pread os fd count offset flags) (\<lambda>l r. end_file_wait l (bytes_moved flags count (fst r))) s"

definition inline_mysql_file_pwrite where
  [psi_defs]: "inline_mysql_file_pwrite psi os src fd buffer count offset flags s =
     with_locker psi (get_thread_file_descriptor_locker fd PSI_FILE_WRITE)
       (\<lambda>l. start_file_wait l count src) (os_my_pwrite os fd buffer count offset flags) (\<lambda>l r. end_file_wait l (bytes_moved flags count r)) s"

definition inline_mysql_file_seek where
  [psi_defs]: "inline_mysql_file_seek psi os src fd pos whence flags s =
     with_locker psi (get_thread_file_descriptor_locker fd PSI_FILE_SEEK)
       (\<lambda>l. start_file_wait l 0 src) (os_my_seek os fd pos whence flags) (\<lambda>l r. end_file_wait l 0) s"

definition inline_mysql_file_tell where
  [psi_defs]: "inline_mysql_file_tell psi os src fd flags s =
     with_locker psi (get_thread_file_descriptor_locker fd PSI_FILE_TELL)
       (\<lambda>l. start_file_wait l 0 src) (os_my_tell os fd flags) (\<lambda>l r. end_file_wait l 0) s"

definition inline_mysql_file_sync where
  [psi_defs]: "inline_mysql_file_sync psi os src fd flags s =
     with_locker psi (get_thread_file_descriptor_locker fd PSI_FILE_SYNC)
       (\<lambda>l. start_file_wait l 0 src) (os_my_sync os fd flags) (\<lambda>l r. end_file_wait l 0) s"

definition inline_mysql_file_stat where
  [psi_defs]: "inline_mysql_file_stat psi os key src path stat_area flags s =
     with_locker psi (get_thread_file_name_locker key PSI_FILE_STAT (Some path) LocalLocker)
       (\<lambda>l. start_file_open_wait l src) (os_my_stat os path flags)
       (\<lambda>l r. end_file_open_wait l (map_option (\<lambda>_. stat_area) r)) s"

definition inline_mysql_file_create where
  [psi_defs]: "inline_mysql_file_create psi os key src filename create_flags access_flags myFlags s =
     with_locker psi (get_thread_file_name_locker key PSI_FILE_CREATE (Some filename) LocalLocker)
       (\<lambda>l. start_file_open_wait l src) (os_my_create os filename create_flags access_flags myFlags)
       (\<lambda>l r. end_file_open_wait_and_bind_to_descriptor l r) s"

definition inline_mysql_file_create_temp where
  [psi_defs]: "inline_mysql_file_create_temp psi os key src dir pfx mode myFlags s =
     with_locker psi (get_thread_file_name_locker key PSI_FILE_CREATE None LocalLocker)
       (\<lambda>l. start_file_open_wait l src) (os_create_temp_file os dir pfx mode myFlags)
       (\<lambda>l r. end_temp_file_open_wait_and_bind_to_descriptor l (fst r) (snd r)) s"

definition inline_mysql_file_open where
  [psi_defs]: "inline_mysql_file_open psi os key src filename flags myFlags s =
     with_locker psi (get_thread_file_name_locker key PSI_FILE_OPEN (Some filename) LocalLocker)
       (\<lambda>l. start_file_open_wait l src) (os_my_open os filename flags myFlags)
       (\<lambda>l r. end_file_open_wait_and_bind_to_descriptor l r) s"

definition inline_mysql_file_delete where
  [psi_defs]: "inline_mysql_file_delete psi os key src name flags s =
     with_locker psi (get_thread_file_name_locker key PSI_FILE_DELETE (Some name) LocalLocker)
       (\<lambda>l. start_file_close_wait l src) (os_my_delete os name flags)
       (\<lambda>l r. end_file_close_wait l r) s"

definition inline_mysql_file_rename where
  [psi_defs]: "inline_mysql_file_rename psi os key src from_name to flags s =
     with_locker psi (get_thread_file_name_locker key PSI_FILE_RENAME (Some to) LocalLocker)
       (\<lambda>l. start_file_wait l 0 src) (os_my_rename os from_name to flags)
       (\<lambda>l r. end_file_wait l 0) s"

definition inline_mysql_file_create_with_symlink where
  [psi_defs]: "inline_mysql_file_create_with_symlink psi os key src linkname filename create_flags access_flags flags s =
     with_locker psi (get_thread_file_name_locker key PSI_FILE_CREATE (Some filename) LocalLocker)
       (\<lambda>l. start_file_open_wait l src) (os_my_create_with_symlink os linkname filename create_flags access_flags flags)
       (\<lambda>l r. end_file_open_wait_and_bind_to_descriptor l r) s"

definition inline_mysql_file_delete_with_symlink where
  [psi_defs]: "inline_mysql_file_delete_with_symlink psi os key src name flags s =
     with_locker psi (get_thread_file_name_locker key PSI_FILE_DELETE (Some name) LocalLocker)
       (\<lambda>l. start_file_close_wait l src) (os_my_delete_with_symlink os name flags)
       (\<lambda>l r. end_file_close_wait l r) s"

definition inline_mysql_file_rename_with_symlink where
  [psi_defs]: "inline_mysql_file_rename_with_symlink psi os key src from_name to flags s =
     with_locker psi (get_thread_file_name_locker key PSI_FILE_RENAME (Some to) LocalLocker)
       (\<lambda>l. start_file_wait l 0 src) (os_my_rename_with_symlink os from_name to flags)
       (\<lambda>l r. end_file_wait l 0) s"

subsection \<open>Calls as data\<close>

datatype file_result =
    RPtr "nat option"
  | RInt sint32
  | RSize uint64
  | RData "uint64 \<times> bytes"
  | RString "bytes option"
  | RStat "sint32 \<times> bytes"

datatype (plugins only: code size) file_op =
    Call_fopen uint32 bytes sint32 myf
  | Call_fclose "nat option" myf
  | Call_feof "nat option"
  | Call_fgets sint32 "nat option"
  | Call_fgetc "nat option"
  | Call_fputs "bytes option" "nat option"
  | Call_fputc char "nat option"
  | Call_fprintf bytes "bytes list" "nat option"
  | Call_vfprintf bytes "bytes list" "nat option"
  | Call_fflush "nat option"
  | Call_fstat sint32 myf
  | Call_chsize sint32 uint64 sint32 myf
  | Call_fread uint64 myf "nat option"
  | Call_fwrite bytes uint64 myf "nat option"
  | Call_fseek uint64 sint32 myf "nat option"
  | Call_ftell myf "nat option"
  | Call_close sint32 myf
  | Call_read sint32 uint64 myf
  | Call_write sint32 bytes uint64 myf
  | Call_pread sint32 uint64 uint64 myf
  | Call_pwrite sint32 bytes uint64 uint64 myf
  | Call_seek sint32 uint64 sint32 myf
  | Call_tell sint32 myf
  | Call_sync sint32 myf
  | Call_stat uint32 bytes nat myf
  | Call_create uint32 bytes sint32 sint32 myf
  | Call_create_temp uint32 "bytes option" bytes sint32 myf
  | Call_open uint32 bytes sint32 myf
  | Call_delete uint32 bytes myf
  | Call_rename uint32 bytes bytes myf
  | Call_create_with_symlink uint32 bytes bytes sint32 sint32 myf
  | Call_delete_with_symlink uint32 bytes myf
  | Call_rename_with_symlink uint32 bytes bytes myf

primrec perform ::
  "psi_file_call psi \<Rightarrow> 'w file_os \<Rightarrow> src_loc \<Rightarrow> file_op \<Rightarrow> 'w file_env \<Rightarrow> (file_result \<times> 'w file_env) res" where
  "perform psi os src (Call_fopen key filename flags myFlags) s =
     (let (r, s') = inline_mysql_file_fopen psi os key src filename flags myFlags s in Inr (RPtr r, s'))"
| "perform psi os src (Call_fclose file flags) s =
     rbind (inline_mysql_file_fclose psi os src file flags s) (\<lambda>(r, s'). Inr (RInt r, s'))"
| "perform psi os src (Call_feof file) s =
     rbind (inline_mysql_file_feof os file s) (\<lambda>(r, s'). Inr (RInt r, s'))"
| "perform psi os src (Call_fgets len file) s =
     rbind (inline_mysql_file_fgets psi os src len file s) (\<lambda>(r, s'). Inr (RString r, s'))"
| "perform psi os src (Call_fgetc file) s =
     rbind (inline_mysql_file_fgetc psi os src file s) (\<lambda>(r, s'). Inr (RInt r, s'))"
| "perform psi os src (Call_fputs str file) s =
     rbind (inline_mysql_file_fputs psi os src str file s) (\<lambda>(r, s'). Inr (RInt r, s'))"
| "perform psi os src (Call_fputc ch file) s =
     rbind (inline_mysql_file_fputc psi os src ch file s) (\<lambda>(r, s'). Inr (RInt r, s'))"
| "perform psi os src (Call_fprintf fmt args file) s =
     rbind (inline_mysql_file_fprintf psi os fmt args file s) (\<lambda>(r, s'). Inr (RInt r, s'))"
| "perform psi os src (Call_vfprintf fmt args file) s =
     rbind (inline_mysql_file_vfprintf psi os src fmt args file s) (\<lambda>(r, s'). Inr (RInt r, s'))"
| "perform psi os src (Call_fflush file) s =
     rbind (inline_mysql_file_fflush psi os src file s) (\<lambda>(r, s'). Inr (RInt r, s'))"
| "perform psi os src (Call_fstat fd flags) s =
     (let (r, s') = inline_mysql_file_fstat psi os src fd flags s in Inr (RStat r, s'))"
| "perform psi os src (Call_chsize fd newlength filler flags) s =
     (let (r, s') = inline_mysql_file_chsize psi os src fd newlength filler flags s in Inr (RInt r, s'))"
| "perform psi os src (Call_fread count flags file) s =
     rbind (inline_mysql_file_fread psi os src count flags file s) (\<lambda>(r, s'). Inr (RData r, s'))"
| "perform psi os src (Call_fwrite buffer count flags file) s =
     rbind (inline_mysql_file_fwrite psi os src buffer count flags file s) (\<lambda>(r, s'). Inr (RSize r, s'))"
| "perform psi os src (Call_fseek pos whence flags file) s =
     rbind (inline_mysql_file_fseek psi os src pos whence flags file s) (\<lambda>(r, s'). Inr (RSize r, s'))"
| "perform psi os src (Call_ftell flags file) s =
     rbind (inline_mysql_file_ftell psi os src flags file s) (\<lambda>(r, s'). Inr (RSize r, s'))"
| "perform psi os src (Call_close fd flags) s =
     (let (r, s') = inline_mysql_file_close psi os src fd flags s in Inr (RInt r, s'))"
| "perform psi os src (Call_read fd count flags) s =
     (let (r, s') = inline_mysql_file_read psi os src fd count flags s in Inr (RData r, s'))"
| "perform psi os src (Call_write fd buffer count flags) s =
     (let (r, s') = inline_mysql_file_write psi os src fd buffer count flags s in Inr (RSize r, s'))"
| "perform psi os src (Call_pread fd count offset flags) s =
     (let (r, s') = inline_mysql_file_pread psi os src fd count offset flags s in Inr (RData r, s'))"
| "perform psi os src (Call_pwrite fd buffer count offset flags) s =
     (let (r, s') = inline_mysql_file_pwrite psi os src fd buffer count offset flags s in Inr (RSize r, s'))"
| "perform psi os src (Call_seek fd pos whence flags) s =
     (let (r, s') = inline_mysql_file_seek psi os src fd pos whence flags s in Inr (RSize r, s'))"
| "perform psi os src (Call_tell fd flags) s =
     (let (r, s') = inline_mysql_file_tell psi os src fd flags s in Inr (RSize r, s'))"
| "perform psi os src (Call_sync fd flags) s =
     (let (r, s') = inline_mysql_file_sync psi os src fd flags s in Inr (RInt r, s'))"
| "perform psi os src (Call_stat key path stat_area flags) s =
     (let (r, s') = inline_mysql_file_stat psi os key src path stat_area flags s in Inr (RString r, s'))"
| "perform psi os src (Call_create key filename create_flags access_flags myFlags) s =
     (let (r, s') = inline_mysql_file_create psi os key src filename create_flags access_flags myFlags s in Inr (RInt r, s'))"
| "perform psi os src (Call_create_temp key dir pfx mode myFlags) s =
     (let (r, s') = inline_mysql_file_create_temp psi os key src dir pfx mode myFlags s in Inr (RStat r, s'))"
| "perform psi os src (Call_open key filename flags myFlags) s =
     (let (r, s') = inline_mysql_file_open psi os key src filename flags myFlags s in Inr (RInt r, s'))"
| "perform psi os src (Call_delete key name flags) s =
     (let (r, s') = inline_mysql_file_delete psi os key src name flags s in Inr (RInt r, s'))"
| "perform psi os src (Call_rename key from_name to flags) s =
     (let (r, s') = inline_mysql_file_rename psi os key src from_name to flags s in Inr (RInt r, s'))"
| "perform psi os src (Call_create_with_symlink key linkname filename create_flags access_flags flags) s =
     (let (r, s') = inline_mysql_file_create_with_symlink psi os key src linkname filename create_flags access_flags flags s in Inr (RInt r, s'))"
| "perform psi os src (Call_delete_with_symlink key name flags) s =
     (let (r, s') = inline_mysql_file_delete_with_symlink psi os key src name flags s in Inr (RInt r, s'))"
| "perform psi os src (Call_rename_with_symlink key from_name to flags) s =
     (let (r, s') = inline_mysql_file_rename_with_symlink psi os key src from_name to flags s in Inr (RInt r, s'))"

subsection \<open>Transparency\<close>

text \<open>The same state up to the hooks and the log.\<close>

definition same_files :: "'w file_env \<Rightarrow> 'w file_env \<Rightarrow> bool" where
  "same_files s t \<longleftrightarrow>
     os_state s = os_state t \<and> (\<forall>p. map_option fl_file (fe_streams s p) = map_option fl_file (fe_streams t p))"

lemma env_more: "fe_streams s = file_env.fe_streams s" ..

lemma with_locker_streams:
  fixes s :: "'w file_env"
  shows "fe_streams (snd (with_locker psi get start f finish s)) = fe_streams s"
  by (simp add: with_locker_def psi_ask_def real_call_def psi_note_def Let_def split: option.split prod.split)

lemma same_with_locker:
  fixes s t :: "'w file_env"
  assumes "same_files s t"
  shows "fst (with_locker psi get start f finish s) = fst (with_locker psi' get' start' f finish' t) \<and>
    same_files (snd (with_locker psi get start f finish s)) (snd (with_locker psi' get' start' f finish' t))"
  using assms by (simp add: same_files_def with_locker_result with_locker_streams)

lemma stream_at_same:
  assumes "same_files s t"
  shows "(\<exists>e. stream_at s fp = Inl e \<and> stream_at t fp = Inl e) \<or>
    (\<exists>f g. stream_at s fp = Inr f \<and> stream_at t fp = Inr g \<and> fl_file f = fl_file g)"
proof (cases fp)
  case (Some p)
  have "map_option fl_file (fe_streams s p) = map_option fl_file (fe_streams t p)"
    using assms by (simp add: same_files_def)
  then show ?thesis using Some by (cases "fe_streams s p"; cases "fe_streams t p") (auto simp: stream_at_def)
qed (simp add: stream_at_def)

lemma matched_case_prod:
  assumes "fst x = fst y \<and> same_files (snd x) (snd y)"
  shows "matched same_files (let (r, s') = x in Inr (g r, s')) (let (r, s') = y in Inr (g r, s'))"
  using assms by (cases x; cases y) simp

lemma matched_stream:
  assumes "same_files s t"
    and "\<And>f g. fl_file f = fl_file g \<Longrightarrow> fst (h f s) = fst (k g t) \<and> same_files (snd (h f s)) (snd (k g t))"
  shows "matched same_files
    (rbind (rbind (stream_at s fp) (\<lambda>f. Inr (h f s))) (\<lambda>(r, s'). Inr (c r, s')))
    (rbind (rbind (stream_at t fp) (\<lambda>f. Inr (k f t))) (\<lambda>(r, s'). Inr (c r, s')))"
  using stream_at_same [OF assms(1), of fp]
proof (elim disjE exE conjE)
  fix f g assume "stream_at s fp = Inr f" "stream_at t fp = Inr g" "fl_file f = fl_file g"
  with assms(2) [of f g] show ?thesis by (cases "h f s"; cases "k g t") simp
qed simp_all

lemma matched_stream_locker:
  assumes "same_files s t"
  shows "matched same_files
    (rbind (rbind (stream_at s fp) (\<lambda>f. Inr (with_locker psi (get f) start (F (fl_file f)) finish s))) (\<lambda>(r, s'). Inr (c r, s')))
    (rbind (rbind (stream_at t fp) (\<lambda>f. Inr (with_locker psi' (get f) start (F (fl_file f)) finish t))) (\<lambda>(r, s'). Inr (c r, s')))"
  by (rule matched_stream [OF assms]) (simp add: same_with_locker [OF assms])

lemma matched_locker:
  assumes "same_files s t"
  shows "matched same_files (let (r, s') = with_locker psi get start f finish s in Inr (c r, s'))
    (let (r, s') = with_locker psi' get start f finish t in Inr (c r, s'))"
  by (rule matched_case_prod) (rule same_with_locker [OF assms])

lemma same_free: "same_files s t \<Longrightarrow> same_files (free_stream os p s) (free_stream os p t)"
  by (simp add: same_files_def free_stream_def set_stream_def)

lemma same_real_call:
  fixes s t :: "'w file_env"
  shows "same_files s t \<Longrightarrow> fst (real_call f s) = fst (real_call f t) \<and> same_files (snd (real_call f s)) (snd (real_call f t))"
  by (simp add: same_files_def real_call_def split: prod.split)

lemma same_set_stream: "same_files s t \<Longrightarrow> map_option fl_file f = map_option fl_file g \<Longrightarrow> same_files (set_stream p f s) (set_stream p g t)"
  by (simp add: same_files_def set_stream_def)

lemma same_psi:
  fixes s t :: "'w file_env"
  shows "same_files s t \<Longrightarrow> same_files (psi_note e s) t" "same_files s t \<Longrightarrow> same_files s (psi_note e t)"
    "same_files s t \<Longrightarrow> same_files (snd (psi_ask psi e s)) t" "same_files s t \<Longrightarrow> same_files s (snd (psi_ask psi e t))"
  by (simp_all add: same_files_def psi_note_def psi_ask_def Let_def)

text \<open>What opening a stream does to the state, up to the hook and the log.\<close>

definition opened :: "'w file_os \<Rightarrow> bytes \<Rightarrow> sint32 \<Rightarrow> myf \<Rightarrow> 'w file_env \<Rightarrow> nat option \<times> 'w file_env" where
  "opened os filename flags myFlags s =
     (let (that, w) = os_my_malloc os 16 MY_WME (os_state s) in
      case that of
        None \<Rightarrow> (None, s\<lparr>os_state := w\<rparr>)
      | Some p \<Rightarrow>
          (let (fp, w') = os_my_fopen os filename flags myFlags w in
           if fp = None then (None, free_stream os p (s\<lparr>os_state := w'\<rparr>))
           else (Some p, set_stream p (Some \<lparr>fl_file = fp, fl_psi = None\<rparr>) (s\<lparr>os_state := w'\<rparr>))))"

lemma fopen_opened:
  "fst (inline_mysql_file_fopen psi os key src filename flags myFlags s) = fst (opened os filename flags myFlags s) \<and>
   same_files (snd (inline_mysql_file_fopen psi os key src filename flags myFlags s)) (snd (opened os filename flags myFlags s))"
proof -
  obtain that w where m: "os_my_malloc os 16 MY_WME (os_state s) = (that, w)" by (cases "os_my_malloc os 16 MY_WME (os_state s)")
  obtain fp w' where o: "os_my_fopen os filename flags myFlags w = (fp, w')" by (cases "os_my_fopen os filename flags myFlags w")
  show ?thesis
    using m o by (cases that; cases "psi (psi_log s) (get_thread_file_name_locker key PSI_FILE_STREAM_OPEN (Some filename) (Stream (the that)))")
      (simp_all add: inline_mysql_file_fopen_def opened_def psi_ask_def psi_note_def real_call_def same_files_def free_stream_def
        set_stream_def Let_def)
qed

lemma opened_same: "same_files s t \<Longrightarrow> fst (opened os filename flags myFlags s) = fst (opened os filename flags myFlags t) \<and>
    same_files (snd (opened os filename flags myFlags s)) (snd (opened os filename flags myFlags t))"
  by (simp add: opened_def same_files_def free_stream_def set_stream_def split: option.split prod.split)

lemma same_files_sym: "same_files s t \<Longrightarrow> same_files t s"
  and same_files_trans: "same_files s t \<Longrightarrow> same_files t u \<Longrightarrow> same_files s u"
  by (simp_all add: same_files_def)

lemma perform_transparent: "same_files s t \<Longrightarrow> matched same_files (perform psi os src c s) (perform psi' os src c t)"
proof (cases c)
  case (Call_fopen key filename flags myFlags)
  assume st: "same_files s t"
  note left = fopen_opened [of psi os key src filename flags myFlags s]
    and right = fopen_opened [of psi' os key src filename flags myFlags t]
    and both = opened_same [OF st, of os filename flags myFlags]
  have "same_files (snd (inline_mysql_file_fopen psi os key src filename flags myFlags s))
      (snd (inline_mysql_file_fopen psi' os key src filename flags myFlags t))"
    by (rule same_files_trans [OF same_files_trans [OF left [THEN conjunct2] both [THEN conjunct2]]
        same_files_sym [OF right [THEN conjunct2]]])
  with left right both have "fst (inline_mysql_file_fopen psi os key src filename flags myFlags s) =
        fst (inline_mysql_file_fopen psi' os key src filename flags myFlags t) \<and>
      same_files (snd (inline_mysql_file_fopen psi os key src filename flags myFlags s))
        (snd (inline_mysql_file_fopen psi' os key src filename flags myFlags t))"
    by simp
  then show ?thesis unfolding Call_fopen perform.simps by (rule matched_case_prod)
next
  case (Call_fclose fp flags)
  assume st: "same_files s t"
  show ?thesis
  proof (cases fp)
    case (Some p)
    define W where "W psi f s = with_locker psi (get_thread_file_stream_locker (fl_psi f) PSI_FILE_STREAM_CLOSE)
                  (\<lambda>l. start_file_close_wait l src) (os_my_fclose os (fl_file f) flags)
                  (\<lambda>l r. end_file_close_wait l r) s" for psi and f :: MYSQL_FILE and s :: "'a file_env"
    define h where "h psi f s = (fst (W psi f s), free_stream os p (snd (W psi f s)))" for psi f s
    have c: "inline_mysql_file_fclose psi os src fp flags s = rbind (stream_at s fp) (\<lambda>f. Inr (h psi f s))" for psi s
      using Some by (simp add: inline_mysql_file_fclose_def h_def W_def Let_def case_prod_unfold)
    show ?thesis unfolding Call_fclose perform.simps c
    proof (rule matched_stream [OF st])
      fix f g :: MYSQL_FILE assume "fl_file f = fl_file g"
      then have "fst (W psi f s) = fst (W psi' g t) \<and> same_files (snd (W psi f s)) (snd (W psi' g t))"
        unfolding W_def by (simp only:) (rule same_with_locker [OF st])
      then show "fst (h psi f s) = fst (h psi' g t) \<and> same_files (snd (h psi f s)) (snd (h psi' g t))"
        by (simp add: h_def same_free)
    qed
  qed (use st Call_fclose in \<open>simp add: inline_mysql_file_fclose_def\<close>)
next
  case (Call_feof fp)
  assume st: "same_files s t"
  show ?thesis unfolding Call_feof perform.simps inline_mysql_file_feof_def
    by (rule matched_stream [OF st]) (simp add: same_real_call st)
qed (simp_all only: perform.simps psi_defs, (rule matched_locker matched_stream_locker, assumption)+)

subsection \<open>The protocol of the log\<close>

definition bracketed :: "'w file_env \<Rightarrow> 'w file_env \<Rightarrow> bool" where
  "bracketed s s' \<longleftrightarrow> (\<exists>es. psi_log s' = psi_log s @ es \<and> protocol file_wait_kind None es = Some None)"

lemma bracketed_locker:
  fixes s :: "'w file_env"
  assumes "\<And>r. file_wait_kind get r = Neither" "\<And>l r. file_wait_kind (start l) r = Starts l" "\<And>l q r. file_wait_kind (finish l q) r = Ends l"
  shows "bracketed s (snd (with_locker psi get start f finish s))"
  unfolding bracketed_def with_locker_log using assms by (simp split: option.split)

lemma bracketed_let: "(let (r, s') = x in Inr (g r, s')) = Inr (q, s'') \<Longrightarrow> bracketed s (snd x) \<Longrightarrow> bracketed s s''"
  by (cases x) simp

lemma bracketed_stream:
  assumes "rbind (rbind (stream_at s fp) (\<lambda>f. Inr (h f s))) (\<lambda>(r, s'). Inr (g r, s')) = Inr (q, s'')"
    and "\<And>f. bracketed s (snd (h f s))"
  shows "bracketed s s''"
proof -
  obtain f where "stream_at s fp = Inr f" "(let (r, s') = h f s in Inr (g r, s')) = Inr (q, s'')"
    using assms(1) by (auto simp: rbind_eq_Inr split: prod.splits)
  with assms(2) show ?thesis by (auto intro: bracketed_let)
qed

lemma bracketed_free: "bracketed s s' \<Longrightarrow> bracketed s (free_stream os p s')"
  by (simp add: bracketed_def free_stream_def set_stream_def)

lemma bracketed_fopen: "bracketed s (snd (inline_mysql_file_fopen psi os key src filename flags myFlags s))"
proof -
  obtain that w where m: "os_my_malloc os 16 MY_WME (os_state s) = (that, w)" by (cases "os_my_malloc os 16 MY_WME (os_state s)")
  obtain fp w' where o: "os_my_fopen os filename flags myFlags w = (fp, w')" by (cases "os_my_fopen os filename flags myFlags w")
  show ?thesis
    using m o by (cases that; cases "psi (psi_log s) (get_thread_file_name_locker key PSI_FILE_STREAM_OPEN (Some filename) (Stream (the that)))")
      (simp_all add: inline_mysql_file_fopen_def psi_ask_def psi_note_def real_call_def bracketed_def free_stream_def
        set_stream_def Let_def)
qed

lemma perform_bracketed: "perform psi os src c s = Inr (r, s') \<Longrightarrow> bracketed s s'"
proof (cases c)
  case (Call_fopen key filename flags myFlags)
  assume "perform psi os src c s = Inr (r, s')"
  then show ?thesis unfolding Call_fopen perform.simps by (rule bracketed_let) (rule bracketed_fopen)
next
  case (Call_fclose fp flags)
  assume p: "perform psi os src c s = Inr (r, s')"
  show ?thesis
  proof (cases fp)
    case None
    with p Call_fclose show ?thesis by (simp add: inline_mysql_file_fclose_def bracketed_def)
  next
    case (Some q)
    with p Call_fclose show ?thesis
      by (auto simp: inline_mysql_file_fclose_def rbind_eq_Inr Let_def case_prod_unfold intro!: bracketed_free bracketed_locker)
  qed
next
  case (Call_feof fp)
  assume "perform psi os src c s = Inr (r, s')"
  then show ?thesis unfolding Call_feof perform.simps inline_mysql_file_feof_def
    by (rule bracketed_stream) (simp add: bracketed_def real_call_def split: prod.split)
qed (simp only: perform.simps psi_defs, erule bracketed_let bracketed_stream, rule bracketed_locker; simp)+

interpretation file_api: instrumented_api "\<lambda>psi. perform psi os src" same_files psi_log file_wait_kind
  for os :: "'w file_os" and src
proof
  show "matched same_files (perform psi os src c s) (perform psi' os src c t)" if "same_files s t" for s t :: "'w file_env" and psi psi' c
    using that by (rule perform_transparent)
  show "\<exists>es. psi_log s' = psi_log s @ es \<and> protocol file_wait_kind None es = Some None"
    if "perform psi os src c s = Inr (r, s')" for psi c r and s s' :: "'w file_env"
    using perform_bracketed [OF that] by (simp add: bracketed_def)
qed

definition run_files ::
  "'w file_os \<Rightarrow> src_loc \<Rightarrow> psi_file_call psi \<Rightarrow> (file_result list \<Rightarrow> file_op option) \<Rightarrow> nat \<Rightarrow> 'w file_env \<Rightarrow>
   (file_result list \<times> 'w file_env) res" where
  "run_files os src psi client n s = instrumented_api.run (\<lambda>psi. perform psi os src) psi client n [] s"

text \<open>C27: No client of the file operations can tell whether, or how, they are instrumented: with any two performance schemas every run gives the same results and leaves the operating system and the streams in the same state.\<close>

theorem file_instrumentation_is_transparent:
  assumes "same_files s t"
  shows "matched same_files (run_files os src psi client n s) (run_files os src psi' client n t)"
  unfolding run_files_def by (rule file_api.run_transparent [OF assms])

text \<open>In every run of the file operations each wait that is reported is ended with its own locker, contains one call of the operating system, and overlaps no other wait.\<close>

theorem file_waits_are_well_formed:
  assumes "run_files os src psi client n s = Inr (rs, s')"
  shows "\<exists>es. psi_log s' = psi_log s @ es \<and> protocol file_wait_kind None es = Some None"
  using assms unfolding run_files_def by (rule file_api.run_protocol)

subsection \<open>The life of a stream\<close>

lemma fopen_streams:
  assumes "\<forall>p. fst (os_my_malloc os 16 MY_WME (os_state s)) = Some p \<longrightarrow> fe_streams s p = None"
    and "inline_mysql_file_fopen psi os key src filename flags myFlags s = (r, s')"
  shows "(r = None \<longrightarrow> fe_streams s' = fe_streams s) \<and>
    (\<forall>p. r = Some p \<longrightarrow> fe_streams s p = None \<and> (\<exists>f. fe_streams s' = (fe_streams s)(p := Some f)))"
proof -
  obtain that w where m: "os_my_malloc os 16 MY_WME (os_state s) = (that, w)" by (cases "os_my_malloc os 16 MY_WME (os_state s)")
  obtain fp w' where o: "os_my_fopen os filename flags myFlags w = (fp, w')" by (cases "os_my_fopen os filename flags myFlags w")
  show ?thesis
    using assms m o by (cases that; cases "psi (psi_log s) (get_thread_file_name_locker key PSI_FILE_STREAM_OPEN (Some filename) (Stream (the that)))"; cases fp)
      (auto simp: inline_mysql_file_fopen_def psi_ask_def psi_note_def real_call_def free_stream_def set_stream_def Let_def fun_upd_idem)
qed

lemma fclose_streams:
  assumes "fe_streams s p = Some f"
  shows "\<exists>r s'. inline_mysql_file_fclose psi os src (Some p) flags s = Inr (r, s') \<and> fe_streams s' = (fe_streams s)(p := None)"
  using assms by (simp add: inline_mysql_file_fclose_def stream_at_def Let_def case_prod_unfold free_stream_def set_stream_def with_locker_streams)


text \<open>When \<open>vfprintf\<close> fails, \<open>mysql_file_fprintf\<close> reports that \<open>SIZE_MAX\<close> bytes were written: the negative result is converted to \<open>size_t\<close>.\<close>

theorem failed_fprintf_reports_huge_write:
  assumes "fe_streams s p = Some f" "os_vfprintf os (fl_file f) fmt args (os_state s) = (- 1, w)"
    and "psi (psi_log s) (get_thread_file_stream_locker (fl_psi f) PSI_FILE_WRITE) = Some l"
  shows "\<exists>s'. inline_mysql_file_fprintf psi os fmt args (Some p) s = Inr (- 1, s') \<and>
    last (psi_log s') = PsiCall (end_file_wait l 18446744073709551615) None"
proof -
  let ?x = "with_locker psi (get_thread_file_stream_locker (fl_psi f) PSI_FILE_WRITE)
    (\<lambda>l. start_file_wait l 0 (''mysql_file.h'', 650)) (os_vfprintf os (fl_file f) fmt args) (\<lambda>l r. end_file_wait l (scast r)) s"
  have "(scast (- 1 :: sint32) :: uint64) = 18446744073709551615" by simp
  with assms have "fst ?x = - 1" "last (psi_log (snd ?x)) = PsiCall (end_file_wait l 18446744073709551615) None"
    by (simp_all add: with_locker_result with_locker_log)
  then show ?thesis using assms(1) by (intro exI [of _ "snd ?x"]) (simp add: inline_mysql_file_fprintf_def stream_at_def prod_eq_iff)
qed

subsection \<open>Witnesses\<close>

definition sample_os :: "nat file_os" where
  "sample_os = \<lparr>os_fgets = \<lambda>_ _ w. (Some ''x'', Suc w),
     os_fgetc = \<lambda>_ w. (0, Suc w),
     os_fputs = \<lambda>_ _ w. (0, Suc w),
     os_fputc = \<lambda>_ _ w. (0, Suc w),
     os_vfprintf = \<lambda>_ _ _ w. (- 1, Suc w),
     os_fflush = \<lambda>_ w. (0, Suc w),
     os_my_fstat = \<lambda>_ _ w. ((0, ''''), Suc w),
     os_my_chsize = \<lambda>_ _ _ _ w. (0, Suc w),
     os_my_fread = \<lambda>_ _ _ w. ((1, ''x''), Suc w),
     os_my_fwrite = \<lambda>_ _ _ _ w. (0, Suc w),
     os_my_fseek = \<lambda>_ _ _ _ w. (0, Suc w),
     os_my_ftell = \<lambda>_ _ w. (0, Suc w),
     os_my_close = \<lambda>_ _ w. (0, Suc w),
     os_my_read = \<lambda>_ _ _ w. ((1, ''x''), Suc w),
     os_my_write = \<lambda>_ _ _ _ w. (0, Suc w),
     os_my_pread = \<lambda>_ _ _ _ w. ((1, ''x''), Suc w),
     os_my_pwrite = \<lambda>_ _ _ _ _ w. (0, Suc w),
     os_my_seek = \<lambda>_ _ _ _ w. (0, Suc w),
     os_my_tell = \<lambda>_ _ w. (0, Suc w),
     os_my_sync = \<lambda>_ _ w. (0, Suc w),
     os_my_stat = \<lambda>_ _ w. (Some ''x'', Suc w),
     os_my_create = \<lambda>_ _ _ _ w. (0, Suc w),
     os_create_temp_file = \<lambda>_ _ _ _ w. ((0, ''''), Suc w),
     os_my_open = \<lambda>_ _ _ w. (0, Suc w),
     os_my_delete = \<lambda>_ _ w. (0, Suc w),
     os_my_rename = \<lambda>_ _ _ w. (0, Suc w),
     os_my_create_with_symlink = \<lambda>_ _ _ _ _ w. (0, Suc w),
     os_my_delete_with_symlink = \<lambda>_ _ w. (0, Suc w),
     os_my_rename_with_symlink = \<lambda>_ _ _ w. (0, Suc w),
     os_feof = \<lambda>_ w. (0, Suc w),
     os_my_fopen = \<lambda>_ _ _ w. (Some 7, Suc w),
     os_my_fclose = \<lambda>_ _ w. (0, Suc w),
     os_my_malloc = \<lambda>_ _ w. (Some 40, Suc w),
     os_my_free = \<lambda>_ w. w\<rparr>"

definition sample_env :: "nat option \<Rightarrow> nat file_env" where
  "sample_env hook = \<lparr>os_state = 0, psi_log = [], fe_streams = (\<lambda>p. if p = 3 then Some \<lparr>fl_file = Some 9, fl_psi = hook\<rparr> else None)\<rparr>"

definition sample_psi :: "psi_file_call psi" where
  "sample_psi log e = Some 5"

theorem file_instrumentation_is_transparent_witness:
  "matched same_files (run_files sample_os (''a.c'', 1) sample_psi (\<lambda>rs. Some (Call_fgetc (Some 3))) 2 (sample_env (Some 1)))
     (run_files sample_os (''a.c'', 1) (\<lambda>_ _. None) (\<lambda>rs. Some (Call_fgetc (Some 3))) 2 (sample_env None))"
  by (rule file_instrumentation_is_transparent) (simp add: same_files_def sample_env_def)

lemma sample_os_simps:
  "os_fgetc sample_os x w = (0, Suc w)"
  "os_vfprintf sample_os x y z w = (- 1, Suc w)"
  "os_my_fopen sample_os a b c w = (Some 7, Suc w)"
  "os_my_malloc sample_os n d w = (Some 40, Suc w)"
  by (simp_all add: sample_os_def)

lemma sample_fgetc: "perform sample_psi sample_os (''a.c'', 1) (Call_fgetc (Some 3)) (sample_env None) =
    Inr (RInt 0, \<lparr>os_state = 1, psi_log = [PsiCall (get_thread_file_stream_locker None PSI_FILE_READ) (Some 5),
       PsiCall (start_file_wait 5 1 (''a.c'', 1)) None, RealCall, PsiCall (end_file_wait 5 1) None],
       fe_streams = fe_streams (sample_env None)\<rparr>)"
  by (simp add: inline_mysql_file_fgetc_def stream_at_def sample_env_def with_locker_def psi_ask_def psi_note_def
    real_call_def sample_psi_def sample_os_simps Let_def)

theorem file_waits_are_well_formed_witness:
  "\<exists>rs s'. run_files sample_os (''a.c'', 1) sample_psi (\<lambda>rs. Some (Call_fgetc (Some 3))) 1 (sample_env None) = Inr (rs, s') \<and>
     length (psi_log s') = 4 \<and> protocol file_wait_kind None (psi_log s') = Some None"
proof -
  obtain rs s' where r: "run_files sample_os (''a.c'', 1) sample_psi (\<lambda>rs. Some (Call_fgetc (Some 3))) 1 (sample_env None) = Inr (rs, s')"
    "length (psi_log s') = 4"
    using sample_fgetc by (simp add: run_files_def)
  from file_waits_are_well_formed [OF r(1)] r show ?thesis by (intro exI [of _ rs] exI [of _ s']) (simp add: sample_env_def)
qed


theorem failed_fprintf_reports_huge_write_witness:
  "\<exists>s'. inline_mysql_file_fprintf sample_psi sample_os ''x'' [] (Some 3) (sample_env None) = Inr (- 1, s') \<and>
     last (psi_log s') = PsiCall (end_file_wait 5 18446744073709551615) None"
  by (rule failed_fprintf_reports_huge_write [where f = "\<lparr>fl_file = Some 9, fl_psi = None\<rparr>" and w = 1])
    (simp_all add: sample_os_simps sample_psi_def sample_env_def)

end
