(* ===== verification/Psi_Socket.thy ===== *)
theory Psi_Socket
  imports Psi_Base
begin

text \<open>
  The instrumented sockets of \<open>mysql_socket.h\<close>. A \<open>MYSQL_SOCKET\<close> is a value with the descriptor and the
  hook; the socket functions of the operating system are external (POSIX; the Windows branches of
  \<open>set_socket_nonblock\<close> and of \<open>shutdown\<close> are not modelled). A function that fills in an address or a
  buffer returns it with the result, and one that takes the length of an address by reference returns
  the new length.
\<close>

subsection \<open>State and external functions\<close>

record MYSQL_SOCKET =
  sk_fd :: sint32
  sk_psi :: "nat option"

datatype (plugins only: code size) psi_socket_call =
    register_socket bytes nat sint32
  | init_socket uint32 sint32 "bytes option" uint32
  | destroy_socket nat
  | start_socket_wait nat PSI_socket_operation uint64 src_loc
  | end_socket_wait nat uint64
  | set_socket_state nat PSI_socket_state
  | set_socket_info nat "sint32 option" bytes uint32
  | set_socket_thread_owner nat

fun socket_wait_kind :: "psi_socket_call \<Rightarrow> nat option \<Rightarrow> wait_kind" where
  "socket_wait_kind (start_socket_wait _ _ _ _) r = (case r of None \<Rightarrow> Neither | Some l \<Rightarrow> Starts l)"
| "socket_wait_kind (end_socket_wait l _) _ = Ends l"
| "socket_wait_kind _ _ = Neither"

text \<open>The variables of a client that hold sockets.\<close>

record 'w socket_env = "(psi_socket_call, 'w) psi_env" +
  se_vars :: "nat \<Rightarrow> MYSQL_SOCKET"

record 'w socket_os =
  os_bind :: "sint32 \<Rightarrow> bytes \<Rightarrow> uint32 \<Rightarrow> 'w \<Rightarrow> sint32 \<times> 'w"
  os_getsockname :: "sint32 \<Rightarrow> uint32 \<Rightarrow> 'w \<Rightarrow> (sint32 \<times> bytes \<times> uint32) \<times> 'w"
  os_connect :: "sint32 \<Rightarrow> bytes \<Rightarrow> uint32 \<Rightarrow> 'w \<Rightarrow> sint32 \<times> 'w"
  os_getpeername :: "sint32 \<Rightarrow> uint32 \<Rightarrow> 'w \<Rightarrow> (sint32 \<times> bytes \<times> uint32) \<times> 'w"
  os_send :: "sint32 \<Rightarrow> bytes \<Rightarrow> uint64 \<Rightarrow> sint32 \<Rightarrow> 'w \<Rightarrow> sint64 \<times> 'w"
  os_recv :: "sint32 \<Rightarrow> uint64 \<Rightarrow> sint32 \<Rightarrow> 'w \<Rightarrow> (sint64 \<times> bytes) \<times> 'w"
  os_sendto :: "sint32 \<Rightarrow> bytes \<Rightarrow> uint64 \<Rightarrow> sint32 \<Rightarrow> bytes \<Rightarrow> uint32 \<Rightarrow> 'w \<Rightarrow> sint64 \<times> 'w"
  os_recvfrom :: "sint32 \<Rightarrow> uint64 \<Rightarrow> sint32 \<Rightarrow> uint32 \<Rightarrow> 'w \<Rightarrow> (sint64 \<times> bytes \<times> bytes \<times> uint32) \<times> 'w"
  os_getsockopt :: "sint32 \<Rightarrow> sint32 \<Rightarrow> sint32 \<Rightarrow> uint32 \<Rightarrow> 'w \<Rightarrow> (sint32 \<times> bytes \<times> uint32) \<times> 'w"
  os_setsockopt :: "sint32 \<Rightarrow> sint32 \<Rightarrow> sint32 \<Rightarrow> bytes \<Rightarrow> uint32 \<Rightarrow> 'w \<Rightarrow> sint32 \<times> 'w"
  os_listen :: "sint32 \<Rightarrow> sint32 \<Rightarrow> 'w \<Rightarrow> sint32 \<times> 'w"
  os_shutdown :: "sint32 \<Rightarrow> sint32 \<Rightarrow> 'w \<Rightarrow> sint32 \<times> 'w"
  os_socket :: "sint32 \<Rightarrow> sint32 \<Rightarrow> sint32 \<Rightarrow> 'w \<Rightarrow> sint32 \<times> 'w"
  os_accept :: "sint32 \<Rightarrow> uint32 \<Rightarrow> 'w \<Rightarrow> (sint32 \<times> bytes \<times> uint32) \<times> 'w"
  os_closesocket :: "sint32 \<Rightarrow> 'w \<Rightarrow> sint32 \<times> 'w"
  os_fcntl :: "sint32 \<Rightarrow> sint32 \<Rightarrow> sint32 \<Rightarrow> 'w \<Rightarrow> sint32 \<times> 'w"
  os_errno :: "'w \<Rightarrow> sint32"

definition INVALID_SOCKET :: sint32 where "INVALID_SOCKET = - 1"
definition F_GETFL :: sint32 where "F_GETFL = 3"
definition F_SETFL :: sint32 where "F_SETFL = 4"
definition O_NONBLOCK :: sint32 where "O_NONBLOCK = 2048"

text \<open>The bytes a send or receive reports.\<close>

definition moved :: "sint64 \<Rightarrow> uint64" where
  "moved r = (if - 1 < sint r then r else 0)"

subsection \<open>Helpers\<close>

definition mysql_socket_invalid :: MYSQL_SOCKET where
  [psi_defs]: "mysql_socket_invalid = \<lparr>sk_fd = INVALID_SOCKET, sk_psi = None\<rparr>"

definition mysql_socket_set_address :: "MYSQL_SOCKET \<Rightarrow> bytes \<Rightarrow> uint32 \<Rightarrow> 'w socket_env \<Rightarrow> 'w socket_env" where
  "mysql_socket_set_address sock addr addr_len s =
     (case sk_psi sock of Some h \<Rightarrow> psi_note (set_socket_info h None addr addr_len) s | None \<Rightarrow> s)"

definition mysql_socket_set_thread_owner :: "MYSQL_SOCKET \<Rightarrow> 'w socket_env \<Rightarrow> 'w socket_env" where
  "mysql_socket_set_thread_owner sock s =
     (case sk_psi sock of Some h \<Rightarrow> psi_note (set_socket_thread_owner h) s | None \<Rightarrow> s)"

definition mysql_socket_getfd :: "MYSQL_SOCKET \<Rightarrow> sint32" where
  "mysql_socket_getfd sock = sk_fd sock"

text \<open>The argument is a pointer.\<close>

definition mysql_socket_setfd :: "MYSQL_SOCKET option \<Rightarrow> sint32 \<Rightarrow> MYSQL_SOCKET option" where
  "mysql_socket_setfd sock fd = map_option (\<lambda>k. k\<lparr>sk_fd := fd\<rparr>) sock"

definition inline_mysql_start_socket_wait ::
  "psi_socket_call psi \<Rightarrow> MYSQL_SOCKET \<Rightarrow> PSI_socket_operation \<Rightarrow> uint64 \<Rightarrow> src_loc \<Rightarrow> 'w socket_env \<Rightarrow> nat option \<times> 'w socket_env" where
  "inline_mysql_start_socket_wait psi sock oper byte_count src s =
     (case sk_psi sock of Some h \<Rightarrow> psi_ask psi (start_socket_wait h oper byte_count src) s | None \<Rightarrow> (None, s))"

definition inline_mysql_end_socket_wait :: "nat option \<Rightarrow> uint64 \<Rightarrow> 'w socket_env \<Rightarrow> 'w socket_env" where
  "inline_mysql_end_socket_wait locker byte_count s =
     (case locker of Some l \<Rightarrow> psi_note (end_socket_wait l byte_count) s | None \<Rightarrow> s)"

definition inline_mysql_socket_set_state :: "MYSQL_SOCKET \<Rightarrow> PSI_socket_state \<Rightarrow> 'w socket_env \<Rightarrow> 'w socket_env" where
  "inline_mysql_socket_set_state sock st s =
     (case sk_psi sock of Some h \<Rightarrow> psi_note (set_socket_state h st) s | None \<Rightarrow> s)"

definition inline_mysql_socket_register :: "bytes \<Rightarrow> nat \<Rightarrow> sint32 \<Rightarrow> 'w socket_env \<Rightarrow> 'w socket_env" where
  "inline_mysql_socket_register category info cnt s = psi_note (register_socket category info cnt) s"

subsection \<open>Creating and closing\<close>

definition inline_mysql_socket_socket ::
  "psi_socket_call psi \<Rightarrow> 'w socket_os \<Rightarrow> uint32 \<Rightarrow> sint32 \<Rightarrow> sint32 \<Rightarrow> sint32 \<Rightarrow> 'w socket_env \<Rightarrow> MYSQL_SOCKET \<times> 'w socket_env" where
  "inline_mysql_socket_socket psi os key domain type protocol_nr s =
     (let (fd, s1) = real_call (os_socket os domain type protocol_nr) s; sock = mysql_socket_invalid\<lparr>sk_fd := fd\<rparr> in
      if fd \<noteq> INVALID_SOCKET then
        (let (hook, s2) = psi_ask psi (init_socket key fd None 0) s1 in (sock\<lparr>sk_psi := hook\<rparr>, s2))
      else (sock, s1))"

text \<open>The result has the address and the length \<open>addr_len\<close> points to afterwards: the call fills in a local copy.\<close>

definition inline_mysql_socket_accept ::
  "psi_socket_call psi \<Rightarrow> 'w socket_os \<Rightarrow> src_loc \<Rightarrow> uint32 \<Rightarrow> MYSQL_SOCKET \<Rightarrow> uint32 option \<Rightarrow> 'w socket_env \<Rightarrow>
   (MYSQL_SOCKET \<times> bytes \<times> uint32 option) \<times> 'w socket_env" where
  "inline_mysql_socket_accept psi os src key socket_listen addr_len s =
     (let addr_length = (case addr_len of Some n \<Rightarrow> n | None \<Rightarrow> 0);
          ((fd, addr, addr_length'), s1) =
            with_hook psi (sk_psi socket_listen) (\<lambda>h. start_socket_wait h PSI_SOCKET_CONNECT 0 src)
              (os_accept os (sk_fd socket_listen) addr_length) (\<lambda>_ _. []) (\<lambda>l r. end_socket_wait l 0) s;
          sock = mysql_socket_invalid\<lparr>sk_fd := fd\<rparr>
      in if fd \<noteq> INVALID_SOCKET then
           (let (hook, s2) = psi_ask psi (init_socket key fd (Some addr) addr_length') s1
            in ((sock\<lparr>sk_psi := hook\<rparr>, addr, addr_len), s2))
         else ((sock, addr, addr_len), s1))"

definition inline_mysql_socket_close ::
  "psi_socket_call psi \<Rightarrow> 'w socket_os \<Rightarrow> src_loc \<Rightarrow> MYSQL_SOCKET \<Rightarrow> 'w socket_env \<Rightarrow> sint32 \<times> 'w socket_env" where
  "inline_mysql_socket_close psi os src sock s =
     (let (r, s1) = with_hook psi (sk_psi sock) (\<lambda>h. start_socket_wait h PSI_SOCKET_CLOSE 0 src)
            (os_closesocket os (sk_fd sock)) (\<lambda>_ _. []) (\<lambda>l r. end_socket_wait l 0) s
      in (r, case sk_psi sock of Some h \<Rightarrow> psi_note (destroy_socket h) s1 | None \<Rightarrow> s1))"

subsection \<open>Non-blocking mode\<close>

definition set_socket_nonblock :: "'w socket_os \<Rightarrow> sint32 \<Rightarrow> 'w \<Rightarrow> sint32 \<times> 'w" where
  "set_socket_nonblock os fd w =
     (let (fd_flags, w1) = os_fcntl os fd F_GETFL 0 w in
      if sint fd_flags < 0 then (os_errno os w1, w1)
      else
        (let (r, w2) = os_fcntl os fd F_SETFL (fd_flags OR O_NONBLOCK) w1
         in (if r = - 1 then os_errno os w2 else 0, w2)))"

definition inline_mysql_sock_set_nonblocking where
  [psi_defs]: "inline_mysql_sock_set_nonblocking psi os src sock s =
     with_hook psi (sk_psi sock) (\<lambda>h. start_socket_wait h PSI_SOCKET_OPT 0 src) (set_socket_nonblock os (sk_fd sock))
       (\<lambda>h r. []) (\<lambda>l r. end_socket_wait l 0) s"

subsection \<open>The other operations\<close>

definition inline_mysql_socket_bind where
  [psi_defs]: "inline_mysql_socket_bind psi os src sock addr len s =
     with_hook psi (sk_psi sock) (\<lambda>h. start_socket_wait h PSI_SOCKET_BIND 0 src) (os_bind os (sk_fd sock) addr len)
       (\<lambda>h r. if r = 0 then [set_socket_info h None addr len] else []) (\<lambda>l r. end_socket_wait l 0) s"

definition inline_mysql_socket_getsockname where
  [psi_defs]: "inline_mysql_socket_getsockname psi os src sock len s =
     with_hook psi (sk_psi sock) (\<lambda>h. start_socket_wait h PSI_SOCKET_BIND 0 src) (os_getsockname os (sk_fd sock) len)
       (\<lambda>h r. []) (\<lambda>l r. end_socket_wait l 0) s"

definition inline_mysql_socket_connect where
  [psi_defs]: "inline_mysql_socket_connect psi os src sock addr len s =
     with_hook psi (sk_psi sock) (\<lambda>h. start_socket_wait h PSI_SOCKET_CONNECT 0 src) (os_connect os (sk_fd sock) addr len)
       (\<lambda>h r. []) (\<lambda>l r. end_socket_wait l 0) s"

definition inline_mysql_socket_getpeername where
  [psi_defs]: "inline_mysql_socket_getpeername psi os src sock len s =
     with_hook psi (sk_psi sock) (\<lambda>h. start_socket_wait h PSI_SOCKET_BIND 0 src) (os_getpeername os (sk_fd sock) len)
       (\<lambda>h r. []) (\<lambda>l r. end_socket_wait l 0) s"

definition inline_mysql_socket_send where
  [psi_defs]: "inline_mysql_socket_send psi os src sock buf n flags s =
     with_hook psi (sk_psi sock) (\<lambda>h. start_socket_wait h PSI_SOCKET_SEND n src) (os_send os (sk_fd sock) buf n flags)
       (\<lambda>h r. []) (\<lambda>l r. end_socket_wait l (moved r)) s"

definition inline_mysql_socket_recv where
  [psi_defs]: "inline_mysql_socket_recv psi os src sock n flags s =
     with_hook psi (sk_psi sock) (\<lambda>h. start_socket_wait h PSI_SOCKET_RECV 0 src) (os_recv os (sk_fd sock) n flags)
       (\<lambda>h r. []) (\<lambda>l r. end_socket_wait l (moved (fst r))) s"

definition inline_mysql_socket_sendto where
  [psi_defs]: "inline_mysql_socket_sendto psi os src sock buf n flags addr addr_len s =
     with_hook psi (sk_psi sock) (\<lambda>h. start_socket_wait h PSI_SOCKET_SEND n src) (os_sendto os (sk_fd sock) buf n flags addr addr_len)
       (\<lambda>h r. []) (\<lambda>l r. end_socket_wait l (moved r)) s"

definition inline_mysql_socket_recvfrom where
  [psi_defs]: "inline_mysql_socket_recvfrom psi os src sock n flags addr_len s =
     with_hook psi (sk_psi sock) (\<lambda>h. start_socket_wait h PSI_SOCKET_RECV 0 src) (os_recvfrom os (sk_fd sock) n flags addr_len)
       (\<lambda>h r. []) (\<lambda>l r. end_socket_wait l (moved (fst r))) s"

definition inline_mysql_socket_getsockopt where
  [psi_defs]: "inline_mysql_socket_getsockopt psi os src sock level optname optlen s =
     with_hook psi (sk_psi sock) (\<lambda>h. start_socket_wait h PSI_SOCKET_OPT 0 src) (os_getsockopt os (sk_fd sock) level optname optlen)
       (\<lambda>h r. []) (\<lambda>l r. end_socket_wait l 0) s"

definition inline_mysql_socket_setsockopt where
  [psi_defs]: "inline_mysql_socket_setsockopt psi os src sock level optname optval optlen s =
     with_hook psi (sk_psi sock) (\<lambda>h. start_socket_wait h PSI_SOCKET_OPT 0 src) (os_setsockopt os (sk_fd sock) level optname optval optlen)
       (\<lambda>h r. []) (\<lambda>l r. end_socket_wait l 0) s"

definition inline_mysql_socket_listen where
  [psi_defs]: "inline_mysql_socket_listen psi os src sock backlog s =
     with_hook psi (sk_psi sock) (\<lambda>h. start_socket_wait h PSI_SOCKET_CONNECT 0 src) (os_listen os (sk_fd sock) backlog)
       (\<lambda>h r. []) (\<lambda>l r. end_socket_wait l 0) s"

definition inline_mysql_socket_shutdown where
  [psi_defs]: "inline_mysql_socket_shutdown psi os src sock how s =
     with_hook psi (sk_psi sock) (\<lambda>h. start_socket_wait h PSI_SOCKET_SHUTDOWN 0 src) (os_shutdown os (sk_fd sock) how)
       (\<lambda>h r. []) (\<lambda>l r. end_socket_wait l 0) s"

subsection \<open>Calls as data\<close>

datatype (plugins only: code size) socket_result =
    SInt sint32
  | SSize sint64
  | SName "sint32 \<times> bytes \<times> uint32"
  | SData "sint64 \<times> bytes"
  | SFrom "sint64 \<times> bytes \<times> bytes \<times> uint32"
  | SAccept "sint32 \<times> bytes \<times> uint32 option"

text \<open>A call names the variables of its sockets; the result of creating a socket is its descriptor.\<close>

datatype (plugins only: code size) socket_op =
    Call_socket nat uint32 sint32 sint32 sint32
  | Call_accept nat uint32 nat "uint32 option"
  | Call_close nat
  | Call_set_nonblocking nat
  | Call_bind nat bytes uint32
  | Call_getsockname nat uint32
  | Call_connect nat bytes uint32
  | Call_getpeername nat uint32
  | Call_send nat bytes uint64 sint32
  | Call_recv nat uint64 sint32
  | Call_sendto nat bytes uint64 sint32 bytes uint32
  | Call_recvfrom nat uint64 sint32 uint32
  | Call_getsockopt nat sint32 sint32 uint32
  | Call_setsockopt nat sint32 sint32 bytes uint32
  | Call_listen nat sint32
  | Call_shutdown nat sint32

definition set_var :: "nat \<Rightarrow> MYSQL_SOCKET \<Rightarrow> 'w socket_env \<Rightarrow> 'w socket_env" where
  "set_var v k s = s\<lparr>se_vars := (se_vars s)(v := k)\<rparr>"

primrec perform_socket ::
  "psi_socket_call psi \<Rightarrow> 'w socket_os \<Rightarrow> src_loc \<Rightarrow> socket_op \<Rightarrow> 'w socket_env \<Rightarrow> (socket_result \<times> 'w socket_env) res" where
  "perform_socket psi os src (Call_socket v key domain type protocol_nr) s =
     (let (r, s') = inline_mysql_socket_socket psi os key domain type protocol_nr s in Inr (SInt (sk_fd r), set_var v r s'))"
| "perform_socket psi os src (Call_accept v key u addr_len) s =
     (let ((r, addr, n), s') = inline_mysql_socket_accept psi os src key (se_vars s u) addr_len s
      in Inr (SAccept (sk_fd r, addr, n), set_var v r s'))"
| "perform_socket psi os src (Call_close v) s =
     (let (r, s') = inline_mysql_socket_close psi os src (se_vars s v) s in Inr (SInt r, s'))"
| "perform_socket psi os src (Call_set_nonblocking v) s =
     (let (r, s') = inline_mysql_sock_set_nonblocking psi os src (se_vars s v) s in Inr (SInt r, s'))"
| "perform_socket psi os src (Call_bind v addr len) s =
     (let (r, s') = inline_mysql_socket_bind psi os src (se_vars s v) addr len s in Inr (SInt r, s'))"
| "perform_socket psi os src (Call_getsockname v len) s =
     (let (r, s') = inline_mysql_socket_getsockname psi os src (se_vars s v) len s in Inr (SName r, s'))"
| "perform_socket psi os src (Call_connect v addr len) s =
     (let (r, s') = inline_mysql_socket_connect psi os src (se_vars s v) addr len s in Inr (SInt r, s'))"
| "perform_socket psi os src (Call_getpeername v len) s =
     (let (r, s') = inline_mysql_socket_getpeername psi os src (se_vars s v) len s in Inr (SName r, s'))"
| "perform_socket psi os src (Call_send v buf n flags) s =
     (let (r, s') = inline_mysql_socket_send psi os src (se_vars s v) buf n flags s in Inr (SSize r, s'))"
| "perform_socket psi os src (Call_recv v n flags) s =
     (let (r, s') = inline_mysql_socket_recv psi os src (se_vars s v) n flags s in Inr (SData r, s'))"
| "perform_socket psi os src (Call_sendto v buf n flags addr addr_len) s =
     (let (r, s') = inline_mysql_socket_sendto psi os src (se_vars s v) buf n flags addr addr_len s in Inr (SSize r, s'))"
| "perform_socket psi os src (Call_recvfrom v n flags addr_len) s =
     (let (r, s') = inline_mysql_socket_recvfrom psi os src (se_vars s v) n flags addr_len s in Inr (SFrom r, s'))"
| "perform_socket psi os src (Call_getsockopt v level optname optlen) s =
     (let (r, s') = inline_mysql_socket_getsockopt psi os src (se_vars s v) level optname optlen s in Inr (SName r, s'))"
| "perform_socket psi os src (Call_setsockopt v level optname optval optlen) s =
     (let (r, s') = inline_mysql_socket_setsockopt psi os src (se_vars s v) level optname optval optlen s in Inr (SInt r, s'))"
| "perform_socket psi os src (Call_listen v backlog) s =
     (let (r, s') = inline_mysql_socket_listen psi os src (se_vars s v) backlog s in Inr (SInt r, s'))"
| "perform_socket psi os src (Call_shutdown v how) s =
     (let (r, s') = inline_mysql_socket_shutdown psi os src (se_vars s v) how s in Inr (SInt r, s'))"

subsection \<open>Transparency and protocol\<close>

definition same_sockets :: "'w socket_env \<Rightarrow> 'w socket_env \<Rightarrow> bool" where
  "same_sockets s t \<longleftrightarrow> os_state s = os_state t \<and> (\<forall>v. sk_fd (se_vars s v) = sk_fd (se_vars t v))"

lemma hook_vars:
  fixes s :: "'w socket_env"
  shows "se_vars (snd (with_hook psi hook start f inside finish s)) = se_vars s"
proof -
  have "se_vars (fold psi_note es s) = se_vars s" for es and s :: "'w socket_env"
    by (induction es arbitrary: s) (simp_all add: psi_note_def)
  moreover have "se_vars (psi_note e s) = se_vars s" for e and s :: "'w socket_env" by (simp add: psi_note_def)
  ultimately show ?thesis
    by (simp add: with_hook_def psi_ask_def real_call_def Let_def split: option.split prod.split)
qed

lemma sock_same_hook:
  fixes s t :: "'w socket_env"
  assumes "same_sockets s t"
  shows "fst (with_hook psi hook start f inside finish s) = fst (with_hook psi' hook' start' f inside' finish' t) \<and>
    same_sockets (snd (with_hook psi hook start f inside finish s)) (snd (with_hook psi' hook' start' f inside' finish' t))"
  using assms by (simp add: same_sockets_def with_hook_result hook_vars)

lemma sock_same_notes:
  fixes s t :: "'w socket_env"
  assumes "same_sockets s t"
  shows "same_sockets (psi_note e s) t" "same_sockets s (psi_note e t)"
    "same_sockets (snd (psi_ask psi e s)) t" "same_sockets s (snd (psi_ask psi e t))"
  using assms by (simp_all add: same_sockets_def psi_note_def psi_ask_def Let_def)

lemma sock_same_real:
  fixes s t :: "'w socket_env"
  assumes "same_sockets s t"
  shows "fst (real_call f s) = fst (real_call f t) \<and> same_sockets (snd (real_call f s)) (snd (real_call f t))"
  using assms by (simp add: same_sockets_def real_call_def split: prod.split)

lemma sock_same_var: "same_sockets s t \<Longrightarrow> sk_fd k = sk_fd l \<Longrightarrow> same_sockets (set_var v k s) (set_var v l t)"
  by (simp add: same_sockets_def set_var_def)

lemma sock_matched:
  assumes "same_sockets s t" "f = g"
  shows "matched same_sockets (let (r, s') = with_hook psi hook start f inside finish s in Inr (c r, s'))
    (let (r, s') = with_hook psi' hook' start' g inside' finish' t in Inr (c r, s'))"
  using sock_same_hook [OF assms(1), of psi hook start f inside finish psi' hook' start' inside' finish'] assms(2)
  by (cases "with_hook psi hook start f inside finish s"; cases "with_hook psi' hook' start' g inside' finish' t") simp

lemma same_fd: "same_sockets s t \<Longrightarrow> sk_fd (se_vars s v) = sk_fd (se_vars t v)"
  by (simp add: same_sockets_def)

lemma socket_same:
  assumes "same_sockets s t"
  shows "sk_fd (fst (inline_mysql_socket_socket psi os key d ty pn s)) = sk_fd (fst (inline_mysql_socket_socket psi' os key d ty pn t)) \<and>
    same_sockets (snd (inline_mysql_socket_socket psi os key d ty pn s)) (snd (inline_mysql_socket_socket psi' os key d ty pn t))"
proof -
  obtain fd w where "os_socket os d ty pn (os_state s) = (fd, w)" by (cases "os_socket os d ty pn (os_state s)")
  then show ?thesis
    using assms by (simp add: inline_mysql_socket_socket_def real_call_def psi_ask_def same_sockets_def mysql_socket_invalid_def Let_def)
qed

lemma accept_same:
  fixes os :: "'w socket_os" and psi psi' src key n
  assumes "same_sockets s t" "sk_fd k = sk_fd l"
  defines "x \<equiv> inline_mysql_socket_accept psi os src key k n s" and "y \<equiv> inline_mysql_socket_accept psi' os src key l n t"
  shows "sk_fd (fst (fst x)) = sk_fd (fst (fst y)) \<and> snd (fst x) = snd (fst y) \<and> same_sockets (snd x) (snd y)"
proof -
  let ?n = "case n of Some m \<Rightarrow> m | None \<Rightarrow> 0"
  define a where "a = with_hook psi (sk_psi k) (\<lambda>h. start_socket_wait h PSI_SOCKET_CONNECT 0 src)
              (os_accept os (sk_fd k) ?n) (\<lambda>_ _. []) (\<lambda>l r. end_socket_wait l 0) s"
  define b where "b = with_hook psi' (sk_psi l) (\<lambda>h. start_socket_wait h PSI_SOCKET_CONNECT 0 src)
              (os_accept os (sk_fd l) ?n) (\<lambda>_ _. []) (\<lambda>l r. end_socket_wait l 0) t"
  have ab: "fst a = fst b" "same_sockets (snd a) (snd b)"
    unfolding a_def b_def assms(2) using sock_same_hook [OF assms(1)] by blast+
  obtain fd addr m s1 t1 where c: "a = ((fd, addr, m), s1)" "b = ((fd, addr, m), t1)" "same_sockets s1 t1"
    using ab by (cases a; cases b; cases "fst a") auto
  show ?thesis
    unfolding x_def y_def inline_mysql_socket_accept_def Let_def a_def [symmetric] b_def [symmetric] c(1,2)
    using c(3) by (simp add: psi_ask_def same_sockets_def Let_def)
qed

lemma close_same:
  fixes os :: "'w socket_os" and psi psi' src
  assumes "same_sockets s t" "sk_fd k = sk_fd l"
  defines "x \<equiv> inline_mysql_socket_close psi os src k s" and "y \<equiv> inline_mysql_socket_close psi' os src l t"
  shows "fst x = fst y \<and> same_sockets (snd x) (snd y)"
proof -
  define a where "a = with_hook psi (sk_psi k) (\<lambda>h. start_socket_wait h PSI_SOCKET_CLOSE 0 src)
            (os_closesocket os (sk_fd k)) (\<lambda>_ _. []) (\<lambda>l r. end_socket_wait l 0) s"
  define b where "b = with_hook psi' (sk_psi l) (\<lambda>h. start_socket_wait h PSI_SOCKET_CLOSE 0 src)
            (os_closesocket os (sk_fd l)) (\<lambda>_ _. []) (\<lambda>l r. end_socket_wait l 0) t"
  have "fst a = fst b" "same_sockets (snd a) (snd b)"
    unfolding a_def b_def assms(2) using sock_same_hook [OF assms(1)] by blast+
  then show ?thesis
    unfolding x_def y_def inline_mysql_socket_close_def Let_def a_def [symmetric] b_def [symmetric]
    by (cases a; cases b) (simp add: sock_same_notes split: option.split)
qed

lemma perform_socket_transparent:
  "same_sockets s t \<Longrightarrow> matched same_sockets (perform_socket psi os src c s) (perform_socket psi' os src c t)"
proof (cases c)
  case (Call_socket v key d ty pn)
  assume st: "same_sockets s t"
  show ?thesis
    using socket_same [OF st, of psi os key d ty pn psi'] Call_socket
    by (simp add: Let_def case_prod_unfold sock_same_var)
next
  case (Call_accept v key u n)
  assume st: "same_sockets s t"
  show ?thesis
    using accept_same [OF st same_fd [OF st, of u], of psi os src key n psi'] Call_accept
    by (simp add: Let_def case_prod_unfold sock_same_var prod_eq_iff)
next
  case (Call_close v)
  assume st: "same_sockets s t"
  show ?thesis
    using close_same [OF st same_fd [OF st, of v], of psi os src psi'] Call_close
    by (simp add: Let_def case_prod_unfold)
qed (simp only: perform_socket.simps psi_defs, rule sock_matched, assumption, simp only: same_fd)+

definition sock_bracketed :: "'w socket_env \<Rightarrow> 'w socket_env \<Rightarrow> bool" where
  "sock_bracketed s s' \<longleftrightarrow> (\<exists>es. psi_log s' = psi_log s @ es \<and> protocol socket_wait_kind None es = Some None)"

lemma protocol_notes:
  assumes "\<forall>e\<in>set es. socket_wait_kind e None = Neither"
  shows "protocol socket_wait_kind c (map (\<lambda>e. PsiCall e None) es) = Some c"
  using assms by (induction es) simp_all

lemma sock_bracketed_hook:
  fixes s :: "'w socket_env"
  assumes "\<And>h r. \<forall>e\<in>set (inside h r). socket_wait_kind e None = Neither"
  shows "sock_bracketed s (snd (with_hook psi hook (\<lambda>h. start_socket_wait h oper n src) f inside (\<lambda>l r. end_socket_wait l (g r)) s))"
  unfolding sock_bracketed_def with_hook_log using assms
  by (simp add: Let_def protocol_append protocol_notes split: option.split)

lemma sock_bracketed_let: "(let (r, s') = x in Inr (g r, s')) = Inr (q, s'') \<Longrightarrow> sock_bracketed s (snd x) \<Longrightarrow> sock_bracketed s s''"
  by (cases x) simp

lemma sock_bracketed_note: "socket_wait_kind e None = Neither \<Longrightarrow> sock_bracketed s s' \<Longrightarrow> sock_bracketed s (psi_note e s')"
  by (auto simp: sock_bracketed_def protocol_append)

lemma sock_bracketed_ask: "(\<And>r. socket_wait_kind e r = Neither) \<Longrightarrow> sock_bracketed s s' \<Longrightarrow> sock_bracketed s (snd (psi_ask psi e s'))"
  by (auto simp: sock_bracketed_def psi_ask_def protocol_append Let_def)

lemma sock_bracketed_var: "sock_bracketed s s' \<Longrightarrow> sock_bracketed s (set_var v k s')"
  by (simp add: sock_bracketed_def set_var_def)

lemma sock_bracketed_real: "sock_bracketed s (snd (real_call f s))"
  by (auto simp: sock_bracketed_def real_call_def split: prod.split)

lemma perform_socket_bracketed: "perform_socket psi os src c s = Inr (r, s') \<Longrightarrow> sock_bracketed s s'"
proof (cases c)
  case (Call_socket v key d ty pn)
  assume "perform_socket psi os src c s = Inr (r, s')"
  then show ?thesis
    using Call_socket sock_bracketed_real [of s "os_socket os d ty pn"]
    by (auto simp: inline_mysql_socket_socket_def Let_def case_prod_unfold sock_bracketed_var sock_bracketed_ask split: if_splits)
next
  case (Call_accept v key u n)
  assume "perform_socket psi os src c s = Inr (r, s')"
  then show ?thesis
    using Call_accept
    by (auto simp: inline_mysql_socket_accept_def Let_def case_prod_unfold intro!: sock_bracketed_var sock_bracketed_ask sock_bracketed_hook [where g = "\<lambda>_. 0"] split: if_splits)
next
  case (Call_close v)
  assume "perform_socket psi os src c s = Inr (r, s')"
  then show ?thesis
    using Call_close
    by (auto simp: inline_mysql_socket_close_def Let_def case_prod_unfold intro!: sock_bracketed_note sock_bracketed_hook [where g = "\<lambda>_. 0"] split: option.splits)
qed (simp only: perform_socket.simps psi_defs, erule sock_bracketed_let, rule sock_bracketed_hook, simp)+

interpretation socket_api: instrumented_api "\<lambda>psi. perform_socket psi os src" same_sockets psi_log socket_wait_kind
  for os :: "'w socket_os" and src
proof
  show "matched same_sockets (perform_socket psi os src c s) (perform_socket psi' os src c t)" if "same_sockets s t"
    for s t :: "'w socket_env" and psi psi' c
    using that by (rule perform_socket_transparent)
  show "\<exists>es. psi_log s' = psi_log s @ es \<and> protocol socket_wait_kind None es = Some None"
    if "perform_socket psi os src c s = Inr (r, s')" for psi c r and s s' :: "'w socket_env"
    using perform_socket_bracketed [OF that] by (simp add: sock_bracketed_def)
qed

definition run_sockets ::
  "'w socket_os \<Rightarrow> src_loc \<Rightarrow> psi_socket_call psi \<Rightarrow> (socket_result list \<Rightarrow> socket_op option) \<Rightarrow> nat \<Rightarrow> 'w socket_env \<Rightarrow>
   (socket_result list \<times> 'w socket_env) res" where
  "run_sockets os src psi client n s = instrumented_api.run (\<lambda>psi. perform_socket psi os src) psi client n [] s"

text \<open>C30: In every run of the socket operations the results, the descriptors and the state of the operating system do not depend on the performance schema, and each wait it is told of is ended with its own locker after one real call.\<close>

theorem socket_instrumentation_is_sound:
  assumes "os_state s = os_state t" "\<forall>v. sk_fd (se_vars s v) = sk_fd (se_vars t v)" "run_sockets os src psi client n s = Inr (rs, s')"
  shows "\<exists>t' es. run_sockets os src psi' client n t = Inr (rs, t') \<and> os_state t' = os_state s' \<and>
    psi_log s' = psi_log s @ es \<and> protocol socket_wait_kind None es = Some None"
proof -
  have "matched same_sockets (run_sockets os src psi client n s) (run_sockets os src psi' client n t)"
    unfolding run_sockets_def by (rule socket_api.run_transparent) (simp add: same_sockets_def assms(1,2))
  with assms(3) obtain t' where t: "run_sockets os src psi' client n t = Inr (rs, t')" "os_state t' = os_state s'"
    by (cases "run_sockets os src psi' client n t") (auto simp: same_sockets_def)
  have "\<exists>es. psi_log s' = psi_log s @ es \<and> protocol socket_wait_kind None es = Some None"
    using assms(3) unfolding run_sockets_def by (rule socket_api.run_protocol)
  with t show ?thesis by auto
qed

text \<open>\<open>mysql_socket_accept\<close> never tells its caller how long the address of the peer is: the length it was given is returned unchanged, whatever \<open>accept\<close> says.\<close>

theorem accept_does_not_return_the_address_length:
  "snd (snd (fst (inline_mysql_socket_accept psi os src key sock addr_len s))) = addr_len"
  by (simp add: inline_mysql_socket_accept_def Let_def case_prod_unfold)

text \<open>On an instrumented socket \<open>sendto\<close> and \<open>recvfrom\<close> are reported as \<open>PSI_SOCKET_SEND\<close> and \<open>PSI_SOCKET_RECV\<close>, and a receive is reported with 0 bytes wanted.\<close>

theorem datagram_calls_are_reported_as_stream_calls:
  assumes "sk_psi sock = Some h"
  shows "psi_log (snd (inline_mysql_socket_sendto psi os src sock buf n flags addr len s)) ! length (psi_log s) =
      PsiCall (start_socket_wait h PSI_SOCKET_SEND n src) (psi (psi_log s) (start_socket_wait h PSI_SOCKET_SEND n src)) \<and>
    psi_log (snd (inline_mysql_socket_recvfrom psi os src sock n flags len s)) ! length (psi_log s) =
      PsiCall (start_socket_wait h PSI_SOCKET_RECV 0 src) (psi (psi_log s) (start_socket_wait h PSI_SOCKET_RECV 0 src))"
  using assms by (simp add: psi_defs with_hook_log Let_def nth_append)

subsection \<open>Witnesses\<close>

definition sample_socket_os :: "nat socket_os" where
  "sample_socket_os = \<lparr>os_bind = \<lambda>_ _ _ w. (0, Suc w),
     os_getsockname = \<lambda>_ _ w. ((7, ''addr'', 4), Suc w),
     os_connect = \<lambda>_ _ _ w. (0, Suc w),
     os_getpeername = \<lambda>_ _ w. ((7, ''addr'', 4), Suc w),
     os_send = \<lambda>_ _ _ _ w. (0, Suc w),
     os_recv = \<lambda>_ _ _ w. ((1, ''x''), Suc w),
     os_sendto = \<lambda>_ _ _ _ _ _ w. (0, Suc w),
     os_recvfrom = \<lambda>_ _ _ _ w. ((1, ''x'', ''addr'', 4), Suc w),
     os_getsockopt = \<lambda>_ _ _ _ w. ((7, ''addr'', 4), Suc w),
     os_setsockopt = \<lambda>_ _ _ _ _ w. (0, Suc w),
     os_listen = \<lambda>_ _ w. (0, Suc w),
     os_shutdown = \<lambda>_ _ w. (0, Suc w),
     os_socket = \<lambda>_ _ _ w. (0, Suc w),
     os_accept = \<lambda>_ _ w. ((7, ''addr'', 4), Suc w),
     os_closesocket = \<lambda>_ w. (0, Suc w),
     os_fcntl = \<lambda>_ _ _ w. (0, Suc w),
     os_errno = \<lambda>_. 9\<rparr>"

definition sample_sockets :: "nat option \<Rightarrow> nat socket_env" where
  "sample_sockets hook = \<lparr>os_state = 0, psi_log = [], se_vars = (\<lambda>_. \<lparr>sk_fd = 3, sk_psi = hook\<rparr>)\<rparr>"

theorem socket_instrumentation_is_sound_witness:
  "\<exists>s' t'. run_sockets sample_socket_os (''a.c'', 1) (\<lambda>_ _. Some 5) (\<lambda>_. Some (Call_listen 0 9)) 1 (sample_sockets (Some 8)) = Inr ([SInt 0], s') \<and>
     length (psi_log s') = 3 \<and>
     run_sockets sample_socket_os (''a.c'', 1) (\<lambda>_ _. None) (\<lambda>_. Some (Call_listen 0 9)) 1 (sample_sockets None) = Inr ([SInt 0], t') \<and>
     os_state t' = 1"
proof -
  have "perform_socket (\<lambda>_ _. Some 5) sample_socket_os (''a.c'', 1) (Call_listen 0 9) (sample_sockets (Some 8)) =
    Inr (SInt 0, \<lparr>os_state = 1, psi_log = [PsiCall (start_socket_wait 8 PSI_SOCKET_CONNECT 0 (''a.c'', 1)) (Some 5), RealCall,
      PsiCall (end_socket_wait 5 0) None], se_vars = (\<lambda>_. \<lparr>sk_fd = 3, sk_psi = Some 8\<rparr>)\<rparr>)"
    by (simp add: inline_mysql_socket_listen_def with_hook_def sample_sockets_def psi_ask_def psi_note_def real_call_def Let_def)
      (simp add: sample_socket_os_def)
  then obtain s' where r: "run_sockets sample_socket_os (''a.c'', 1) (\<lambda>_ _. Some 5) (\<lambda>_. Some (Call_listen 0 9)) 1 (sample_sockets (Some 8)) = Inr ([SInt 0], s')"
    "length (psi_log s') = 3" "os_state s' = 1"
    by (simp add: run_sockets_def)
  have "os_state (sample_sockets (Some 8)) = os_state (sample_sockets None)"
    "\<forall>v. sk_fd (se_vars (sample_sockets (Some 8)) v) = sk_fd (se_vars (sample_sockets None) v)" by (simp_all add: sample_sockets_def)
  from socket_instrumentation_is_sound [OF this r(1), of "\<lambda>_ _. None"] r show ?thesis by auto
qed

theorem datagram_calls_are_reported_as_stream_calls_witness:
  "psi_log (snd (inline_mysql_socket_sendto (\<lambda>_ _. Some 5) sample_socket_os (''a.c'', 1) \<lparr>sk_fd = 3, sk_psi = Some 8\<rparr> ''x'' 1 0 ''addr'' 4 (sample_sockets None))) ! 0 =
     PsiCall (start_socket_wait 8 PSI_SOCKET_SEND 1 (''a.c'', 1)) (Some 5)"
  using datagram_calls_are_reported_as_stream_calls [of "\<lparr>sk_fd = 3, sk_psi = Some 8\<rparr>" 8 "\<lambda>_ _. Some 5" sample_socket_os "(''a.c'', 1)" "''x''" 1 0 "''addr''" 4 "sample_sockets None"]
  by (simp add: sample_sockets_def)

end
