(* ===== verification/Psi_Server.thy ===== *)
theory Psi_Server
  imports Psi_Base
begin

text \<open>
  The instrumentation without a real call: statements (\<open>mysql_statement.h\<close>), transactions
  (\<open>mysql_transaction.h\<close>), stages (\<open>mysql_stage.h\<close>), table and idle waits (\<open>mysql_table.h\<close>,
  \<open>mysql_idle.h\<close>), metadata locks (\<open>mysql_mdl.h\<close>), stored programs and prepared statements
  (\<open>mysql_sp.h\<close>, \<open>mysql_ps.h\<close>) and the registration of memory keys (\<open>mysql_memory.h\<close>). A caller
  keeps the locker it was given and passes it on; null means that the event is not observed. Pointers
  to structures the wrappers only pass on are addresses. The interface at the end states what a
  statement and a transaction have in common.
\<close>

section \<open>State and calls\<close>

datatype PSI_table_lock_operation = PSI_TABLE_LOCK | PSI_TABLE_EXTERNAL_LOCK

datatype (plugins only: code size) psi_server_call =
    register_statement bytes nat sint32
  | get_thread_statement_locker nat uint32 "nat option" "nat option"
  | start_statement nat bytes uint32 src_loc
  | refine_statement nat uint32
  | set_statement_text nat bytes uint32
  | set_statement_lock_time nat uint64
  | set_statement_rows_sent nat uint64
  | set_statement_rows_examined nat uint64
  | end_statement nat nat
  | digest_start nat
  | digest_end nat nat
  | get_thread_transaction_locker nat "nat option" "nat option" sint32 bool bool
  | start_transaction nat src_loc
  | set_transaction_gtid nat nat nat
  | set_transaction_xid nat nat sint32
  | set_transaction_xa_state nat sint32
  | set_transaction_trxid nat nat
  | inc_transaction_savepoints nat uint64
  | inc_transaction_rollback_to_savepoint nat uint64
  | inc_transaction_release_savepoint nat uint64
  | end_transaction nat bool
  | register_stage bytes nat sint32
  | start_stage uint32 src_loc
  | end_stage
  | start_table_lock_wait nat nat PSI_table_lock_operation uint64 src_loc
  | end_table_lock_wait nat
  | unlock_table nat
  | start_idle_wait nat src_loc
  | end_idle_wait nat
  | create_metadata_lock nat nat sint32 sint32 sint32 src_loc
  | set_metadata_lock_status nat sint32
  | destroy_metadata_lock nat
  | start_sp nat "nat option"
  | end_sp nat
  | drop_sp uint32 bytes uint32 bytes uint32
  | get_sp_share uint32 bytes uint32 bytes uint32
  | create_prepared_stmt nat uint32 nat bytes uint64 bytes uint64
  | execute_prepared_stmt nat nat
  | destroy_prepared_stmt nat
  | reprepare_prepared_stmt nat
  | register_memory bytes nat sint32

record PSI_stage_progress =
  m_work_completed :: uint64
  m_work_estimated :: uint64

record 'w server_env = "(psi_server_call, 'w) psi_env" +
  sv_progress :: "nat \<Rightarrow> PSI_stage_progress"

text \<open>A call with a pointer that must not be null.\<close>

definition note_if :: "nat option \<Rightarrow> (nat \<Rightarrow> psi_server_call) \<Rightarrow> 'w server_env \<Rightarrow> 'w server_env" where
  "note_if p e s = (case p of None \<Rightarrow> s | Some l \<Rightarrow> psi_note (e l) s)"

section \<open>Statements\<close>

definition inline_mysql_statement_register :: "bytes \<Rightarrow> nat \<Rightarrow> sint32 \<Rightarrow> 'w server_env \<Rightarrow> 'w server_env" where
  "inline_mysql_statement_register category info cnt s = psi_note (register_statement category info cnt) s"

definition inline_mysql_digest_start :: "psi_server_call psi \<Rightarrow> nat option \<Rightarrow> 'w server_env \<Rightarrow> nat option \<times> 'w server_env" where
  "inline_mysql_digest_start psi locker s =
     (case locker of None \<Rightarrow> (None, s) | Some l \<Rightarrow> psi_ask psi (digest_start l) s)"

definition inline_mysql_digest_end :: "nat option \<Rightarrow> nat \<Rightarrow> 'w server_env \<Rightarrow> 'w server_env" where
  "inline_mysql_digest_end locker digest s = note_if locker (\<lambda>l. digest_end l digest) s"

definition inline_mysql_start_statement :: "psi_server_call psi \<Rightarrow> nat \<Rightarrow> uint32 \<Rightarrow> bytes \<Rightarrow> uint32 \<Rightarrow> nat option \<Rightarrow> nat option \<Rightarrow>
    src_loc \<Rightarrow> 'w server_env \<Rightarrow> nat option \<times> 'w server_env" where
  "inline_mysql_start_statement psi state key db db_len charset sp_share src s =
     (let (locker, s1) = psi_ask psi (get_thread_statement_locker state key charset sp_share) s
      in (locker, note_if locker (\<lambda>l. start_statement l db db_len src) s1))"

definition inline_mysql_refine_statement :: "psi_server_call psi \<Rightarrow> nat option \<Rightarrow> uint32 \<Rightarrow> 'w server_env \<Rightarrow> nat option \<times> 'w server_env" where
  "inline_mysql_refine_statement psi locker key s =
     (case locker of None \<Rightarrow> (None, s) | Some l \<Rightarrow> psi_ask psi (refine_statement l key) s)"

definition inline_mysql_set_statement_text :: "nat option \<Rightarrow> bytes \<Rightarrow> uint32 \<Rightarrow> 'w server_env \<Rightarrow> 'w server_env" where
  "inline_mysql_set_statement_text locker txt len s = note_if locker (\<lambda>l. set_statement_text l txt len) s"

definition inline_mysql_set_statement_lock_time :: "nat option \<Rightarrow> uint64 \<Rightarrow> 'w server_env \<Rightarrow> 'w server_env" where
  "inline_mysql_set_statement_lock_time locker cnt s = note_if locker (\<lambda>l. set_statement_lock_time l cnt) s"

definition inline_mysql_set_statement_rows_sent :: "nat option \<Rightarrow> uint64 \<Rightarrow> 'w server_env \<Rightarrow> 'w server_env" where
  "inline_mysql_set_statement_rows_sent locker cnt s = note_if locker (\<lambda>l. set_statement_rows_sent l cnt) s"

definition inline_mysql_set_statement_rows_examined :: "nat option \<Rightarrow> uint64 \<Rightarrow> 'w server_env \<Rightarrow> 'w server_env" where
  "inline_mysql_set_statement_rows_examined locker cnt s = note_if locker (\<lambda>l. set_statement_rows_examined l cnt) s"

definition inline_mysql_end_statement :: "nat option \<Rightarrow> nat \<Rightarrow> 'w server_env \<Rightarrow> 'w server_env" where
  "inline_mysql_end_statement locker stmt_da s = note_if locker (\<lambda>l. end_statement l stmt_da) (psi_note end_stage s)"

section \<open>Transactions\<close>

definition inline_mysql_start_transaction :: "psi_server_call psi \<Rightarrow> nat \<Rightarrow> nat option \<Rightarrow> nat option \<Rightarrow> sint32 \<Rightarrow> bool \<Rightarrow> bool \<Rightarrow>
    src_loc \<Rightarrow> 'w server_env \<Rightarrow> nat option \<times> 'w server_env" where
  "inline_mysql_start_transaction psi state xid trxid isolation_level read_only autocommit src s =
     (let (locker, s1) = psi_ask psi (get_thread_transaction_locker state xid trxid isolation_level read_only autocommit) s
      in (locker, note_if locker (\<lambda>l. start_transaction l src) s1))"

definition inline_mysql_set_transaction_gtid :: "nat option \<Rightarrow> nat \<Rightarrow> nat \<Rightarrow> 'w server_env \<Rightarrow> 'w server_env" where
  "inline_mysql_set_transaction_gtid locker sid gtid_spec s = note_if locker (\<lambda>l. set_transaction_gtid l sid gtid_spec) s"

definition inline_mysql_set_transaction_xid :: "nat option \<Rightarrow> nat \<Rightarrow> sint32 \<Rightarrow> 'w server_env \<Rightarrow> 'w server_env" where
  "inline_mysql_set_transaction_xid locker xid xa_state s = note_if locker (\<lambda>l. set_transaction_xid l xid xa_state) s"

definition inline_mysql_set_transaction_xa_state :: "nat option \<Rightarrow> sint32 \<Rightarrow> 'w server_env \<Rightarrow> 'w server_env" where
  "inline_mysql_set_transaction_xa_state locker xa_state s = note_if locker (\<lambda>l. set_transaction_xa_state l xa_state) s"

definition inline_mysql_set_transaction_trxid :: "nat option \<Rightarrow> nat \<Rightarrow> 'w server_env \<Rightarrow> 'w server_env" where
  "inline_mysql_set_transaction_trxid locker trxid s = note_if locker (\<lambda>l. set_transaction_trxid l trxid) s"

definition inline_mysql_inc_transaction_savepoints :: "nat option \<Rightarrow> uint64 \<Rightarrow> 'w server_env \<Rightarrow> 'w server_env" where
  "inline_mysql_inc_transaction_savepoints locker cnt s = note_if locker (\<lambda>l. inc_transaction_savepoints l cnt) s"

definition inline_mysql_inc_transaction_rollback_to_savepoint :: "nat option \<Rightarrow> uint64 \<Rightarrow> 'w server_env \<Rightarrow> 'w server_env" where
  "inline_mysql_inc_transaction_rollback_to_savepoint locker cnt s =
     note_if locker (\<lambda>l. inc_transaction_rollback_to_savepoint l cnt) s"

definition inline_mysql_inc_transaction_release_savepoint :: "nat option \<Rightarrow> uint64 \<Rightarrow> 'w server_env \<Rightarrow> 'w server_env" where
  "inline_mysql_inc_transaction_release_savepoint locker cnt s =
     note_if locker (\<lambda>l. inc_transaction_release_savepoint l cnt) s"

definition inline_mysql_rollback_transaction :: "nat option \<Rightarrow> 'w server_env \<Rightarrow> 'w server_env" where
  "inline_mysql_rollback_transaction locker s = note_if locker (\<lambda>l. end_transaction l False) s"

definition inline_mysql_commit_transaction :: "nat option \<Rightarrow> 'w server_env \<Rightarrow> 'w server_env" where
  "inline_mysql_commit_transaction locker s = note_if locker (\<lambda>l. end_transaction l True) s"

section \<open>Stages\<close>

definition inline_mysql_stage_register :: "bytes \<Rightarrow> nat \<Rightarrow> sint32 \<Rightarrow> 'w server_env \<Rightarrow> 'w server_env" where
  "inline_mysql_stage_register category info cnt s = psi_note (register_stage category info cnt) s"

definition inline_mysql_set_stage :: "psi_server_call psi \<Rightarrow> uint32 \<Rightarrow> src_loc \<Rightarrow> 'w server_env \<Rightarrow> nat option \<times> 'w server_env" where
  "inline_mysql_set_stage psi key src s = psi_ask psi (start_stage key src) s"

definition inline_mysql_end_stage :: "'w server_env \<Rightarrow> 'w server_env" where
  "inline_mysql_end_stage s = psi_note end_stage s"

text \<open>The setters ignore a null progress; the getters do not test it.\<close>

definition progress_update :: "nat option \<Rightarrow> (PSI_stage_progress \<Rightarrow> PSI_stage_progress) \<Rightarrow> 'w server_env \<Rightarrow> 'w server_env" where
  "progress_update progress f s =
     (case progress of None \<Rightarrow> s | Some p \<Rightarrow> s\<lparr>sv_progress := (sv_progress s)(p := f (sv_progress s p))\<rparr>)"

definition inline_mysql_stage_set_work_completed :: "nat option \<Rightarrow> uint64 \<Rightarrow> 'w server_env \<Rightarrow> 'w server_env" where
  "inline_mysql_stage_set_work_completed progress val s = progress_update progress (\<lambda>p. p\<lparr>m_work_completed := val\<rparr>) s"

definition inline_mysql_stage_get_work_completed :: "nat option \<Rightarrow> 'w server_env \<Rightarrow> uint64 res" where
  "inline_mysql_stage_get_work_completed progress s = rbind (deref progress) (\<lambda>p. Inr (m_work_completed (sv_progress s p)))"

definition inline_mysql_stage_inc_work_completed :: "nat option \<Rightarrow> uint64 \<Rightarrow> 'w server_env \<Rightarrow> 'w server_env" where
  "inline_mysql_stage_inc_work_completed progress val s =
     progress_update progress (\<lambda>p. p\<lparr>m_work_completed := m_work_completed p + val\<rparr>) s"

definition inline_mysql_stage_set_work_estimated :: "nat option \<Rightarrow> uint64 \<Rightarrow> 'w server_env \<Rightarrow> 'w server_env" where
  "inline_mysql_stage_set_work_estimated progress val s = progress_update progress (\<lambda>p. p\<lparr>m_work_estimated := val\<rparr>) s"

definition inline_mysql_stage_get_work_estimated :: "nat option \<Rightarrow> 'w server_env \<Rightarrow> uint64 res" where
  "inline_mysql_stage_get_work_estimated progress s = rbind (deref progress) (\<lambda>p. Inr (m_work_estimated (sv_progress s p)))"

section \<open>Table waits, idle waits and metadata locks\<close>

definition inline_mysql_start_table_lock_wait :: "psi_server_call psi \<Rightarrow> nat \<Rightarrow> nat option \<Rightarrow> PSI_table_lock_operation \<Rightarrow> uint64 \<Rightarrow>
    src_loc \<Rightarrow> 'w server_env \<Rightarrow> nat option \<times> 'w server_env" where
  "inline_mysql_start_table_lock_wait psi state table op flags src s =
     (case table of None \<Rightarrow> (None, s) | Some t \<Rightarrow> psi_ask psi (start_table_lock_wait state t op flags src) s)"

definition inline_mysql_end_table_lock_wait :: "nat option \<Rightarrow> 'w server_env \<Rightarrow> 'w server_env" where
  "inline_mysql_end_table_lock_wait locker s = note_if locker end_table_lock_wait s"

definition inline_mysql_unlock_table :: "nat option \<Rightarrow> 'w server_env \<Rightarrow> 'w server_env" where
  "inline_mysql_unlock_table table s = note_if table unlock_table s"

definition inline_mysql_start_idle_wait :: "psi_server_call psi \<Rightarrow> nat \<Rightarrow> src_loc \<Rightarrow> 'w server_env \<Rightarrow> nat option \<times> 'w server_env" where
  "inline_mysql_start_idle_wait psi state src s = psi_ask psi (start_idle_wait state src) s"

definition inline_mysql_end_idle_wait :: "nat option \<Rightarrow> 'w server_env \<Rightarrow> 'w server_env" where
  "inline_mysql_end_idle_wait locker s = note_if locker end_idle_wait s"

definition inline_mysql_mdl_create :: "psi_server_call psi \<Rightarrow> nat \<Rightarrow> nat \<Rightarrow> sint32 \<Rightarrow> sint32 \<Rightarrow> sint32 \<Rightarrow> src_loc \<Rightarrow>
    'w server_env \<Rightarrow> nat option \<times> 'w server_env" where
  "inline_mysql_mdl_create psi identity mdl_key mdl_type mdl_duration mdl_status src s =
     psi_ask psi (create_metadata_lock identity mdl_key mdl_type mdl_duration mdl_status src) s"

definition inline_mysql_mdl_set_status :: "nat option \<Rightarrow> sint32 \<Rightarrow> 'w server_env \<Rightarrow> 'w server_env" where
  "inline_mysql_mdl_set_status hook mdl_status s = note_if hook (\<lambda>l. set_metadata_lock_status l mdl_status) s"

definition inline_mysql_mdl_destroy :: "nat option \<Rightarrow> src_loc \<Rightarrow> 'w server_env \<Rightarrow> 'w server_env" where
  "inline_mysql_mdl_destroy hook src s = note_if hook destroy_metadata_lock s"

section \<open>Stored programs, prepared statements, memory\<close>

definition inline_mysql_start_sp :: "psi_server_call psi \<Rightarrow> nat \<Rightarrow> nat option \<Rightarrow> 'w server_env \<Rightarrow> nat option \<times> 'w server_env" where
  "inline_mysql_start_sp psi state sp_share s = psi_ask psi (start_sp state sp_share) s"

definition inline_mysql_end_sp :: "nat option \<Rightarrow> 'w server_env \<Rightarrow> 'w server_env" where
  "inline_mysql_end_sp locker s = note_if locker end_sp s"

definition inline_mysql_drop_sp :: "uint32 \<Rightarrow> bytes \<Rightarrow> uint32 \<Rightarrow> bytes \<Rightarrow> uint32 \<Rightarrow> 'w server_env \<Rightarrow> 'w server_env" where
  "inline_mysql_drop_sp sp_type schema_name schema_len object_name object_len s =
     psi_note (drop_sp sp_type schema_name schema_len object_name object_len) s"

definition inline_mysql_get_sp_share :: "psi_server_call psi \<Rightarrow> uint32 \<Rightarrow> bytes \<Rightarrow> uint32 \<Rightarrow> bytes \<Rightarrow> uint32 \<Rightarrow>
    'w server_env \<Rightarrow> nat option \<times> 'w server_env" where
  "inline_mysql_get_sp_share psi sp_type schema_name schema_len object_name object_len s =
     psi_ask psi (get_sp_share sp_type schema_name schema_len object_name object_len) s"

definition inline_mysql_create_prepared_stmt :: "psi_server_call psi \<Rightarrow> nat \<Rightarrow> uint32 \<Rightarrow> nat option \<Rightarrow> bytes \<Rightarrow> uint64 \<Rightarrow>
    bytes \<Rightarrow> uint64 \<Rightarrow> 'w server_env \<Rightarrow> nat option \<times> 'w server_env" where
  "inline_mysql_create_prepared_stmt psi identity stmt_id locker stmt_name name_len sqltext sql_len s =
     (case locker of
        None \<Rightarrow> (None, s)
      | Some l \<Rightarrow> psi_ask psi (create_prepared_stmt identity stmt_id l stmt_name name_len sqltext sql_len) s)"

definition inline_mysql_execute_prepared_stmt :: "nat option \<Rightarrow> nat option \<Rightarrow> 'w server_env \<Rightarrow> 'w server_env" where
  "inline_mysql_execute_prepared_stmt locker prepared_stmt s =
     (case prepared_stmt of None \<Rightarrow> s | Some p \<Rightarrow> note_if locker (\<lambda>l. execute_prepared_stmt l p) s)"

definition inline_mysql_destroy_prepared_stmt :: "nat option \<Rightarrow> 'w server_env \<Rightarrow> 'w server_env" where
  "inline_mysql_destroy_prepared_stmt prepared_stmt s = note_if prepared_stmt destroy_prepared_stmt s"

definition inline_mysql_reprepare_prepared_stmt :: "nat option \<Rightarrow> 'w server_env \<Rightarrow> 'w server_env" where
  "inline_mysql_reprepare_prepared_stmt prepared_stmt s = note_if prepared_stmt reprepare_prepared_stmt s"

text \<open>With \<open>HAVE_PSI_MEMORY_INTERFACE\<close>, as \<open>psi.h\<close> defines it.\<close>

definition inline_mysql_memory_register :: "bytes \<Rightarrow> nat \<Rightarrow> sint32 \<Rightarrow> 'w server_env \<Rightarrow> 'w server_env" where
  "inline_mysql_memory_register category info cnt s = psi_note (register_memory category info cnt) s"

section \<open>Observed events\<close>

text \<open>
  An event is closed, has got a locker, or is observed with its locker. It is started with the locker
  it got, every later call names the locker it has at that moment, and no call follows its end.
\<close>

datatype scope = Closed | Acquired nat | Observed nat

datatype scope_event = Acquires "nat option" | Opens nat | Uses nat | Moves nat "nat option" | Closes nat | Outside

definition scope_of :: "nat option \<Rightarrow> scope" where
  "scope_of l = (case l of None \<Rightarrow> Closed | Some l \<Rightarrow> Observed l)"

fun scope_step :: "scope \<Rightarrow> scope_event \<Rightarrow> scope option" where
  "scope_step c (Acquires l) = (if c = Closed then Some (case l of None \<Rightarrow> Closed | Some l \<Rightarrow> Acquired l) else None)"
| "scope_step c (Opens l) = (if c = Acquired l then Some (Observed l) else None)"
| "scope_step c (Uses l) = (if c = Observed l then Some c else None)"
| "scope_step c (Moves l r) = (if c = Observed l then Some (scope_of r) else None)"
| "scope_step c (Closes l) = (if c = Observed l then Some Closed else None)"
| "scope_step c Outside = Some c"

fun scoped :: "('e \<Rightarrow> nat option \<Rightarrow> scope_event) \<Rightarrow> scope \<Rightarrow> 'e log_entry list \<Rightarrow> scope option" where
  "scoped k c [] = Some c"
| "scoped k c (RealCall # es) = scoped k c es"
| "scoped k c (PsiCall e r # es) = (case scope_step c (k e r) of None \<Rightarrow> None | Some d \<Rightarrow> scoped k d es)"

lemma scoped_append: "scoped k c (es @ fs) = (case scoped k c es of None \<Rightarrow> None | Some d \<Rightarrow> scoped k d fs)"
  by (induction k c es rule: scoped.induct) (auto split: option.splits)

text \<open>What a kind of event provides: a start, steps between, and an end.\<close>

locale observed_events =
  fixes start :: "'e psi \<Rightarrow> 's \<Rightarrow> nat option \<times> 's"
    and step :: "'e psi \<Rightarrow> 'c \<Rightarrow> nat option \<Rightarrow> 's \<Rightarrow> nat option \<times> 's"
    and finish :: "nat option \<Rightarrow> 's \<Rightarrow> 's"
    and log_of :: "'s \<Rightarrow> 'e log_entry list"
    and kind :: "'e \<Rightarrow> nat option \<Rightarrow> scope_event"
  assumes start_scoped: "start psi s = (l, s') \<Longrightarrow> \<exists>es. log_of s' = log_of s @ es \<and> scoped kind Closed es = Some (scope_of l)"
    and step_scoped: "step psi c l s = (l', s') \<Longrightarrow> \<exists>es. log_of s' = log_of s @ es \<and> scoped kind (scope_of l) es = Some (scope_of l')"
    and finish_scoped: "\<exists>es. log_of (finish l s) = log_of s @ es \<and> scoped kind (scope_of l) es = Some Closed"
begin

fun steps :: "'e psi \<Rightarrow> 'c list \<Rightarrow> nat option \<Rightarrow> 's \<Rightarrow> nat option \<times> 's" where
  "steps psi [] l s = (l, s)"
| "steps psi (c # cs) l s = (let (l', s') = step psi c l s in steps psi cs l' s')"

definition session :: "'e psi \<Rightarrow> 'c list \<Rightarrow> 's \<Rightarrow> 's" where
  "session psi cs s = (let (l, s1) = start psi s; (l', s2) = steps psi cs l s1 in finish l' s2)"

lemma steps_scoped:
  "steps psi cs l s = (l', s') \<Longrightarrow> \<exists>es. log_of s' = log_of s @ es \<and> scoped kind (scope_of l) es = Some (scope_of l')"
proof (induction cs arbitrary: l s)
  case (Cons c cs)
  obtain l1 s1 where c: "step psi c l s = (l1, s1)" by fastforce
  with Cons.prems have "steps psi cs l1 s1 = (l', s')" by simp
  from Cons.IH [OF this] step_scoped [OF c] show ?case by (auto simp: scoped_append)
qed (simp add: exI [of _ "[]"])

lemma session_scoped: "\<exists>es. log_of (session psi cs s) = log_of s @ es \<and> scoped kind Closed es = Some Closed"
proof -
  obtain l s1 l' s2 where s: "start psi s = (l, s1)" "steps psi cs l s1 = (l', s2)" by fastforce
  from start_scoped [OF s(1)] steps_scoped [OF s(2)] finish_scoped [of l' s2] s show ?thesis
    by (auto simp: session_def scoped_append)
qed

end

subsection \<open>Statements\<close>

datatype (plugins only: code size) statement_op =
    OpRefine uint32
  | OpText bytes uint32
  | OpLockTime uint64
  | OpRowsSent uint64
  | OpRowsExamined uint64
  | OpDigest nat
  | OpStage uint32 src_loc
  | OpCreatePs nat uint32 bytes uint64 bytes uint64
  | OpExecutePs "nat option"

fun statement_step :: "psi_server_call psi \<Rightarrow> statement_op \<Rightarrow> nat option \<Rightarrow> 'w server_env \<Rightarrow> nat option \<times> 'w server_env" where
  "statement_step psi (OpRefine key) l s = inline_mysql_refine_statement psi l key s"
| "statement_step psi (OpText txt len) l s = (l, inline_mysql_set_statement_text l txt len s)"
| "statement_step psi (OpLockTime cnt) l s = (l, inline_mysql_set_statement_lock_time l cnt s)"
| "statement_step psi (OpRowsSent cnt) l s = (l, inline_mysql_set_statement_rows_sent l cnt s)"
| "statement_step psi (OpRowsExamined cnt) l s = (l, inline_mysql_set_statement_rows_examined l cnt s)"
| "statement_step psi (OpDigest digest) l s =
     (let (d, s1) = inline_mysql_digest_start psi l s in (l, inline_mysql_digest_end d digest s1))"
| "statement_step psi (OpStage key src) l s = (let (_, s1) = inline_mysql_set_stage psi key src s in (l, s1))"
| "statement_step psi (OpCreatePs identity i name n sql k) l s =
     (let (_, s1) = inline_mysql_create_prepared_stmt psi identity i l name n sql k s in (l, s1))"
| "statement_step psi (OpExecutePs p) l s = (l, inline_mysql_execute_prepared_stmt l p s)"

fun statement_scope :: "psi_server_call \<Rightarrow> nat option \<Rightarrow> scope_event" where
  "statement_scope (get_thread_statement_locker _ _ _ _) r = Acquires r"
| "statement_scope (start_statement l _ _ _) r = Opens l"
| "statement_scope (refine_statement l _) r = Moves l r"
| "statement_scope (set_statement_text l _ _) r = Uses l"
| "statement_scope (set_statement_lock_time l _) r = Uses l"
| "statement_scope (set_statement_rows_sent l _) r = Uses l"
| "statement_scope (set_statement_rows_examined l _) r = Uses l"
| "statement_scope (digest_start l) r = Uses l"
| "statement_scope (create_prepared_stmt _ _ l _ _ _ _) r = Uses l"
| "statement_scope (execute_prepared_stmt l _) r = Uses l"
| "statement_scope (end_statement l _) r = Closes l"
| "statement_scope _ r = Outside"

lemma note_if_log: "psi_log (note_if p e s) = psi_log s @ (case p of None \<Rightarrow> [] | Some l \<Rightarrow> [PsiCall (e l) None])"
  by (simp add: note_if_def split: option.split)

lemma psi_ask_log: "psi_ask psi e s = (r, s') \<Longrightarrow> psi_log s' = psi_log s @ [PsiCall e r]"
  by (auto simp: psi_ask_def Let_def)

lemmas server_logs = note_if_log psi_note_simps scope_of_def

lemma statement_start_scoped:
  assumes "inline_mysql_start_statement psi state key db db_len charset sp_share src s = (l, s')"
  shows "\<exists>es. psi_log s' = psi_log s @ es \<and> scoped statement_scope Closed es = Some (scope_of l)"
  using assms by (auto simp: inline_mysql_start_statement_def Let_def server_logs psi_ask_def split: prod.splits option.splits)

lemma statement_step_scoped:
  assumes "statement_step psi c l s = (l', s')"
  shows "\<exists>es. psi_log s' = psi_log s @ es \<and> scoped statement_scope (scope_of l) es = Some (scope_of l')"
proof (cases l)
  case None
  have "l' = None \<and> (\<exists>es. psi_log s' = psi_log s @ es \<and> scoped statement_scope Closed es = Some Closed)"
    using assms unfolding None
    by (cases c) (auto simp: inline_mysql_refine_statement_def inline_mysql_set_statement_text_def
        inline_mysql_set_statement_lock_time_def inline_mysql_set_statement_rows_sent_def
        inline_mysql_set_statement_rows_examined_def inline_mysql_digest_start_def inline_mysql_digest_end_def
        inline_mysql_set_stage_def inline_mysql_create_prepared_stmt_def inline_mysql_execute_prepared_stmt_def
        note_if_def psi_ask_def Let_def split: option.splits)
  then show ?thesis using None by (simp add: scope_of_def)
next
  case (Some k)
  then show ?thesis
    using assms
    by (cases c) (auto simp: inline_mysql_refine_statement_def inline_mysql_set_statement_text_def
        inline_mysql_set_statement_lock_time_def inline_mysql_set_statement_rows_sent_def
        inline_mysql_set_statement_rows_examined_def inline_mysql_digest_start_def inline_mysql_digest_end_def
        inline_mysql_set_stage_def inline_mysql_create_prepared_stmt_def inline_mysql_execute_prepared_stmt_def
        note_if_def psi_ask_def psi_note_def scope_of_def Let_def split: option.splits)
qed

lemma statement_finish_scoped:
  "\<exists>es. psi_log (inline_mysql_end_statement l da s) = psi_log s @ es \<and> scoped statement_scope (scope_of l) es = Some Closed"
  by (auto simp: inline_mysql_end_statement_def server_logs split: option.split)

interpretation statements: observed_events
  "\<lambda>psi. inline_mysql_start_statement psi state key db db_len charset sp_share src" statement_step
  "\<lambda>l. inline_mysql_end_statement l da" psi_log statement_scope
  for state key db db_len charset sp_share src da
  by unfold_locales (rule statement_start_scoped statement_step_scoped statement_finish_scoped, assumption?)+

subsection \<open>Transactions\<close>

datatype (plugins only: code size) transaction_op =
    OpGtid nat nat
  | OpXid nat sint32
  | OpXaState sint32
  | OpTrxid nat
  | OpSavepoints uint64
  | OpRollbackTo uint64
  | OpRelease uint64

fun transaction_step :: "psi_server_call psi \<Rightarrow> transaction_op \<Rightarrow> nat option \<Rightarrow> 'w server_env \<Rightarrow> nat option \<times> 'w server_env" where
  "transaction_step psi (OpGtid sid spec) l s = (l, inline_mysql_set_transaction_gtid l sid spec s)"
| "transaction_step psi (OpXid xid st) l s = (l, inline_mysql_set_transaction_xid l xid st s)"
| "transaction_step psi (OpXaState st) l s = (l, inline_mysql_set_transaction_xa_state l st s)"
| "transaction_step psi (OpTrxid trxid) l s = (l, inline_mysql_set_transaction_trxid l trxid s)"
| "transaction_step psi (OpSavepoints cnt) l s = (l, inline_mysql_inc_transaction_savepoints l cnt s)"
| "transaction_step psi (OpRollbackTo cnt) l s = (l, inline_mysql_inc_transaction_rollback_to_savepoint l cnt s)"
| "transaction_step psi (OpRelease cnt) l s = (l, inline_mysql_inc_transaction_release_savepoint l cnt s)"

definition transaction_end :: "bool \<Rightarrow> nat option \<Rightarrow> 'w server_env \<Rightarrow> 'w server_env" where
  "transaction_end commit l s = (if commit then inline_mysql_commit_transaction l s else inline_mysql_rollback_transaction l s)"

fun transaction_scope :: "psi_server_call \<Rightarrow> nat option \<Rightarrow> scope_event" where
  "transaction_scope (get_thread_transaction_locker _ _ _ _ _ _) r = Acquires r"
| "transaction_scope (start_transaction l _) r = Opens l"
| "transaction_scope (set_transaction_gtid l _ _) r = Uses l"
| "transaction_scope (set_transaction_xid l _ _) r = Uses l"
| "transaction_scope (set_transaction_xa_state l _) r = Uses l"
| "transaction_scope (set_transaction_trxid l _) r = Uses l"
| "transaction_scope (inc_transaction_savepoints l _) r = Uses l"
| "transaction_scope (inc_transaction_rollback_to_savepoint l _) r = Uses l"
| "transaction_scope (inc_transaction_release_savepoint l _) r = Uses l"
| "transaction_scope (end_transaction l _) r = Closes l"
| "transaction_scope _ r = Outside"

lemma transaction_start_scoped:
  assumes "inline_mysql_start_transaction psi state xid trxid isolation_level ro ac src s = (l, s')"
  shows "\<exists>es. psi_log s' = psi_log s @ es \<and> scoped transaction_scope Closed es = Some (scope_of l)"
  using assms by (auto simp: inline_mysql_start_transaction_def Let_def server_logs psi_ask_def split: prod.splits option.splits)

lemma transaction_step_scoped:
  assumes "transaction_step psi c l s = (l', s')"
  shows "\<exists>es. psi_log s' = psi_log s @ es \<and> scoped transaction_scope (scope_of l) es = Some (scope_of l')"
  using assms
  by (cases c) (auto simp: inline_mysql_set_transaction_gtid_def inline_mysql_set_transaction_xid_def
      inline_mysql_set_transaction_xa_state_def inline_mysql_set_transaction_trxid_def
      inline_mysql_inc_transaction_savepoints_def inline_mysql_inc_transaction_rollback_to_savepoint_def
      inline_mysql_inc_transaction_release_savepoint_def server_logs split: option.split)

lemma transaction_finish_scoped:
  "\<exists>es. psi_log (transaction_end commit l s) = psi_log s @ es \<and> scoped transaction_scope (scope_of l) es = Some Closed"
  by (auto simp: transaction_end_def inline_mysql_commit_transaction_def inline_mysql_rollback_transaction_def server_logs
      split: option.split)

interpretation transactions: observed_events
  "\<lambda>psi. inline_mysql_start_transaction psi state xid trxid isolation_level ro ac src" transaction_step
  "transaction_end commit" psi_log transaction_scope
  for state xid trxid isolation_level ro ac src commit
  by unfold_locales (rule transaction_start_scoped transaction_step_scoped transaction_finish_scoped, assumption?)+

subsection \<open>Sessions\<close>

text \<open>A statement and a transaction from start to end, with any calls between.\<close>

fun statement_steps :: "psi_server_call psi \<Rightarrow> statement_op list \<Rightarrow> nat option \<Rightarrow> 'w server_env \<Rightarrow> nat option \<times> 'w server_env" where
  "statement_steps psi [] l s = (l, s)"
| "statement_steps psi (c # cs) l s = (let (l', s') = statement_step psi c l s in statement_steps psi cs l' s')"

definition statement_session where
  "statement_session psi state key db db_len charset sp_share src da cs s =
     (let (l, s1) = inline_mysql_start_statement psi state key db db_len charset sp_share src s;
          (l', s2) = statement_steps psi cs l s1
      in inline_mysql_end_statement l' da s2)"

fun transaction_steps :: "psi_server_call psi \<Rightarrow> transaction_op list \<Rightarrow> nat option \<Rightarrow> 'w server_env \<Rightarrow> nat option \<times> 'w server_env" where
  "transaction_steps psi [] l s = (l, s)"
| "transaction_steps psi (c # cs) l s = (let (l', s') = transaction_step psi c l s in transaction_steps psi cs l' s')"

definition transaction_session where
  "transaction_session psi state xid trxid isolation_level ro ac src commit cs s =
     (let (l, s1) = inline_mysql_start_transaction psi state xid trxid isolation_level ro ac src s;
          (l', s2) = transaction_steps psi cs l s1
      in transaction_end commit l' s2)"

lemma statement_steps_eq: "statements.steps psi cs l s = statement_steps psi cs l s"
  by (induction cs arbitrary: l s) (simp_all split: prod.split)

lemma transaction_steps_eq: "transactions.steps psi cs l s = transaction_steps psi cs l s"
  by (induction cs arbitrary: l s) (simp_all split: prod.split)


text \<open>A refinement that withdraws the locker leaves the statement started and not ended.\<close>

lemma withdrawn_statement_is_not_ended:
  assumes "psi (psi_log s) (refine_statement l key) = None"
  shows "(let (l', s1) = inline_mysql_refine_statement psi (Some l) key s in psi_log (inline_mysql_end_statement l' da s1)) =
    psi_log s @ [PsiCall (refine_statement l key) None, PsiCall end_stage None]"
  using assms by (simp add: inline_mysql_refine_statement_def inline_mysql_end_statement_def psi_ask_def Let_def note_if_def)

subsection \<open>Stage progress\<close>

fun inc_all :: "nat option \<Rightarrow> uint64 list \<Rightarrow> 'w server_env \<Rightarrow> 'w server_env" where
  "inc_all p [] s = s"
| "inc_all p (x # xs) s = inc_all p xs (inline_mysql_stage_inc_work_completed p x s)"

lemma inc_all_progress:
  "sv_progress (inc_all (Some p) xs s) p = (sv_progress s p)\<lparr>m_work_completed := m_work_completed (sv_progress s p) + sum_list xs\<rparr>"
  by (induction xs arbitrary: s) (simp_all add: inline_mysql_stage_inc_work_completed_def progress_update_def add.assoc)

text \<open>The work completed is what was set plus what was added, modulo 64 bits, and does not disturb the estimate; without a progress the setters do nothing and the getters fault.\<close>

theorem stage_progress_counts:
  "inline_mysql_stage_get_work_completed (Some p) (inc_all (Some p) xs (inline_mysql_stage_set_work_completed (Some p) v s)) =
     Inr (v + sum_list xs) \<and>
   inline_mysql_stage_get_work_estimated (Some p) (inc_all (Some p) xs (inline_mysql_stage_set_work_completed (Some p) v s)) =
     inline_mysql_stage_get_work_estimated (Some p) s \<and>
   inline_mysql_stage_set_work_completed None v s = s \<and> inline_mysql_stage_inc_work_completed None v s = s \<and>
   inline_mysql_stage_get_work_completed None s = Inl NullDeref"
  by (simp add: inc_all_progress inline_mysql_stage_get_work_completed_def inline_mysql_stage_get_work_estimated_def
      inline_mysql_stage_set_work_completed_def inline_mysql_stage_inc_work_completed_def progress_update_def)

end
