(* ===== verification/Thr_Platform.thy ===== *)
theory Thr_Platform
  imports My_Runtime "HOL-Library.Signed_Division"
begin

text \<open>
  The thread layer under the instrumentation: \<open>thr_mutex.h\<close>, \<open>thr_cond.h\<close>, \<open>thr_rwlock.h\<close>, \<open>my_thread.h\<close>
  and \<open>my_thread_local.h\<close>, with the branches for POSIX and for Windows. The functions of the two
  systems and the numbers of \<open>errno.h\<close> are parameters; an object is known by its address, and the fields
  the code itself reads or writes are state. A call that blocks is seen when it returns.
\<close>

section \<open>The two systems\<close>

record 'w posix_mutex =
  pthread_mutex_init :: "nat \<Rightarrow> nat \<Rightarrow> 'w \<Rightarrow> sint32 \<times> 'w"
  pthread_mutex_lock :: "nat \<Rightarrow> 'w \<Rightarrow> sint32 \<times> 'w"
  pthread_mutex_trylock :: "nat \<Rightarrow> 'w \<Rightarrow> sint32 \<times> 'w"
  pthread_mutex_unlock :: "nat \<Rightarrow> 'w \<Rightarrow> sint32 \<times> 'w"
  pthread_mutex_destroy :: "nat \<Rightarrow> 'w \<Rightarrow> sint32 \<times> 'w"

record 'w posix_cond =
  pthread_cond_init :: "nat \<Rightarrow> 'w \<Rightarrow> sint32 \<times> 'w"
  pthread_cond_destroy :: "nat \<Rightarrow> 'w \<Rightarrow> sint32 \<times> 'w"
  pthread_cond_timedwait :: "nat \<Rightarrow> nat \<Rightarrow> timespec \<Rightarrow> 'w \<Rightarrow> sint32 \<times> 'w"
  pthread_cond_wait :: "nat \<Rightarrow> nat \<Rightarrow> 'w \<Rightarrow> sint32 \<times> 'w"
  pthread_cond_signal :: "nat \<Rightarrow> 'w \<Rightarrow> sint32 \<times> 'w"
  pthread_cond_broadcast :: "nat \<Rightarrow> 'w \<Rightarrow> sint32 \<times> 'w"

record 'w posix_rwlock =
  pthread_rwlock_init :: "nat \<Rightarrow> 'w \<Rightarrow> sint32 \<times> 'w"
  pthread_rwlock_destroy :: "nat \<Rightarrow> 'w \<Rightarrow> sint32 \<times> 'w"
  pthread_rwlock_rdlock :: "nat \<Rightarrow> 'w \<Rightarrow> sint32 \<times> 'w"
  pthread_rwlock_tryrdlock :: "nat \<Rightarrow> 'w \<Rightarrow> sint32 \<times> 'w"
  pthread_rwlock_wrlock :: "nat \<Rightarrow> 'w \<Rightarrow> sint32 \<times> 'w"
  pthread_rwlock_trywrlock :: "nat \<Rightarrow> 'w \<Rightarrow> sint32 \<times> 'w"
  pthread_rwlock_unlock :: "nat \<Rightarrow> 'w \<Rightarrow> sint32 \<times> 'w"

record 'w posix_attr =
  pthread_attr_init :: "nat \<Rightarrow> 'w \<Rightarrow> sint32 \<times> 'w"
  pthread_attr_destroy :: "nat \<Rightarrow> 'w \<Rightarrow> sint32 \<times> 'w"
  pthread_attr_setstacksize :: "nat \<Rightarrow> uint64 \<Rightarrow> 'w \<Rightarrow> sint32 \<times> 'w"
  pthread_attr_setdetachstate :: "nat \<Rightarrow> sint32 \<Rightarrow> 'w \<Rightarrow> sint32 \<times> 'w"
  pthread_attr_getstacksize :: "nat \<Rightarrow> 'w \<Rightarrow> sint32 \<times> uint64 option \<times> 'w"

record 'w posix_thread =
  pthread_self :: "'w \<Rightarrow> uint64"
  pthread_equal :: "uint64 \<Rightarrow> uint64 \<Rightarrow> sint32"
  sched_yield :: "'w \<Rightarrow> 'w"
  pthread_key_create :: "nat option \<Rightarrow> 'w \<Rightarrow> sint32 \<times> uint32 option \<times> 'w"
  pthread_key_delete :: "uint32 \<Rightarrow> 'w \<Rightarrow> sint32 \<times> 'w"
  pthread_getspecific :: "uint32 \<Rightarrow> 'w \<Rightarrow> nat"
  pthread_setspecific :: "uint32 \<Rightarrow> nat \<Rightarrow> 'w \<Rightarrow> sint32 \<times> 'w"

record 'w pthreads =
  px_mutex :: "'w posix_mutex"
  px_cond :: "'w posix_cond"
  px_rwlock :: "'w posix_rwlock"
  px_attr :: "'w posix_attr"
  px_thread :: "'w posix_thread"

record win_errno =
  w_EBUSY :: sint32
  w_ETIMEDOUT :: sint32

record 'w win_mutex =
  InitializeCriticalSection :: "nat \<Rightarrow> 'w \<Rightarrow> 'w"
  EnterCriticalSection :: "nat \<Rightarrow> 'w \<Rightarrow> 'w"
  TryEnterCriticalSection :: "nat \<Rightarrow> 'w \<Rightarrow> bool \<times> 'w"
  LeaveCriticalSection :: "nat \<Rightarrow> 'w \<Rightarrow> 'w"
  DeleteCriticalSection :: "nat \<Rightarrow> 'w \<Rightarrow> 'w"
  RecursionCount :: "nat \<Rightarrow> 'w \<Rightarrow> sint32"

record 'w win_cond =
  InitializeConditionVariable :: "nat \<Rightarrow> 'w \<Rightarrow> 'w"
  SleepConditionVariableCS :: "nat \<Rightarrow> nat \<Rightarrow> uint32 \<Rightarrow> 'w \<Rightarrow> bool \<times> 'w"
  WakeConditionVariable :: "nat \<Rightarrow> 'w \<Rightarrow> 'w"
  WakeAllConditionVariable :: "nat \<Rightarrow> 'w \<Rightarrow> 'w"

record 'w win_rwlock =
  InitializeSRWLock :: "nat \<Rightarrow> 'w \<Rightarrow> 'w"
  AcquireSRWLockShared :: "nat \<Rightarrow> 'w \<Rightarrow> 'w"
  TryAcquireSRWLockShared :: "nat \<Rightarrow> 'w \<Rightarrow> bool \<times> 'w"
  AcquireSRWLockExclusive :: "nat \<Rightarrow> 'w \<Rightarrow> 'w"
  TryAcquireSRWLockExclusive :: "nat \<Rightarrow> 'w \<Rightarrow> bool \<times> 'w"
  ReleaseSRWLockExclusive :: "nat \<Rightarrow> 'w \<Rightarrow> 'w"
  ReleaseSRWLockShared :: "nat \<Rightarrow> 'w \<Rightarrow> 'w"

record 'w win_thread =
  GetCurrentThreadId :: "'w \<Rightarrow> uint32"
  SwitchToThread :: "'w \<Rightarrow> 'w"
  TlsAlloc :: "'w \<Rightarrow> uint32 \<times> 'w"
  TlsFree :: "uint32 \<Rightarrow> 'w \<Rightarrow> bool \<times> 'w"
  TlsGetValue :: "uint32 \<Rightarrow> 'w \<Rightarrow> nat"
  TlsSetValue :: "uint32 \<Rightarrow> nat \<Rightarrow> 'w \<Rightarrow> bool \<times> 'w"
  win_getsystime :: "'w \<Rightarrow> uint64"

record 'w win32 =
  w_errno :: win_errno
  w_mutex :: "'w win_mutex"
  w_cond :: "'w win_cond"
  w_rwlock :: "'w win_rwlock"
  w_thread :: "'w win_thread"

datatype 'w platform = Posix "'w pthreads" | Win32 "'w win32"

section \<open>Mutexes\<close>

definition native_mutex_init :: "'w platform \<Rightarrow> nat \<Rightarrow> nat \<Rightarrow> 'w \<Rightarrow> sint32 \<times> 'w" where
  "native_mutex_init pf mutex attr w =
     (case pf of
        Win32 os \<Rightarrow> (0, InitializeCriticalSection (w_mutex os) mutex w)
      | Posix os \<Rightarrow> pthread_mutex_init (px_mutex os) mutex attr w)"

definition native_mutex_lock :: "'w platform \<Rightarrow> nat \<Rightarrow> 'w \<Rightarrow> sint32 \<times> 'w" where
  "native_mutex_lock pf mutex w =
     (case pf of
        Win32 os \<Rightarrow> (0, EnterCriticalSection (w_mutex os) mutex w)
      | Posix os \<Rightarrow> pthread_mutex_lock (px_mutex os) mutex w)"

definition native_mutex_trylock :: "'w platform \<Rightarrow> nat \<Rightarrow> 'w \<Rightarrow> sint32 \<times> 'w" where
  "native_mutex_trylock pf mutex w =
     (case pf of
        Win32 os \<Rightarrow>
          (let (entered, w1) = TryEnterCriticalSection (w_mutex os) mutex w in
           if entered then
             if 1 <s RecursionCount (w_mutex os) mutex w1 then (w_EBUSY (w_errno os), LeaveCriticalSection (w_mutex os) mutex w1) else (0, w1)
           else (w_EBUSY (w_errno os), w1))
      | Posix os \<Rightarrow> pthread_mutex_trylock (px_mutex os) mutex w)"

definition native_mutex_unlock :: "'w platform \<Rightarrow> nat \<Rightarrow> 'w \<Rightarrow> sint32 \<times> 'w" where
  "native_mutex_unlock pf mutex w =
     (case pf of
        Win32 os \<Rightarrow> (0, LeaveCriticalSection (w_mutex os) mutex w)
      | Posix os \<Rightarrow> pthread_mutex_unlock (px_mutex os) mutex w)"

definition native_mutex_destroy :: "'w platform \<Rightarrow> nat \<Rightarrow> 'w \<Rightarrow> sint32 \<times> 'w" where
  "native_mutex_destroy pf mutex w =
     (case pf of
        Win32 os \<Rightarrow> (0, DeleteCriticalSection (w_mutex os) mutex w)
      | Posix os \<Rightarrow> pthread_mutex_destroy (px_mutex os) mutex w)"

text \<open>
  \<open>my_mutex_t\<close> with \<open>SAFE_MUTEX\<close> is a structure whose owner the assertions read; the functions
  \<open>safe_mutex_*\<close> that keep it are in the binary library. Without it, it is the native mutex.
\<close>

record st_safe_mutex_t =
  sm_count :: uint32
  sm_thread :: uint64

record 'w safe_mutexes =
  safe_mutex_init :: "nat \<Rightarrow> nat \<Rightarrow> src_loc \<Rightarrow> 'w \<Rightarrow> sint32 \<times> 'w"
  safe_mutex_lock :: "nat \<Rightarrow> bool \<Rightarrow> src_loc \<Rightarrow> 'w \<Rightarrow> sint32 \<times> 'w"
  safe_mutex_unlock :: "nat \<Rightarrow> src_loc \<Rightarrow> 'w \<Rightarrow> sint32 \<times> 'w"
  safe_mutex_destroy :: "nat \<Rightarrow> src_loc \<Rightarrow> 'w \<Rightarrow> sint32 \<times> 'w"
  safe_cond_wait :: "nat \<Rightarrow> nat \<Rightarrow> src_loc \<Rightarrow> 'w \<Rightarrow> sint32 \<times> 'w"
  safe_cond_timedwait :: "nat \<Rightarrow> nat \<Rightarrow> timespec \<Rightarrow> src_loc \<Rightarrow> 'w \<Rightarrow> sint32 \<times> 'w"

definition my_mutex_init :: "'w platform \<Rightarrow> ('w safe_mutexes \<times> src_loc) option \<Rightarrow> nat \<Rightarrow> nat \<Rightarrow> 'w \<Rightarrow> sint32 \<times> 'w" where
  "my_mutex_init pf safe mp attr w =
     (case safe of Some (sm, src) \<Rightarrow> safe_mutex_init sm mp attr src w | None \<Rightarrow> native_mutex_init pf mp attr w)"

definition my_mutex_lock :: "'w platform \<Rightarrow> ('w safe_mutexes \<times> src_loc) option \<Rightarrow> nat \<Rightarrow> 'w \<Rightarrow> sint32 \<times> 'w" where
  "my_mutex_lock pf safe mp w =
     (case safe of Some (sm, src) \<Rightarrow> safe_mutex_lock sm mp False src w | None \<Rightarrow> native_mutex_lock pf mp w)"

definition my_mutex_trylock :: "'w platform \<Rightarrow> ('w safe_mutexes \<times> src_loc) option \<Rightarrow> nat \<Rightarrow> 'w \<Rightarrow> sint32 \<times> 'w" where
  "my_mutex_trylock pf safe mp w =
     (case safe of Some (sm, src) \<Rightarrow> safe_mutex_lock sm mp True src w | None \<Rightarrow> native_mutex_trylock pf mp w)"

definition my_mutex_unlock :: "'w platform \<Rightarrow> ('w safe_mutexes \<times> src_loc) option \<Rightarrow> nat \<Rightarrow> 'w \<Rightarrow> sint32 \<times> 'w" where
  "my_mutex_unlock pf safe mp w =
     (case safe of Some (sm, src) \<Rightarrow> safe_mutex_unlock sm mp src w | None \<Rightarrow> native_mutex_unlock pf mp w)"

definition my_mutex_destroy :: "'w platform \<Rightarrow> ('w safe_mutexes \<times> src_loc) option \<Rightarrow> nat \<Rightarrow> 'w \<Rightarrow> sint32 \<times> 'w" where
  "my_mutex_destroy pf safe mp w =
     (case safe of Some (sm, src) \<Rightarrow> safe_mutex_destroy sm mp src w | None \<Rightarrow> native_mutex_destroy pf mp w)"

section \<open>Threads\<close>

text \<open>A thread id is a \<open>pthread_t\<close>, or on Windows a \<open>DWORD\<close>.\<close>

definition my_thread_self :: "'w platform \<Rightarrow> 'w \<Rightarrow> uint64" where
  "my_thread_self pf w = (case pf of Win32 os \<Rightarrow> ucast (GetCurrentThreadId (w_thread os) w) | Posix os \<Rightarrow> pthread_self (px_thread os) w)"

definition my_thread_equal :: "'w platform \<Rightarrow> uint64 \<Rightarrow> uint64 \<Rightarrow> sint32" where
  "my_thread_equal pf t1 t2 =
     (case pf of Win32 os \<Rightarrow> (if t1 = t2 then 1 else 0) | Posix os \<Rightarrow> pthread_equal (px_thread os) t1 t2)"

definition my_thread_yield :: "'w platform \<Rightarrow> 'w \<Rightarrow> 'w" where
  "my_thread_yield pf w = (case pf of Win32 os \<Rightarrow> SwitchToThread (w_thread os) w | Posix os \<Rightarrow> sched_yield (px_thread os) w)"

definition safe_mutex_assert_owner :: "'w platform \<Rightarrow> st_safe_mutex_t \<Rightarrow> 'w \<Rightarrow> unit res" where
  "safe_mutex_assert_owner pf mp w =
     (if 0 < sm_count mp \<and> my_thread_equal pf (my_thread_self pf w) (sm_thread mp) \<noteq> 0 then Inr () else Inl AssertFail)"

definition safe_mutex_assert_not_owner :: "'w platform \<Rightarrow> st_safe_mutex_t \<Rightarrow> 'w \<Rightarrow> unit res" where
  "safe_mutex_assert_not_owner pf mp w =
     (if sm_count mp = 0 \<or> my_thread_equal pf (my_thread_self pf w) (sm_thread mp) = 0 then Inr () else Inl AssertFail)"

text \<open>The attributes of a thread: on Windows a structure, elsewhere an object of the system.\<close>

record thread_attr =
  dwStackSize :: uint32
  detachstate :: sint32

definition MY_THREAD_CREATE_JOINABLE :: sint32 where "MY_THREAD_CREATE_JOINABLE = 0"
definition MY_THREAD_CREATE_DETACHED :: sint32 where "MY_THREAD_CREATE_DETACHED = 1"

record 'w attr_state =
  as_attrs :: "nat \<Rightarrow> thread_attr"
  as_world :: 'w

definition put_attr :: "nat \<Rightarrow> thread_attr \<Rightarrow> 'w attr_state \<Rightarrow> 'w attr_state" where
  "put_attr p a s = s\<lparr>as_attrs := (as_attrs s)(p := a)\<rparr>"

definition attr_call :: "('w \<Rightarrow> sint32 \<times> 'w) \<Rightarrow> 'w attr_state \<Rightarrow> sint32 \<times> 'w attr_state" where
  "attr_call f s = (let (r, w') = f (as_world s) in (r, s\<lparr>as_world := w'\<rparr>))"

definition my_thread_attr_init :: "'w platform \<Rightarrow> nat \<Rightarrow> 'w attr_state \<Rightarrow> sint32 \<times> 'w attr_state" where
  "my_thread_attr_init pf attr s =
     (case pf of
        Win32 os \<Rightarrow> (0, put_attr attr \<lparr>dwStackSize = 0, detachstate = MY_THREAD_CREATE_JOINABLE\<rparr> s)
      | Posix os \<Rightarrow> attr_call (pthread_attr_init (px_attr os) attr) s)"

definition my_thread_attr_destroy :: "'w platform \<Rightarrow> nat \<Rightarrow> 'w attr_state \<Rightarrow> sint32 \<times> 'w attr_state" where
  "my_thread_attr_destroy pf attr s =
     (case pf of
        Win32 os \<Rightarrow> (0, put_attr attr \<lparr>dwStackSize = 0, detachstate = MY_THREAD_CREATE_JOINABLE\<rparr> s)
      | Posix os \<Rightarrow> attr_call (pthread_attr_destroy (px_attr os) attr) s)"

definition my_thread_attr_setstacksize :: "'w platform \<Rightarrow> nat \<Rightarrow> uint64 \<Rightarrow> 'w attr_state \<Rightarrow> sint32 \<times> 'w attr_state" where
  "my_thread_attr_setstacksize pf attr stacksize s =
     (case pf of
        Win32 os \<Rightarrow> (0, put_attr attr ((as_attrs s attr)\<lparr>dwStackSize := ucast stacksize\<rparr>) s)
      | Posix os \<Rightarrow> attr_call (pthread_attr_setstacksize (px_attr os) attr stacksize) s)"

definition my_thread_attr_setdetachstate :: "'w platform \<Rightarrow> nat \<Rightarrow> sint32 \<Rightarrow> 'w attr_state \<Rightarrow> sint32 \<times> 'w attr_state" where
  "my_thread_attr_setdetachstate pf attr state s =
     (case pf of
        Win32 os \<Rightarrow> (0, put_attr attr ((as_attrs s attr)\<lparr>detachstate := state\<rparr>) s)
      | Posix os \<Rightarrow> attr_call (pthread_attr_setdetachstate (px_attr os) attr state) s)"

definition my_thread_attr_getstacksize :: "'w platform \<Rightarrow> nat \<Rightarrow> 'w attr_state \<Rightarrow> sint32 \<times> uint64 option \<times> 'w attr_state" where
  "my_thread_attr_getstacksize pf attr s =
     (case pf of
        Win32 os \<Rightarrow> (0, Some (ucast (dwStackSize (as_attrs s attr))), s)
      | Posix os \<Rightarrow> (let (r, n, w') = pthread_attr_getstacksize (px_attr os) attr (as_world s) in (r, n, s\<lparr>as_world := w'\<rparr>)))"

text \<open>Thread-local storage. The key is written through a pointer: \<open>None\<close> if the function does not write it.\<close>

definition TLS_OUT_OF_INDEXES :: uint32 where "TLS_OUT_OF_INDEXES = 0xFFFFFFFF"

definition my_create_thread_local_key :: "'w platform \<Rightarrow> nat option \<Rightarrow> 'w \<Rightarrow> sint32 \<times> uint32 option \<times> 'w" where
  "my_create_thread_local_key pf destructor w =
     (case pf of
        Win32 os \<Rightarrow> (let (key, w') = TlsAlloc (w_thread os) w in (if key = TLS_OUT_OF_INDEXES then 1 else 0, Some key, w'))
      | Posix os \<Rightarrow> pthread_key_create (px_thread os) destructor w)"

definition my_delete_thread_local_key :: "'w platform \<Rightarrow> uint32 \<Rightarrow> 'w \<Rightarrow> sint32 \<times> 'w" where
  "my_delete_thread_local_key pf key w =
     (case pf of
        Win32 os \<Rightarrow> (let (ok, w') = TlsFree (w_thread os) key w in (if ok then 0 else 1, w'))
      | Posix os \<Rightarrow> pthread_key_delete (px_thread os) key w)"

definition my_get_thread_local :: "'w platform \<Rightarrow> uint32 \<Rightarrow> 'w \<Rightarrow> nat" where
  "my_get_thread_local pf key w =
     (case pf of Win32 os \<Rightarrow> TlsGetValue (w_thread os) key w | Posix os \<Rightarrow> pthread_getspecific (px_thread os) key w)"

definition my_set_thread_local :: "'w platform \<Rightarrow> uint32 \<Rightarrow> nat \<Rightarrow> 'w \<Rightarrow> sint32 \<times> 'w" where
  "my_set_thread_local pf key val w =
     (case pf of
        Win32 os \<Rightarrow> (let (ok, w') = TlsSetValue (w_thread os) key val w in (if ok then 0 else 1, w'))
      | Posix os \<Rightarrow> pthread_setspecific (px_thread os) key val w)"

section \<open>Conditions\<close>

text \<open>
  The time left until \<open>abstime\<close> in milliseconds. With \<open>struct timespec\<close>, of which \<open>tv_nsec\<close> is a \<open>long\<close> of
  32 bits on Windows, kept here in 64; before it, a Windows timestamp in units of 100 ns and the
  largest number of milliseconds. An overflow of a signed operation is undefined.
\<close>

definition in_sint64 :: "int \<Rightarrow> bool" where
  "in_sint64 i \<longleftrightarrow> - (2 ^ 63) \<le> i \<and> i < 2 ^ 63"

definition INFINITE :: uint32 where "INFINITE = 0xFFFFFFFF"

definition get_milliseconds :: "timespec \<Rightarrow> uint64 \<Rightarrow> uint32 res" where
  "get_milliseconds abstime clock =
     (let ms = sint (tv_sec abstime) * 1000;
          total = ms + sint (tv_nsec abstime) sdiv 1000000 in
      if \<not> in_sint64 ms \<or> \<not> in_sint64 total then Inl ArithUndefined
      else
        let future = word_of_int total; now = clock div 10000
        in if future < now then Inr 0 else Inr (ucast (future - now)))"

record ft_timespec =
  ft_i64 :: sint64
  max_timeout_msec :: sint32

definition ft_set_timespec_nsec :: "sint64 \<Rightarrow> uint64 \<Rightarrow> ft_timespec res" where
  "ft_set_timespec_nsec clock nsec =
     (let max_msec = nsec div 1000000; t = sint clock + sint (nsec div 100) in
      if \<not> in_sint64 t then Inl ArithUndefined
      else Inr \<lparr>ft_i64 = word_of_int t, max_timeout_msec = ucast (min max_msec 0x7FFFFFFF)\<rparr>)"

definition ft_set_timespec :: "sint64 \<Rightarrow> uint64 \<Rightarrow> ft_timespec res" where
  "ft_set_timespec clock sec = ft_set_timespec_nsec clock (sec * 1000000000)"

definition ft_cmp_timespec :: "ft_timespec \<Rightarrow> ft_timespec \<Rightarrow> sint32" where
  "ft_cmp_timespec ts1 ts2 =
     (if ft_i64 ts2 <s ft_i64 ts1 then 1 else if ft_i64 ts1 <s ft_i64 ts2 then - 1 else 0)"

definition ft_diff_timespec :: "ft_timespec \<Rightarrow> ft_timespec \<Rightarrow> uint64 res" where
  "ft_diff_timespec ts1 ts2 =
     (let d = sint (ft_i64 ts1) - sint (ft_i64 ts2) in
      if \<not> in_sint64 d \<or> \<not> in_sint64 (d * 100) then Inl ArithUndefined else Inr (word_of_int (d * 100)))"

definition ft_get_milliseconds :: "ft_timespec option \<Rightarrow> sint64 \<Rightarrow> uint32 res" where
  "ft_get_milliseconds abstime clock =
     (case abstime of
        None \<Rightarrow> Inr INFINITE
      | Some ts \<Rightarrow>
          let d = sint (ft_i64 ts) - sint clock in
          if \<not> in_sint64 d then Inl ArithUndefined
          else
            let millis = d sdiv 10000 in
            if millis < 0 then Inr 0
            else
              let millis = (if sint (max_timeout_msec ts) < millis then sint (max_timeout_msec ts) else millis);
                  millis = (if 0xFFFFFFFF < millis then 0xFFFFFFFF else millis)
              in Inr (word_of_int millis))"

definition native_cond_init :: "'w platform \<Rightarrow> nat \<Rightarrow> 'w \<Rightarrow> sint32 \<times> 'w" where
  "native_cond_init pf cond w =
     (case pf of
        Win32 os \<Rightarrow> (0, InitializeConditionVariable (w_cond os) cond w)
      | Posix os \<Rightarrow> pthread_cond_init (px_cond os) cond w)"

definition native_cond_destroy :: "'w platform \<Rightarrow> nat \<Rightarrow> 'w \<Rightarrow> sint32 \<times> 'w" where
  "native_cond_destroy pf cond w = (case pf of Win32 os \<Rightarrow> (0, w) | Posix os \<Rightarrow> pthread_cond_destroy (px_cond os) cond w)"

definition native_cond_timedwait :: "'w platform \<Rightarrow> nat \<Rightarrow> nat \<Rightarrow> timespec \<Rightarrow> 'w \<Rightarrow> (sint32 \<times> 'w) res" where
  "native_cond_timedwait pf cond mutex abstime w =
     (case pf of
        Win32 os \<Rightarrow>
          rbind (get_milliseconds abstime (win_getsystime (w_thread os) w)) (\<lambda>timeout.
            let (ok, w') = SleepConditionVariableCS (w_cond os) cond mutex timeout w
            in Inr (if \<not> ok then (w_ETIMEDOUT (w_errno os), w') else (0, w')))
      | Posix os \<Rightarrow> Inr (pthread_cond_timedwait (px_cond os) cond mutex abstime w))"

definition native_cond_wait :: "'w platform \<Rightarrow> nat \<Rightarrow> nat \<Rightarrow> 'w \<Rightarrow> sint32 \<times> 'w" where
  "native_cond_wait pf cond mutex w =
     (case pf of
        Win32 os \<Rightarrow>
          (let (ok, w') = SleepConditionVariableCS (w_cond os) cond mutex INFINITE w
           in if \<not> ok then (w_ETIMEDOUT (w_errno os), w') else (0, w'))
      | Posix os \<Rightarrow> pthread_cond_wait (px_cond os) cond mutex w)"

definition native_cond_signal :: "'w platform \<Rightarrow> nat \<Rightarrow> 'w \<Rightarrow> sint32 \<times> 'w" where
  "native_cond_signal pf cond w =
     (case pf of Win32 os \<Rightarrow> (0, WakeConditionVariable (w_cond os) cond w) | Posix os \<Rightarrow> pthread_cond_signal (px_cond os) cond w)"

definition native_cond_broadcast :: "'w platform \<Rightarrow> nat \<Rightarrow> 'w \<Rightarrow> sint32 \<times> 'w" where
  "native_cond_broadcast pf cond w =
     (case pf of Win32 os \<Rightarrow> (0, WakeAllConditionVariable (w_cond os) cond w) | Posix os \<Rightarrow> pthread_cond_broadcast (px_cond os) cond w)"

definition my_cond_timedwait :: "'w platform \<Rightarrow> ('w safe_mutexes \<times> src_loc) option \<Rightarrow> nat \<Rightarrow> nat \<Rightarrow> timespec \<Rightarrow> 'w \<Rightarrow>
    (sint32 \<times> 'w) res" where
  "my_cond_timedwait pf safe cond mp abstime w =
     (case safe of
        Some (sm, src) \<Rightarrow> Inr (safe_cond_timedwait sm cond mp abstime src w)
      | None \<Rightarrow> native_cond_timedwait pf cond mp abstime w)"

definition my_cond_wait :: "'w platform \<Rightarrow> ('w safe_mutexes \<times> src_loc) option \<Rightarrow> nat \<Rightarrow> nat \<Rightarrow> 'w \<Rightarrow> sint32 \<times> 'w" where
  "my_cond_wait pf safe cond mp w =
     (case safe of Some (sm, src) \<Rightarrow> safe_cond_wait sm cond mp src w | None \<Rightarrow> native_cond_wait pf cond mp w)"

section \<open>Read-write locks\<close>

text \<open>On Windows the lock is a structure with a flag beside the \<open>SRWLOCK\<close>, here known by its address.\<close>

record 'w rw_state =
  have_exclusive_srwlock :: "nat \<Rightarrow> bool"
  rw_world :: 'w

definition set_exclusive :: "nat \<Rightarrow> bool \<Rightarrow> 'w rw_state \<Rightarrow> 'w rw_state" where
  "set_exclusive p b s = s\<lparr>have_exclusive_srwlock := (have_exclusive_srwlock s)(p := b)\<rparr>"

definition on_world :: "('w \<Rightarrow> 'w) \<Rightarrow> 'w rw_state \<Rightarrow> 'w rw_state" where
  "on_world f s = s\<lparr>rw_world := f (rw_world s)\<rparr>"

definition rw_call :: "('w \<Rightarrow> 'r \<times> 'w) \<Rightarrow> 'w rw_state \<Rightarrow> 'r \<times> 'w rw_state" where
  "rw_call f s = (let (r, w') = f (rw_world s) in (r, s\<lparr>rw_world := w'\<rparr>))"

definition native_rw_init :: "'w platform \<Rightarrow> nat \<Rightarrow> 'w rw_state \<Rightarrow> sint32 \<times> 'w rw_state" where
  "native_rw_init pf rwp s =
     (case pf of
        Win32 os \<Rightarrow> (0, set_exclusive rwp False (on_world (InitializeSRWLock (w_rwlock os) rwp) s))
      | Posix os \<Rightarrow> rw_call (pthread_rwlock_init (px_rwlock os) rwp) s)"

definition native_rw_destroy :: "'w platform \<Rightarrow> nat \<Rightarrow> 'w rw_state \<Rightarrow> sint32 \<times> 'w rw_state" where
  "native_rw_destroy pf rwp s = (case pf of Win32 os \<Rightarrow> (0, s) | Posix os \<Rightarrow> rw_call (pthread_rwlock_destroy (px_rwlock os) rwp) s)"

definition native_rw_rdlock :: "'w platform \<Rightarrow> nat \<Rightarrow> 'w rw_state \<Rightarrow> sint32 \<times> 'w rw_state" where
  "native_rw_rdlock pf rwp s =
     (case pf of
        Win32 os \<Rightarrow> (0, on_world (AcquireSRWLockShared (w_rwlock os) rwp) s)
      | Posix os \<Rightarrow> rw_call (pthread_rwlock_rdlock (px_rwlock os) rwp) s)"

definition native_rw_tryrdlock :: "'w platform \<Rightarrow> nat \<Rightarrow> 'w rw_state \<Rightarrow> sint32 \<times> 'w rw_state" where
  "native_rw_tryrdlock pf rwp s =
     (case pf of
        Win32 os \<Rightarrow>
          (let (ok, s1) = rw_call (TryAcquireSRWLockShared (w_rwlock os) rwp) s in (if \<not> ok then w_EBUSY (w_errno os) else 0, s1))
      | Posix os \<Rightarrow> rw_call (pthread_rwlock_tryrdlock (px_rwlock os) rwp) s)"

definition native_rw_wrlock :: "'w platform \<Rightarrow> nat \<Rightarrow> 'w rw_state \<Rightarrow> sint32 \<times> 'w rw_state" where
  "native_rw_wrlock pf rwp s =
     (case pf of
        Win32 os \<Rightarrow> (0, set_exclusive rwp True (on_world (AcquireSRWLockExclusive (w_rwlock os) rwp) s))
      | Posix os \<Rightarrow> rw_call (pthread_rwlock_wrlock (px_rwlock os) rwp) s)"

definition native_rw_trywrlock :: "'w platform \<Rightarrow> nat \<Rightarrow> 'w rw_state \<Rightarrow> sint32 \<times> 'w rw_state" where
  "native_rw_trywrlock pf rwp s =
     (case pf of
        Win32 os \<Rightarrow>
          (let (ok, s1) = rw_call (TryAcquireSRWLockExclusive (w_rwlock os) rwp) s in
           if \<not> ok then (w_EBUSY (w_errno os), s1) else (0, set_exclusive rwp True s1))
      | Posix os \<Rightarrow> rw_call (pthread_rwlock_trywrlock (px_rwlock os) rwp) s)"

definition native_rw_unlock :: "'w platform \<Rightarrow> nat \<Rightarrow> 'w rw_state \<Rightarrow> sint32 \<times> 'w rw_state" where
  "native_rw_unlock pf rwp s =
     (case pf of
        Win32 os \<Rightarrow>
          (0, if have_exclusive_srwlock s rwp
              then on_world (ReleaseSRWLockExclusive (w_rwlock os) rwp) (set_exclusive rwp False s)
              else on_world (ReleaseSRWLockShared (w_rwlock os) rwp) s)
      | Posix os \<Rightarrow> rw_call (pthread_rwlock_unlock (px_rwlock os) rwp) s)"

text \<open>
  The lock that prefers readers: its functions are in the binary library, its structure and the two
  assertions are here. They do nothing without \<open>SAFE_MUTEX\<close>.
\<close>

record rw_pr_lock_t =
  pr_active_readers :: uint32
  pr_writers_waiting_readers :: uint32
  pr_active_writer :: bool
  pr_writer_thread :: uint64

definition rw_pr_lock_assert_write_owner :: "'w platform \<Rightarrow> bool \<Rightarrow> rw_pr_lock_t \<Rightarrow> 'w \<Rightarrow> unit res" where
  "rw_pr_lock_assert_write_owner pf safe rwlock w =
     (if safe \<and> \<not> (pr_active_writer rwlock \<and> my_thread_equal pf (my_thread_self pf w) (pr_writer_thread rwlock) \<noteq> 0)
      then Inl AssertFail else Inr ())"

definition rw_pr_lock_assert_not_write_owner :: "'w platform \<Rightarrow> bool \<Rightarrow> rw_pr_lock_t \<Rightarrow> 'w \<Rightarrow> unit res" where
  "rw_pr_lock_assert_not_write_owner pf safe rwlock w =
     (if safe \<and> \<not> (\<not> pr_active_writer rwlock \<or> my_thread_equal pf (my_thread_self pf w) (pr_writer_thread rwlock) = 0)
      then Inl AssertFail else Inr ())"

section \<open>Mutexes exclude their holder\<close>

text \<open>
  What Windows documents of a critical section, for the calling thread \<open>self\<close>: \<open>holder m w\<close> is the thread
  that holds it and how often it entered. A thread that holds it may enter again.
\<close>

definition critical_section_laws :: "'w win_mutex \<Rightarrow> (nat \<Rightarrow> 'w \<Rightarrow> (nat \<times> nat) option) \<Rightarrow> nat \<Rightarrow> bool" where
  "critical_section_laws os holder self \<longleftrightarrow>
     (\<forall>m w. holder m w = None \<longrightarrow>
        (\<exists>w'. TryEnterCriticalSection os m w = (True, w') \<and> EnterCriticalSection os m w = w' \<and> holder m w' = Some (self, 1) \<and>
           RecursionCount os m w' = 1)) \<and>
     (\<forall>m w n. holder m w = Some (self, n) \<longrightarrow>
        (\<exists>w'. TryEnterCriticalSection os m w = (True, w') \<and> EnterCriticalSection os m w = w' \<and> holder m w' = Some (self, Suc n) \<and>
           (Suc n < 2 ^ 31 \<longrightarrow> sint (RecursionCount os m w') = int (Suc n)))) \<and>
     (\<forall>m w t n. holder m w = Some (t, n) \<longrightarrow> t \<noteq> self \<longrightarrow>
        (\<exists>w'. TryEnterCriticalSection os m w = (False, w') \<and> holder m w' = Some (t, n))) \<and>
     (\<forall>m w n. holder m w = Some (self, Suc n) \<longrightarrow>
        holder m (LeaveCriticalSection os m w) = (if n = 0 then None else Some (self, n)))"

lemma critical_sectionD:
  assumes "critical_section_laws os holder self"
  shows "holder m w = None \<Longrightarrow> \<exists>w'. TryEnterCriticalSection os m w = (True, w') \<and> EnterCriticalSection os m w = w' \<and>
      holder m w' = Some (self, 1) \<and> RecursionCount os m w' = 1"
    and "holder m w = Some (self, n) \<Longrightarrow> \<exists>w'. TryEnterCriticalSection os m w = (True, w') \<and> EnterCriticalSection os m w = w' \<and>
      holder m w' = Some (self, Suc n) \<and> (Suc n < 2 ^ 31 \<longrightarrow> sint (RecursionCount os m w') = int (Suc n))"
    and "holder m w = Some (t, n) \<Longrightarrow> t \<noteq> self \<Longrightarrow> \<exists>w'. TryEnterCriticalSection os m w = (False, w') \<and> holder m w' = Some (t, n)"
    and "holder m w = Some (self, Suc n) \<Longrightarrow> holder m (LeaveCriticalSection os m w) = (if n = 0 then None else Some (self, n))"
  using assms unfolding critical_section_laws_def by blast+

text \<open>C33: \<open>native_mutex_trylock\<close> on Windows is not recursive, although the critical section is: it returns 0 if
  nobody holds the mutex, which the caller then holds once, and \<open>EBUSY\<close> if any thread holds it, the
  caller included, and then nothing has changed.\<close>

theorem trylock_is_not_recursive:
  assumes "critical_section_laws (w_mutex os) holder self"
    and "\<And>t n. holder m w = Some (t, n) \<Longrightarrow> 0 < n \<and> Suc n < 2 ^ 31"
  shows "\<exists>r w'. native_mutex_trylock (Win32 os) m w = (r, w') \<and>
    (if holder m w = None then r = 0 \<and> holder m w' = Some (self, 1)
     else r = w_EBUSY (w_errno os) \<and> holder m w' = holder m w)"
proof (cases "holder m w")
  case None
  then show ?thesis using critical_sectionD(1) [OF assms(1), of m w] by (auto simp: native_mutex_trylock_def)
next
  case (Some h)
  obtain t n where h: "h = (t, n)" by (cases h)
  with Some have n: "0 < n" "Suc n < 2 ^ 31" using assms(2) by auto
  show ?thesis
  proof (cases "t = self")
    case True
    with Some h obtain w' where w': "TryEnterCriticalSection (w_mutex os) m w = (True, w')"
      "holder m w' = Some (self, Suc n)" "sint (RecursionCount (w_mutex os) m w') = int (Suc n)"
      using critical_sectionD(2) [OF assms(1), of m w n] n(2) by auto
    have "holder m (LeaveCriticalSection (w_mutex os) m w') = Some (self, n)"
      using critical_sectionD(4) [OF assms(1) w'(2)] n(1) by simp
    moreover have "1 <s RecursionCount (w_mutex os) m w'" using w'(3) n(1) by (simp add: word_sless_alt)
    ultimately show ?thesis using w'(1) Some h True by (simp add: native_mutex_trylock_def)
  next
    case False
    with Some h show ?thesis
      using critical_sectionD(3) [OF assms(1), of m w t n] by (auto simp: native_mutex_trylock_def)
  qed
qed

text \<open>\<open>native_mutex_lock\<close> has no such check: a second lock by the holder returns, and one unlock does not free the mutex.\<close>

theorem lock_twice_needs_two_unlocks:
  assumes "critical_section_laws (w_mutex os) holder self" "holder m w = None"
    and "native_mutex_lock (Win32 os) m w = (r1, w1)" "native_mutex_lock (Win32 os) m w1 = (r2, w2)"
    and "native_mutex_unlock (Win32 os) m w2 = (r3, w3)" "native_mutex_unlock (Win32 os) m w3 = (r4, w4)"
  shows "r2 = 0 \<and> holder m w3 = Some (self, 1) \<and> holder m w4 = None"
proof -
  have w: "w1 = EnterCriticalSection (w_mutex os) m w" "w2 = EnterCriticalSection (w_mutex os) m w1" "r2 = 0"
    "w3 = LeaveCriticalSection (w_mutex os) m w2" "w4 = LeaveCriticalSection (w_mutex os) m w3"
    using assms(3-6) by (simp_all add: native_mutex_lock_def native_mutex_unlock_def)
  have h1: "holder m w1 = Some (self, 1)" using critical_sectionD(1) [OF assms(1,2)] w(1) by auto
  have h2: "holder m w2 = Some (self, Suc 1)" using critical_sectionD(2) [OF assms(1) h1] w(2) by auto
  have h3: "holder m w3 = Some (self, 1)" using critical_sectionD(4) [OF assms(1) h2] w(4) by simp
  then show ?thesis using critical_sectionD(4) [OF assms(1), of m w3 0] w(3,5) by simp
qed

text \<open>Of the two assertions on the owner of a mutex exactly one holds, and so for the lock that prefers readers.\<close>

theorem owner_asserts_exclude_each_other:
  "(safe_mutex_assert_owner pf mp w = Inr ()) \<noteq> (safe_mutex_assert_not_owner pf mp w = Inr ())"
  "safe \<Longrightarrow> (rw_pr_lock_assert_write_owner pf safe rw w = Inr ()) \<noteq> (rw_pr_lock_assert_not_write_owner pf safe rw w = Inr ())"
  by (auto simp: safe_mutex_assert_owner_def safe_mutex_assert_not_owner_def rw_pr_lock_assert_write_owner_def
      rw_pr_lock_assert_not_write_owner_def word_gt_0)

section \<open>Attributes and keys\<close>

text \<open>The stack size is kept in a \<open>DWORD\<close>: what is read back is the size only below 4 GB.\<close>

theorem stack_size_roundtrip:
  assumes "my_thread_attr_setstacksize (Win32 os) attr n s = (r, s1)"
  shows "my_thread_attr_getstacksize (Win32 os) attr s1 = (0, Some (take_bit 32 n), s1)"
    and "r = 0 \<and> detachstate (as_attrs s1 attr) = detachstate (as_attrs s attr)"
  using assms
  by (auto simp: my_thread_attr_setstacksize_def my_thread_attr_getstacksize_def put_attr_def
      intro!: bit_word_eqI simp: bit_simps)

section \<open>The flag of a read-write lock\<close>

text \<open>
  What Windows documents of a slim lock: \<open>readers l w\<close> is how many threads hold it shared, \<open>writing l w\<close>
  whether one holds it exclusively. A blocking call returns when the call that does not block would succeed.
\<close>

definition srw_laws :: "'w win_rwlock \<Rightarrow> (nat \<Rightarrow> 'w \<Rightarrow> nat) \<Rightarrow> (nat \<Rightarrow> 'w \<Rightarrow> bool) \<Rightarrow> bool" where
  "srw_laws os readers writing \<longleftrightarrow>
     (\<forall>l w w'. TryAcquireSRWLockShared os l w = (True, w') \<longrightarrow>
        \<not> writing l w \<and> AcquireSRWLockShared os l w = w' \<and> readers l w' = Suc (readers l w) \<and> \<not> writing l w') \<and>
     (\<forall>l w w'. TryAcquireSRWLockShared os l w = (False, w') \<longrightarrow> readers l w' = readers l w \<and> writing l w' = writing l w) \<and>
     (\<forall>l w w'. TryAcquireSRWLockExclusive os l w = (True, w') \<longrightarrow>
        \<not> writing l w \<and> readers l w = 0 \<and> AcquireSRWLockExclusive os l w = w' \<and> readers l w' = 0 \<and> writing l w') \<and>
     (\<forall>l w w'. TryAcquireSRWLockExclusive os l w = (False, w') \<longrightarrow> readers l w' = readers l w \<and> writing l w' = writing l w) \<and>
     (\<forall>l w n. readers l w = Suc n \<longrightarrow>
        readers l (ReleaseSRWLockShared os l w) = n \<and> writing l (ReleaseSRWLockShared os l w) = writing l w) \<and>
     (\<forall>l w. writing l w \<longrightarrow>
        readers l (ReleaseSRWLockExclusive os l w) = readers l w \<and> \<not> writing l (ReleaseSRWLockExclusive os l w))"

text \<open>
  Threads that use one lock. The functions of \<open>thr_rwlock.h\<close> are taken apart at every access to the
  shared lock and flag; \<open>rs_held\<close> is what a thread acquired and has not yet released.
\<close>

datatype rw_pc =
    RwIdle | RwShared | RwAcquired | RwExclusive | RwClearing | RwReleasingExclusive | RwReleasingShared

datatype rw_mode = SharedMode | ExclusiveMode

record 'w rw_sys =
  rs_world :: 'w
  rs_flag :: bool
  rs_pc :: "nat \<Rightarrow> rw_pc"
  rs_held :: "nat \<Rightarrow> rw_mode option"

definition rw_goto :: "nat \<Rightarrow> rw_pc \<Rightarrow> 'w rw_sys \<Rightarrow> 'w rw_sys" where
  "rw_goto t pc s = s\<lparr>rs_pc := (rs_pc s)(t := pc)\<rparr>"

definition rw_hold :: "nat \<Rightarrow> rw_mode option \<Rightarrow> 'w \<Rightarrow> 'w rw_sys \<Rightarrow> 'w rw_sys" where
  "rw_hold t m w s = s\<lparr>rs_held := (rs_held s)(t := m), rs_world := w\<rparr>"

inductive rw_step :: "'w win_rwlock \<Rightarrow> nat \<Rightarrow> nat \<Rightarrow> 'w rw_sys \<Rightarrow> 'w rw_sys \<Rightarrow> bool" for os l where
  acquire_shared: "rs_pc s t = RwIdle \<Longrightarrow> TryAcquireSRWLockShared os l (rs_world s) = (True, w') \<Longrightarrow>
    rw_step os l t s (rw_goto t RwShared (rw_hold t (Some SharedMode) w' s))"
| busy_shared: "rs_pc s t = RwIdle \<Longrightarrow> TryAcquireSRWLockShared os l (rs_world s) = (False, w') \<Longrightarrow>
    rw_step os l t s (s\<lparr>rs_world := w'\<rparr>)"
| acquire_exclusive: "rs_pc s t = RwIdle \<Longrightarrow> TryAcquireSRWLockExclusive os l (rs_world s) = (True, w') \<Longrightarrow>
    rw_step os l t s (rw_goto t RwAcquired (rw_hold t (Some ExclusiveMode) w' s))"
| busy_exclusive: "rs_pc s t = RwIdle \<Longrightarrow> TryAcquireSRWLockExclusive os l (rs_world s) = (False, w') \<Longrightarrow>
    rw_step os l t s (s\<lparr>rs_world := w'\<rparr>)"
| set_flag: "rs_pc s t = RwAcquired \<Longrightarrow> rw_step os l t s (rw_goto t RwExclusive (s\<lparr>rs_flag := True\<rparr>))"
| test_flag: "rs_pc s t \<in> {RwShared, RwExclusive} \<Longrightarrow>
    rw_step os l t s (rw_goto t (if rs_flag s then RwClearing else RwReleasingShared) s)"
| clear_flag: "rs_pc s t = RwClearing \<Longrightarrow> rw_step os l t s (rw_goto t RwReleasingExclusive (s\<lparr>rs_flag := False\<rparr>))"
| release_exclusive: "rs_pc s t = RwReleasingExclusive \<Longrightarrow>
    rw_step os l t s (rw_goto t RwIdle (rw_hold t None (ReleaseSRWLockExclusive os l (rs_world s)) s))"
| release_shared: "rs_pc s t = RwReleasingShared \<Longrightarrow>
    rw_step os l t s (rw_goto t RwIdle (rw_hold t None (ReleaseSRWLockShared os l (rs_world s)) s))"

inductive_cases rw_stepE: "rw_step os l t s s'"

inductive rw_reach :: "'w win_rwlock \<Rightarrow> nat \<Rightarrow> 'w rw_sys \<Rightarrow> 'w rw_sys \<Rightarrow> bool" for os l s0 where
  start: "rw_reach os l s0 s0"
| step: "rw_reach os l s0 s \<Longrightarrow> rw_step os l t s s' \<Longrightarrow> rw_reach os l s0 s'"

text \<open>A lock that was just initialised and is used by nobody.\<close>

definition rw_fresh :: "'w win_rwlock \<Rightarrow> (nat \<Rightarrow> 'w \<Rightarrow> nat) \<Rightarrow> (nat \<Rightarrow> 'w \<Rightarrow> bool) \<Rightarrow> nat \<Rightarrow> 'w rw_sys \<Rightarrow> bool" where
  "rw_fresh os readers writing l s \<longleftrightarrow>
     readers l (rs_world s) = 0 \<and> \<not> writing l (rs_world s) \<and> \<not> rs_flag s \<and>
     rs_pc s = (\<lambda>_. RwIdle) \<and> rs_held s = (\<lambda>_. None)"

fun mode_of :: "rw_pc \<Rightarrow> rw_mode option" where
  "mode_of RwIdle = None"
| "mode_of RwShared = Some SharedMode"
| "mode_of RwReleasingShared = Some SharedMode"
| "mode_of _ = Some ExclusiveMode"

text \<open>
  The invariant: what a thread holds is what its position says, the lock counts exactly the threads
  that hold it, a writer holds it alone, and the flag is set exactly while a writer has set and not cleared it.
\<close>

definition rw_holders :: "(nat \<Rightarrow> rw_pc) \<Rightarrow> rw_mode \<Rightarrow> nat set" where
  "rw_holders pc k = {t. mode_of (pc t) = Some k}"

definition rw_inv :: "(nat \<Rightarrow> 'w \<Rightarrow> nat) \<Rightarrow> (nat \<Rightarrow> 'w \<Rightarrow> bool) \<Rightarrow> nat \<Rightarrow> 'w rw_sys \<Rightarrow> bool" where
  "rw_inv readers writing l s \<longleftrightarrow>
     rs_held s = mode_of \<circ> rs_pc s \<and>
     finite (rw_holders (rs_pc s) SharedMode) \<and>
     readers l (rs_world s) = card (rw_holders (rs_pc s) SharedMode) \<and>
     writing l (rs_world s) = (rw_holders (rs_pc s) ExclusiveMode \<noteq> {}) \<and>
     (\<forall>t u. mode_of (rs_pc s t) = Some ExclusiveMode \<longrightarrow> u \<noteq> t \<longrightarrow> rs_pc s u = RwIdle) \<and>
     rs_flag s = (\<exists>t. rs_pc s t \<in> {RwExclusive, RwClearing})"

lemma rw_holders_update: "rw_holders (pc(t := p)) k = (if mode_of p = Some k then insert t (rw_holders pc k) else rw_holders pc k - {t})"
  by (auto simp: rw_holders_def)

lemma in_rw_holders: "t \<in> rw_holders pc k \<longleftrightarrow> mode_of (pc t) = Some k"
  by (simp add: rw_holders_def)

lemma mode_of_None [simp]: "mode_of p = None \<longleftrightarrow> p = RwIdle"
  by (cases p) simp_all

lemma no_writer: "mode_of p \<noteq> Some ExclusiveMode \<Longrightarrow> p \<notin> {RwExclusive, RwClearing}"
  by (cases p) simp_all

lemma mode_of_update: "mode_of \<circ> pc(t := p) = (mode_of \<circ> pc)(t := mode_of p)"
  by auto

lemma srw_lawsD:
  assumes "srw_laws os readers writing"
  shows "TryAcquireSRWLockShared os l w = (True, w') \<Longrightarrow>
      \<not> writing l w \<and> AcquireSRWLockShared os l w = w' \<and> readers l w' = Suc (readers l w) \<and> \<not> writing l w'"
    and "TryAcquireSRWLockShared os l w = (False, w') \<Longrightarrow> readers l w' = readers l w \<and> writing l w' = writing l w"
    and "TryAcquireSRWLockExclusive os l w = (True, w') \<Longrightarrow>
      \<not> writing l w \<and> readers l w = 0 \<and> AcquireSRWLockExclusive os l w = w' \<and> readers l w' = 0 \<and> writing l w'"
    and "TryAcquireSRWLockExclusive os l w = (False, w') \<Longrightarrow> readers l w' = readers l w \<and> writing l w' = writing l w"
    and "readers l w = Suc n \<Longrightarrow>
      readers l (ReleaseSRWLockShared os l w) = n \<and> writing l (ReleaseSRWLockShared os l w) = writing l w"
    and "writing l w \<Longrightarrow>
      readers l (ReleaseSRWLockExclusive os l w) = readers l w \<and> \<not> writing l (ReleaseSRWLockExclusive os l w)"
  using assms unfolding srw_laws_def by blast+

lemma rw_invD:
  assumes "rw_inv readers writing l s"
  shows "rs_held s = mode_of \<circ> rs_pc s" "finite (rw_holders (rs_pc s) SharedMode)"
    "readers l (rs_world s) = card (rw_holders (rs_pc s) SharedMode)"
    "writing l (rs_world s) = (rw_holders (rs_pc s) ExclusiveMode \<noteq> {})"
    "mode_of (rs_pc s t) = Some ExclusiveMode \<Longrightarrow> u \<noteq> t \<Longrightarrow> rs_pc s u = RwIdle"
    "rs_flag s = (\<exists>t. rs_pc s t \<in> {RwExclusive, RwClearing})"
  using assms unfolding rw_inv_def by blast+

text \<open>The flag tells a thread that holds the lock in which mode it does.\<close>

lemma flag_is_mode:
  assumes "rw_inv readers writing l s" "rs_pc s t \<in> {RwShared, RwExclusive}"
  shows "rs_flag s \<longleftrightarrow> rs_pc s t = RwExclusive"
proof
  assume "rs_flag s"
  then obtain u where u: "rs_pc s u \<in> {RwExclusive, RwClearing}" using rw_invD(6) [OF assms(1)] by blast
  then have "mode_of (rs_pc s u) = Some ExclusiveMode" by auto
  from rw_invD(5) [OF assms(1) this, of t] have "u = t" using assms(2) by (cases "t = u") auto
  then show "rs_pc s t = RwExclusive" using u assms(2) by auto
qed (use rw_invD(6) [OF assms(1)] in blast)

text \<open>A step between positions of one mode, which changes at most the flag.\<close>

lemma rw_inv_same_mode:
  assumes "rw_inv readers writing l s" "mode_of pc = mode_of (rs_pc s t)" "pc \<noteq> RwIdle"
    and "b = (\<exists>u. ((rs_pc s)(t := pc)) u \<in> {RwExclusive, RwClearing})"
  shows "rw_inv readers writing l (rw_goto t pc (s\<lparr>rs_flag := b\<rparr>))"
proof -
  have same: "mode_of \<circ> (rs_pc s)(t := pc) = mode_of \<circ> rs_pc s" using assms(2) by auto
  then have "rw_holders ((rs_pc s)(t := pc)) k = rw_holders (rs_pc s) k" for k
    unfolding rw_holders_def by (metis comp_apply)
  moreover have "((rs_pc s)(t := pc)) u = RwIdle" if "mode_of (((rs_pc s)(t := pc)) v) = Some ExclusiveMode" "u \<noteq> v" for u v
    using rw_invD(5) [OF assms(1), of v u] that same by (metis assms(2) comp_apply fun_upd_apply mode_of_None)
  ultimately show ?thesis
    using assms(1) unfolding rw_inv_def rw_goto_def assms(4) by (simp add: same del: fun_upd_apply)
qed

lemma rw_inv_step:
  assumes laws: "srw_laws os readers writing" and inv: "rw_inv readers writing l s" and step: "rw_step os l t s s'"
  shows "rw_inv readers writing l s'"
  using step
proof cases
  case (acquire_shared w')
  note w = srw_lawsD(1) [OF laws acquire_shared(3)]
  have none: "\<forall>u. mode_of (rs_pc s u) \<noteq> Some ExclusiveMode" using w rw_invD(4) [OF inv] by (auto simp: in_rw_holders)
  then have "\<forall>u. rs_pc s u \<notin> {RwExclusive, RwClearing}" using no_writer by blast
  moreover have "t \<notin> rw_holders (rs_pc s) k" for k using acquire_shared(2) by (simp add: in_rw_holders)
  moreover have "rw_holders (rs_pc s) ExclusiveMode = {}" using w rw_invD(4) [OF inv] by blast
  ultimately show ?thesis
    using rw_invD(1,2,3,6) [OF inv] none w unfolding acquire_shared(1) rw_inv_def rw_goto_def rw_hold_def
    by (auto simp: rw_holders_update mode_of_update)
next
  case (busy_shared w')
  then show ?thesis using inv srw_lawsD(2) [OF laws busy_shared(3)] unfolding rw_inv_def by simp
next
  case (acquire_exclusive w')
  note w = srw_lawsD(3) [OF laws acquire_exclusive(3)]
  have no: "rw_holders (rs_pc s) k = {}" for k using w rw_invD(2,3,4) [OF inv] by (cases k) auto
  have "\<forall>k. mode_of (rs_pc s u) \<noteq> Some k" for u by (metis empty_iff in_rw_holders no)
  then have "rs_pc s u = RwIdle" for u by (simp only: not_Some_eq mode_of_None)
  then show ?thesis
    using rw_invD(1,2,6) [OF inv] no w unfolding acquire_exclusive(1) rw_inv_def rw_goto_def rw_hold_def
    by (auto simp: rw_holders_update mode_of_update)
next
  case (busy_exclusive w')
  then show ?thesis using inv srw_lawsD(4) [OF laws busy_exclusive(3)] unfolding rw_inv_def by simp
next
  case set_flag
  show ?thesis unfolding set_flag(1) by (rule rw_inv_same_mode [OF inv]) (use set_flag(2) in auto)
next
  case test_flag
  note flag = flag_is_mode [OF inv test_flag(2)]
  have "rw_inv readers writing l (rw_goto t (if rs_flag s then RwClearing else RwReleasingShared) (s\<lparr>rs_flag := rs_flag s\<rparr>))"
    by (rule rw_inv_same_mode [OF inv]) (use test_flag(2) flag rw_invD(6) [OF inv] in auto)
  then show ?thesis unfolding test_flag(1) by simp
next
  case clear_flag
  have "\<forall>u. u \<noteq> t \<longrightarrow> rs_pc s u = RwIdle" using rw_invD(5) [OF inv, of t] clear_flag(2) by simp
  then show ?thesis unfolding clear_flag(1) by (intro rw_inv_same_mode [OF inv]) (use clear_flag(2) in auto)
next
  case release_exclusive
  have idle: "u \<noteq> t \<Longrightarrow> rs_pc s u = RwIdle" for u using rw_invD(5) [OF inv, of t] release_exclusive(2) by simp
  have "t \<in> rw_holders (rs_pc s) ExclusiveMode" using release_exclusive(2) by (simp add: in_rw_holders)
  then have "writing l (rs_world s)" using rw_invD(4) [OF inv] by blast
  note w = srw_lawsD(6) [OF laws this]
  have "rw_holders (rs_pc s) k \<subseteq> {t}" for k using idle by (force simp: in_rw_holders)
  moreover have "t \<notin> rw_holders (rs_pc s) SharedMode" using release_exclusive(2) by (simp add: in_rw_holders)
  ultimately have "rw_holders (rs_pc s) SharedMode = {}" "rw_holders (rs_pc s) ExclusiveMode - {t} = {}" by blast+
  moreover have "\<not> rs_flag s" using rw_invD(6) [OF inv] idle release_exclusive(2) by (metis empty_iff insert_iff rw_pc.distinct)
  ultimately show ?thesis
    using rw_invD(1,3) [OF inv] w idle unfolding release_exclusive(1) rw_inv_def rw_goto_def rw_hold_def
    by (auto simp: rw_holders_update mode_of_update)
next
  case release_shared
  let ?R = "rw_holders (rs_pc s) SharedMode"
  have t: "t \<in> ?R" using release_shared(2) by (simp add: in_rw_holders)
  then have "card ?R = Suc (card (?R - {t}))" using rw_invD(2) [OF inv] by (metis card_Suc_Diff1)
  then have "readers l (rs_world s) = Suc (card (?R - {t}))" using rw_invD(3) [OF inv] by simp
  note w = srw_lawsD(5) [OF laws this]
  have none: "mode_of (rs_pc s u) \<noteq> Some ExclusiveMode" for u
    using rw_invD(5) [OF inv, of u t] release_shared(2) by (cases "u = t") auto
  then have "rw_holders (rs_pc s) ExclusiveMode = {}" "\<forall>u. rs_pc s u \<notin> {RwExclusive, RwClearing}"
    using no_writer by (simp add: rw_holders_def, blast)
  then show ?thesis
    using rw_invD(1,2,4,6) [OF inv] w none unfolding release_shared(1) rw_inv_def rw_goto_def rw_hold_def
    by (auto simp: rw_holders_update mode_of_update)
qed

lemma rw_fresh_inv: "rw_fresh os readers writing l s \<Longrightarrow> rw_inv readers writing l s"
  by (auto simp: rw_fresh_def rw_inv_def rw_holders_def fun_eq_iff)

lemma rw_reach_inv:
  assumes "srw_laws os readers writing" "rw_inv readers writing l s0"
  shows "rw_reach os l s0 s \<Longrightarrow> rw_inv readers writing l s"
  by (induction rule: rw_reach.induct) (use assms rw_inv_step in blast)+


text \<open>The functions of \<open>thr_rwlock.h\<close>, run by one thread, are sequences of its steps.\<close>

definition rw_matches :: "nat \<Rightarrow> 'w rw_state \<Rightarrow> 'w rw_sys \<Rightarrow> bool" where
  "rw_matches l st s \<longleftrightarrow> have_exclusive_srwlock st l = rs_flag s \<and> rw_world st = rs_world s"

lemma rtranclp_two: "r x y \<Longrightarrow> r y z \<Longrightarrow> r\<^sup>*\<^sup>* x z"
  by (meson converse_rtranclp_into_rtranclp rtranclp.rtrancl_refl)

lemma rtranclp_three: "r x y \<Longrightarrow> r y z \<Longrightarrow> r z u \<Longrightarrow> r\<^sup>*\<^sup>* x u"
  by (meson converse_rtranclp_into_rtranclp rtranclp_two)

lemmas rw_step_defs = rw_matches_def rw_goto_def rw_hold_def set_exclusive_def on_world_def rw_call_def

lemma rwlock_functions_step:
  assumes "srw_laws (w_rwlock os) readers writing" "rw_matches l st s"
  shows "rs_pc s t = RwIdle \<Longrightarrow> native_rw_tryrdlock (Win32 os) l st = (r, st') \<Longrightarrow>
      \<exists>s'. (rw_step (w_rwlock os) l t)\<^sup>*\<^sup>* s s' \<and> rw_matches l st' s' \<and>
        (r = 0 \<and> rs_pc s' t = RwShared \<or> r = w_EBUSY (w_errno os) \<and> rs_pc s' t = RwIdle)"
    and "rs_pc s t = RwIdle \<Longrightarrow> native_rw_trywrlock (Win32 os) l st = (r, st') \<Longrightarrow>
      \<exists>s'. (rw_step (w_rwlock os) l t)\<^sup>*\<^sup>* s s' \<and> rw_matches l st' s' \<and>
        (r = 0 \<and> rs_pc s' t = RwExclusive \<or> r = w_EBUSY (w_errno os) \<and> rs_pc s' t = RwIdle)"
    and "rs_pc s t \<in> {RwShared, RwExclusive} \<Longrightarrow> native_rw_unlock (Win32 os) l st = (r, st') \<Longrightarrow>
      \<exists>s'. (rw_step (w_rwlock os) l t)\<^sup>*\<^sup>* s s' \<and> rw_matches l st' s' \<and> r = 0 \<and> rs_pc s' t = RwIdle"
    and "rs_pc s t = RwIdle \<Longrightarrow> fst (TryAcquireSRWLockShared (w_rwlock os) l (rs_world s)) \<Longrightarrow>
      native_rw_rdlock (Win32 os) l st = (r, st') \<Longrightarrow>
      \<exists>s'. (rw_step (w_rwlock os) l t)\<^sup>*\<^sup>* s s' \<and> rw_matches l st' s' \<and> r = 0 \<and> rs_pc s' t = RwShared"
    and "rs_pc s t = RwIdle \<Longrightarrow> fst (TryAcquireSRWLockExclusive (w_rwlock os) l (rs_world s)) \<Longrightarrow>
      native_rw_wrlock (Win32 os) l st = (r, st') \<Longrightarrow>
      \<exists>s'. (rw_step (w_rwlock os) l t)\<^sup>*\<^sup>* s s' \<and> rw_matches l st' s' \<and> r = 0 \<and> rs_pc s' t = RwExclusive"
proof -
  let ?step = "rw_step (w_rwlock os) l t"
  note m = assms(2) [unfolded rw_matches_def]
  have shared: "\<exists>s'. ?step\<^sup>*\<^sup>* s s' \<and> rs_flag s' = rs_flag s \<and> rs_world s' = w' \<and> rs_pc s' t = RwShared"
    if "rs_pc s t = RwIdle" "TryAcquireSRWLockShared (w_rwlock os) l (rs_world s) = (True, w')" for w'
    using r_into_rtranclp [of ?step, OF rw_step.acquire_shared [OF that]] by (force simp: rw_goto_def rw_hold_def)
  have exclusive: "\<exists>s'. ?step\<^sup>*\<^sup>* s s' \<and> rs_flag s' \<and> rs_world s' = w' \<and> rs_pc s' t = RwExclusive"
    if "rs_pc s t = RwIdle" "TryAcquireSRWLockExclusive (w_rwlock os) l (rs_world s) = (True, w')" for w'
  proof -
    let ?s1 = "rw_goto t RwAcquired (rw_hold t (Some ExclusiveMode) w' s)"
    have "?step s ?s1" by (rule rw_step.acquire_exclusive [OF that])
    moreover have "?step ?s1 (rw_goto t RwExclusive (?s1\<lparr>rs_flag := True\<rparr>))"
      by (rule rw_step.set_flag) (simp add: rw_goto_def)
    ultimately show ?thesis
      by (intro exI [of _ "rw_goto t RwExclusive (?s1\<lparr>rs_flag := True\<rparr>)"]) (auto simp: rw_goto_def rw_hold_def)
  qed
  show "\<exists>s'. ?step\<^sup>*\<^sup>* s s' \<and> rw_matches l st' s' \<and>
        (r = 0 \<and> rs_pc s' t = RwShared \<or> r = w_EBUSY (w_errno os) \<and> rs_pc s' t = RwIdle)"
    if "rs_pc s t = RwIdle" "native_rw_tryrdlock (Win32 os) l st = (r, st')"
  proof (cases "TryAcquireSRWLockShared (w_rwlock os) l (rs_world s)")
    case (Pair ok w')
    show ?thesis
    proof (cases ok)
      case True
      with Pair shared [OF that(1), of w'] that(2) m show ?thesis
        by (auto simp: native_rw_tryrdlock_def rw_call_def rw_matches_def)
    next
      case False
      have "?step s (s\<lparr>rs_world := w'\<rparr>)" by (rule rw_step.busy_shared [OF that(1)]) (use Pair False in simp)
      then have "?step\<^sup>*\<^sup>* s (s\<lparr>rs_world := w'\<rparr>)" by (rule r_into_rtranclp)
      with Pair False that m show ?thesis
        by (intro exI [of _ "s\<lparr>rs_world := w'\<rparr>"]) (auto simp: native_rw_tryrdlock_def rw_call_def rw_matches_def)
    qed
  qed
  show "\<exists>s'. ?step\<^sup>*\<^sup>* s s' \<and> rw_matches l st' s' \<and>
        (r = 0 \<and> rs_pc s' t = RwExclusive \<or> r = w_EBUSY (w_errno os) \<and> rs_pc s' t = RwIdle)"
    if "rs_pc s t = RwIdle" "native_rw_trywrlock (Win32 os) l st = (r, st')"
  proof (cases "TryAcquireSRWLockExclusive (w_rwlock os) l (rs_world s)")
    case (Pair ok w')
    show ?thesis
    proof (cases ok)
      case True
      with Pair exclusive [OF that(1), of w'] that(2) m show ?thesis
        by (auto simp: native_rw_trywrlock_def rw_call_def rw_matches_def set_exclusive_def)
    next
      case False
      have "?step s (s\<lparr>rs_world := w'\<rparr>)" by (rule rw_step.busy_exclusive [OF that(1)]) (use Pair False in simp)
      then have "?step\<^sup>*\<^sup>* s (s\<lparr>rs_world := w'\<rparr>)" by (rule r_into_rtranclp)
      with Pair False that m show ?thesis
        by (intro exI [of _ "s\<lparr>rs_world := w'\<rparr>"]) (auto simp: native_rw_trywrlock_def rw_call_def rw_matches_def)
    qed
  qed
  show "\<exists>s'. ?step\<^sup>*\<^sup>* s s' \<and> rw_matches l st' s' \<and> r = 0 \<and> rs_pc s' t = RwShared"
    if "rs_pc s t = RwIdle" "fst (TryAcquireSRWLockShared (w_rwlock os) l (rs_world s))" "native_rw_rdlock (Win32 os) l st = (r, st')"
  proof -
    note p = that
    obtain w' where w': "TryAcquireSRWLockShared (w_rwlock os) l (rs_world s) = (True, w')" using p(2) by (metis prod.collapse)
    with shared [OF p(1) this] srw_lawsD(1) [OF assms(1) this] p(3) m show ?thesis
      by (auto simp: native_rw_rdlock_def on_world_def rw_matches_def)
  qed
  show "\<exists>s'. ?step\<^sup>*\<^sup>* s s' \<and> rw_matches l st' s' \<and> r = 0 \<and> rs_pc s' t = RwExclusive"
    if "rs_pc s t = RwIdle" "fst (TryAcquireSRWLockExclusive (w_rwlock os) l (rs_world s))" "native_rw_wrlock (Win32 os) l st = (r, st')"
  proof -
    note p = that
    obtain w' where w': "TryAcquireSRWLockExclusive (w_rwlock os) l (rs_world s) = (True, w')" using p(2) by (metis prod.collapse)
    with exclusive [OF p(1) this] srw_lawsD(3) [OF assms(1) this] p(3) m show ?thesis
      by (auto simp: native_rw_wrlock_def on_world_def rw_matches_def set_exclusive_def)
  qed
  show "\<exists>s'. ?step\<^sup>*\<^sup>* s s' \<and> rw_matches l st' s' \<and> r = 0 \<and> rs_pc s' t = RwIdle"
    if "rs_pc s t \<in> {RwShared, RwExclusive}" "native_rw_unlock (Win32 os) l st = (r, st')"
  proof (cases "rs_flag s")
    case True
    let ?s1 = "rw_goto t RwClearing s"
    let ?s2 = "rw_goto t RwReleasingExclusive (?s1\<lparr>rs_flag := False\<rparr>)"
    let ?s3 = "rw_goto t RwIdle (rw_hold t None (ReleaseSRWLockExclusive (w_rwlock os) l (rs_world ?s2)) ?s2)"
    have "?step s ?s1" using rw_step.test_flag [OF that(1)] True by simp
    moreover have "?step ?s1 ?s2" by (rule rw_step.clear_flag) (simp add: rw_goto_def)
    moreover have "?step ?s2 ?s3" by (rule rw_step.release_exclusive) (simp add: rw_goto_def)
    ultimately have "?step\<^sup>*\<^sup>* s ?s3" by (rule rtranclp_three)
    then show ?thesis using True that(2) m
      by (intro exI [of _ ?s3]) (auto simp: native_rw_unlock_def rw_step_defs)
  next
    case False
    let ?s1 = "rw_goto t RwReleasingShared s"
    let ?s3 = "rw_goto t RwIdle (rw_hold t None (ReleaseSRWLockShared (w_rwlock os) l (rs_world ?s1)) ?s1)"
    have "?step s ?s1" using rw_step.test_flag [OF that(1)] False by simp
    moreover have "?step ?s1 ?s3" by (rule rw_step.release_shared) (simp add: rw_goto_def)
    ultimately have "?step\<^sup>*\<^sup>* s ?s3" by (rule rtranclp_two)
    then show ?thesis using False that(2) m
      by (intro exI [of _ ?s3]) (auto simp: native_rw_unlock_def rw_step_defs)
  qed
qed

text \<open>C32: Each function of the read-write lock of Windows, run by a thread that is in no call, is a run of the step
  relation in which the thread ends where the result of the function says; the two functions that wait are
  seen at the moment they find the lock free.\<close>

theorem rwlock_functions_are_steps:
  assumes "srw_laws (w_rwlock os) readers writing" "rw_matches l st s"
  shows "(rs_pc s t = RwIdle \<and> native_rw_tryrdlock (Win32 os) l st = (r, st') \<longrightarrow>
      (\<exists>s'. (rw_step (w_rwlock os) l t)\<^sup>*\<^sup>* s s' \<and> rw_matches l st' s' \<and> (r = 0 \<and> rs_pc s' t = RwShared \<or> r = w_EBUSY (w_errno os) \<and> rs_pc s' t = RwIdle))) \<and>
    (rs_pc s t = RwIdle \<and> native_rw_trywrlock (Win32 os) l st = (r, st') \<longrightarrow>
      (\<exists>s'. (rw_step (w_rwlock os) l t)\<^sup>*\<^sup>* s s' \<and> rw_matches l st' s' \<and> (r = 0 \<and> rs_pc s' t = RwExclusive \<or> r = w_EBUSY (w_errno os) \<and> rs_pc s' t = RwIdle))) \<and>
    (rs_pc s t \<in> {RwShared, RwExclusive} \<and> native_rw_unlock (Win32 os) l st = (r, st') \<longrightarrow>
      (\<exists>s'. (rw_step (w_rwlock os) l t)\<^sup>*\<^sup>* s s' \<and> rw_matches l st' s' \<and> r = 0 \<and> rs_pc s' t = RwIdle)) \<and>
    (rs_pc s t = RwIdle \<and> fst (TryAcquireSRWLockShared (w_rwlock os) l (rs_world s)) \<and>
      native_rw_rdlock (Win32 os) l st = (r, st') \<longrightarrow>
      (\<exists>s'. (rw_step (w_rwlock os) l t)\<^sup>*\<^sup>* s s' \<and> rw_matches l st' s' \<and> r = 0 \<and> rs_pc s' t = RwShared)) \<and>
    (rs_pc s t = RwIdle \<and> fst (TryAcquireSRWLockExclusive (w_rwlock os) l (rs_world s)) \<and>
      native_rw_wrlock (Win32 os) l st = (r, st') \<longrightarrow>
      (\<exists>s'. (rw_step (w_rwlock os) l t)\<^sup>*\<^sup>* s s' \<and> rw_matches l st' s' \<and> r = 0 \<and> rs_pc s' t = RwExclusive))"
  by (intro conjI impI; elim conjE; rule rwlock_functions_step [OF assms]; assumption)

section \<open>Timeouts\<close>

lemma sdiv_nonneg: "0 \<le> (i :: int) \<Longrightarrow> 0 < k \<Longrightarrow> i sdiv k = i div k"
  by (cases "i = 0") (simp_all add: signed_divide_int_def)

lemma sdiv_neg: "(i :: int) < 0 \<Longrightarrow> 0 < k \<Longrightarrow> i sdiv k = - (- i div k)"
  by (simp add: signed_divide_int_def)

lemma sint_is_uint: "uint (w :: 'a::len word) < 2 ^ (LENGTH('a) - 1) \<Longrightarrow> sint w = uint w"
proof -
  assume "uint w < 2 ^ (LENGTH('a) - 1)"
  moreover have "- (2 ^ (LENGTH('a) - 1)) \<le> uint w" by (rule order_trans [OF _ uint_ge_0]) simp
  ultimately show "sint w = uint w" by (simp add: sint_uint signed_take_bit_int_eq_self_iff)
qed

lemma sint_of_int64: "in_sint64 i \<Longrightarrow> sint (word_of_int i :: 64 word) = i"
  by (simp add: in_sint64_def signed_of_int signed_take_bit_int_eq_self)

lemma uint_of_int32: "0 \<le> i \<Longrightarrow> i < 2 ^ 32 \<Longrightarrow> uint (word_of_int i :: 32 word) = i"
  by (simp add: unsigned_of_int take_bit_int_eq_self)

lemma unat_of_nat64: "n < 2 ^ 64 \<Longrightarrow> unat (word_of_nat n :: 64 word) = n"
  by (simp add: unsigned_of_nat take_bit_nat_eq_self)

lemma if_Inr: "(if b then Inl e else if c then Inr x else Inr y) = Inr z \<Longrightarrow> z = (if c then x else y)"
  by (auto split: if_splits)

lemma clamp: "m \<le> 0x7FFFFFFF \<Longrightarrow>
    (if 0xFFFFFFFF < (if m < q then m else q) then 0xFFFFFFFF else if m < q then m else q) = min q (m :: int)"
  by (auto simp: min_def)

lemma ft_set_timespec_nsec_fields:
  assumes "ft_set_timespec_nsec clock nsec = Inr ts"
  shows "sint (ft_i64 ts) = sint clock + uint nsec div 100"
    and "sint (max_timeout_msec ts) = min (uint nsec div 1000000) 0x7FFFFFFF"
proof -
  have n: "uint nsec < 2 ^ 64" using uint_bounded [of nsec] by simp
  have "sint (nsec div 100) = uint nsec div 100"
    using n by (subst sint_is_uint) (simp_all add: uint_div)
  then have ok: "in_sint64 (sint clock + uint nsec div 100)" and ts: "ft_i64 ts = word_of_int (sint clock + uint nsec div 100)"
      "max_timeout_msec ts = ucast (min (nsec div 1000000) 0x7FFFFFFF)"
    using assms by (auto simp: ft_set_timespec_nsec_def Let_def split: if_splits)
  show "sint (ft_i64 ts) = sint clock + uint nsec div 100"
    unfolding ts by (rule sint_of_int64 [OF ok])
  have m: "uint (min (nsec div 1000000) 0x7FFFFFFF) = min (uint nsec div 1000000) 0x7FFFFFFF"
    by (simp add: min_def word_le_def uint_div)
  have "uint (max_timeout_msec ts) = min (uint nsec div 1000000) 0x7FFFFFFF"
    unfolding ts unsigned_ucast_eq m by (rule take_bit_int_eq_self) (simp_all add: pos_imp_zdiv_nonneg_iff)
  then show "sint (max_timeout_msec ts) = min (uint nsec div 1000000) 0x7FFFFFFF" by (simp add: sint_is_uint)
qed


lemma millis_of_ticks:
  assumes "r < (100 :: nat)"
  shows "int (n div 10000000) * 1000 + int (n mod 10000000 * 100 + r) div 1000000 = int (n div 10000)"
proof -
  have "(n mod 10000000 * 100 + r) div (100 * 10000) = (n mod 10000000 * 100 + r) div 100 div 10000"
    by (rule div_mult2_eq)
  then have "(n mod 10000000 * 100 + r) div 1000000 = n mod 10000000 div 10000" using assms by simp
  moreover have "n = n mod 10000000 + (n div 10000000 * 1000) * 10000" by simp
  then have "n div 10000 = n div 10000000 * 1000 + n mod 10000000 div 10000" by (metis add.commute div_mult_self1 zero_neq_numeral)
  moreover have "int (n div 10000000) * 1000 + int (n mod 10000000 * 100 + r) div 1000000 =
      int (n div 10000000 * 1000 + (n mod 10000000 * 100 + r) div 1000000)" by (simp only: of_nat_add of_nat_mult of_nat_div of_nat_numeral)
  ultimately show ?thesis by (simp only:)
qed

theorem timespec_timeout:
  assumes "unat clock + unat nsec div 100 < 2 ^ 64"
  shows "get_milliseconds (set_timespec_nsec clock nsec) clock' =
     Inr (word_of_nat ((unat clock + unat nsec div 100) div 10000 - unat clock' div 10000))"
proof -
  let ?n = "unat clock + unat nsec div 100"
  let ?ts = "set_timespec_nsec clock nsec"
  have n: "unat (clock + nsec div 100) = ?n" using assms by (simp add: unat_add_lem [THEN iffD1] unat_div)
  have s: "sint (tv_sec ?ts) = int (?n div 10000000)" "sint (tv_nsec ?ts) = int (?n mod 10000000 * 100 + unat nsec mod 100)"
    using set_timespec_nsec_sints [of clock nsec] unfolding n by simp_all
  have total: "sint (tv_sec ?ts) * 1000 + sint (tv_nsec ?ts) sdiv 1000000 = int (?n div 10000)"
    unfolding s by (subst sdiv_nonneg) (simp_all only: of_nat_0_le_iff zero_less_numeral millis_of_ticks mod_less_divisor)
  have lt: "?n div 10000 < 2 ^ 63" "int (?n div 10000000) * 1000 < 2 ^ 63" using assms by simp_all
  have f: "unat (word_of_int (int (?n div 10000)) :: uint64) = ?n div 10000"
    unfolding of_int_of_nat_eq by (rule unat_of_nat64) (use lt(1) in simp)
  have "in_sint64 (sint (tv_sec ?ts) * 1000)" "in_sint64 (int (?n div 10000))"
    unfolding in_sint64_def s using lt by simp_all
  then have ms: "get_milliseconds ?ts clock' = (let future = word_of_int (int (?n div 10000)); now = clock' div 10000
      in if future < now then Inr 0 else Inr (ucast (future - now)))"
    unfolding get_milliseconds_def total by (simp only: Let_def total simp_thms if_False)
  let ?f = "word_of_int (int (?n div 10000)) :: uint64"
  have c: "unat (clock' div 10000) = unat clock' div 10000" by (simp add: unat_div)
  show ?thesis
  proof (cases "?f < clock' div 10000")
    case True
    then have "?n div 10000 < unat clock' div 10000" unfolding word_less_nat_alt f c .
    then show ?thesis using True unfolding ms Let_def by simp
  next
    case False
    then have "clock' div 10000 \<le> ?f" by simp
    then have "unat (?f - clock' div 10000) = ?n div 10000 - unat clock' div 10000" using unat_sub f c by metis
    then have "ucast (?f - clock' div 10000) = (word_of_nat (?n div 10000 - unat clock' div 10000) :: uint32)"
      by (metis of_nat_unat)
    then show ?thesis using False unfolding ms Let_def by simp
  qed
qed

section \<open>A system to apply the properties to\<close>

text \<open>Thread 7 on a system that keeps the holder of every mutex and the users of every slim lock.\<close>

type_synonym sample_world = "(nat \<Rightarrow> (nat \<times> nat) option) \<times> (nat \<Rightarrow> nat \<times> bool)"

definition sample_enter :: "nat \<Rightarrow> sample_world \<Rightarrow> bool \<times> sample_world" where
  "sample_enter m w =
     (case fst w m of
        None \<Rightarrow> (True, (fst w)(m \<mapsto> (7, 1)), snd w)
      | Some (t, n) \<Rightarrow> if t = 7 then (True, (fst w)(m \<mapsto> (7, Suc n)), snd w) else (False, w))"

definition sample_mutexes :: "sample_world win_mutex" where
  "sample_mutexes =
     \<lparr>InitializeCriticalSection = (\<lambda>m w. ((fst w)(m := None), snd w)),
      EnterCriticalSection = (\<lambda>m w. snd (sample_enter m w)),
      TryEnterCriticalSection = sample_enter,
      LeaveCriticalSection = (\<lambda>m w. case fst w m of
          Some (t, Suc (Suc n)) \<Rightarrow> ((fst w)(m \<mapsto> (t, Suc n)), snd w) | _ \<Rightarrow> ((fst w)(m := None), snd w)),
      DeleteCriticalSection = (\<lambda>m w. w),
      RecursionCount = (\<lambda>m w. case fst w m of None \<Rightarrow> 0 | Some (t, n) \<Rightarrow> word_of_nat n)\<rparr>"

definition sample_shared :: "nat \<Rightarrow> sample_world \<Rightarrow> bool \<times> sample_world" where
  "sample_shared l w = (case snd w l of (r, x) \<Rightarrow> if x then (False, w) else (True, fst w, (snd w)(l := (Suc r, x))))"

definition sample_exclusive :: "nat \<Rightarrow> sample_world \<Rightarrow> bool \<times> sample_world" where
  "sample_exclusive l w = (if snd w l = (0, False) then (True, fst w, (snd w)(l := (0, True))) else (False, w))"

definition sample_slim :: "sample_world win_rwlock" where
  "sample_slim =
     \<lparr>InitializeSRWLock = (\<lambda>l w. (fst w, (snd w)(l := (0, False)))),
      AcquireSRWLockShared = (\<lambda>l w. snd (sample_shared l w)),
      TryAcquireSRWLockShared = sample_shared,
      AcquireSRWLockExclusive = (\<lambda>l w. snd (sample_exclusive l w)),
      TryAcquireSRWLockExclusive = sample_exclusive,
      ReleaseSRWLockExclusive = (\<lambda>l w. (fst w, (snd w)(l := (fst (snd w l), False)))),
      ReleaseSRWLockShared = (\<lambda>l w. (fst w, (snd w)(l := (fst (snd w l) - 1, snd (snd w l)))))\<rparr>"

definition sample_windows :: "sample_world win32" where
  "sample_windows =
     \<lparr>w_errno = \<lparr>w_EBUSY = 16, w_ETIMEDOUT = 138\<rparr>, w_mutex = sample_mutexes,
      w_cond = \<lparr>InitializeConditionVariable = (\<lambda>c w. w), SleepConditionVariableCS = (\<lambda>c m t w. (False, w)),
        WakeConditionVariable = (\<lambda>c w. w), WakeAllConditionVariable = (\<lambda>c w. w)\<rparr>,
      w_rwlock = sample_slim,
      w_thread = \<lparr>GetCurrentThreadId = (\<lambda>w. 7), SwitchToThread = (\<lambda>w. w), TlsAlloc = (\<lambda>w. (0, w)), TlsFree = (\<lambda>k w. (True, w)),
        TlsGetValue = (\<lambda>k w. 0), TlsSetValue = (\<lambda>k v w. (True, w)), win_getsystime = (\<lambda>w. 0)\<rparr>\<rparr>"

lemma sint_of_count: "n < 2147483648 \<Longrightarrow> sint (word_of_nat n :: sint32) = int n"
  by (simp add: signed_of_nat signed_take_bit_int_eq_self)

lemma sample_critical_section: "critical_section_laws sample_mutexes (\<lambda>m w. fst w m) 7"
  unfolding critical_section_laws_def
  by (auto simp: sample_mutexes_def sample_enter_def sint_of_count simp del: of_nat_Suc split: nat.splits) simp

lemma sample_srw: "srw_laws sample_slim (\<lambda>l w. fst (snd w l)) (\<lambda>l w. snd (snd w l))"
  by (auto simp: srw_laws_def sample_slim_def sample_shared_def sample_exclusive_def split: prod.splits if_splits)

theorem trylock_is_not_recursive_witness:
  "\<exists>w'. native_mutex_trylock (Win32 sample_windows) 3 (\<lambda>_. Some (7, 2), \<lambda>_. (0, False)) = (16, w') \<and> fst w' 3 = Some (7, 2)"
  using trylock_is_not_recursive [where os = sample_windows and holder = "\<lambda>m w. fst w m" and self = 7 and m = 3
      and w = "(\<lambda>_. Some (7, 2), \<lambda>_. (0, False))"] sample_critical_section
  by (simp add: sample_windows_def)


theorem rwlock_functions_are_steps_witness:
  "\<exists>s'. (rw_step sample_slim 0 1)\<^sup>*\<^sup>*
     \<lparr>rs_world = (\<lambda>_. None, \<lambda>_. (0, False)), rs_flag = False, rs_pc = (\<lambda>_. RwIdle), rs_held = (\<lambda>_. None)\<rparr> s' \<and> rs_pc s' 1 = RwExclusive"
proof -
  let ?w = "(\<lambda>_. None, \<lambda>_. (0, False)) :: sample_world"
  let ?s0 = "\<lparr>rs_world = ?w, rs_flag = False, rs_pc = (\<lambda>_. RwIdle), rs_held = (\<lambda>_. None)\<rparr> :: sample_world rw_sys"
  let ?st = "\<lparr>have_exclusive_srwlock = (\<lambda>_. False), rw_world = ?w\<rparr> :: sample_world rw_state"
  have os: "w_rwlock sample_windows = sample_slim" by (simp add: sample_windows_def)
  have "rw_matches 0 ?st ?s0" by (simp add: rw_matches_def)
  from rwlock_functions_are_steps [where os = sample_windows and t = 1 and r = "fst (native_rw_wrlock (Win32 sample_windows) 0 ?st)"
      and st' = "snd (native_rw_wrlock (Win32 sample_windows) 0 ?st)", unfolded os, OF sample_srw this]
  show ?thesis by (auto simp: sample_slim_def sample_exclusive_def)
qed


theorem timespec_timeout_witness:
  "get_milliseconds (set_timespec_nsec 20000 5000000) 30000 = Inr 4"
  using timespec_timeout [of 20000 5000000 30000] by simp

end
