(* ===== verification/Mysql_Macros.thy ===== *)
theory Mysql_Macros
  imports Db_SqlUtil My_ByteOrder
begin

text \<open>
  The macros of the MySQL headers that compute something and belong to no other theory: the tests on
  column types of \<open>mysql.h\<close>, the flags of columns, refreshes, capabilities and server states of
  \<open>mysql_com.h\<close> with the sets made of them, the small macros of \<open>my_global.h\<close>, the stack allocation of
  \<open>my_sys.h\<close>, and the two-byte codes and multi-byte tests of \<open>m_ctype.h\<close>.
\<close>

section \<open>Column types\<close>

text \<open>The macros compare members of the enumeration, which are numbers.\<close>

lemma type_code_inject: "type_code s = type_code t \<Longrightarrow> s = t"
  by (cases s; cases t; simp)

instantiation enum_field_types :: linorder
begin

definition less_eq_enum_field_types :: "enum_field_types \<Rightarrow> enum_field_types \<Rightarrow> bool" where
  "s \<le> t \<longleftrightarrow> type_code s \<le> type_code t"

definition less_enum_field_types :: "enum_field_types \<Rightarrow> enum_field_types \<Rightarrow> bool" where
  "s < t \<longleftrightarrow> type_code s < type_code t"

instance
  by standard (auto simp: less_eq_enum_field_types_def less_enum_field_types_def intro: type_code_inject)

end

definition IS_PRI_KEY :: "uint32 \<Rightarrow> bool" where
  "IS_PRI_KEY n \<longleftrightarrow> n AND PRI_KEY_FLAG \<noteq> 0"

definition IS_NOT_NULL :: "uint32 \<Rightarrow> bool" where
  "IS_NOT_NULL n \<longleftrightarrow> n AND 1 \<noteq> 0"

definition IS_BLOB :: "uint32 \<Rightarrow> bool" where
  "IS_BLOB n \<longleftrightarrow> n AND 16 \<noteq> 0"

definition IS_NUM :: "enum_field_types \<Rightarrow> bool" where
  "IS_NUM t \<longleftrightarrow> (t \<le> MYSQL_TYPE_INT24 \<and> t \<noteq> MYSQL_TYPE_TIMESTAMP) \<or> t = MYSQL_TYPE_YEAR \<or> t = MYSQL_TYPE_NEWDECIMAL"

definition IS_LONGDATA :: "enum_field_types \<Rightarrow> bool" where
  "IS_LONGDATA t \<longleftrightarrow> MYSQL_TYPE_TINY_BLOB \<le> t \<and> t \<le> MYSQL_TYPE_STRING"

text \<open>
  The test of the SQL builder for columns whose values need no quotes agrees with \<open>IS_NUM\<close> of the
  client library except for the decimals and the type of \<open>NULL\<close>, which it takes for texts.
\<close>

theorem field_num_is_IS_NUM:
  "IS_FIELD_NUM (type_code t) \<longleftrightarrow>
   IS_NUM t \<and> t \<notin> {MYSQL_TYPE_DECIMAL, MYSQL_TYPE_NEWDECIMAL, MYSQL_TYPE_NULL}"
  by (cases t) (simp_all add: IS_FIELD_NUM_def IS_NUM_def less_eq_enum_field_types_def word_le_nat_alt)

text \<open>The types the client library sends as long data are those the field factory keeps as strings, dates apart.\<close>

lemma longdata_is_string:
  "IS_LONGDATA t \<longleftrightarrow> string_column_type (type_code t) \<and> t \<notin> {MYSQL_TYPE_DATE, MYSQL_TYPE_DATETIME}"
  by (cases t) (simp_all add: IS_LONGDATA_def string_column_type_def less_eq_enum_field_types_def word_le_nat_alt)

section \<open>Flags\<close>

text \<open>The flags of a column.\<close>

definition field_flags :: "(bytes \<times> uint64) list" where
  "field_flags =
    [(''NOT_NULL_FLAG'', 0x1), (''PRI_KEY_FLAG'', 0x2), (''UNIQUE_KEY_FLAG'', 0x4), (''MULTIPLE_KEY_FLAG'', 0x8),
    (''BLOB_FLAG'', 0x10), (''UNSIGNED_FLAG'', 0x20), (''ZEROFILL_FLAG'', 0x40), (''BINARY_FLAG'', 0x80),
    (''ENUM_FLAG'', 0x100), (''AUTO_INCREMENT_FLAG'', 0x200), (''TIMESTAMP_FLAG'', 0x400), (''SET_FLAG'', 0x800),
    (''NO_DEFAULT_VALUE_FLAG'', 0x1000), (''ON_UPDATE_NOW_FLAG'', 0x2000), (''NUM_FLAG'', 0x8000),
    (''PART_KEY_FLAG'', 0x4000), (''GROUP_FLAG'', 0x8000), (''UNIQUE_FLAG'', 0x10000), (''BINCMP_FLAG'', 0x20000),
    (''GET_FIXED_FIELDS_FLAG'', 0x40000), (''FIELD_IN_PART_FUNC_FLAG'', 0x80000), (''FIELD_IN_ADD_INDEX'', 0x100000),
    (''FIELD_IS_RENAMED'', 0x200000), (''FIELD_FLAGS_STORAGE_MEDIA_MASK'', 0xc00000),
    (''FIELD_FLAGS_COLUMN_FORMAT_MASK'', 0x3000000), (''FIELD_IS_DROPPED'', 0x4000000),
    (''EXPLICIT_NULL_FLAG'', 0x8000000)]"

text \<open>What a client can ask the server to refresh.\<close>

definition refresh_flags :: "(bytes \<times> uint64) list" where
  "refresh_flags =
    [(''REFRESH_GRANT'', 0x1), (''REFRESH_LOG'', 0x2), (''REFRESH_TABLES'', 0x4), (''REFRESH_HOSTS'', 0x8),
    (''REFRESH_STATUS'', 0x10), (''REFRESH_THREADS'', 0x20), (''REFRESH_SLAVE'', 0x40), (''REFRESH_MASTER'', 0x80),
    (''REFRESH_ERROR_LOG'', 0x100), (''REFRESH_ENGINE_LOG'', 0x200), (''REFRESH_BINARY_LOG'', 0x400),
    (''REFRESH_RELAY_LOG'', 0x800), (''REFRESH_GENERAL_LOG'', 0x1000), (''REFRESH_SLOW_LOG'', 0x2000),
    (''REFRESH_READ_LOCK'', 0x4000), (''REFRESH_FAST'', 0x8000), (''REFRESH_QUERY_CACHE'', 0x10000),
    (''REFRESH_QUERY_CACHE_FREE'', 0x20000), (''REFRESH_DES_KEY_FILE'', 0x40000),
    (''REFRESH_USER_RESOURCES'', 0x80000), (''REFRESH_FOR_EXPORT'', 0x100000), (''REFRESH_OPTIMIZER_COSTS'', 0x200000)]"

text \<open>The capabilities of clients and servers.\<close>

definition client_flags :: "(bytes \<times> uint64) list" where
  "client_flags =
    [(''CLIENT_LONG_PASSWORD'', 0x1), (''CLIENT_FOUND_ROWS'', 0x2), (''CLIENT_LONG_FLAG'', 0x4),
    (''CLIENT_CONNECT_WITH_DB'', 0x8), (''CLIENT_NO_SCHEMA'', 0x10), (''CLIENT_COMPRESS'', 0x20),
    (''CLIENT_ODBC'', 0x40), (''CLIENT_LOCAL_FILES'', 0x80), (''CLIENT_IGNORE_SPACE'', 0x100),
    (''CLIENT_PROTOCOL_41'', 0x200), (''CLIENT_INTERACTIVE'', 0x400), (''CLIENT_SSL'', 0x800),
    (''CLIENT_IGNORE_SIGPIPE'', 0x1000), (''CLIENT_TRANSACTIONS'', 0x2000), (''CLIENT_RESERVED'', 0x4000),
    (''CLIENT_RESERVED2'', 0x8000), (''CLIENT_MULTI_STATEMENTS'', 0x10000), (''CLIENT_MULTI_RESULTS'', 0x20000),
    (''CLIENT_PS_MULTI_RESULTS'', 0x40000), (''CLIENT_PLUGIN_AUTH'', 0x80000), (''CLIENT_CONNECT_ATTRS'', 0x100000),
    (''CLIENT_PLUGIN_AUTH_LENENC_CLIENT_DATA'', 0x200000), (''CLIENT_CAN_HANDLE_EXPIRED_PASSWORDS'', 0x400000),
    (''CLIENT_SESSION_TRACK'', 0x800000), (''CLIENT_DEPRECATE_EOF'', 0x1000000),
    (''CLIENT_SSL_VERIFY_SERVER_CERT'', 0x40000000), (''CLIENT_REMEMBER_OPTIONS'', 0x80000000)]"

text \<open>The states of a server.\<close>

definition server_status_flags :: "(bytes \<times> uint64) list" where
  "server_status_flags =
    [(''SERVER_STATUS_IN_TRANS'', 0x1), (''SERVER_STATUS_AUTOCOMMIT'', 0x2), (''SERVER_MORE_RESULTS_EXISTS'', 0x8),
    (''SERVER_QUERY_NO_GOOD_INDEX_USED'', 0x10), (''SERVER_QUERY_NO_INDEX_USED'', 0x20),
    (''SERVER_STATUS_CURSOR_EXISTS'', 0x40), (''SERVER_STATUS_LAST_ROW_SENT'', 0x80),
    (''SERVER_STATUS_DB_DROPPED'', 0x100), (''SERVER_STATUS_NO_BACKSLASH_ESCAPES'', 0x200),
    (''SERVER_STATUS_METADATA_CHANGED'', 0x400), (''SERVER_QUERY_WAS_SLOW'', 0x800),
    (''SERVER_PS_OUT_PARAMS'', 0x1000), (''SERVER_STATUS_IN_TRANS_READONLY'', 0x2000),
    (''SERVER_SESSION_STATE_CHANGED'', 0x4000)]"

definition flag_of :: "(bytes \<times> uint64) list \<Rightarrow> bytes \<Rightarrow> uint64" where
  "flag_of tbl name = (case map_of tbl name of None \<Rightarrow> 0 | Some v \<Rightarrow> v)"

definition flags_of :: "(bytes \<times> uint64) list \<Rightarrow> bytes list \<Rightarrow> uint64" where
  "flags_of tbl names = foldr (\<lambda>n s. flag_of tbl n OR s) names 0"

definition CLIENT_ALL_FLAGS :: uint64 where
  "CLIENT_ALL_FLAGS =
     flags_of client_flags
       [''CLIENT_LONG_PASSWORD'', ''CLIENT_FOUND_ROWS'', ''CLIENT_LONG_FLAG'', ''CLIENT_CONNECT_WITH_DB'',
        ''CLIENT_NO_SCHEMA'', ''CLIENT_COMPRESS'', ''CLIENT_ODBC'', ''CLIENT_LOCAL_FILES'', ''CLIENT_IGNORE_SPACE'',
        ''CLIENT_PROTOCOL_41'', ''CLIENT_INTERACTIVE'', ''CLIENT_SSL'', ''CLIENT_IGNORE_SIGPIPE'',
        ''CLIENT_TRANSACTIONS'', ''CLIENT_RESERVED'', ''CLIENT_RESERVED2'', ''CLIENT_MULTI_STATEMENTS'',
        ''CLIENT_MULTI_RESULTS'', ''CLIENT_PS_MULTI_RESULTS'', ''CLIENT_SSL_VERIFY_SERVER_CERT'',
        ''CLIENT_REMEMBER_OPTIONS'', ''CLIENT_PLUGIN_AUTH'', ''CLIENT_CONNECT_ATTRS'',
        ''CLIENT_PLUGIN_AUTH_LENENC_CLIENT_DATA'', ''CLIENT_CAN_HANDLE_EXPIRED_PASSWORDS'', ''CLIENT_SESSION_TRACK'',
        ''CLIENT_DEPRECATE_EOF'']"

definition CLIENT_BASIC_FLAGS :: uint64 where
  "CLIENT_BASIC_FLAGS =
     CLIENT_ALL_FLAGS AND NOT (flag_of client_flags ''CLIENT_SSL'') AND NOT (flag_of client_flags ''CLIENT_COMPRESS'')
       AND NOT (flag_of client_flags ''CLIENT_SSL_VERIFY_SERVER_CERT'')"

definition SERVER_STATUS_CLEAR_SET :: uint64 where
  "SERVER_STATUS_CLEAR_SET =
     flags_of server_status_flags
       [''SERVER_QUERY_NO_GOOD_INDEX_USED'', ''SERVER_QUERY_NO_INDEX_USED'', ''SERVER_MORE_RESULTS_EXISTS'',
        ''SERVER_STATUS_METADATA_CHANGED'', ''SERVER_QUERY_WAS_SLOW'', ''SERVER_STATUS_DB_DROPPED'',
        ''SERVER_STATUS_CURSOR_EXISTS'', ''SERVER_STATUS_LAST_ROW_SENT'', ''SERVER_SESSION_STATE_CHANGED'']"

text \<open>Flags that do not overlap.\<close>

definition disjoint_flags :: "(bytes \<times> uint64) list \<Rightarrow> bool" where
  "disjoint_flags tbl \<longleftrightarrow> sorted_wrt (\<lambda>f g. snd f AND snd g = 0) tbl"

lemma refresh_flags_disjoint: "disjoint_flags refresh_flags"
  by code_simp

lemma client_flags_disjoint: "disjoint_flags client_flags"
  by code_simp

lemma server_status_flags_disjoint: "disjoint_flags server_status_flags"
  by code_simp

text \<open>The flags of a column overlap once: what a client is told with \<open>NUM_FLAG\<close> the server calls \<open>GROUP_FLAG\<close>.\<close>

lemma field_flags_overlap:
  "disjoint_flags (filter (\<lambda>f. fst f \<noteq> ''NUM_FLAG'') field_flags)" "flag_of field_flags ''NUM_FLAG'' = flag_of field_flags ''GROUP_FLAG''"
  by code_simp+

lemma client_all_flags: "CLIENT_ALL_FLAGS = 0xc1ffffff"
  by code_simp

lemma client_basic_flags: "CLIENT_BASIC_FLAGS = 0x81fff7df"
  by (simp add: CLIENT_BASIC_FLAGS_def client_all_flags flag_of_def client_flags_def)

text \<open>
  No two capabilities share a bit, all of them are in \<open>CLIENT_ALL_FLAGS\<close>, and \<open>CLIENT_BASIC_FLAGS\<close> has
  exactly those that do not depend on how the client was built.
\<close>

theorem capability_sets:
  "disjoint_flags client_flags \<and>
   (\<forall>(n, f) \<in> set client_flags. CLIENT_ALL_FLAGS AND f = f \<and>
     (CLIENT_BASIC_FLAGS AND f = (if n \<in> {''CLIENT_SSL'', ''CLIENT_COMPRESS'', ''CLIENT_SSL_VERIFY_SERVER_CERT''} then 0 else f)))"
  unfolding client_all_flags client_basic_flags
  by (intro conjI client_flags_disjoint) (simp add: client_flags_def)

lemma status_clear_set:
  "filter (\<lambda>(n, f). SERVER_STATUS_CLEAR_SET AND f = 0) server_status_flags =
    [(''SERVER_STATUS_IN_TRANS'', 1), (''SERVER_STATUS_AUTOCOMMIT'', 2), (''SERVER_STATUS_NO_BACKSLASH_ESCAPES'', 0x200),
     (''SERVER_PS_OUT_PARAMS'', 0x1000), (''SERVER_STATUS_IN_TRANS_READONLY'', 0x2000)]"
  by (simp add: SERVER_STATUS_CLEAR_SET_def flags_of_def flag_of_def server_status_flags_def)

text \<open>The kinds of state changes a server can report.\<close>

datatype enum_session_state_type =
    SESSION_TRACK_SYSTEM_VARIABLES | SESSION_TRACK_SCHEMA | SESSION_TRACK_STATE_CHANGE | SESSION_TRACK_GTIDS
  | SESSION_TRACK_TRANSACTION_CHARACTERISTICS | SESSION_TRACK_TRANSACTION_STATE

fun session_state_code :: "enum_session_state_type \<Rightarrow> sint32" where
  "session_state_code SESSION_TRACK_SYSTEM_VARIABLES = 0"
| "session_state_code SESSION_TRACK_SCHEMA = 1"
| "session_state_code SESSION_TRACK_STATE_CHANGE = 2"
| "session_state_code SESSION_TRACK_GTIDS = 3"
| "session_state_code SESSION_TRACK_TRANSACTION_CHARACTERISTICS = 4"
| "session_state_code SESSION_TRACK_TRANSACTION_STATE = 5"

definition IS_SESSION_STATE_TYPE :: "sint32 \<Rightarrow> bool" where
  "IS_SESSION_STATE_TYPE t \<longleftrightarrow>
     session_state_code SESSION_TRACK_SYSTEM_VARIABLES \<le>s t \<and> t \<le>s session_state_code SESSION_TRACK_TRANSACTION_STATE"

lemma IS_SESSION_STATE_TYPE_iff: "IS_SESSION_STATE_TYPE t \<longleftrightarrow> t \<in> range session_state_code"
proof
  assume "IS_SESSION_STATE_TYPE t"
  then have "0 \<le> sint t" "sint t \<le> 5" by (simp_all add: IS_SESSION_STATE_TYPE_def word_sle_eq)
  then have "sint t \<in> {0, 1, 2, 3, 4, 5}" by auto
  then have "word_of_int (sint t) \<in> (word_of_int ` {0, 1, 2, 3, 4, 5} :: sint32 set)" by (rule imageI)
  then have "t \<in> {0, 1, 2, 3, 4, 5}" by simp
  also have "\<dots> = session_state_code ` {SESSION_TRACK_SYSTEM_VARIABLES, SESSION_TRACK_SCHEMA,
      SESSION_TRACK_STATE_CHANGE, SESSION_TRACK_GTIDS, SESSION_TRACK_TRANSACTION_CHARACTERISTICS,
      SESSION_TRACK_TRANSACTION_STATE}" by simp
  finally show "t \<in> range session_state_code" by blast
next
  assume "t \<in> range session_state_code"
  then obtain s where "t = session_state_code s" by blast
  then show "IS_SESSION_STATE_TYPE t" by (cases s) (simp_all add: IS_SESSION_STATE_TYPE_def word_sle_eq)
qed

section \<open>Small macros\<close>

definition MY_MAX :: "'a::linorder \<Rightarrow> 'a \<Rightarrow> 'a" where
  "MY_MAX a b = (if a > b then a else b)"

definition MY_MIN :: "'a::linorder \<Rightarrow> 'a \<Rightarrow> 'a" where
  "MY_MIN a b = (if a < b then a else b)"

definition set_if_bigger :: "'a::linorder \<Rightarrow> 'a \<Rightarrow> 'a" where
  "set_if_bigger a b = (if a < b then b else a)"

definition set_if_smaller :: "'a::linorder \<Rightarrow> 'a \<Rightarrow> 'a" where
  "set_if_smaller a b = (if a > b then b else a)"

definition test_all_bits :: "uint64 \<Rightarrow> uint64 \<Rightarrow> bool" where
  "test_all_bits a b \<longleftrightarrow> a AND b = b"

text \<open>\<open>swap_variables\<close> with a third variable; the variables are known by their addresses.\<close>

definition swap_variables :: "nat \<Rightarrow> nat \<Rightarrow> (nat \<Rightarrow> 'a) \<Rightarrow> nat \<Rightarrow> 'a" where
  "swap_variables a b m = (let dummy = m a; m = m(a := m b) in m(b := dummy))"

lemma min_max_macros:
  "MY_MAX a b = max a b" "MY_MIN a b = min a b" "set_if_bigger a b = MY_MAX a b" "set_if_smaller a b = MY_MIN a b"
  by (auto simp: MY_MAX_def MY_MIN_def set_if_bigger_def set_if_smaller_def max_def min_def)

lemma test_all_bits_iff: "test_all_bits a b \<longleftrightarrow> (\<forall>n. bit b n \<longrightarrow> bit a n)"
  proof
  assume "test_all_bits a b"
  then have "bit b n = bit (a AND b) n" for n by (simp add: test_all_bits_def)
  then show "\<forall>n. bit b n \<longrightarrow> bit a n" by (metis bit_and_iff)
next
  assume "\<forall>n. bit b n \<longrightarrow> bit a n"
  then show "test_all_bits a b" unfolding test_all_bits_def by (intro bit_word_eqI) (auto simp: bit_and_iff)
qed

lemma swap_variables_twice: "swap_variables a b (swap_variables a b m) = m"
  by (auto simp: swap_variables_def Let_def)

text \<open>Memory on the stack or on the heap, and what is freed.\<close>

datatype allocation = my_alloca uint64 | my_malloc uint64

definition my_safe_alloca :: "uint64 \<Rightarrow> uint64 \<Rightarrow> allocation" where
  "my_safe_alloca sz max_alloca_sz = (if sz \<le> max_alloca_sz then my_alloca sz else my_malloc sz)"

definition my_safe_afree :: "allocation \<Rightarrow> uint64 \<Rightarrow> uint64 \<Rightarrow> allocation list" where
  "my_safe_afree ptr sz max_alloca_sz = (if max_alloca_sz < sz then [ptr] else [])"

lemma safe_alloca_freed:
  "my_safe_afree (my_safe_alloca sz mx) sz mx = (if sz \<le> mx then [] else [my_malloc sz])"
  by (simp add: my_safe_alloca_def my_safe_afree_def not_le)

section \<open>Characters of several bytes\<close>

text \<open>The two ways to write a code of two bytes, high byte first: with the constant turned round and one store on the i386.\<close>

definition MB2 :: "bool \<Rightarrow> uint16 \<Rightarrow> uint16" where
  "MB2 i386 x = (if i386 then drop_bit 8 x + push_bit 8 (x AND 0xFF) else x)"

definition MY_PUT_MB2 :: "bool \<Rightarrow> memory \<Rightarrow> nat \<Rightarrow> uint16 \<Rightarrow> memory" where
  "MY_PUT_MB2 i386 m s code =
     (if i386 then m(s := ucast code, s + 1 := ucast (drop_bit 8 code))
      else m(s := ucast (drop_bit 8 code), s + 1 := ucast (code AND 0xFF)))"

lemma MB2_bytes:
  "(ucast (MB2 True x) :: uint8) = ucast (drop_bit 8 x)" "(ucast (drop_bit 8 (MB2 True x)) :: uint8) = ucast (x AND 0xFF)"
proof -
  have low: "x AND 0xFF = take_bit 8 x"
    by (simp add: take_bit_eq_mask mask_eq_exp_minus_1)
  have "drop_bit 8 x + push_bit 8 (take_bit 8 x) = drop_bit 8 x OR push_bit 8 (take_bit 8 x)"
    by (rule disjunctive_add) (auto simp: bit_simps dest: bit_imp_le_length)
  then have "MB2 True x = drop_bit 8 x OR push_bit 8 (take_bit 8 x)" by (simp add: MB2_def low)
  then show "(ucast (MB2 True x) :: uint8) = ucast (drop_bit 8 x)"
    "(ucast (drop_bit 8 (MB2 True x)) :: uint8) = ucast (x AND 0xFF)"
    unfolding low by (auto intro!: bit_word_eqI simp: bit_simps dest: bit_imp_le_length)
qed

lemma MB2_same_bytes: "MY_PUT_MB2 True m s (MB2 True x) = MY_PUT_MB2 False m s (MB2 False x)"
  by (simp add: MY_PUT_MB2_def MB2_bytes) (simp add: MB2_def)

text \<open>The tests on a first byte, over the table of functions of a character set.\<close>

record charset_handler =
  cs_mbcharlen :: "uint32 \<Rightarrow> uint32"
  cs_mbmaxlenlen :: uint32

definition my_mbcharlen :: "charset_handler \<Rightarrow> uint32 \<Rightarrow> uint32" where
  "my_mbcharlen s a = cs_mbcharlen s a"

definition my_mbcharlen_2 :: "charset_handler \<Rightarrow> uint32 \<Rightarrow> uint32 \<Rightarrow> uint32" where
  "my_mbcharlen_2 s a b = cs_mbcharlen s (push_bit 8 (a AND 0xFF) + (b AND 0xFF))"

definition my_mbmaxlenlen :: "charset_handler \<Rightarrow> uint32" where
  "my_mbmaxlenlen s = cs_mbmaxlenlen s"

definition my_ismb1st :: "charset_handler \<Rightarrow> uint32 \<Rightarrow> bool" where
  "my_ismb1st s i \<longleftrightarrow> 1 < my_mbcharlen s i \<or> (my_mbmaxlenlen s = 2 \<and> my_mbcharlen s i = 0)"

definition MY_CS_TOOSMALLN :: "sint32 \<Rightarrow> sint32" where
  "MY_CS_TOOSMALLN n = - 100 - n"

lemma single_byte_charset: "\<forall>i. cs_mbcharlen s i = 1 \<Longrightarrow> \<not> my_ismb1st s i"
  by (simp add: my_ismb1st_def my_mbcharlen_def)

end
