(* ===== verification/Mysql_Trace.thy ===== *)
theory Mysql_Trace
  imports LLBC_Prelude
begin

text \<open>
  The stages of a connection and the events a trace plugin of the client is told (\<open>plugin_trace.h\<close>): the two
  enumerations with the lists that generate them, the arguments of an event, and the transitions between
  stages the header documents as a graph. The client that makes the transitions is in the binary library.
\<close>

section \<open>Stages and events\<close>

datatype protocol_stage =
    PROTOCOL_STAGE_CONNECTING | PROTOCOL_STAGE_WAIT_FOR_INIT_PACKET | PROTOCOL_STAGE_AUTHENTICATE
  | PROTOCOL_STAGE_SSL_NEGOTIATION | PROTOCOL_STAGE_READY_FOR_COMMAND | PROTOCOL_STAGE_WAIT_FOR_PACKET
  | PROTOCOL_STAGE_WAIT_FOR_RESULT | PROTOCOL_STAGE_WAIT_FOR_FIELD_DEF | PROTOCOL_STAGE_WAIT_FOR_ROW
  | PROTOCOL_STAGE_FILE_REQUEST | PROTOCOL_STAGE_WAIT_FOR_PS_DESCRIPTION | PROTOCOL_STAGE_WAIT_FOR_PARAM_DEF
  | PROTOCOL_STAGE_DISCONNECTED | PROTOCOL_STAGE_LAST

definition PROTOCOL_STAGE_LIST :: "protocol_stage list" where
  "PROTOCOL_STAGE_LIST =
     [PROTOCOL_STAGE_CONNECTING, PROTOCOL_STAGE_WAIT_FOR_INIT_PACKET, PROTOCOL_STAGE_AUTHENTICATE,
      PROTOCOL_STAGE_SSL_NEGOTIATION, PROTOCOL_STAGE_READY_FOR_COMMAND, PROTOCOL_STAGE_WAIT_FOR_PACKET,
      PROTOCOL_STAGE_WAIT_FOR_RESULT, PROTOCOL_STAGE_WAIT_FOR_FIELD_DEF, PROTOCOL_STAGE_WAIT_FOR_ROW,
      PROTOCOL_STAGE_FILE_REQUEST, PROTOCOL_STAGE_WAIT_FOR_PS_DESCRIPTION, PROTOCOL_STAGE_WAIT_FOR_PARAM_DEF,
      PROTOCOL_STAGE_DISCONNECTED]"

datatype trace_event =
    TRACE_EVENT_ERROR | TRACE_EVENT_CONNECTING | TRACE_EVENT_CONNECTED | TRACE_EVENT_DISCONNECTED
  | TRACE_EVENT_SEND_SSL_REQUEST | TRACE_EVENT_SSL_CONNECT | TRACE_EVENT_SSL_CONNECTED
  | TRACE_EVENT_INIT_PACKET_RECEIVED | TRACE_EVENT_AUTH_PLUGIN | TRACE_EVENT_SEND_AUTH_RESPONSE
  | TRACE_EVENT_SEND_AUTH_DATA | TRACE_EVENT_AUTHENTICATED | TRACE_EVENT_SEND_COMMAND | TRACE_EVENT_SEND_FILE
  | TRACE_EVENT_READ_PACKET | TRACE_EVENT_PACKET_RECEIVED | TRACE_EVENT_PACKET_SENT | TRACE_EVENT_LAST

definition TRACE_EVENT_LIST :: "trace_event list" where
  "TRACE_EVENT_LIST =
     [TRACE_EVENT_ERROR, TRACE_EVENT_CONNECTING, TRACE_EVENT_CONNECTED, TRACE_EVENT_DISCONNECTED,
      TRACE_EVENT_SEND_SSL_REQUEST, TRACE_EVENT_SSL_CONNECT, TRACE_EVENT_SSL_CONNECTED,
      TRACE_EVENT_INIT_PACKET_RECEIVED, TRACE_EVENT_AUTH_PLUGIN, TRACE_EVENT_SEND_AUTH_RESPONSE,
      TRACE_EVENT_SEND_AUTH_DATA, TRACE_EVENT_AUTHENTICATED, TRACE_EVENT_SEND_COMMAND, TRACE_EVENT_SEND_FILE,
      TRACE_EVENT_READ_PACKET, TRACE_EVENT_PACKET_RECEIVED, TRACE_EVENT_PACKET_SENT]"

record st_trace_event_args =
  plugin_name :: "bytes option"
  cmd :: sint32
  hdr :: "nat option"
  hdr_len :: uint64
  pkt :: "nat option"
  pkt_len :: uint64

lemma stages_listed: "distinct PROTOCOL_STAGE_LIST" "set PROTOCOL_STAGE_LIST = UNIV - {PROTOCOL_STAGE_LAST}"
  by (simp add: PROTOCOL_STAGE_LIST_def) (auto simp: PROTOCOL_STAGE_LIST_def intro: protocol_stage.exhaust)

section \<open>The graph of stages\<close>

fun next_stages :: "protocol_stage \<Rightarrow> protocol_stage list" where
  "next_stages PROTOCOL_STAGE_CONNECTING = [PROTOCOL_STAGE_WAIT_FOR_INIT_PACKET, PROTOCOL_STAGE_DISCONNECTED]"
| "next_stages PROTOCOL_STAGE_WAIT_FOR_INIT_PACKET = [PROTOCOL_STAGE_AUTHENTICATE, PROTOCOL_STAGE_SSL_NEGOTIATION]"
| "next_stages PROTOCOL_STAGE_SSL_NEGOTIATION = [PROTOCOL_STAGE_AUTHENTICATE]"
| "next_stages PROTOCOL_STAGE_AUTHENTICATE = [PROTOCOL_STAGE_READY_FOR_COMMAND, PROTOCOL_STAGE_DISCONNECTED]"
| "next_stages PROTOCOL_STAGE_READY_FOR_COMMAND =
     [PROTOCOL_STAGE_DISCONNECTED, PROTOCOL_STAGE_AUTHENTICATE, PROTOCOL_STAGE_WAIT_FOR_PACKET,
      PROTOCOL_STAGE_WAIT_FOR_RESULT, PROTOCOL_STAGE_WAIT_FOR_PS_DESCRIPTION]"
| "next_stages PROTOCOL_STAGE_WAIT_FOR_PACKET = [PROTOCOL_STAGE_READY_FOR_COMMAND]"
| "next_stages PROTOCOL_STAGE_WAIT_FOR_RESULT =
     [PROTOCOL_STAGE_READY_FOR_COMMAND, PROTOCOL_STAGE_WAIT_FOR_FIELD_DEF, PROTOCOL_STAGE_FILE_REQUEST]"
| "next_stages PROTOCOL_STAGE_WAIT_FOR_FIELD_DEF = [PROTOCOL_STAGE_WAIT_FOR_ROW, PROTOCOL_STAGE_READY_FOR_COMMAND]"
| "next_stages PROTOCOL_STAGE_WAIT_FOR_ROW = [PROTOCOL_STAGE_READY_FOR_COMMAND, PROTOCOL_STAGE_WAIT_FOR_RESULT]"
| "next_stages PROTOCOL_STAGE_WAIT_FOR_PS_DESCRIPTION =
     [PROTOCOL_STAGE_WAIT_FOR_PARAM_DEF, PROTOCOL_STAGE_READY_FOR_COMMAND, PROTOCOL_STAGE_WAIT_FOR_FIELD_DEF]"
| "next_stages PROTOCOL_STAGE_WAIT_FOR_PARAM_DEF = [PROTOCOL_STAGE_WAIT_FOR_FIELD_DEF, PROTOCOL_STAGE_READY_FOR_COMMAND]"
| "next_stages PROTOCOL_STAGE_FILE_REQUEST = [PROTOCOL_STAGE_WAIT_FOR_RESULT]"
| "next_stages PROTOCOL_STAGE_DISCONNECTED = []"
| "next_stages PROTOCOL_STAGE_LAST = []"

text \<open>A walk of the graph from a stage: the stages in the order they are entered.\<close>

inductive stage_walk :: "protocol_stage \<Rightarrow> protocol_stage list \<Rightarrow> protocol_stage \<Rightarrow> bool" where
  stay: "stage_walk s [] s"
| enter: "t \<in> set (next_stages s) \<Longrightarrow> stage_walk t ts u \<Longrightarrow> stage_walk s (t # ts) u"

inductive_cases stage_walkE [elim!]: "stage_walk s (t # ts) u"

lemma stage_walk_enter: "t \<in> set (next_stages s) \<Longrightarrow> \<exists>ts. stage_walk t ts u \<Longrightarrow> \<exists>ts. stage_walk s ts u"
  by (blast intro: stage_walk.intros)

definition unauthenticated :: "protocol_stage \<Rightarrow> bool" where
  "unauthenticated s \<longleftrightarrow> s \<in> {PROTOCOL_STAGE_CONNECTING, PROTOCOL_STAGE_WAIT_FOR_INIT_PACKET, PROTOCOL_STAGE_SSL_NEGOTIATION,
     PROTOCOL_STAGE_DISCONNECTED}"

text \<open>Without the stage of authentication no walk leaves the stages before it.\<close>

lemma unauthenticated_walk:
  "stage_walk s ts u \<Longrightarrow> unauthenticated s \<Longrightarrow> PROTOCOL_STAGE_AUTHENTICATE \<notin> set ts \<Longrightarrow> unauthenticated u"
  by (induction rule: stage_walk.induct) (auto simp: unauthenticated_def)

text \<open>
  On every walk from the start of a connection to a stage in which commands are sent or answered the
  client is authenticated on the way.
\<close>

theorem commands_need_authentication:
  assumes "stage_walk PROTOCOL_STAGE_CONNECTING ts u" "\<not> unauthenticated u"
  shows "PROTOCOL_STAGE_AUTHENTICATE \<in> set ts"
  using assms unauthenticated_walk [of PROTOCOL_STAGE_CONNECTING ts u] by (auto simp: unauthenticated_def)

theorem commands_need_authentication_witness:
  "PROTOCOL_STAGE_AUTHENTICATE \<in> set [PROTOCOL_STAGE_WAIT_FOR_INIT_PACKET, PROTOCOL_STAGE_SSL_NEGOTIATION,
     PROTOCOL_STAGE_AUTHENTICATE, PROTOCOL_STAGE_READY_FOR_COMMAND]"
  by (rule commands_need_authentication [where u = PROTOCOL_STAGE_READY_FOR_COMMAND])
    (auto intro!: stage_walk.intros simp: unauthenticated_def)

text \<open>A walk from the start to every stage.\<close>

fun walk_to :: "protocol_stage \<Rightarrow> protocol_stage list" where
  "walk_to PROTOCOL_STAGE_WAIT_FOR_INIT_PACKET = [PROTOCOL_STAGE_WAIT_FOR_INIT_PACKET]"
| "walk_to PROTOCOL_STAGE_SSL_NEGOTIATION = [PROTOCOL_STAGE_WAIT_FOR_INIT_PACKET, PROTOCOL_STAGE_SSL_NEGOTIATION]"
| "walk_to PROTOCOL_STAGE_DISCONNECTED = [PROTOCOL_STAGE_DISCONNECTED]"
| "walk_to PROTOCOL_STAGE_CONNECTING = []"
| "walk_to s =
     [PROTOCOL_STAGE_WAIT_FOR_INIT_PACKET, PROTOCOL_STAGE_AUTHENTICATE] @
     (if s = PROTOCOL_STAGE_AUTHENTICATE then [] else [PROTOCOL_STAGE_READY_FOR_COMMAND]) @
     (if s \<in> {PROTOCOL_STAGE_FILE_REQUEST, PROTOCOL_STAGE_WAIT_FOR_FIELD_DEF, PROTOCOL_STAGE_WAIT_FOR_ROW}
      then [PROTOCOL_STAGE_WAIT_FOR_RESULT] else []) @
     (if s = PROTOCOL_STAGE_WAIT_FOR_ROW then [PROTOCOL_STAGE_WAIT_FOR_FIELD_DEF] else []) @
     (if s = PROTOCOL_STAGE_WAIT_FOR_PARAM_DEF then [PROTOCOL_STAGE_WAIT_FOR_PS_DESCRIPTION] else []) @
     (if s \<in> {PROTOCOL_STAGE_AUTHENTICATE, PROTOCOL_STAGE_READY_FOR_COMMAND} then [] else [s])"

text \<open>Every stage but the sentinel is on a walk from the start to the end of a connection.\<close>

lemma every_stage_is_used:
  assumes "s \<noteq> PROTOCOL_STAGE_LAST"
  shows "\<exists>ts. stage_walk PROTOCOL_STAGE_CONNECTING ts s" "\<exists>ts. stage_walk s ts PROTOCOL_STAGE_DISCONNECTED"
proof -
  note enter = stage_walk_enter [rotated]
  have stay: "\<exists>ts. stage_walk t ts t" for t using stage_walk.stay by blast
  have ready: "\<exists>ts. stage_walk PROTOCOL_STAGE_READY_FOR_COMMAND ts PROTOCOL_STAGE_DISCONNECTED" by (rule enter [OF stay]) simp
  have result: "\<exists>ts. stage_walk PROTOCOL_STAGE_WAIT_FOR_RESULT ts PROTOCOL_STAGE_DISCONNECTED" by (rule enter [OF ready]) simp
  have auth: "\<exists>ts. stage_walk PROTOCOL_STAGE_AUTHENTICATE ts PROTOCOL_STAGE_DISCONNECTED" by (rule enter [OF stay]) simp
  show "\<exists>ts. stage_walk s ts PROTOCOL_STAGE_DISCONNECTED"
    using assms ready result auth stay enter [OF ready, of s] enter [OF result, of s] enter [OF auth, of s] enter [OF stay, of PROTOCOL_STAGE_DISCONNECTED s]
    by (cases s) simp_all
  have "stage_walk PROTOCOL_STAGE_CONNECTING (walk_to s) s"
    using assms by (cases s) (auto intro!: stage_walk.intros)
  then show "\<exists>ts. stage_walk PROTOCOL_STAGE_CONNECTING ts s" by blast
qed

end
