(* ===== verification/Ssl_Options.thy ===== *)
theory Ssl_Options
  imports LLBC_Prelude
begin

text \<open>
  The options of MySQL clients for encrypted connections: the variables and \<open>set_client_ssl_options\<close> of
  \<open>sslopt-vars.h\<close>, the table of \<open>sslopt-longopts.h\<close> and the cases of \<open>sslopt-case.h\<close>, as compiled into a
  client with OpenSSL. \<open>handle_options\<close> and \<open>find_type_or_exit\<close> belong to the library: the first stores an
  argument in the variable of its option and then runs the case of the option (\<open>my_getopt.h\<close>), the second
  is a parameter, whose result \<open>None\<close> is the exit of the program.
\<close>

section \<open>Modes and variables\<close>

definition SSL_MODE_DISABLED :: uint32 where "SSL_MODE_DISABLED = 1"
definition SSL_MODE_PREFERRED :: uint32 where "SSL_MODE_PREFERRED = 2"
definition SSL_MODE_REQUIRED :: uint32 where "SSL_MODE_REQUIRED = 3"
definition SSL_MODE_VERIFY_CA :: uint32 where "SSL_MODE_VERIFY_CA = 4"
definition SSL_MODE_VERIFY_IDENTITY :: uint32 where "SSL_MODE_VERIFY_IDENTITY = 5"

lemmas ssl_modes =
  SSL_MODE_DISABLED_def SSL_MODE_PREFERRED_def SSL_MODE_REQUIRED_def SSL_MODE_VERIFY_CA_def SSL_MODE_VERIFY_IDENTITY_def

definition ssl_mode_names_lib :: "bytes list" where
  "ssl_mode_names_lib = [''DISABLED'', ''PREFERRED'', ''REQUIRED'', ''VERIFY_CA'', ''VERIFY_IDENTITY'']"

text \<open>What a client does that can be seen from outside.\<close>

datatype (plugins only: code size) ssl_event =
    CLIENT_WARN_DEPRECATED bytes bytes
  | printf bytes
  | mysql_ssl_set "bytes option" "bytes option" "bytes option" "bytes option" "bytes option"
  | mysql_option_text bytes "bytes option"
  | mysql_option_mode bytes uint32

record ssl_options =
  opt_ssl_mode :: uint32
  opt_ssl_ca :: "bytes option"
  opt_ssl_capath :: "bytes option"
  opt_ssl_cert :: "bytes option"
  opt_ssl_cipher :: "bytes option"
  opt_ssl_key :: "bytes option"
  opt_ssl_crl :: "bytes option"
  opt_ssl_crlpath :: "bytes option"
  opt_tls_version :: "bytes option"
  ssl_mode_set_explicitly :: bool
  opt_use_ssl_arg :: bool
  opt_ssl_verify_server_cert_arg :: bool
  ssl_log :: "ssl_event list"

definition ssl_defaults :: ssl_options where
  "ssl_defaults =
     \<lparr>opt_ssl_mode = SSL_MODE_PREFERRED, opt_ssl_ca = None, opt_ssl_capath = None, opt_ssl_cert = None,
      opt_ssl_cipher = None, opt_ssl_key = None, opt_ssl_crl = None, opt_ssl_crlpath = None, opt_tls_version = None,
      ssl_mode_set_explicitly = False, opt_use_ssl_arg = True, opt_ssl_verify_server_cert_arg = False, ssl_log = []\<rparr>"

definition ssl_note :: "ssl_event \<Rightarrow> ssl_options \<Rightarrow> ssl_options" where
  "ssl_note e st = st\<lparr>ssl_log := ssl_log st @ [e]\<rparr>"

lemma ssl_note_simps [simp]:
  "opt_ssl_mode (ssl_note e st) = opt_ssl_mode st" "opt_ssl_ca (ssl_note e st) = opt_ssl_ca st"
  "opt_ssl_capath (ssl_note e st) = opt_ssl_capath st" "opt_ssl_crl (ssl_note e st) = opt_ssl_crl st"
  "ssl_mode_set_explicitly (ssl_note e st) = ssl_mode_set_explicitly st"
  "opt_use_ssl_arg (ssl_note e st) = opt_use_ssl_arg st"
  "opt_ssl_verify_server_cert_arg (ssl_note e st) = opt_ssl_verify_server_cert_arg st"
  "opt_ssl_cert (ssl_note e st) = opt_ssl_cert st" "opt_ssl_cipher (ssl_note e st) = opt_ssl_cipher st"
  "opt_ssl_key (ssl_note e st) = opt_ssl_key st" "opt_ssl_crlpath (ssl_note e st) = opt_ssl_crlpath st"
  "opt_tls_version (ssl_note e st) = opt_tls_version st" "ssl_log (ssl_note e st) = ssl_log st @ [e]"
  by (simp_all add: ssl_note_def)

section \<open>The table of options\<close>

datatype ssl_option_id =
    OPT_SSL_MODE | OPT_SSL_SSL | OPT_SSL_VERIFY_SERVER_CERT | OPT_SSL_CA | OPT_SSL_CAPATH | OPT_SSL_CERT
  | OPT_SSL_CIPHER | OPT_SSL_KEY | OPT_SSL_CRL | OPT_SSL_CRLPATH | OPT_TLS_VERSION

datatype var_type = GET_BOOL | GET_STR
datatype get_opt_arg_type = NO_ARG | OPT_ARG | REQUIRED_ARG

text \<open>The variables the table points to.\<close>

datatype ssl_variable =
    var_use_ssl_arg | var_ssl_verify_server_cert_arg | var_ssl_ca | var_ssl_capath | var_ssl_cert | var_ssl_cipher
  | var_ssl_key | var_ssl_crl | var_ssl_crlpath | var_tls_version

text \<open>Name, number, variable, type, argument and default of every option; the texts of the help are left out.\<close>

definition ssl_longopts ::
    "(bytes \<times> ssl_option_id \<times> ssl_variable option \<times> var_type \<times> get_opt_arg_type \<times> sint64) list" where
  "ssl_longopts =
     [(''ssl-mode'', OPT_SSL_MODE, None, GET_STR, REQUIRED_ARG, 0),
      (''ssl'', OPT_SSL_SSL, Some var_use_ssl_arg, GET_BOOL, OPT_ARG, 1),
      (''ssl-verify-server-cert'', OPT_SSL_VERIFY_SERVER_CERT, Some var_ssl_verify_server_cert_arg, GET_BOOL, OPT_ARG, 0),
      (''ssl-ca'', OPT_SSL_CA, Some var_ssl_ca, GET_STR, REQUIRED_ARG, 0),
      (''ssl-capath'', OPT_SSL_CAPATH, Some var_ssl_capath, GET_STR, REQUIRED_ARG, 0),
      (''ssl-cert'', OPT_SSL_CERT, Some var_ssl_cert, GET_STR, REQUIRED_ARG, 0),
      (''ssl-cipher'', OPT_SSL_CIPHER, Some var_ssl_cipher, GET_STR, REQUIRED_ARG, 0),
      (''ssl-key'', OPT_SSL_KEY, Some var_ssl_key, GET_STR, REQUIRED_ARG, 0),
      (''ssl-crl'', OPT_SSL_CRL, Some var_ssl_crl, GET_STR, REQUIRED_ARG, 0),
      (''ssl-crlpath'', OPT_SSL_CRLPATH, Some var_ssl_crlpath, GET_STR, REQUIRED_ARG, 0),
      (''tls-version'', OPT_TLS_VERSION, Some var_tls_version, GET_STR, REQUIRED_ARG, 0)]"

fun ssl_option_name :: "ssl_option_id \<Rightarrow> bytes" where
  "ssl_option_name i = (case find (\<lambda>(_, j, _). j = i) ssl_longopts of None \<Rightarrow> '''' | Some (n, _) \<Rightarrow> n)"

fun ssl_option_variable :: "ssl_option_id \<Rightarrow> ssl_variable option" where
  "ssl_option_variable i = (case find (\<lambda>(_, j, _). j = i) ssl_longopts of None \<Rightarrow> None | Some (_, _, v, _) \<Rightarrow> v)"

lemma ssl_longopts_complete: "map (fst \<circ> snd) ssl_longopts =
    [OPT_SSL_MODE, OPT_SSL_SSL, OPT_SSL_VERIFY_SERVER_CERT, OPT_SSL_CA, OPT_SSL_CAPATH, OPT_SSL_CERT, OPT_SSL_CIPHER,
     OPT_SSL_KEY, OPT_SSL_CRL, OPT_SSL_CRLPATH, OPT_TLS_VERSION]"
  "i \<in> (fst \<circ> snd) ` set ssl_longopts" "distinct (map fst ssl_longopts)"
  by (simp_all add: ssl_longopts_def) (cases i; simp)

section \<open>The cases\<close>

definition ssl_case ::
    "bool \<Rightarrow> (bytes \<Rightarrow> bytes list \<Rightarrow> bytes \<Rightarrow> uint32 option) \<Rightarrow> ssl_option_id \<Rightarrow> bytes \<Rightarrow> ssl_options \<Rightarrow> ssl_options option" where
  "ssl_case have_yassl find_type_or_exit optid argument st =
     (case optid of
        OPT_SSL_MODE \<Rightarrow>
          (case find_type_or_exit argument ssl_mode_names_lib (ssl_option_name OPT_SSL_MODE) of
             None \<Rightarrow> None
           | Some n \<Rightarrow> Some (st\<lparr>opt_ssl_mode := n, ssl_mode_set_explicitly := True\<rparr>))
      | OPT_SSL_SSL \<Rightarrow>
          (let st = ssl_note (CLIENT_WARN_DEPRECATED ''--ssl'' ''--ssl-mode'') st in
           Some (if \<not> opt_use_ssl_arg st then st\<lparr>opt_ssl_mode := SSL_MODE_DISABLED\<rparr>
                 else if opt_ssl_mode st < SSL_MODE_REQUIRED then st\<lparr>opt_ssl_mode := SSL_MODE_REQUIRED\<rparr>
                 else st))
      | OPT_SSL_VERIFY_SERVER_CERT \<Rightarrow>
          (let st = ssl_note (CLIENT_WARN_DEPRECATED ''--ssl-verify-server-cert'' ''--ssl-mode=VERIFY_IDENTITY'') st in
           Some (if \<not> opt_ssl_verify_server_cert_arg st then
                   (if SSL_MODE_VERIFY_IDENTITY \<le> opt_ssl_mode st then st\<lparr>opt_ssl_mode := SSL_MODE_VERIFY_CA\<rparr> else st)
                 else st\<lparr>opt_ssl_mode := SSL_MODE_VERIFY_IDENTITY\<rparr>))
      | OPT_SSL_CA \<Rightarrow> Some (if \<not> ssl_mode_set_explicitly st then st\<lparr>opt_ssl_mode := SSL_MODE_VERIFY_CA\<rparr> else st)
      | OPT_SSL_CAPATH \<Rightarrow> Some (if \<not> ssl_mode_set_explicitly st then st\<lparr>opt_ssl_mode := SSL_MODE_VERIFY_CA\<rparr> else st)
      | _ \<Rightarrow> Some (if have_yassl then st\<lparr>opt_ssl_crl := None, opt_ssl_crlpath := None\<rparr> else st))"

section \<open>The connection\<close>

definition no_verification :: bytes where
  "no_verification =
     ''WARNING: no verification of server certificate will be done. '' @
     ''Use --ssl-mode=VERIFY_CA or VERIFY_IDENTITY.'' @ [CHR 0x0A]"

definition set_client_ssl_options :: "ssl_options \<Rightarrow> ssl_options" where
  "set_client_ssl_options st =
     (let st = (if ssl_mode_set_explicitly st \<and> opt_ssl_mode st < SSL_MODE_VERIFY_CA \<and>
                   (opt_ssl_ca st \<noteq> None \<or> opt_ssl_capath st \<noteq> None)
                then ssl_note (printf no_verification) st else st);
          st = (if SSL_MODE_VERIFY_CA \<le> opt_ssl_mode st
                then ssl_note (mysql_ssl_set (opt_ssl_key st) (opt_ssl_cert st) (opt_ssl_ca st) (opt_ssl_capath st)
                                 (opt_ssl_cipher st)) st
                else ssl_note (mysql_ssl_set (opt_ssl_key st) (opt_ssl_cert st) None None (opt_ssl_cipher st)) st);
          st = ssl_note (mysql_option_text ''MYSQL_OPT_SSL_CRL'' (opt_ssl_crl st)) st;
          st = ssl_note (mysql_option_text ''MYSQL_OPT_SSL_CRLPATH'' (opt_ssl_crlpath st)) st;
          st = ssl_note (mysql_option_text ''MYSQL_OPT_TLS_VERSION'' (opt_tls_version st)) st
      in ssl_note (mysql_option_mode ''MYSQL_OPT_SSL_MODE'' (opt_ssl_mode st)) st)"

lemma set_client_log:
  "ssl_log (set_client_ssl_options st) = ssl_log st @
     (if ssl_mode_set_explicitly st \<and> opt_ssl_mode st < SSL_MODE_VERIFY_CA \<and> (opt_ssl_ca st \<noteq> None \<or> opt_ssl_capath st \<noteq> None)
      then [printf no_verification] else []) @
     [if SSL_MODE_VERIFY_CA \<le> opt_ssl_mode st
      then mysql_ssl_set (opt_ssl_key st) (opt_ssl_cert st) (opt_ssl_ca st) (opt_ssl_capath st) (opt_ssl_cipher st)
      else mysql_ssl_set (opt_ssl_key st) (opt_ssl_cert st) None None (opt_ssl_cipher st),
      mysql_option_text ''MYSQL_OPT_SSL_CRL'' (opt_ssl_crl st), mysql_option_text ''MYSQL_OPT_SSL_CRLPATH'' (opt_ssl_crlpath st),
      mysql_option_text ''MYSQL_OPT_TLS_VERSION'' (opt_tls_version st), mysql_option_mode ''MYSQL_OPT_SSL_MODE'' (opt_ssl_mode st)]"
  by (simp add: set_client_ssl_options_def Let_def split del: if_split) simp

section \<open>Command lines\<close>

text \<open>An argument as the library stores it, and one option after the other.\<close>

datatype ssl_argument = Switch bool | Text bytes

fun store_argument :: "ssl_variable \<Rightarrow> ssl_argument \<Rightarrow> ssl_options \<Rightarrow> ssl_options" where
  "store_argument var_use_ssl_arg (Switch b) st = st\<lparr>opt_use_ssl_arg := b\<rparr>"
| "store_argument var_ssl_verify_server_cert_arg (Switch b) st = st\<lparr>opt_ssl_verify_server_cert_arg := b\<rparr>"
| "store_argument var_ssl_ca (Text s) st = st\<lparr>opt_ssl_ca := Some s\<rparr>"
| "store_argument var_ssl_capath (Text s) st = st\<lparr>opt_ssl_capath := Some s\<rparr>"
| "store_argument var_ssl_cert (Text s) st = st\<lparr>opt_ssl_cert := Some s\<rparr>"
| "store_argument var_ssl_cipher (Text s) st = st\<lparr>opt_ssl_cipher := Some s\<rparr>"
| "store_argument var_ssl_key (Text s) st = st\<lparr>opt_ssl_key := Some s\<rparr>"
| "store_argument var_ssl_crl (Text s) st = st\<lparr>opt_ssl_crl := Some s\<rparr>"
| "store_argument var_ssl_crlpath (Text s) st = st\<lparr>opt_ssl_crlpath := Some s\<rparr>"
| "store_argument var_tls_version (Text s) st = st\<lparr>opt_tls_version := Some s\<rparr>"
| "store_argument _ _ st = st"

fun argument_text :: "ssl_argument \<Rightarrow> bytes" where
  "argument_text (Text s) = s"
| "argument_text (Switch b) = (if b then ''1'' else ''0'')"

definition take_option where
  "take_option have_yassl find_type_or_exit opt st =
     (case opt of (optid, arg) \<Rightarrow>
        ssl_case have_yassl find_type_or_exit optid (argument_text arg)
          (case ssl_option_variable optid of None \<Rightarrow> st | Some v \<Rightarrow> store_argument v arg st))"

fun take_options where
  "take_options y f [] st = Some st"
| "take_options y f (opt # opts) st =
     (case take_option y f opt st of None \<Rightarrow> None | Some st' \<Rightarrow> take_options y f opts st')"

lemma option_variables [simp]:
  "ssl_option_variable OPT_SSL_MODE = None"
  "ssl_option_variable OPT_SSL_SSL = Some var_use_ssl_arg"
  "ssl_option_variable OPT_SSL_VERIFY_SERVER_CERT = Some var_ssl_verify_server_cert_arg"
  "ssl_option_variable OPT_SSL_CA = Some var_ssl_ca"
  "ssl_option_variable OPT_SSL_CAPATH = Some var_ssl_capath"
  "ssl_option_variable OPT_SSL_CERT = Some var_ssl_cert"
  "ssl_option_variable OPT_SSL_CIPHER = Some var_ssl_cipher"
  "ssl_option_variable OPT_SSL_KEY = Some var_ssl_key"
  "ssl_option_variable OPT_SSL_CRL = Some var_ssl_crl"
  "ssl_option_variable OPT_SSL_CRLPATH = Some var_ssl_crlpath"
  "ssl_option_variable OPT_TLS_VERSION = Some var_tls_version"
  by (simp_all add: ssl_longopts_def)

declare ssl_option_variable.simps [simp del] ssl_option_name.simps [simp del]

text \<open>Every option with its argument, and what does not touch the mode in one lemma.\<close>

lemma take_option_simps:
  "take_option y f (OPT_SSL_MODE, a) st =
     (case f (argument_text a) ssl_mode_names_lib (ssl_option_name OPT_SSL_MODE) of None \<Rightarrow> None
      | Some n \<Rightarrow> Some (st\<lparr>opt_ssl_mode := n, ssl_mode_set_explicitly := True\<rparr>))"
  "take_option y f (OPT_SSL_SSL, a) st =
     (let st = ssl_note (CLIENT_WARN_DEPRECATED ''--ssl'' ''--ssl-mode'') (store_argument var_use_ssl_arg a st) in
      Some (if \<not> opt_use_ssl_arg st then st\<lparr>opt_ssl_mode := SSL_MODE_DISABLED\<rparr>
            else if opt_ssl_mode st < SSL_MODE_REQUIRED then st\<lparr>opt_ssl_mode := SSL_MODE_REQUIRED\<rparr> else st))"
  "take_option y f (OPT_SSL_VERIFY_SERVER_CERT, a) st =
     (let st = ssl_note (CLIENT_WARN_DEPRECATED ''--ssl-verify-server-cert'' ''--ssl-mode=VERIFY_IDENTITY'')
                 (store_argument var_ssl_verify_server_cert_arg a st) in
      Some (if \<not> opt_ssl_verify_server_cert_arg st then
              (if SSL_MODE_VERIFY_IDENTITY \<le> opt_ssl_mode st then st\<lparr>opt_ssl_mode := SSL_MODE_VERIFY_CA\<rparr> else st)
            else st\<lparr>opt_ssl_mode := SSL_MODE_VERIFY_IDENTITY\<rparr>))"
  "take_option y f (OPT_SSL_CA, a) st =
     (let st = store_argument var_ssl_ca a st in
      Some (if \<not> ssl_mode_set_explicitly st then st\<lparr>opt_ssl_mode := SSL_MODE_VERIFY_CA\<rparr> else st))"
  "take_option y f (OPT_SSL_CAPATH, a) st =
     (let st = store_argument var_ssl_capath a st in
      Some (if \<not> ssl_mode_set_explicitly st then st\<lparr>opt_ssl_mode := SSL_MODE_VERIFY_CA\<rparr> else st))"
  by (simp_all add: take_option_def ssl_case_def split: option.splits)

definition sets_mode :: "ssl_option_id \<Rightarrow> bool" where
  "sets_mode i \<longleftrightarrow> i \<in> {OPT_SSL_MODE, OPT_SSL_SSL, OPT_SSL_VERIFY_SERVER_CERT, OPT_SSL_CA, OPT_SSL_CAPATH}"

lemma take_option_other:
  assumes "\<not> sets_mode i"
  obtains v where "ssl_option_variable i = Some v" "v \<noteq> var_ssl_ca" "v \<noteq> var_ssl_capath"
    "take_option y f (i, a) st =
       (let st = store_argument v a st in Some (if y then st\<lparr>opt_ssl_crl := None, opt_ssl_crlpath := None\<rparr> else st))"
  using assms by (cases i) (auto simp: sets_mode_def take_option_def ssl_case_def Let_def)

lemma ssl_option_cases [case_names mode ssl cert ca capath other]:
  assumes "i = OPT_SSL_MODE \<Longrightarrow> P" "i = OPT_SSL_SSL \<Longrightarrow> P" "i = OPT_SSL_VERIFY_SERVER_CERT \<Longrightarrow> P"
    "i = OPT_SSL_CA \<Longrightarrow> P" "i = OPT_SSL_CAPATH \<Longrightarrow> P" "\<not> sets_mode i \<Longrightarrow> P"
  shows P
  using assms by (auto simp: sets_mode_def)

lemma take_options_append:
  "take_options y f (os @ ps) st = (case take_options y f os st of None \<Rightarrow> None | Some st' \<Rightarrow> take_options y f ps st')"
  by (induction os arbitrary: st) (auto split: option.splits)

lemma take_options_invariant:
  assumes "take_options y f opts st = Some st'" "P st"
    and "\<And>opt s s'. opt \<in> set opts \<Longrightarrow> P s \<Longrightarrow> take_option y f opt s = Some s' \<Longrightarrow> P s'"
  shows "P st'"
  using assms
proof (induction opts arbitrary: st)
  case (Cons opt opts)
  then obtain s where s: "take_option y f opt st = Some s" "take_options y f opts s = Some st'"
    by (auto split: option.splits)
  have "P s" by (rule Cons.prems(3) [OF _ Cons.prems(2) s(1)]) simp
  with s(2) Cons.prems(3) show ?case by (intro Cons.IH) auto
qed simp

text \<open>What an argument changes besides its own variable: nothing that decides about verification.\<close>

lemma store_argument_frame [simp]:
  "opt_ssl_mode (store_argument v a st) = opt_ssl_mode st"
  "ssl_mode_set_explicitly (store_argument v a st) = ssl_mode_set_explicitly st"
  "v \<noteq> var_ssl_ca \<Longrightarrow> opt_ssl_ca (store_argument v a st) = opt_ssl_ca st"
  "v \<noteq> var_ssl_capath \<Longrightarrow> opt_ssl_capath (store_argument v a st) = opt_ssl_capath st"
  "v \<noteq> var_ssl_crl \<Longrightarrow> opt_ssl_crl (store_argument v a st) = opt_ssl_crl st"
  "v \<noteq> var_ssl_crlpath \<Longrightarrow> opt_ssl_crlpath (store_argument v a st) = opt_ssl_crlpath st"
  "ssl_log (store_argument v a st) = ssl_log st"
  by (cases v; cases a; simp)+

lemma take_option_frame:
  assumes "take_option y f (i, a) s = Some s'" "\<not> sets_mode i"
  shows "opt_ssl_mode s' = opt_ssl_mode s" "ssl_mode_set_explicitly s' = ssl_mode_set_explicitly s"
    "opt_ssl_ca s' = opt_ssl_ca s" "opt_ssl_capath s' = opt_ssl_capath s"
proof -
  obtain v where v: "v \<noteq> var_ssl_ca" "v \<noteq> var_ssl_capath"
    "take_option y f (i, a) s =
       (let st = store_argument v a s in Some (if y then st\<lparr>opt_ssl_crl := None, opt_ssl_crlpath := None\<rparr> else st))"
    using assms(2) by (rule take_option_other)
  then show "opt_ssl_mode s' = opt_ssl_mode s" "ssl_mode_set_explicitly s' = ssl_mode_set_explicitly s"
    "opt_ssl_ca s' = opt_ssl_ca s" "opt_ssl_capath s' = opt_ssl_capath s"
    using assms(1) by (auto simp: Let_def split: if_splits)
qed

text \<open>The law of \<open>find_type_or_exit\<close> for this list: a position counted from one, or the exit.\<close>

definition finds_type :: "(bytes \<Rightarrow> bytes list \<Rightarrow> bytes \<Rightarrow> uint32 option) \<Rightarrow> bool" where
  "finds_type f \<longleftrightarrow> (\<forall>x names opt n. f x names opt = Some n \<longrightarrow> 1 \<le> unat n \<and> unat n \<le> length names)"

definition exact_type :: "bytes \<Rightarrow> bytes list \<Rightarrow> bytes \<Rightarrow> uint32 option" where
  "exact_type x names opt =
     (case filter (\<lambda>i. names ! i = x) [0..<length names] of [] \<Rightarrow> None | i # _ \<Rightarrow>
        if length names < 2 ^ 32 then Some (word_of_nat (Suc i)) else None)"

lemma exact_type_finds: "finds_type exact_type"
  unfolding finds_type_def
proof (intro allI impI)
  fix x names opt and n :: uint32
  assume "exact_type x names opt = Some n"
  then obtain i js where i: "filter (\<lambda>i. names ! i = x) [0..<length names] = i # js" "n = word_of_nat (Suc i)"
      "length names < 2 ^ 32"
    by (auto simp: exact_type_def split: list.splits if_splits)
  from arg_cong [OF i(1), where f = set] have "i < length names" by auto
  moreover from this i(3) have "unat n = Suc i"
    unfolding i(2) by (subst unat_of_nat) (simp add: take_bit_nat_eq_self)
  ultimately show "1 \<le> unat n \<and> unat n \<le> length names" by simp
qed

lemma finds_mode: "finds_type f \<Longrightarrow> f x ssl_mode_names_lib opt = Some n \<Longrightarrow> 1 \<le> unat n \<and> unat n \<le> 5"
  by (force simp: finds_type_def ssl_mode_names_lib_def)

text \<open>
  Whatever options are given, in whatever order, the mode stays one of the five: it is never zero, which
  the client library takes for an unknown mode, and never past \<open>VERIFY_IDENTITY\<close>.
\<close>

theorem ssl_mode_stays_valid:
  assumes "finds_type f" "take_options y f opts ssl_defaults = Some st"
  shows "SSL_MODE_DISABLED \<le> opt_ssl_mode st \<and> opt_ssl_mode st \<le> SSL_MODE_VERIFY_IDENTITY"
proof (rule take_options_invariant [OF assms(2)])
  fix opt s s'
  assume mode: "SSL_MODE_DISABLED \<le> opt_ssl_mode s \<and> opt_ssl_mode s \<le> SSL_MODE_VERIFY_IDENTITY"
    and step: "take_option y f opt s = Some s'"
  obtain i a where opt: "opt = (i, a)" by (cases opt)
  show "SSL_MODE_DISABLED \<le> opt_ssl_mode s' \<and> opt_ssl_mode s' \<le> SSL_MODE_VERIFY_IDENTITY"
  proof (cases i rule: ssl_option_cases)
    case mode
    with step assms(1) show ?thesis
      by (auto simp: opt take_option_simps ssl_modes word_le_nat_alt dest: finds_mode split: option.splits)
  next
    case other
    with mode step take_option_frame(1) [of y f i a s s'] show ?thesis by (simp add: opt)
  qed (use mode step in \<open>auto simp: opt take_option_simps ssl_modes word_le_nat_alt Let_def split: if_splits\<close>)
qed (simp add: ssl_defaults_def ssl_modes word_le_nat_alt)

theorem ssl_mode_stays_valid_witness:
  "\<exists>st. take_options False exact_type [(OPT_SSL_MODE, Text ''VERIFY_IDENTITY'')] ssl_defaults = Some st \<and>
        opt_ssl_mode st \<le> SSL_MODE_VERIFY_IDENTITY"
proof -
  obtain st where "take_options False exact_type [(OPT_SSL_MODE, Text ''VERIFY_IDENTITY'')] ssl_defaults = Some st"
    by (simp add: take_option_def ssl_case_def exact_type_def ssl_mode_names_lib_def upt_rec)
  with ssl_mode_stays_valid [OF exact_type_finds this] show ?thesis by blast
qed

text \<open>As long as \<open>--ssl\<close> is not used, a certificate authority without an explicit mode is verified against.\<close>

definition ca_given :: "ssl_options \<Rightarrow> bool" where
  "ca_given st \<longleftrightarrow> opt_ssl_ca st \<noteq> None \<or> opt_ssl_capath st \<noteq> None"

definition ca_verified :: "ssl_options \<Rightarrow> bool" where
  "ca_verified st \<longleftrightarrow> (ca_given st \<longrightarrow> ssl_mode_set_explicitly st \<or> SSL_MODE_VERIFY_CA \<le> opt_ssl_mode st)"

lemma take_option_verified:
  assumes "take_option y f opt s = Some s'" "ca_verified s" "fst opt \<noteq> OPT_SSL_SSL"
  shows "ca_verified s'"
proof -
  obtain i a where opt: "opt = (i, a)" by (cases opt)
  show ?thesis
  proof (cases i rule: ssl_option_cases)
    case other
    with assms take_option_frame [of y f i a s s'] show ?thesis by (simp add: opt ca_verified_def ca_given_def)
  qed (use assms in \<open>auto simp: opt take_option_simps ca_verified_def ca_given_def ssl_modes word_le_nat_alt Let_def
    split: option.splits if_splits\<close>)
qed

text \<open>
  C35: For every command line without \<open>--ssl\<close>: if a certificate authority was given, then either exactly
  what was given reaches the connection together with a mode that verifies it, or the warning that nothing
  is verified is printed.
\<close>

theorem authority_used_or_warned:
  assumes "take_options y f opts ssl_defaults = Some st" "OPT_SSL_SSL \<notin> fst ` set opts" "ca_given st"
  shows "(SSL_MODE_VERIFY_CA \<le> opt_ssl_mode st \<and>
          mysql_ssl_set (opt_ssl_key st) (opt_ssl_cert st) (opt_ssl_ca st) (opt_ssl_capath st) (opt_ssl_cipher st)
            \<in> set (ssl_log (set_client_ssl_options st)) \<and>
          last (ssl_log (set_client_ssl_options st)) = mysql_option_mode ''MYSQL_OPT_SSL_MODE'' (opt_ssl_mode st)) \<or>
         (opt_ssl_mode st < SSL_MODE_VERIFY_CA \<and> printf no_verification \<in> set (ssl_log (set_client_ssl_options st)))"
proof -
  have "ca_verified st"
  proof (rule take_options_invariant [OF assms(1)])
    show "ca_verified ssl_defaults" by (simp add: ca_verified_def ca_given_def ssl_defaults_def)
  next
    fix opt s s' assume "opt \<in> set opts" "ca_verified s" "take_option y f opt s = Some s'"
    from \<open>opt \<in> set opts\<close> assms(2) have "fst opt \<noteq> OPT_SSL_SSL" by force
    with \<open>take_option y f opt s = Some s'\<close> \<open>ca_verified s\<close> show "ca_verified s'" by (rule take_option_verified)
  qed
  with assms(3) show ?thesis
    by (cases "opt_ssl_mode st < SSL_MODE_VERIFY_CA") (auto simp: ca_verified_def ca_given_def set_client_log not_less)
qed

theorem authority_used_or_warned_witness:
  "\<exists>st. take_options False exact_type [(OPT_SSL_MODE, Text ''REQUIRED''), (OPT_SSL_CA, Text ''ca.pem'')] ssl_defaults = Some st \<and>
        printf no_verification \<in> set (ssl_log (set_client_ssl_options st))"
proof -
  let ?opts = "[(OPT_SSL_MODE, Text ''REQUIRED''), (OPT_SSL_CA, Text ''ca.pem'')]"
  obtain st where st: "take_options False exact_type ?opts ssl_defaults = Some st" "opt_ssl_mode st = 3" "ca_given st"
    by (simp add: take_option_def ssl_case_def exact_type_def ssl_mode_names_lib_def ssl_defaults_def ca_given_def upt_rec)
  from authority_used_or_warned [OF st(1) _ st(3)] st show ?thesis by (auto simp: ssl_modes word_le_nat_alt)
qed


text \<open>An explicit mode is kept by every option but the three that set a mode.\<close>

theorem explicit_mode_is_kept:
  assumes "take_options y f opts st = Some st'" "ssl_mode_set_explicitly st"
    and "fst ` set opts \<inter> {OPT_SSL_MODE, OPT_SSL_SSL, OPT_SSL_VERIFY_SERVER_CERT} = {}"
  shows "opt_ssl_mode st' = opt_ssl_mode st"
proof -
  have "ssl_mode_set_explicitly st' \<and> opt_ssl_mode st' = opt_ssl_mode st"
  proof (rule take_options_invariant [OF assms(1)])
    fix opt s s'
    assume *: "opt \<in> set opts" "ssl_mode_set_explicitly s \<and> opt_ssl_mode s = opt_ssl_mode st" "take_option y f opt s = Some s'"
    obtain i a where opt: "opt = (i, a)" by (cases opt)
    from *(1) assms(3) have "i \<notin> {OPT_SSL_MODE, OPT_SSL_SSL, OPT_SSL_VERIFY_SERVER_CERT}" by (force simp: opt)
    then show "ssl_mode_set_explicitly s' \<and> opt_ssl_mode s' = opt_ssl_mode st"
    proof (cases i rule: ssl_option_cases)
      case other
      with *(2,3) take_option_frame [of y f i a s s'] show ?thesis by (simp add: opt)
    qed (use *(2,3) in \<open>auto simp: opt take_option_simps Let_def\<close>)
  qed (use assms(2) in simp)
  then show ?thesis by simp
qed

text \<open>With yaSSL no revocation list reaches the connection, and nothing is said about it.\<close>

theorem yassl_ignores_revocation_lists:
  assumes "take_options True f opts ssl_defaults = Some st"
  shows "opt_ssl_crl st = None \<and> opt_ssl_crlpath st = None"
proof (rule take_options_invariant [OF assms])
  fix opt s s'
  assume "opt_ssl_crl s = None \<and> opt_ssl_crlpath s = None" "take_option True f opt s = Some s'"
  then show "opt_ssl_crl s' = None \<and> opt_ssl_crlpath s' = None"
    by (cases opt; cases "fst opt") (auto simp: take_option_def ssl_case_def Let_def split: option.splits if_splits)
qed (simp add: ssl_defaults_def)

end
