(* ===== verification/App_Server.thy ===== *)
theory App_Server
  imports LLBC_Prelude
begin

text \<open>
  The start of the game application (\<open>GameServer.cpp\<close>) and the example component (\<open>ExampleComp.cpp\<close>). What
  they do is to call the framework, which is not part of the repository: services, the life cycle of an
  application and the methods of a component are parameters.
\<close>

section \<open>The application\<close>

record 'w service_api =
  LLBC_OK :: sint32
  LLBC_FAILED :: sint32
  LLBC_IService_Create :: "bytes \<Rightarrow> 'w \<Rightarrow> nat \<times> 'w"
  RegisterComponent :: "nat \<Rightarrow> bytes \<Rightarrow> 'w \<Rightarrow> 'w"
  SetFPS :: "nat \<Rightarrow> sint32 \<Rightarrow> 'w \<Rightarrow> 'w"
  Service_Start :: "nat \<Rightarrow> sint32 \<Rightarrow> 'w \<Rightarrow> sint32 \<times> 'w"

record GameApplication =
  app_name :: bytes
  gameSvc :: "nat option"

definition new_GameApplication :: GameApplication where
  "new_GameApplication = \<lparr>app_name = '''', gameSvc = None\<rparr>"

definition GameApplication_OnStart ::
    "'w service_api \<Rightarrow> bytes list \<Rightarrow> GameApplication \<Rightarrow> 'w \<Rightarrow> sint32 \<times> GameApplication \<times> 'w" where
  "GameApplication_OnStart os argv app w =
     (let (svc, w) = LLBC_IService_Create os (app_name app) w;
          app = app\<lparr>gameSvc := Some svc\<rparr>;
          w = RegisterComponent os svc ''DBMgrFactory'' w;
          w = RegisterComponent os svc ''LogicCompFactory'' w;
          w = SetFPS os svc 100 w;
          (rc, w) = Service_Start os svc 4 w
      in (if rc \<noteq> LLBC_OK os then LLBC_FAILED os else LLBC_OK os, app, w))"

definition GameApplication_OnWait :: "GameApplication \<Rightarrow> 'w \<Rightarrow> GameApplication \<times> 'w" where
  "GameApplication_OnWait app w = (app, w)"

definition GameApplication_OnStop :: "GameApplication \<Rightarrow> 'w \<Rightarrow> GameApplication \<times> 'w" where
  "GameApplication_OnStop app w = (app, w)"

text \<open>\<open>LLBC_IApplication::Start\<close> and \<open>Stop\<close>: the first is given the name and calls \<open>OnStart\<close>, the second \<open>OnStop\<close>.\<close>

record 'w application_api =
  Application_Start :: "(bytes list \<Rightarrow> GameApplication \<Rightarrow> 'w \<Rightarrow> sint32 \<times> GameApplication \<times> 'w) \<Rightarrow>
    bytes \<Rightarrow> bytes list \<Rightarrow> GameApplication \<Rightarrow> 'w \<Rightarrow> sint32 \<times> GameApplication \<times> 'w"
  Application_Stop :: "(GameApplication \<Rightarrow> 'w \<Rightarrow> GameApplication \<times> 'w) \<Rightarrow> GameApplication \<Rightarrow> 'w \<Rightarrow> GameApplication \<times> 'w"

definition game_main :: "'w service_api \<Rightarrow> 'w application_api \<Rightarrow> bytes list \<Rightarrow> 'w \<Rightarrow> sint32 \<times> GameApplication \<times> 'w" where
  "game_main os ap argv w =
     (let (rc, app, w) = Application_Start ap (GameApplication_OnStart os) ''gameapp'' argv new_GameApplication w;
          (app, w) = Application_Stop ap GameApplication_OnStop app w
      in (of_bool True, app, w))"

text \<open>
  Whatever happens to the application, even when its service does not start, the exit status of the
  program is 1: \<open>main\<close> drops the result of \<open>Start\<close> and returns \<open>true\<close>.
\<close>

theorem exit_status_is_always_one: "fst (game_main os ap argv w) = 1"
  by (simp add: game_main_def Let_def split: prod.splits)

text \<open>A service that records what is asked of it.\<close>

datatype service_event = Created bytes | Registered nat bytes | Fps nat sint32 | Started nat sint32

definition recording :: "sint32 \<Rightarrow> service_event list service_api" where
  "recording rc =
     \<lparr>LLBC_OK = 0, LLBC_FAILED = -1, LLBC_IService_Create = (\<lambda>n w. (length w, w @ [Created n])),
      RegisterComponent = (\<lambda>s c w. w @ [Registered s c]), SetFPS = (\<lambda>s n w. w @ [Fps s n]),
      Service_Start = (\<lambda>s n w. (rc, w @ [Started s n]))\<rparr>"

text \<open>The database manager is registered before the component that uses it, both before the service starts.\<close>

lemma start_order:
  "GameApplication_OnStart (recording rc) argv app w =
    (if rc = 0 then 0 else -1, app\<lparr>gameSvc := Some (length w)\<rparr>,
     w @ [Created (app_name app), Registered (length w) ''DBMgrFactory'', Registered (length w) ''LogicCompFactory'',
          Fps (length w) 100, Started (length w) 4])"
  by (simp add: GameApplication_OnStart_def recording_def)

section \<open>The example component\<close>

datatype example_method = Call_Foo_method

record 'v example_api =
  as_string :: "'v \<Rightarrow> bytes"

record ExampleComp =
  comp_methods :: "(bytes \<times> example_method) list"
  comp_out :: bytes

definition ExampleComp_OnInitialize :: "ExampleComp \<Rightarrow> bool \<times> ExampleComp" where
  "ExampleComp_OnInitialize c = (True, c\<lparr>comp_methods := comp_methods c @ [(''Foo'', Call_Foo_method)]\<rparr>)"

definition ExampleComp_Foo :: "bytes \<Rightarrow> ExampleComp \<Rightarrow> ExampleComp" where
  "ExampleComp_Foo arg c =
     c\<lparr>comp_out := comp_out c @ ''ExampleComp::Foo(const LLBC_String &) called, arg: '' @ arg @ [CHR 0x0A]\<rparr>"

definition ExampleComp_Call_Foo :: "'v example_api \<Rightarrow> 'v \<Rightarrow> ExampleComp \<Rightarrow> sint32 \<times> 'v \<times> ExampleComp" where
  "ExampleComp_Call_Foo v arg c = (let c = ExampleComp_Foo (as_string v arg) c; ret = arg in (0, ret, c))"

definition ExampleCompFactory_Create :: ExampleComp where
  "ExampleCompFactory_Create = \<lparr>comp_methods = [], comp_out = []\<rparr>"

definition llbc_create_comp_ExampleComp :: ExampleComp where
  "llbc_create_comp_ExampleComp = ExampleCompFactory_Create"

lemma example_component:
  "map_of (comp_methods (snd (ExampleComp_OnInitialize llbc_create_comp_ExampleComp))) ''Foo'' = Some Call_Foo_method"
  "ExampleComp_Call_Foo v arg c = (0, arg, ExampleComp_Foo (as_string v arg) c)"
  by (simp_all add: ExampleComp_OnInitialize_def llbc_create_comp_ExampleComp_def ExampleCompFactory_Create_def
      ExampleComp_Call_Foo_def)

end
