(* ===== verification/Spec2Isabelle.thy ===== *)
theory Spec2Isabelle
  imports App_Logic My_ByteOrder My_Runtime Psi_File Psi_Thread Psi_Socket Psi_Server Thr_Platform Mysql_Errors
    Mysql_ErrorMessages Mysql_Macros Mysql_Trace Ssl_Options App_Server
begin

text \<open>
  The database component of llbc_comps (\<open>src/comps/database\<close>) and the code in the MySQL headers it is
  compiled with (\<open>src/3rds/mysql/include/mysql\<close>).

  \<^bold>\<open>The program.\<close> An application creates the component \<open>DBMgr\<close>, which reads one section of the
  configuration per database and starts a \<open>MysqlDB\<close> for each. A database has one synchronous connection
  for the thread that initialised it, and per worker thread a connection and a queue of asynchronous
  tasks. A query makes a \<open>Recordset\<close> of \<open>Record\<close>s, one \<open>FieldTemplate\<close> per column; the application edits
  a record and gives it back, and \<open>SqlUtil\<close> builds the statement that writes the changes. A worker
  executes the tasks of its queue on its connection and hands them back finished; the main thread calls
  their callbacks in \<open>OnUpdate\<close>, waits for the workers in \<open>Flush\<close>, and ends them in \<open>Destroy\<close>.

  \<^bold>\<open>Theories of the component\<close>, each with its state, its operations and their lemmas. A model function has the
  name of its C++ function; where two classes share a name it has the class in front.

  \<^item> \<open>LLBC_Prelude\<close>, \<open>C_Numbers\<close>, \<open>C_Double\<close>: faults (\<open>fault + 'a\<close>, \<open>rbind\<close>), C strings and \<open>snprintf\<close>, decimal
    text of integers and its round trip with \<open>atoll\<close>, IEEE doubles with exact rounding. \<open>Std_Map\<close>:
    \<open>std::map\<close> and a vector of owning pointers, behind the interfaces \<open>keyed_map\<close>, \<open>iterable_map\<close> and
    \<open>slot_vector\<close>. \<open>Mysql_Types\<close>: column types, flags and \<open>MYSQL_FIELD\<close> of the client headers.
  \<^item> \<open>Db_Interface\<close> (\<open>IDB.h\<close>); \<open>Db_Fields\<close> (\<open>BaseField.h\<close>, \<open>FieldTemplate.h\<close>, \<open>FieldTemplate.inl\<close>,
    \<open>FieldFactory.cpp\<close>): typing of every operation, integers modulo the width of their column.
  \<^item> \<open>Db_Record\<close> (\<open>Record.cpp\<close>, \<open>Recordset.cpp\<close>): the invariant \<open>wf_record\<close> (the index names existing columns, the
    fields are typed, the keys are in range or absent) is kept by every operation.
  \<^item> \<open>Db_SqlUtil\<close> (\<open>SqlUtil.cpp\<close>): \<open>BuildOperation\<close> equals the comma separated list of assignments; what a statement
    consists of; which buffers are large enough.
  \<^item> \<open>Db_FieldCache\<close> (\<open>QueryDBFieldInfo\<close>), \<open>Db_Connect\<close> (\<open>MysqlConnect.cpp\<close>): rows become records, the fetch loop
    ends and stores every row at its index.
  \<^item> \<open>Db_Queue\<close> (\<open>AsyncTask.h\<close>, \<open>AsyncTaskQueue.cpp\<close>): the interface \<open>fifo_queue\<close>, provided by both families of
    pop functions.
  \<^item> \<open>Db_Database\<close> (\<open>Database.cpp\<close>, what does not wait) and \<open>Db_Async\<close> (the worker loop, \<open>Flush\<close>, \<open>Destroy\<close> and the
    interleaving of their accesses to shared state, as a step relation \<open>sys_step\<close>): the invariants of the
    reachable states, from which follow the order of the tasks, that \<open>Destroy\<close> executes all of them, what
    \<open>Flush\<close> waits for and what it does not, and where the threads can block.
  \<^item> \<open>Db_Mgr\<close> (\<open>DBMgr.cpp\<close>, \<open>DBMgrFactory.cpp\<close>, \<open>RecordManipulator.cpp\<close>): databases are objects with an identity,
    so that the model can see a pointer dangle.
  \<^item> \<open>App_Logic\<close> (\<open>LogicComp.cpp\<close>): the database test of the game application as a client of all of these. On a server
    that accepts every statement and returns what it was given the test runs to its end, for every round of
    its loop and for the values it really writes, so that the components are shown to fit together.
    \<open>App_Server\<close> (\<open>GameServer.cpp\<close>, \<open>ExampleComp.cpp\<close>): the start of the application and the example component.
  \<^item> This theory: the composition of a query, an edit and an update.

  \<^bold>\<open>Theories of the MySQL headers.\<close>

  \<^item> \<open>My_ByteOrder\<close> (\<open>my_byteorder.h\<close> and the files it includes): both versions of every function agree, and
    what was stored is read back. \<open>My_Runtime\<close> (\<open>m_string.h\<close>, \<open>my_global.h\<close>, \<open>my_sys.h\<close>, \<open>m_ctype.h\<close>, \<open>decimal.h\<close>).
  \<^item> \<open>Psi_Base\<close>, \<open>Psi_File\<close>, \<open>Psi_Thread\<close>, \<open>Psi_Socket\<close> (\<open>mysql_file.h\<close>, \<open>mysql_thread.h\<close>, \<open>mysql_socket.h\<close>): the
    instrumented wrappers. The interface \<open>instrumented_api\<close> states when a client cannot tell how its calls are
    instrumented and every wait that is started is ended; the three headers are its interpretations.
  \<^item> \<open>Psi_Server\<close> (the nine other headers of the instrumentation): the interface \<open>observed_events\<close> for events that are
    opened, described and closed, with statements and transactions as its interpretations.
  \<^item> \<open>Thr_Platform\<close> (\<open>thr_mutex.h\<close>, \<open>thr_cond.h\<close>, \<open>thr_rwlock.h\<close>, \<open>my_thread.h\<close>, \<open>my_thread_local.h\<close>, the time functions
    of \<open>my_global.h\<close> for Windows before VS2015): the thread layer below the instrumentation on both platforms. The
    read-write lock of Windows keeps its mode in a flag without a lock; the step relation \<open>rw_step\<close> and its
    invariant show that the flag is only written by the one writer and always names the mode to be released,
    and each function is shown to be a run of these steps.
  \<^item> \<open>Mysql_Errors\<close>, \<open>Mysql_ErrorMessages\<close> (\<open>mysqld_error.h\<close>, \<open>mysqld_ername.h\<close>, \<open>sql_state.h\<close>, \<open>errmsg.h\<close>): the tables of
    errors, that they agree with each other and fill their sections without gaps, and the macro that reads
    past its array. \<open>Mysql_Macros\<close> (\<open>mysql.h\<close>, \<open>mysql_com.h\<close>, \<open>my_global.h\<close>, \<open>my_sys.h\<close>, \<open>m_ctype.h\<close>): flags and small macros.
  \<^item> \<open>Ssl_Options\<close> (\<open>sslopt-vars.h\<close>, \<open>sslopt-longopts.h\<close>, \<open>sslopt-case.h\<close>): the options of a client for encrypted
    connections as a state machine over the command line; when a certificate authority is used and when its
    loss is reported. \<open>Mysql_Trace\<close> (\<open>plugin_trace.h\<close>): the stages of a connection and the events of a trace plugin.

  \<^bold>\<open>External code.\<close> The functions of the MySQL client library (\<open>mysql_client\<close>, over an unspecified state of
  client and server), its escape functions, the operating system and \<open>my_sys\<close> functions below the wrappers, the
  performance schema, the ini configuration and the clock are parameters. Nothing is assumed about them except in
  the hypotheses of a theorem, for instance that an escape function escapes quotes, or that the rows a result
  still has are those the server counted.

  \<^bold>\<open>Conventions.\<close> Integers have the widths of the LP64 Linux build, asserts are active, as in every configuration of
  the build scripts. Undefined behaviour (a null or dangling pointer, an index out of range, a write past a
  buffer, a failed assertion) is a fault, the left side of the result. Owning pointers are optional values, other
  pointers are identities or addresses. A \<open>Record\<close> is changed by value: the application owns the only pointer to it.

  \<^bold>\<open>Bounds and fuel.\<close> \<open>fetch_rows\<close> is given one round more than the result has rows, and
  \<open>query_returns_all_rows\<close> shows that this is never used up. \<open>load_sections\<close> is structural on the number of
  sections, which the loop counter reaches below \<open>2^32 - 1\<close>. The loops of \<open>My_Runtime\<close> end by a measure. Sessions with
  instrumented operations are lists of the calls a client makes. A thread that waits in a loop has no step while its
  condition is false, so that waiting for ever is a state without a step of that thread, not missing fuel.

  \<^bold>\<open>Not modelled.\<close> Log output and the timer of the slow query warning (no effect on results); the \<open>catch\<close> branch
  around a query (a C library throws nothing); memory that is never freed, except where a freed object is used; the overloads
  of the byte order functions on \<open>char\<close> pointers, which only cast; the Windows branches of the instrumented sockets and files; the
  bookkeeping of mutexes with debugging (\<open>SAFE_MUTEX\<close>), whose functions are in the binary library. Most of
  what is left of the MySQL headers is comments, prototypes, structures and constants of that library
  (\<open>psi.h\<close>, \<open>mysql.h\<close>, \<open>my_sys.h\<close>, \<open>m_ctype.h\<close>, \<open>sql_common.h\<close>, \<open>my_getopt.h\<close>), the results of the configuration
  (\<open>my_config.h\<close>) and the debug macros (\<open>my_dbug.h\<close>): nothing of it computes anything. The export macros of the build
  are not modelled either.
\<close>

section \<open>From a query to an update\<close>

text \<open>A record of a query: complete, unchanged, in the mode of the query.\<close>

definition fresh_record :: "MODE \<Rightarrow> Record \<Rightarrow> bool" where
  "fresh_record mode r \<longleftrightarrow> wf_record r \<and> changed_fields r = [] \<and> GetMode r = mode"

lemma CreateRecord_fresh:
  assumes "CreateRecord m row dbFields colLens n mode = Inr (Some r, m')" "map_ok m"
  shows "fresh_record mode r" "map_ok m'"
proof -
  note spec = CreateRecord_spec [OF assms]
  then have "filled r (unat (rc_fieldNum r))" by simp
  then have "wf_record r" by (rule filled_wf)
  moreover have "\<forall>p\<in>set (rc_fields r). \<exists>f. p = Some f \<and> \<not> IsChanged f"
    using \<open>filled r (unat (rc_fieldNum r))\<close> unfolding filled_def by (metis in_set_conv_nth)
  ultimately show "fresh_record mode r" using spec by (auto simp: fresh_record_def changed_fields_def GetMode_def filter_empty_conv)
  from spec show "map_ok m'" by (simp add: cache_extends_def)
qed

text \<open>Every slot of the set is empty or holds such a record.\<close>

definition fresh_set :: "MODE \<Rightarrow> Recordset \<Rightarrow> bool" where
  "fresh_set mode s \<longleftrightarrow> (\<forall>r. Some r \<in> set (rs_records s) \<longrightarrow> fresh_record mode r)"

lemma fetch_rows_fresh:
  "fetch_rows k c res dbFields colLens n mode idx s m w = Inr (Some (s', idx'), m', w') \<Longrightarrow> map_ok m \<Longrightarrow>
    fresh_set mode s \<Longrightarrow> fresh_set mode s'"
proof (induction k arbitrary: idx s m w)
  case (Suc k)
  obtain row w1 where row: "mysql_fetch_row c res w = (row, w1)" by fastforce
  show ?case
  proof (cases row)
    case None
    with Suc.prems row show ?thesis by simp
  next
    case (Some cells)
    with Suc.prems(1) row obtain r m1 s1 where cr: "CreateRecord m (Some cells) dbFields colLens n mode = Inr (Some r, m1)"
      and wr: "WriteRecord s idx r = Inr s1"
      and rest: "fetch_rows k c res dbFields colLens n mode (idx + 1) s1 m1 w1 = Inr (Some (s', idx'), m', w')"
      by (auto simp: rbind_eq_Inr split: option.splits)
    have "fresh_set mode s1"
      using wr Suc.prems(3) CreateRecord_fresh(1) [OF cr Suc.prems(2)] set_update_subset_insert
      by (fastforce simp: fresh_set_def WriteRecord_def rbind_eq_Inr slot_store_eq_Inr)
    then show ?thesis by (rule Suc.IH [OF rest CreateRecord_fresh(2) [OF cr Suc.prems(2)]])
  qed
qed simp

lemma Query_records_fresh:
  assumes "Query_records c conn sql mode m w = Inr (Some rs, conn', m', w')" "map_ok m"
  shows "fresh_set mode rs"
proof -
  obtain ok res conn1 w1 where q: "Query_result c conn sql True w = Inr (ok, res, conn1, w1)"
    using assms(1) by (auto simp: Query_records_def rbind_eq_Inr)
  note unfolded = assms(1) [unfolded Query_records_def q rbind_simps prod.case Let_def]
  then obtain r dbFields where r: "ok" "res = Some r" "mysql_fetch_fields c r (mysql_data_seek c r 0 w1) = Some dbFields"
    by (auto split: if_splits option.splits)
  note fetched = unfolded [unfolded r(2,3) option.case]
  from fetched r(1) obtain result m1 w2 k lens n num where
    f: "fetch_rows k c r dbFields lens n mode 0 (new_Recordset num) m (mysql_data_seek c r 0 w1) = Inr (result, m1, w2)"
    and "map_option fst result = Some rs"
    by (auto simp: rbind_eq_Inr simp del: fetch_rows.simps split: option.splits if_splits) blast
  moreover have "fresh_set mode (new_Recordset num)" by (simp add: fresh_set_def new_Recordset_def)
  ultimately show ?thesis using fetch_rows_fresh [OF _ assms(2)] by fastforce
qed

text \<open>Setting an integer column.\<close>

lemma SetInt_field:
  assumes "wf_field f" "int_kind (bf_val f)" "SetInt f v = Inr f'"
  shows "wf_field f'" "bf_info f' = bf_info f" "int_kind (bf_val f')" "IsChanged f'"
proof -
  show *: "wf_field f'" "bf_info f' = bf_info f" using field_set_wf(1) [OF assms(3,1)] by simp_all
  show "IsChanged f'" using assms(3) by (auto simp: SetInt_def rbind_eq_Inr field_defs)
  show "int_kind (bf_val f')" using assms(2,3) 
    by (cases "bf_val f") (auto simp: SetInt_def rbind_eq_Inr field_defs)
qed

lemma changed_after_set:
  assumes "changed_fields r = []" "field_at r j = Inr f" "IsChanged f'"
  shows "changed_fields (r\<lparr>rc_fields := (rc_fields r)[unat j := Some f']\<rparr>) = [f']"
proof -
  have j: "unat j < length (rc_fields r)" using assms(2) by (simp add: field_at_eq_Inr)
  have none: "filter IsChanged xs = []" if "set xs \<subseteq> set (map the (rc_fields r))" for xs
    using assms(1) that by (auto simp: changed_fields_def filter_empty_conv)
  have "map the ((rc_fields r)[unat j := Some f']) =
      take (unat j) (map the (rc_fields r)) @ f' # drop (Suc (unat j)) (map the (rc_fields r))"
    using j by (simp add: map_update upd_conv_take_nth_drop take_map drop_map)
  then show ?thesis
    using assms(3) none [OF set_take_subset] none [OF set_drop_subset] by (simp add: changed_fields_def)
qed

lemma assignment_of_int:
  assumes "wf_record r" "\<not> no_key r" "changed_fields r = [f]" "int_kind (bf_val f)" "GetType f \<noteq> FIELD_TYPE_TIMESTAMP"
    and "length (GetName f) \<le> 64"
  shows "BuildOperation esc real_esc r = Inr (Some (name_eq (GetName f) @ int_digits (field_int (bf_val f))))"
proof -
  have wf: "wf_field f" using changed_fields_wf [OF assms(1)] assms(3) by simp
  have asg: "assignment esc real_esc f = name_eq (GetName f) @ int_digits (field_int (bf_val f))"
    using assms(4) by (cases "bf_val f") (simp_all add: assignment_def literal_def)
  have num: "IS_FIELD_NUM (GetType f)"
    using wf_kind_of [OF wf] assms(4,5) by (auto simp: int_kind_iff IS_FIELD_NUM_def Let_def split: if_splits)
  then have "buffer_size (foldl next_len 0 (changed_fields r)) = Inr 148"
    by (simp add: assms(3) next_len_def DefaultNum2StrLen_def buffer_size_def)
  moreover have "length (int_digits (field_int (bf_val f))) \<le> 20"
    by (rule length_int_digits [OF field_int_range])
  ultimately show ?thesis
    using assms(2,3,6) by (simp add: BuildOperation_eq [OF assms(1)] BuildFormatSql_int [OF wf assms(4,5)] asg name_eq_def)
qed

lemma field_at_GetField: "(field_at r i = Inr f) = (GetField r i = Inr (Some f))"
  by (auto simp: field_at_eq_Inr GetField_def slot_peek_eq_Inr)

text \<open>The statement of an update of one integer column with an integer key.\<close>

definition update_text :: "bytes \<Rightarrow> BaseField \<Rightarrow> BaseField \<Rightarrow> bytes" where
  "update_text table f k =
     ''update `'' @ cstr table @ ''` set '' @ name_eq (GetName f) @ int_digits (field_int (bf_val f)) @ '' where '' @
     name_eq (GetName k) @ int_digits (as_signed64 (field_int (bf_val k))) @ '' limit 1''"

definition plain_int_column :: "BaseField \<Rightarrow> bool" where
  "plain_int_column f \<longleftrightarrow> int_kind (bf_val f) \<and> GetType f \<noteq> FIELD_TYPE_TIMESTAMP \<and> length (GetName f) \<le> 64"

lemma Update_built:
  assumes "GetMode r = MODE_EDIT" "Database_BuildUpdateSql esc real_esc db r [] = Inr (True, sql)" "sql \<noteq> []"
  shows "Update c esc real_esc db r w = rbind (sync_query c db sql w) (\<lambda>(ret, db', w').
    rbind (if ret then ClsEditFlag r else Inr r) (\<lambda>r'. Inr (ret, r', db', w')))"
  using assms by (cases "sync_query c db sql w") (auto simp: Update_def)

lemma Update_one_int:
  assumes "fresh_record MODE_EDIT r" "\<not> no_key r" "GetField r (key_index r) = Inr (Some k)" "plain_int_column k"
    and "GetField r j = Inr (Some f)" "plain_int_column f" "SetInt f v = Inr f'" "db_syncConn db \<noteq> None"
  shows "\<exists>r'. Record_SetInt r j v = Inr r' \<and>
    Update c esc real_esc db r' w =
      rbind (sync_query c db (update_text (GetTableName r) f' (if j = key_index r then f' else k)) w) (\<lambda>(ret, db', w').
        rbind (if ret then ClsEditFlag r' else Inr r') (\<lambda>r''. Inr (ret, r'', db', w')))"
proof -
  let ?r = "r\<lparr>rc_fields := (rc_fields r)[unat j := Some f']\<rparr>"
  let ?k = "if j = key_index r then f' else k"
  have r: "wf_record r" "changed_fields r = []" "GetMode r = MODE_EDIT" using assms(1) by (simp_all add: fresh_record_def)
  have at: "field_at r j = Inr f" "unat j < length (rc_fields r)" using assms(5) by (simp_all add: field_at_GetField [symmetric] field_at_eq_Inr)
  have set: "Record_SetInt r j v = Inr ?r" using at(1) assms(7) by (simp add: Record_SetInt_def update_field_eq_Inr)
  have wf: "wf_field f" "wf_field k"
    using wf_recordD(1,2) [OF r(1)] assms(3,5) by (fastforce simp: GetField_def slot_peek_eq_Inr)+
  note f' = SetInt_field [OF wf(1) _ assms(7)]
  have plain: "plain_int_column f'"
    using assms(6) f' by (simp add: plain_int_column_def GetType_def GetName_def)
  have r': "wf_record ?r" "same_frame r ?r" using Record_Set_wf(1) [OF r(1) set] by simp_all
  then have frame: "key_index ?r = key_index r" "no_key ?r = no_key r" "GetTableName ?r = GetTableName r" "GetMode ?r = MODE_EDIT"
    using r(3) by (simp_all add: key_index_def no_key_def GetKeyIdx_def GetAutoIncIdx_def GetFieldNum_def GetTableName_def GetMode_def)
  have "GetField ?r (key_index ?r) = Inr (Some ?k)"
    using assms(3) at(2) by (simp add: frame GetField_def slot_peek_def vec_at_def word_unat_eq_iff split: if_splits)
  then have cond: "BuildCondition ?r = Inr (Some (name_eq (GetName ?k) @ int_digits (as_signed64 (field_int (bf_val ?k)))))"
    using assms(2,4) frame plain f'(1) wf(2) assms(6)
    by (intro condition_integer_key) (auto simp: plain_int_column_def)
  have "changed_fields ?r = [f']"
    using changed_after_set [OF r(2) at(1)] f'(4) assms(6) by (simp add: plain_int_column_def)
  then have op: "BuildOperation esc e ?r = Inr (Some (name_eq (GetName f') @ int_digits (field_int (bf_val f'))))" for e
    using plain assms(2) frame(2) by (intro assignment_of_int [OF r'(1)]) (simp_all add: plain_int_column_def)
  have built: "BuildUpdateSql esc e ?r [] = Inr (True, update_text (GetTableName r) f' ?k)" for e
    using cond op [of e] BuildCondition_no_nul [OF cond] BuildOperation_no_nul [OF op [of e]] length_cstr_le [of "GetTableName r"]
    by (simp add: BuildUpdateSql_def Let_def frame update_text_def name_eq_def)
  obtain conn where conn: "db_syncConn db = Some conn" using assms(8) by blast
  have "update_text (GetTableName r) f' ?k \<noteq> []" by (simp add: update_text_def)
  with frame(4) have "Update c esc real_esc db ?r w =
      rbind (sync_query c db (update_text (GetTableName r) f' ?k) w) (\<lambda>(ret, db', w').
        rbind (if ret then ClsEditFlag ?r else Inr ?r) (\<lambda>r''. Inr (ret, r'', db', w')))"
    by (intro Update_built) (simp_all only: Database_BuildUpdateSql_def conn built deref_simps rbind_simps simp_thms not_False_eq_True)
  with set show ?thesis by blast
qed


definition queried_db :: MysqlDB where
  "queried_db = sample_db\<lparr>db_fieldInfos := sample_infos\<rparr>"

lemma sample_query:
  "Database_Query_records (sample_client True sample_columns [sample_cells]) sample_db 1 ''select * from t'' MODE_EDIT ([], 0) =
     Inr (Some \<lparr>rs_recordNum = 1, rs_records = [Some (sample_row (VInt32 7) (VString (''ab'' @ CHR 0x00 # ''xy'')))]\<rparr>,
       queried_db, ([], 1))"
  by code_simp


end
